(* ===== verification/JsCore.thy ===== *)
theory JsCore
  imports Complex_Main "HOL-Library.AList" "HOL-Library.Multiset"
begin

text \<open>
  The part of JavaScript that the user interface and the web site are written in.

  \<^item> \<open>js\<close> is the type of JavaScript values that reach a rendered tree: primitives, arrays, plain
    objects, named functions and React elements (what a JSX expression evaluates to).
  \<^item> Numbers are rationals. All the numbers of the sources are small integers or short decimal
    fractions, on which IEEE doubles and rationals agree.
  \<^item> Strings are lists of characters. Literals of the source that are not ASCII are written as the
    UTF-8 bytes of the source file.
  \<^item> \<open>Map\<close> and \<open>Set\<close> keep insertion order, as ECMAScript requires; the laws their clients use are
    the locales \<open>js_dict\<close> and \<open>js_collection\<close>.
  \<^item> \<open>Array.prototype.sort\<close> is stable; the laws a comparison function has to satisfy are the locale
    \<open>js_comparator\<close>, in which the sorting lemmas are proved.
\<close>

named_theorems js_simps \<open>unfolding of the JavaScript operators on concrete values\<close>

section \<open>Values\<close>

datatype js =
    JUndef
  | JNull
  | JBool bool
  | JNum rat
  | JStr string
  | JArr "js list"
  | JObj "(string \<times> js) list"
  | JFun string
  | JElem string "(string \<times> js) list" "js list"

type_synonym js_props = "(string \<times> js) list"

text \<open>ECMAScript \<open>ToBoolean\<close>: what \<open>if (v)\<close>, \<open>!v\<close>, \<open>v || w\<close> and \<open>v && w\<close> test.\<close>

fun truthy :: "js \<Rightarrow> bool" where
  "truthy JUndef = False"
| "truthy JNull = False"
| "truthy (JBool b) = b"
| "truthy (JNum n) = (n \<noteq> 0)"
| "truthy (JStr s) = (s \<noteq> [])"
| "truthy _ = True"

definition js_or :: "js \<Rightarrow> js \<Rightarrow> js" where
  "js_or a b = (if truthy a then a else b)"

definition js_and :: "js \<Rightarrow> js \<Rightarrow> js" where
  "js_and a b = (if truthy a then b else a)"

text \<open>Property access on a plain object: a property that is not there is \<open>undefined\<close>.\<close>

definition js_field :: "(string \<times> js) list \<Rightarrow> string \<Rightarrow> js" where
  "js_field ps k = (case map_of ps k of Some v \<Rightarrow> v | None \<Rightarrow> JUndef)"

fun js_get :: "js \<Rightarrow> string \<Rightarrow> js" where
  "js_get (JObj ps) k = js_field ps k"
| "js_get _ k = JUndef"

text \<open>
  Optional strings: \<open>None\<close> stands for \<open>undefined\<close> and \<open>null\<close>, which the code never tells apart
  for a string; \<open>s || d\<close> falls back on the empty string as well.
\<close>

definition str_truthy :: "string option \<Rightarrow> bool" where
  "str_truthy s = (s \<noteq> None \<and> s \<noteq> Some [])"

definition str_or :: "string option \<Rightarrow> string \<Rightarrow> string" where
  "str_or s d = (case s of Some x \<Rightarrow> (if x = [] then d else x) | None \<Rightarrow> d)"

lemma str_or_simps [simp]:
  "str_or None d = d"
  "str_or (Some []) d = d"
  "str_or (Some (c # cs)) d = c # cs"
  by (simp_all add: str_or_def)

lemma str_or_truthy: "str_truthy s \<Longrightarrow> str_or s d = the s"
  by (auto simp: str_truthy_def str_or_def split: option.splits)

lemma str_or_falsy: "\<not> str_truthy s \<Longrightarrow> str_or s d = d"
  by (auto simp: str_truthy_def str_or_def)

lemma str_or_eq_Nil [simp]: "str_or s [] = [] \<longleftrightarrow> \<not> str_truthy s"
  by (auto simp: str_truthy_def str_or_def split: option.splits)

lemma str_truthy_simps [simp]:
  "\<not> str_truthy None"
  "str_truthy (Some s) \<longleftrightarrow> s \<noteq> []"
  by (simp_all add: str_truthy_def)

section \<open>Numbers as strings and strings as numbers\<close>

definition digit_char :: "nat \<Rightarrow> char" where
  "digit_char d = char_of (48 + d)"

definition is_digit :: "char \<Rightarrow> bool" where
  "is_digit c = (48 \<le> (of_char c :: nat) \<and> (of_char c :: nat) \<le> 57)"

definition digit_val :: "char \<Rightarrow> nat" where
  "digit_val c = of_char c - 48"

fun show_nat :: "nat \<Rightarrow> string" where
  "show_nat n = (if n < 10 then [digit_char n] else show_nat (n div 10) @ [digit_char (n mod 10)])"

declare show_nat.simps [simp del]

definition show_int :: "int \<Rightarrow> string" where
  "show_int i = (if i < 0 then ''-'' @ show_nat (nat (- i)) else show_nat (nat i))"

text \<open>The fractional digits of a number in \<open>[0, 1)\<close>, at most \<open>k\<close> of them.\<close>

fun show_frac :: "nat \<Rightarrow> rat \<Rightarrow> string" where
  "show_frac 0 r = []"
| "show_frac (Suc k) r =
     (if r = 0 then [] else digit_char (nat \<lfloor>10 * r\<rfloor>) # show_frac k (10 * r - of_int \<lfloor>10 * r\<rfloor>))"

text \<open>
  \<open>Number.prototype.toString\<close>, for integers of absolute value below \<open>2 ^ 53\<close> and for decimal
  fractions of at most 17 digits.
\<close>

definition show_num :: "rat \<Rightarrow> string" where
  "show_num r =
     (if of_int \<lfloor>r\<rfloor> = r then show_int \<lfloor>r\<rfloor>
      else (if r < 0 then ''-'' else []) @ show_nat (nat \<lfloor>\<bar>r\<bar>\<rfloor>) @ ''.''
             @ show_frac 17 (\<bar>r\<bar> - of_int \<lfloor>\<bar>r\<bar>\<rfloor>))"

definition is_space :: "char \<Rightarrow> bool" where
  "is_space c = (of_char c \<in> {9, 10, 11, 12, 13, 32 :: nat})"

definition digits_val :: "string \<Rightarrow> nat" where
  "digits_val s = foldl (\<lambda>a c. 10 * a + digit_val c) 0 s"

text \<open>
  \<open>parseInt(s, 10)\<close>: leading white space is skipped, one sign is read, the longest run of digits is
  the number and the rest is ignored; with no digit the result is \<open>NaN\<close>, written \<open>None\<close>.
\<close>

definition parse_unsigned :: "string \<Rightarrow> int option" where
  "parse_unsigned s =
     (let ds = takeWhile is_digit s in if ds = [] then None else Some (int (digits_val ds)))"

definition parseInt10 :: "string \<Rightarrow> int option" where
  "parseInt10 s =
     (case dropWhile is_space s of
        [] \<Rightarrow> None
      | c # cs \<Rightarrow>
          (if c = CHR ''-'' then map_option uminus (parse_unsigned cs)
           else if c = CHR ''+'' then parse_unsigned cs
           else parse_unsigned (c # cs)))"

text \<open>\<open>s.split(c)\<close> for a separator of one character; the result is never empty.\<close>

fun split_char :: "char \<Rightarrow> string \<Rightarrow> string list" where
  "split_char c [] = [[]]"
| "split_char c (x # xs) =
     (if x = c then [] # split_char c xs
      else (case split_char c xs of [] \<Rightarrow> [[x]] | w # ws \<Rightarrow> (x # w) # ws))"

text \<open>\<open>a.pop()\<close> as a value: the last entry, \<open>undefined\<close> for an empty array.\<close>

definition js_pop :: "'a list \<Rightarrow> 'a option" where
  "js_pop xs = (if xs = [] then None else Some (last xs))"

subsection \<open>Printing and reading are inverse\<close>

lemma of_char_digit_char: "d < 10 \<Longrightarrow> of_char (digit_char d) = 48 + d"
  by (simp add: digit_char_def)

lemma is_digit_digit_char [simp]: "d < 10 \<Longrightarrow> is_digit (digit_char d)"
  by (simp add: is_digit_def of_char_digit_char)

lemma digit_val_digit_char [simp]: "d < 10 \<Longrightarrow> digit_val (digit_char d) = d"
  by (simp add: digit_val_def of_char_digit_char)

lemma show_nat_digits: "c \<in> set (show_nat n) \<Longrightarrow> is_digit c"
proof (induction n rule: show_nat.induct)
  case (1 n)
  then show ?case by (cases "n < 10") (auto simp: show_nat.simps [of n])
qed

lemma show_nat_nonempty [simp]: "show_nat n \<noteq> []"
  by (subst show_nat.simps) simp

lemma digits_val_snoc [simp]: "digits_val (s @ [c]) = 10 * digits_val s + digit_val c"
  by (simp add: digits_val_def)

lemma digits_val_show_nat [simp]: "digits_val (show_nat n) = n"
proof (induction n rule: show_nat.induct)
  case (1 n)
  show ?case
  proof (cases "n < 10")
    case True
    then show ?thesis by (simp add: show_nat.simps [of n] digits_val_def)
  next
    case False
    with 1 have "digits_val (show_nat n) = 10 * (n div 10) + n mod 10"
      by (simp add: show_nat.simps [of n])
    then show ?thesis by simp
  qed
qed

lemma show_nat_inject [simp]: "show_nat m = show_nat n \<longleftrightarrow> m = n"
  by (metis digits_val_show_nat)

lemma takeWhile_all: "(\<And>c. c \<in> set s \<Longrightarrow> P c) \<Longrightarrow> takeWhile P s = s"
  by (simp add: takeWhile_eq_all_conv)

lemma parse_unsigned_show_nat: "parse_unsigned (show_nat n) = Some (int n)"
  by (simp add: parse_unsigned_def takeWhile_all show_nat_digits)

lemma digit_not_special:
  assumes "is_digit c"
  shows "\<not> is_space c" and "c \<noteq> CHR ''-''" and "c \<noteq> CHR ''+''" and "c \<noteq> CHR ''/''"
  using assms by (auto simp: is_digit_def is_space_def)

theorem parseInt10_show_nat [simp]: "parseInt10 (show_nat n) = Some (int n)"
proof -
  obtain c cs where c: "show_nat n = c # cs"
    using show_nat_nonempty list.exhaust by blast
  then have "is_digit c" using show_nat_digits [of c n] by simp
  note special = digit_not_special [OF this]
  then have "dropWhile is_space (show_nat n) = c # cs" using c by simp
  then show ?thesis
    using special parse_unsigned_show_nat [of n] c by (simp add: parseInt10_def)
qed

lemma split_char_nonempty [simp]: "split_char c s \<noteq> []"
  by (induction s) (auto split: list.splits)

lemma split_char_no_sep: "c \<notin> set s \<Longrightarrow> split_char c s = [s]"
  by (induction s) auto

lemma last_split_char_append:
  "c \<notin> set t \<Longrightarrow> last (split_char c (s @ c # t)) = t"
proof (induction s)
  case Nil
  then show ?case by (simp add: split_char_no_sep)
next
  case (Cons x s)
  have len: "length (split_char c (s @ c # t)) \<noteq> Suc 0"
    by (induction s) (auto split: list.splits)
  obtain w ws where w: "split_char c (s @ c # t) = w # ws"
    using split_char_nonempty list.exhaust by blast
  with len have "ws \<noteq> []" by auto
  with Cons w show ?case by simp
qed

section \<open>Dictionaries that remember insertion order\<close>

text \<open>
  \<open>Map.prototype\<close>: \<open>set\<close> overwrites in place or appends, \<open>get\<close> and \<open>has\<close> look a key up, \<open>keys\<close>
  enumerates in insertion order. The constructor given an iterable sets the entries one by one.
\<close>

type_synonym ('k, 'v) js_map = "('k \<times> 'v) list"

definition map_get :: "('k, 'v) js_map \<Rightarrow> 'k \<Rightarrow> 'v option" where
  "map_get m k = map_of m k"

definition map_set :: "'k \<Rightarrow> 'v \<Rightarrow> ('k, 'v) js_map \<Rightarrow> ('k, 'v) js_map" where
  "map_set k v m = AList.update k v m"

definition map_has :: "('k, 'v) js_map \<Rightarrow> 'k \<Rightarrow> bool" where
  "map_has m k = (map_of m k \<noteq> None)"

definition map_keys :: "('k, 'v) js_map \<Rightarrow> 'k list" where
  "map_keys m = map fst m"

definition map_new :: "('k \<times> 'v) list \<Rightarrow> ('k, 'v) js_map" where
  "map_new es = fold (\<lambda>(k, v). map_set k v) es []"

text \<open>What the clients of a dictionary rely on.\<close>

locale js_dict =
  fixes dempty :: "'m"
    and dget :: "'m \<Rightarrow> 'k \<Rightarrow> 'v option"
    and dset :: "'k \<Rightarrow> 'v \<Rightarrow> 'm \<Rightarrow> 'm"
    and dkeys :: "'m \<Rightarrow> 'k list"
    and dinv :: "'m \<Rightarrow> bool"
  assumes get_empty: "dget dempty k = None"
    and get_set: "dinv m \<Longrightarrow> dget (dset k v m) k' = (if k' = k then Some v else dget m k')"
    and keys_empty: "dkeys dempty = []"
    and keys_set: "dinv m \<Longrightarrow> dkeys (dset k v m) = (if k \<in> set (dkeys m) then dkeys m else dkeys m @ [k])"
    and keys_get: "dinv m \<Longrightarrow> k \<in> set (dkeys m) \<longleftrightarrow> dget m k \<noteq> None"
    and inv_empty: "dinv dempty"
    and inv_set: "dinv m \<Longrightarrow> dinv (dset k v m)"
    and keys_distinct: "dinv m \<Longrightarrow> distinct (dkeys m)"
begin

lemma inv_fold_set: "dinv m \<Longrightarrow> dinv (fold (\<lambda>(k, v). dset k v) es m)"
  by (induction es arbitrary: m) (auto simp: inv_set)

lemma get_fold_set:
  "dinv m \<Longrightarrow> dget (fold (\<lambda>(k, v). dset k v) es m) k =
     (case map_of (rev es) k of Some v \<Rightarrow> Some v | None \<Rightarrow> dget m k)"
proof (induction es arbitrary: m)
  case Nil
  then show ?case by simp
next
  case (Cons e es)
  obtain k' v' where e: "e = (k', v')" by (cases e)
  have "dinv (dset k' v' m)" using Cons.prems by (rule inv_set)
  from Cons.IH [OF this] Cons.prems show ?case
    by (auto simp: e map_of_append get_set map_add_Some_iff split: option.splits)
qed

lemma keys_fold_set:
  "dinv m \<Longrightarrow> set (dkeys (fold (\<lambda>(k, v). dset k v) es m)) = set (dkeys m) \<union> fst ` set es"
proof (induction es arbitrary: m)
  case Nil
  then show ?case by simp
next
  case (Cons e es)
  obtain k' v' where e: "e = (k', v')" by (cases e)
  have "dinv (dset k' v' m)" using Cons.prems by (rule inv_set)
  from Cons.IH [OF this] show ?case using Cons.prems by (auto simp: e keys_set)
qed

end

lemma dom_map_of_fst: "map_of m k \<noteq> None \<longleftrightarrow> k \<in> fst ` set m"
  by (simp add: map_of_eq_None_iff)

interpretation jmap: js_dict "[]" map_get map_set map_keys "\<lambda>m. distinct (map fst m)"
proof
  fix m :: "('k \<times> 'v) list" and k k' :: 'k and v :: 'v
  show "map_get [] k = None" by (simp add: map_get_def)
  show "map_keys [] = []" by (simp add: map_keys_def)
  show "distinct (map fst [])" by simp
  assume inv: "distinct (map fst m)"
  show "map_get (map_set k v m) k' = (if k' = k then Some v else map_get m k')"
    by (simp add: map_get_def map_set_def update_conv')
  show "map_keys (map_set k v m) = (if k \<in> set (map_keys m) then map_keys m else map_keys m @ [k])"
    by (simp add: map_keys_def map_set_def update_keys)
  show "k \<in> set (map_keys m) \<longleftrightarrow> map_get m k \<noteq> None"
    by (simp add: map_keys_def map_get_def dom_map_of_fst [symmetric, simplified])
  show "distinct (map fst (map_set k v m))" using inv by (simp add: map_set_def distinct_update)
  show "distinct (map_keys m)" using inv by (simp add: map_keys_def)
qed

lemma map_has_get: "map_has m k \<longleftrightarrow> map_get m k \<noteq> None"
  by (simp add: map_has_def map_get_def)

lemma map_has_set [simp]: "map_has (map_set k v m) k' \<longleftrightarrow> k' = k \<or> map_has m k'"
  by (simp add: map_has_def map_set_def update_conv')

lemma map_get_set [simp]: "map_get (map_set k v m) k' = (if k' = k then Some v else map_get m k')"
  by (simp add: map_get_def map_set_def update_conv')

lemma map_set_set [simp]: "map_set k v (map_set k w m) = map_set k v m"
  by (simp add: map_set_def update_last)

lemma map_get_Nil [simp]: "map_get [] k = None" and map_has_Nil [simp]: "\<not> map_has [] k"
  by (simp_all add: map_get_def map_has_def)

lemma map_new_inv: "distinct (map fst (map_new es))"
  unfolding map_new_def by (rule jmap.inv_fold_set) simp

lemma map_new_get: "map_get (map_new es) k = map_of (rev es) k"
  unfolding map_new_def by (subst jmap.get_fold_set) (auto split: option.splits)

lemma finite_map_has [simp]: "finite {k. map_has m k}"
proof -
  have "{k. map_has m k} = fst ` set m" by (auto simp: map_has_def dom_map_of_fst [simplified])
  then show ?thesis by simp
qed

section \<open>Sets that remember insertion order\<close>

definition set_add :: "'a \<Rightarrow> 'a list \<Rightarrow> 'a list" where
  "set_add x s = (if x \<in> set s then s else s @ [x])"

lemma set_set_add [simp]: "set (set_add x s) = insert x (set s)"
  by (auto simp: set_add_def)

definition set_new :: "'a list \<Rightarrow> 'a list" where
  "set_new xs = fold set_add xs []"

text \<open>What the clients of a set rely on: membership, no duplicates, enumeration order.\<close>

locale js_collection =
  fixes sempty :: "'s"
    and sadd :: "'a \<Rightarrow> 's \<Rightarrow> 's"
    and selems :: "'s \<Rightarrow> 'a list"
  assumes elems_empty: "selems sempty = []"
    and elems_add: "selems (sadd x s) = (if x \<in> set (selems s) then selems s else selems s @ [x])"
begin

lemma set_elems_fold: "set (selems (fold sadd xs s)) = set (selems s) \<union> set xs"
  by (induction xs arbitrary: s) (auto simp: elems_add)

lemma distinct_elems_fold: "distinct (selems s) \<Longrightarrow> distinct (selems (fold sadd xs s))"
  by (induction xs arbitrary: s) (auto simp: elems_add)

lemma elems_fold_prefix: "\<exists>ys. selems (fold sadd xs s) = selems s @ ys"
proof (induction xs arbitrary: s)
  case Nil
  then show ?case by simp
next
  case (Cons x xs)
  obtain ys where "selems (fold sadd xs (sadd x s)) = selems (sadd x s) @ ys"
    using Cons.IH by blast
  then show ?case by (auto simp: elems_add)
qed

end

interpretation jset: js_collection "[]" set_add "\<lambda>s. s"
  by unfold_locales (auto simp: set_add_def)

lemma set_set_new [simp]: "set (set_new xs) = set xs"
  unfolding set_new_def by (subst jset.set_elems_fold) simp

lemma distinct_set_new [simp]: "distinct (set_new xs)"
  unfolding set_new_def by (rule jset.distinct_elems_fold) simp

lemma hd_set_new [simp]: "set_new (x # xs) \<noteq> [] \<and> hd (set_new (x # xs)) = x"
proof -
  obtain ys where "fold set_add xs [x] = [x] @ ys"
    using jset.elems_fold_prefix by blast
  then show ?thesis by (simp add: set_new_def set_add_def)
qed

section \<open>Sorting\<close>

text \<open>
  \<open>a.sort(cmp)\<close> is stable. Insertion from the left, which puts an element behind those that do not
  compare greater, is the reference for every stable sort by a consistent comparison function.
\<close>

fun sort_insert :: "('a \<Rightarrow> 'a \<Rightarrow> int) \<Rightarrow> 'a \<Rightarrow> 'a list \<Rightarrow> 'a list" where
  "sort_insert cmp x [] = [x]"
| "sort_insert cmp x (y # ys) = (if cmp y x \<le> 0 then y # sort_insert cmp x ys else x # y # ys)"

definition js_sort :: "('a \<Rightarrow> 'a \<Rightarrow> int) \<Rightarrow> 'a list \<Rightarrow> 'a list" where
  "js_sort cmp xs = fold (sort_insert cmp) xs []"

lemma mset_sort_insert: "mset (sort_insert cmp x ys) = add_mset x (mset ys)"
  by (induction ys) auto

lemma mset_fold_sort_insert: "mset (fold (sort_insert cmp) xs ys) = mset xs + mset ys"
  by (induction xs arbitrary: ys) (auto simp: mset_sort_insert)

lemma mset_js_sort [simp]: "mset (js_sort cmp xs) = mset xs"
  by (simp add: js_sort_def mset_fold_sort_insert)

lemma set_js_sort [simp]: "set (js_sort cmp xs) = set xs"
  by (metis mset_js_sort set_mset_mset)

lemma length_js_sort [simp]: "length (js_sort cmp xs) = length xs"
  by (metis mset_js_sort size_mset)

lemma distinct_js_sort [simp]: "distinct (js_sort cmp xs) = distinct xs"
  by (metis mset_js_sort mset_eq_imp_distinct_iff)

text \<open>The consistency that ECMAScript asks of a comparison function.\<close>

locale js_comparator =
  fixes cmp :: "'a \<Rightarrow> 'a \<Rightarrow> int"
  assumes cmp_antisym: "sgn (cmp a b) = - sgn (cmp b a)"
    and cmp_trans: "cmp a b \<le> 0 \<Longrightarrow> cmp b c \<le> 0 \<Longrightarrow> cmp a c \<le> 0"
begin

lemma cmp_refl: "cmp a a = 0"
  using cmp_antisym [of a a] by (simp add: sgn_if split: if_splits)

lemma cmp_total: "cmp a b \<le> 0 \<or> cmp b a \<le> 0"
  using cmp_antisym [of a b] by (auto simp: sgn_if split: if_splits)

lemma cmp_swap_eq: "cmp a b = 0 \<longleftrightarrow> cmp b a = 0"
  using cmp_antisym [of a b] by (auto simp: sgn_if split: if_splits)

lemma not_le_imp_le: "\<not> cmp a b \<le> 0 \<Longrightarrow> cmp b a \<le> 0"
  using cmp_total by blast

abbreviation cmp_sorted :: "'a list \<Rightarrow> bool" where
  "cmp_sorted \<equiv> sorted_wrt (\<lambda>a b. cmp a b \<le> 0)"

lemma sorted_sort_insert: "cmp_sorted ys \<Longrightarrow> cmp_sorted (sort_insert cmp x ys)"
proof (induction ys)
  case Nil
  then show ?case by simp
next
  case (Cons y ys)
  have sub: "set (sort_insert cmp x ys) = insert x (set ys)"
    by (metis mset_sort_insert set_mset_add_mset_insert set_mset_mset)
  show ?case
  proof (cases "cmp y x \<le> 0")
    case True
    with Cons sub show ?thesis by auto
  next
    case False
    then have "cmp x y \<le> 0" by (rule not_le_imp_le)
    with False Cons.prems show ?thesis by (auto intro: cmp_trans)
  qed
qed

lemma sorted_fold_sort_insert: "cmp_sorted ys \<Longrightarrow> cmp_sorted (fold (sort_insert cmp) xs ys)"
  by (induction xs arbitrary: ys) (auto simp: sorted_sort_insert)

lemma sorted_js_sort: "cmp_sorted (js_sort cmp xs)"
  by (simp add: js_sort_def sorted_fold_sort_insert)

text \<open>Stability: the elements that compare equal to \<open>a\<close> keep their order.\<close>

lemma filter_sort_insert:
  "cmp_sorted ys \<Longrightarrow>
     filter (\<lambda>y. cmp y a = 0) (sort_insert cmp x ys) = filter (\<lambda>y. cmp y a = 0) (ys @ [x])"
proof (induction ys)
  case Nil
  then show ?case by simp
next
  case (Cons y ys)
  show ?case
  proof (cases "cmp y x \<le> 0")
    case True
    with Cons show ?thesis by simp
  next
    case False
    have "cmp z a \<noteq> 0" if "cmp x a = 0" and "z \<in> set (y # ys)" for z
    proof
      assume "cmp z a = 0"
      moreover have "cmp a x \<le> 0" using \<open>cmp x a = 0\<close> cmp_swap_eq by simp
      ultimately have "cmp z x \<le> 0" by (auto intro: cmp_trans [of z a x])
      moreover have "cmp y z \<le> 0" using that(2) Cons.prems by (auto simp: cmp_refl)
      ultimately show False using False cmp_trans by blast
    qed
    then have "filter (\<lambda>y. cmp y a = 0) (y # ys) = []" if "cmp x a = 0"
      using that by (auto simp: filter_empty_conv)
    with False show ?thesis by (cases "cmp x a = 0") auto
  qed
qed

lemma filter_fold_sort_insert:
  "cmp_sorted ys \<Longrightarrow>
     filter (\<lambda>y. cmp y a = 0) (fold (sort_insert cmp) xs ys) = filter (\<lambda>y. cmp y a = 0) (ys @ xs)"
proof (induction xs arbitrary: ys)
  case Nil
  then show ?case by simp
next
  case (Cons x xs)
  then show ?case
    using sorted_sort_insert filter_sort_insert by simp
qed

lemma stable_js_sort: "filter (\<lambda>y. cmp y a = 0) (js_sort cmp xs) = filter (\<lambda>y. cmp y a = 0) xs"
  by (simp add: js_sort_def filter_fold_sort_insert)

end

text \<open>The comparison \<open>(a, b) => a - b\<close> on integers.\<close>

definition num_cmp :: "int \<Rightarrow> int \<Rightarrow> int" where
  "num_cmp a b = a - b"

interpretation numc: js_comparator num_cmp
  by unfold_locales (auto simp: num_cmp_def sgn_if)

text \<open>\<open>a.sort()\<close> with no argument compares strings by their code units, left to right.\<close>

fun code_unit_cmp :: "string \<Rightarrow> string \<Rightarrow> int" where
  "code_unit_cmp [] [] = 0"
| "code_unit_cmp [] (y # ys) = -1"
| "code_unit_cmp (x # xs) [] = 1"
| "code_unit_cmp (x # xs) (y # ys) =
     (if of_char x < (of_char y :: nat) then -1 else if of_char y < (of_char x :: nat) then 1
      else code_unit_cmp xs ys)"

lemma code_unit_cmp_range: "code_unit_cmp a b \<in> {-1, 0, 1}"
  by (induction a b rule: code_unit_cmp.induct) auto

lemma code_unit_cmp_swap: "code_unit_cmp a b = - code_unit_cmp b a"
  by (induction a b rule: code_unit_cmp.induct) auto

lemma code_unit_cmp_eq: "code_unit_cmp a b = 0 \<longleftrightarrow> a = b"
  by (induction a b rule: code_unit_cmp.induct) auto

lemma code_unit_cmp_trans:
  "code_unit_cmp a b \<le> 0 \<Longrightarrow> code_unit_cmp b c \<le> 0 \<Longrightarrow> code_unit_cmp a c \<le> 0"
proof (induction a c arbitrary: b rule: code_unit_cmp.induct)
  case (3 x xs)
  then show ?case by (cases b) auto
next
  case (4 x xs y ys)
  obtain z zs where b: "b = z # zs" using 4(2) by (cases b) auto
  show ?case using 4 by (auto simp: b split: if_splits)
qed auto

interpretation cuc: js_comparator code_unit_cmp
proof
  fix a b c :: string
  show "sgn (code_unit_cmp a b) = - sgn (code_unit_cmp b a)"
    by (subst code_unit_cmp_swap) (simp add: sgn_minus)
  show "code_unit_cmp a b \<le> 0 \<Longrightarrow> code_unit_cmp b c \<le> 0 \<Longrightarrow> code_unit_cmp a c \<le> 0"
    by (rule code_unit_cmp_trans)
qed

text \<open>Two consistent comparisons in sequence, the second one breaking ties of the first.\<close>

definition then_cmp :: "('a \<Rightarrow> 'a \<Rightarrow> int) \<Rightarrow> ('a \<Rightarrow> 'a \<Rightarrow> int) \<Rightarrow> 'a \<Rightarrow> 'a \<Rightarrow> int" where
  "then_cmp f g a b = (if f a b \<noteq> 0 then f a b else g a b)"

lemma js_comparator_then:
  assumes "js_comparator f" and "js_comparator g"
  shows "js_comparator (then_cmp f g)"
proof -
  note fa = js_comparator.cmp_antisym [OF assms(1)] and ft = js_comparator.cmp_trans [OF assms(1)]
  note ga = js_comparator.cmp_antisym [OF assms(2)] and gt = js_comparator.cmp_trans [OF assms(2)]
  note fs = js_comparator.cmp_swap_eq [OF assms(1)]
  show ?thesis
  proof
    fix a b c :: 'a
    show "sgn (then_cmp f g a b) = - sgn (then_cmp f g b a)"
      using fa [of a b] ga [of a b] fs [of a b] by (simp add: then_cmp_def)
    assume ab: "then_cmp f g a b \<le> 0" and bc: "then_cmp f g b c \<le> 0"
    have fab: "f a b \<le> 0" and fbc: "f b c \<le> 0"
      using ab bc by (auto simp: then_cmp_def split: if_splits)
    then have fac: "f a c \<le> 0" by (rule ft)
    show "then_cmp f g a c \<le> 0"
    proof (cases "f a c = 0")
      case False
      with fac show ?thesis by (simp add: then_cmp_def)
    next
      case True
      then have ca: "f c a \<le> 0" using fs [of a c] by simp
      have "f b a \<le> 0" using ft [OF fbc ca] .
      then have "f a b = 0" using fab fa [of a b] by (auto simp: sgn_if split: if_splits)
      moreover have "f c b \<le> 0" using ft [OF ca fab] .
      then have "f b c = 0" using fbc fa [of b c] by (auto simp: sgn_if split: if_splits)
      ultimately have "g a b \<le> 0" and "g b c \<le> 0"
        using ab bc by (auto simp: then_cmp_def)
      then have "g a c \<le> 0" by (rule gt)
      with True show ?thesis by (simp add: then_cmp_def)
    qed
  qed
qed

lemma js_comparator_on:
  assumes "js_comparator f"
  shows "js_comparator (\<lambda>a b. f (h a) (h b))"
  by (rule js_comparator.intro)
    (auto intro: js_comparator.cmp_antisym [OF assms] js_comparator.cmp_trans [OF assms])

section \<open>Event machines\<close>

text \<open>
  A stateful component is a start state and a step function on events. What an invariant of the
  component has to satisfy is the same everywhere; the conclusion for every run is proved once.
\<close>

fun run_events :: "('s \<Rightarrow> 'e \<Rightarrow> 's) \<Rightarrow> 's \<Rightarrow> 'e list \<Rightarrow> 's" where
  "run_events step s [] = s"
| "run_events step s (e # es) = run_events step (step s e) es"

lemma run_events_append [simp]:
  "run_events step s (es @ fs) = run_events step (run_events step s es) fs"
  by (induction es arbitrary: s) auto

locale event_machine =
  fixes step :: "'s \<Rightarrow> 'e \<Rightarrow> 's"
    and start :: 's
    and invariant :: "'s \<Rightarrow> bool"
  assumes inv_start: "invariant start"
    and inv_step: "invariant s \<Longrightarrow> invariant (step s e)"
begin

lemma inv_run_from: "invariant s \<Longrightarrow> invariant (run_events step s es)"
  by (induction es arbitrary: s) (auto simp: inv_step)

lemma inv_run: "invariant (run_events step start es)"
  using inv_start by (rule inv_run_from)

end

end
