(* ===== verification/DependencyGraph.thy ===== *)
theory DependencyGraph
  imports JsCore
begin

text \<open>
  The layout of the dependency diagram: \<open>buildDependencyGraph\<close> of
  \<open>src/ui/src/jobs/JobDependencyDiagram.tsx\<close>, with its two graph walks, the grouping of the related
  jobs by level, the placement of the nodes and the list of edges.

  The walks mutate a \<open>Set\<close> of processed names and the shared \<open>Map\<close> of levels; both are threaded as
  the state \<open>walk\<close>. The recursion ends because every call that recurses adds a name of the job map to
  the processed set, so both functions are total.
\<close>

section \<open>Data\<close>

text \<open>
  Optional fields are \<open>None\<close> when they are \<open>undefined\<close>, or \<open>null\<close> as the server prints a nil slice.
\<close>

record job =
  job_id :: string
  job_name :: string
  displayname :: "string option"
  parent_job :: "string option"
  dependent_jobs :: "string list option"
  job_status :: "string option"

record dep_node =
  node_id :: string
  node_name :: string
  displayName :: string
  node_status :: string
  node_x :: rat
  node_y :: rat
  node_level :: int
  isCurrent :: bool

record dep_edge =
  edge_from :: string
  edge_to :: string
  fromX :: rat
  fromY :: rat
  toX :: rat
  toY :: rat

definition NODE_WIDTH :: rat where "NODE_WIDTH = 160"
definition NODE_HEIGHT :: rat where "NODE_HEIGHT = 60"
definition LEVEL_HEIGHT :: rat where "LEVEL_HEIGHT = 100"
definition NODE_SPACING :: rat where "NODE_SPACING = 20"

lemmas node_sizes = NODE_WIDTH_def NODE_HEIGHT_def LEVEL_HEIGHT_def NODE_SPACING_def

type_synonym job_map = "(string, job) js_map"
type_synonym level_map = "(string, int) js_map"
type_synonym walk = "string list \<times> level_map"

section \<open>The walks\<close>

definition unprocessed :: "job_map \<Rightarrow> string list \<Rightarrow> string set" where
  "unprocessed jm proc = {n. map_has jm n} - set proc"

lemma finite_unprocessed [simp]: "finite (unprocessed jm proc)"
  by (simp add: unprocessed_def)

lemma unprocessed_shrinks:
  assumes "n \<notin> set proc" and "map_get jm n = Some j"
  shows "card (unprocessed jm (set_add n proc)) < card (unprocessed jm proc)"
proof (rule psubset_card_mono)
  show "unprocessed jm (set_add n proc) \<subset> unprocessed jm proc"
    using assms by (auto simp: unprocessed_def set_add_def map_has_get)
qed simp

lemma unprocessed_mono: "set p \<subseteq> set q \<Longrightarrow> card (unprocessed jm q) \<le> card (unprocessed jm p)"
  by (rule card_mono) (auto simp: unprocessed_def)

function findAncestors :: "job_map \<Rightarrow> string \<Rightarrow> int \<Rightarrow> walk \<Rightarrow> string list \<times> walk" where
  "findAncestors jm jobName level (proc, lv) =
     (if jobName \<in> set proc then ([], (proc, lv))
      else
        let proc = set_add jobName proc in
        case map_get jm jobName of
          None \<Rightarrow> ([], (proc, lv))
        | Some job \<Rightarrow>
            (case parent_job job of
               None \<Rightarrow> ([], (proc, lv))
             | Some p \<Rightarrow>
                 if p \<noteq> [] \<and> map_has jm p
                 then let (ancestors, st) = findAncestors jm p (level - 1) (proc, map_set p (level - 1) lv)
                      in (p # ancestors, st)
                 else ([], (proc, lv))))"
  by pat_completeness auto
termination
  by (relation "measure (\<lambda>(jm, n, l, proc, lv). card (unprocessed jm proc))")
    (auto simp: unprocessed_shrinks)

function findDescendants :: "job_map \<Rightarrow> string \<Rightarrow> int \<Rightarrow> walk \<Rightarrow> string list \<times> walk"
  and forEachChild :: "job_map \<Rightarrow> string list \<Rightarrow> int \<Rightarrow> walk \<Rightarrow> string list \<times> walk" where
  "findDescendants jm jobName level (proc, lv) =
     (if jobName \<in> set proc then ([], (proc, lv))
      else
        let proc = set_add jobName proc in
        case map_get jm jobName of
          None \<Rightarrow> ([], (proc, lv))
        | Some job \<Rightarrow>
            forEachChild jm (case dependent_jobs job of None \<Rightarrow> [] | Some cs \<Rightarrow> cs) level (proc, lv))"
| "forEachChild jm [] level (proc, lv) = ([], (proc, lv))"
| "forEachChild jm (childName # children) level (proc, lv) =
     (if map_has jm childName
      then
        let (found, proc1, lv1) =
              findDescendants jm childName (level + 1) (proc, map_set childName (level + 1) lv);
            (rest, st2) = forEachChild jm children level (proc1, lv1)
        in (childName # found @ rest, st2)
      else forEachChild jm children level (proc, lv))"
  by pat_completeness auto

lemma walk_grows_aux:
  "findDescendants_forEachChild_dom (Inl (jm, n, l, st)) \<Longrightarrow>
     set (fst st) \<subseteq> set (fst (snd (findDescendants jm n l st)))"
  "findDescendants_forEachChild_dom (Inr (jm, cs, l, st)) \<Longrightarrow>
     set (fst st) \<subseteq> set (fst (snd (forEachChild jm cs l st)))"
proof (induction jm n l st and jm cs l st rule: findDescendants_forEachChild.pinduct)
  case (1 jm n l p v)
  then show ?case
    by (auto simp: findDescendants.psimps Let_def set_add_def split: option.splits)
next
  case (2 jm l p v)
  then show ?case by (simp add: forEachChild.psimps)
next
  case (3 jm c cs l p v)
  then show ?case
    by (fastforce simp: forEachChild.psimps Let_def split: prod.splits)
qed

termination findDescendants
proof (relation "measures
    [\<lambda>x. case x of Inl (jm, n, l, p, v) \<Rightarrow> card (unprocessed jm p)
                 | Inr (jm, cs, l, p, v) \<Rightarrow> card (unprocessed jm p),
     \<lambda>x. case x of Inl (jm, n, l, p, v) \<Rightarrow> 0 | Inr (jm, cs, l, p, v) \<Rightarrow> Suc (length cs)]",
    goal_cases)
  case (4 jm c cs l p v x found y p1 lv1)
  then have "set p \<subseteq> set p1"
    using walk_grows_aux(1) [of jm c "l + 1" "(p, map_set c (l + 1) v)"] by (metis fst_conv snd_conv)
  then have "card (unprocessed jm p1) \<le> card (unprocessed jm p)" by (rule unprocessed_mono)
  then show ?case by auto
qed (auto simp: unprocessed_shrinks)

declare findAncestors.simps [simp del] findDescendants.simps [simp del] forEachChild.simps [simp del]

section \<open>Levels, positions, nodes and edges\<close>

definition levelOf :: "level_map \<Rightarrow> string \<Rightarrow> int" where
  "levelOf lv jobName = (case map_get lv jobName of Some l \<Rightarrow> l | None \<Rightarrow> 0)"

definition add_to_level ::
    "level_map \<Rightarrow> string \<Rightarrow> (int, string list) js_map \<Rightarrow> (int, string list) js_map" where
  "add_to_level lv jobName groups =
     (let level = levelOf lv jobName;
          groups = (if map_has groups level then groups else map_set level [] groups)
      in case map_get groups level of
           Some names \<Rightarrow> map_set level (names @ [jobName]) groups
         | None \<Rightarrow> groups)"

definition levelGroups :: "level_map \<Rightarrow> string list \<Rightarrow> (int, string list) js_map" where
  "levelGroups lv related = fold (add_to_level lv) related []"

definition jobsAtLevel :: "(int, string list) js_map \<Rightarrow> int \<Rightarrow> string list" where
  "jobsAtLevel groups level = (case map_get groups level of Some names \<Rightarrow> names | None \<Rightarrow> [])"

definition levelWidth :: "string list \<Rightarrow> rat" where
  "levelWidth names = of_nat (length names) * (NODE_WIDTH + NODE_SPACING) - NODE_SPACING"

definition sortedLevels :: "(int, string list) js_map \<Rightarrow> int list" where
  "sortedLevels groups = js_sort num_cmp (map_keys groups)"

definition minLevel :: "int list \<Rightarrow> int" where
  "minLevel levels = (case levels of [] \<Rightarrow> 0 | l # _ \<Rightarrow> l)"

definition maxWidth :: "(int, string list) js_map \<Rightarrow> int list \<Rightarrow> rat" where
  "maxWidth groups levels =
     fold (\<lambda>level w. max w (levelWidth (jobsAtLevel groups level))) levels 0"

type_synonym placement = "(string, rat \<times> rat) js_map \<times> dep_node list"

definition mkNode :: "string \<Rightarrow> int \<Rightarrow> int \<Rightarrow> rat \<Rightarrow> rat \<Rightarrow> string \<Rightarrow> job \<Rightarrow> dep_node" where
  "mkNode current lmin level x y jobName job =
     \<lparr>node_id = jobName, node_name = jobName,
      displayName = str_or (displayname job) jobName,
      node_status = str_or (job_status job) ''untriggered'',
      node_x = x, node_y = y, node_level = level - lmin,
      isCurrent = (jobName = current)\<rparr>"

definition place_job ::
    "job_map \<Rightarrow> string \<Rightarrow> int \<Rightarrow> int \<Rightarrow> rat \<Rightarrow> rat \<Rightarrow> nat \<times> string \<Rightarrow> placement \<Rightarrow> placement" where
  "place_job jm current lmin level startX y = (\<lambda>(index, jobName) (positions, nodes).
     let x = startX + of_nat index * (NODE_WIDTH + NODE_SPACING);
         positions = map_set jobName (x, y) positions
     in case map_get jm jobName of
          None \<Rightarrow> (positions, nodes)
        | Some job \<Rightarrow>
            (positions, nodes @ [mkNode current lmin level x y jobName job]))"

definition place_level ::
    "job_map \<Rightarrow> string \<Rightarrow> (int, string list) js_map \<Rightarrow> rat \<Rightarrow> int \<Rightarrow> int \<Rightarrow> placement \<Rightarrow> placement" where
  "place_level jm current groups width lmin level st =
     (let names = jobsAtLevel groups level;
          startX = (width - levelWidth names) / 2;
          y = of_int (level - lmin) * LEVEL_HEIGHT + 30
      in fold (place_job jm current lmin level startX y) (enumerate 0 names) st)"

definition add_edge ::
    "job_map \<Rightarrow> string list \<Rightarrow> (string, rat \<times> rat) js_map \<Rightarrow> string \<Rightarrow> dep_edge list \<Rightarrow> dep_edge list" where
  "add_edge jm related positions jobName edges =
     (case map_get jm jobName of
        None \<Rightarrow> edges
      | Some job \<Rightarrow>
          (case parent_job job of
             None \<Rightarrow> edges
           | Some p \<Rightarrow>
               if p \<noteq> [] \<and> p \<in> set related
               then (case (map_get positions p, map_get positions jobName) of
                       (Some (fx, fy), Some (tx, ty)) \<Rightarrow>
                         edges @ [\<lparr>edge_from = p, edge_to = jobName,
                                   fromX = fx, fromY = fy, toX = tx, toY = ty\<rparr>]
                     | _ \<Rightarrow> edges)
               else edges))"

text \<open>The walks from the current job: its level is set first, then ancestors, then descendants.\<close>

definition jobMapOf :: "job list \<Rightarrow> job_map" where
  "jobMapOf allJobs = map_new (map (\<lambda>j. (job_name j, j)) allJobs)"

definition walks :: "job_map \<Rightarrow> string \<Rightarrow> string list \<times> string list \<times> level_map" where
  "walks jm current =
     (let (ancestors, _, lv1) = findAncestors jm current 0 ([], map_set current 0 []);
          (descendants, _, lv2) = findDescendants jm current 0 ([], lv1)
      in (ancestors, descendants, lv2))"

definition relatedJobs :: "job_map \<Rightarrow> string \<Rightarrow> string list" where
  "relatedJobs jm current =
     (let (ancestors, descendants, _) = walks jm current in set_new (current # ancestors @ descendants))"

definition jobLevels :: "job_map \<Rightarrow> string \<Rightarrow> level_map" where
  "jobLevels jm current = (let (_, _, lv) = walks jm current in lv)"

definition place_all :: "job_map \<Rightarrow> string \<Rightarrow> placement" where
  "place_all jm current =
     (let groups = levelGroups (jobLevels jm current) (relatedJobs jm current);
          levels = sortedLevels groups
      in fold (place_level jm current groups (maxWidth groups levels) (minLevel levels)) levels ([], []))"

definition buildDependencyGraph :: "job \<Rightarrow> job list \<Rightarrow> dep_node list \<times> dep_edge list" where
  "buildDependencyGraph currentJob allJobs =
     (let jm = jobMapOf allJobs;
          related = relatedJobs jm (job_name currentJob);
          (positions, nodes) = place_all jm (job_name currentJob);
          edges = fold (add_edge jm related positions) related []
      in (nodes, edges))"

end
