(* ===== verification/DependencyWalks.thy ===== *)
theory DependencyWalks
  imports DependencyGraph
begin

text \<open>
  What the two walks of \<open>buildDependencyGraph\<close> compute: the names they return are exactly the
  transitive parents and the transitive dependents of the current job, and the level they record for a
  name is its distance on some path. On a job map that is a forest (what the server maintains) the
  distance is unique, so a child sits one level below its parent.
\<close>

section \<open>Parents and children\<close>

definition parent_of :: "job_map \<Rightarrow> string \<Rightarrow> string \<Rightarrow> bool" where
  "parent_of jm a p \<longleftrightarrow>
     (\<exists>j. map_get jm a = Some j \<and> parent_job j = Some p \<and> p \<noteq> [] \<and> map_has jm p)"

definition child_of :: "job_map \<Rightarrow> string \<Rightarrow> string \<Rightarrow> bool" where
  "child_of jm a c \<longleftrightarrow>
     (\<exists>j cs. map_get jm a = Some j \<and> dependent_jobs j = Some cs \<and> c \<in> set cs \<and> map_has jm c)"

lemma parent_of_functional: "parent_of jm a p \<Longrightarrow> parent_of jm a q \<Longrightarrow> p = q"
  by (auto simp: parent_of_def)

section \<open>Ancestors\<close>

lemma findAncestors_cases:
  assumes "findAncestors jm n l (proc, lv) = (as, st')"
  obtains (seen) "n \<in> set proc" "as = []" "st' = (proc, lv)"
    | (top) "n \<notin> set proc" "as = []" "st' = (set_add n proc, lv)" "\<And>p. \<not> parent_of jm n p"
    | (up) p as' where "n \<notin> set proc" "parent_of jm n p" "as = p # as'"
        "findAncestors jm p (l - 1) (set_add n proc, map_set p (l - 1) lv) = (as', st')"
proof (cases "n \<in> set proc")
  case True
  with assms seen show ?thesis by (simp add: findAncestors.simps)
next
  case new: False
  show ?thesis
  proof (cases "\<exists>p. parent_of jm n p")
    case True
    then obtain j p where "map_get jm n = Some j" "parent_job j = Some p" "p \<noteq> []" "map_has jm p"
      and par: "parent_of jm n p"
      by (auto simp: parent_of_def)
    with assms new up [OF new par] show ?thesis
      by (simp add: findAncestors.simps [of jm n] Let_def split: prod.splits)
  next
    case False
    have "as = [] \<and> st' = (set_add n proc, lv)"
      using assms new False
      by (auto simp: findAncestors.simps [of jm n] Let_def parent_of_def split: option.splits if_splits)
    with new False top show ?thesis by blast
  qed
qed

lemma findAncestors_induct [case_names step]:
  assumes "\<And>jm n l proc lv.
    (\<And>p. n \<notin> set proc \<Longrightarrow> parent_of jm n p \<Longrightarrow>
       P jm p (l - 1) (set_add n proc, map_set p (l - 1) lv)) \<Longrightarrow> P jm n l (proc, lv)"
  shows "P jm n (l :: int) st"
proof (induction jm n l st rule: findAncestors.induct)
  case (1 jm n l proc lv)
  show ?case
  proof (rule assms)
    fix p assume new: "n \<notin> set proc" and "parent_of jm n p"
    then obtain j where "map_get jm n = Some j" "parent_job j = Some p" "p \<noteq> [] \<and> map_has jm p"
      by (auto simp: parent_of_def)
    with 1 new show "P jm p (l - 1) (set_add n proc, map_set p (l - 1) lv)" by simp
  qed
qed

lemma findAncestors_frame:
  "findAncestors jm n l st = (as, st') \<Longrightarrow> a \<notin> set as \<Longrightarrow>
     map_get (snd st') a = map_get (snd st) a"
proof (induction jm n l st arbitrary: as rule: findAncestors_induct)
  case (step jm n l proc lv)
  from step.prems(1) show ?case
  proof (cases rule: findAncestors_cases)
    case (up p as')
    with step.IH [OF up(1,2,4)] step.prems(2) show ?thesis by simp
  qed simp_all
qed

lemma findAncestors_levels:
  "findAncestors jm n l st = (as, st') \<Longrightarrow> a \<in> set as \<Longrightarrow>
     \<exists>k > 0. (parent_of jm ^^ k) n a \<and> map_get (snd st') a = Some (l - int k)"
proof (induction jm n l st arbitrary: as rule: findAncestors_induct)
  case (step jm n l proc lv)
  from step.prems(1) show ?case
  proof (cases rule: findAncestors_cases)
    case (up p as')
    show ?thesis
    proof (cases "a \<in> set as'")
      case True
      with step.IH [OF up(1,2,4)]
      obtain k where "k > 0" "(parent_of jm ^^ k) p a" "map_get (snd st') a = Some (l - 1 - int k)"
        by auto
      moreover have "(parent_of jm ^^ Suc k) n a" using up(2) calculation(2) by (rule relpowp_Suc_I2)
      ultimately show ?thesis by (intro exI [of _ "Suc k"]) simp
    next
      case False
      with step.prems(2) up(3) have "a = p" by simp
      with findAncestors_frame [OF up(4)] False up(2) show ?thesis
        by (intro exI [of _ 1]) auto
    qed
  qed (use step.prems(2) in simp_all)
qed

lemma findAncestors_closed:
  "findAncestors jm n l st = (as, st') \<Longrightarrow> a = n \<or> a \<in> set as \<Longrightarrow> a \<notin> set (fst st) \<Longrightarrow>
     parent_of jm a p \<Longrightarrow> p \<in> set as"
proof (induction jm n l st arbitrary: as rule: findAncestors_induct)
  case (step jm n l proc lv)
  from step.prems(1) show ?case
  proof (cases rule: findAncestors_cases)
    case (up q as')
    have n: "p = q" if "a = n" using that up(2) step.prems(4) parent_of_functional by blast
    have "p \<in> set as'" if "a \<noteq> n"
      using step.IH [OF up(1,2,4)] step.prems(2-4) up(3) that by auto
    with n up(3) show ?thesis by auto
  qed (use step.prems in auto)
qed

section \<open>Descendants\<close>

abbreviation children :: "job \<Rightarrow> string list" where
  "children j \<equiv> (case dependent_jobs j of None \<Rightarrow> [] | Some cs \<Rightarrow> cs)"

lemma child_of_children:
  "map_get jm n = Some j \<Longrightarrow> child_of jm n c \<longleftrightarrow> c \<in> set (children j) \<and> map_has jm c"
  by (cases "dependent_jobs j") (auto simp: child_of_def)

lemma findDescendants_cases:
  assumes "findDescendants jm n l (proc, lv) = (ds, st')"
  obtains (seen) "n \<in> set proc" "ds = []" "st' = (proc, lv)"
    | (leaf) "n \<notin> set proc" "ds = []" "st' = (set_add n proc, lv)" "\<And>c. \<not> child_of jm n c"
    | (down) j where "n \<notin> set proc" "map_get jm n = Some j"
        "forEachChild jm (children j) l (set_add n proc, lv) = (ds, st')"
proof (cases "n \<in> set proc")
  case True
  with assms seen show ?thesis by (simp add: findDescendants.simps)
next
  case new: False
  show ?thesis
  proof (cases "map_get jm n")
    case None
    with assms new leaf show ?thesis
      by (simp add: findDescendants.simps [of jm n] Let_def child_of_def)
  next
    case (Some j)
    with assms new have "forEachChild jm (children j) l (set_add n proc, lv) = (ds, st')"
      by (simp add: findDescendants.simps [of jm n] Let_def)
    with new Some down show ?thesis by blast
  qed
qed

lemma forEachChild_Nil [simp]: "forEachChild jm [] l st = ([], st)"
  by (cases st) (simp add: forEachChild.simps)

lemma forEachChild_skip [simp]:
  "\<not> map_has jm c \<Longrightarrow> forEachChild jm (c # cs) l st = forEachChild jm cs l st"
  by (cases st) (simp add: forEachChild.simps)

lemma forEachChild_child:
  assumes "map_has jm c" and "forEachChild jm (c # cs) l (proc, lv) = (ds, st')"
  obtains found p1 lv1 rest where
    "findDescendants jm c (l + 1) (proc, map_set c (l + 1) lv) = (found, p1, lv1)"
    "forEachChild jm cs l (p1, lv1) = (rest, st')" "ds = c # found @ rest"
  using assms by (auto simp: forEachChild.simps Let_def split: prod.splits)

text \<open>
  One induction carries what the descendant walk leaves alone, what it has processed, and that what it
  processed is closed under children.
\<close>

definition walk_ok :: "job_map \<Rightarrow> walk \<Rightarrow> string list \<Rightarrow> walk \<Rightarrow> string set \<Rightarrow> bool" where
  "walk_ok jm st ds st' roots \<longleftrightarrow>
     set (fst st) \<subseteq> set (fst st') \<and>
     set ds \<subseteq> set (fst st') \<and>
     set (fst st') \<subseteq> set (fst st) \<union> roots \<union> set ds \<and>
     (\<forall>a \<in> set (fst st') - set (fst st). \<forall>c. child_of jm a c \<longrightarrow> c \<in> set ds) \<and>
     (\<forall>a. a \<notin> set ds \<longrightarrow> map_get (snd st') a = map_get (snd st) a)"

lemma walk_ok_node:
  assumes "walk_ok jm (set_add n proc, lv) ds st' {}" and "map_get jm n = Some j"
    and "{c \<in> set (children j). map_has jm c} \<subseteq> set ds"
  shows "walk_ok jm (proc, lv) ds st' {n}"
proof -
  have kids: "c \<in> set ds" if "child_of jm n c" for c
    using that assms(2,3) child_of_children by blast
  have "c \<in> set ds" if "a \<in> set (fst st') - set proc" "child_of jm a c" for a c
    using that kids assms(1) by (cases "a = n") (auto simp: walk_ok_def)
  then show ?thesis using assms(1) by (auto simp: walk_ok_def)
qed

lemma walk_ok_seq:
  assumes "walk_ok jm (proc, map_set c k lv) found (p1, lv1) {c}" and "c \<in> set p1"
    and "walk_ok jm (p1, lv1) rest st' {}"
  shows "walk_ok jm (proc, lv) (c # found @ rest) st' {}"
proof -
  have "x \<in> set proc \<union> {c} \<union> set found \<union> set rest" if "x \<in> set (fst st')" for x
    using that assms(1,3) unfolding walk_ok_def by auto
  moreover have "d \<in> set (c # found @ rest)"
    if "a \<in> set (fst st') - set proc" "child_of jm a d" for a d
    using that assms(1,3) unfolding walk_ok_def by (cases "a \<in> set p1") auto
  moreover have "map_get (snd st') a = map_get lv a" if "a \<notin> set (c # found @ rest)" for a
    using that assms(1,3) unfolding walk_ok_def by auto
  ultimately show ?thesis using assms unfolding walk_ok_def by auto
qed

lemma descendants_walk_ok:
  "findDescendants jm n l st = (ds, st') \<Longrightarrow> walk_ok jm st ds st' {n} \<and> n \<in> set (fst st')"
  "forEachChild jm cs l st = (ds, st') \<Longrightarrow>
     walk_ok jm st ds st' {} \<and> {c \<in> set cs. map_has jm c} \<subseteq> set ds"
proof (induction jm n l st and jm cs l st arbitrary: ds st' and ds st'
    rule: findDescendants_forEachChild.induct)
  case (1 jm n l proc lv)
  from "1.prems" show ?case
  proof (cases rule: findDescendants_cases)
    case (down j)
    with "1.IH" [OF down(1) refl down(2,3)] have
      ok: "walk_ok jm (set_add n proc, lv) ds st' {}" and
      cs: "{c \<in> set (children j). map_has jm c} \<subseteq> set ds" by auto
    have "n \<in> set (fst st')" using ok by (auto simp: walk_ok_def)
    with walk_ok_node [OF ok down(2) cs] show ?thesis by simp
  qed (auto simp: walk_ok_def)
next
  case (2 jm l proc lv)
  then show ?case by (simp add: walk_ok_def)
next
  case (3 jm c cs l proc lv)
  show ?case
  proof (cases "map_has jm c")
    case True
    from True "3.prems" obtain found p1 lv1 rest where
      f: "findDescendants jm c (l + 1) (proc, map_set c (l + 1) lv) = (found, p1, lv1)" and
      r: "forEachChild jm cs l (p1, lv1) = (rest, st')" and ds: "ds = c # found @ rest"
      by (rule forEachChild_child)
    have "walk_ok jm (proc, map_set c (l + 1) lv) found (p1, lv1) {c} \<and> c \<in> set p1"
      using "3.IH"(1) [OF True f] by simp
    moreover have "walk_ok jm (p1, lv1) rest st' {} \<and> {c \<in> set cs. map_has jm c} \<subseteq> set rest"
      using "3.IH"(2) [OF True f [symmetric] refl refl r] by simp
    ultimately show ?thesis using walk_ok_seq ds True by fastforce
  next
    case False
    then show ?thesis using "3.IH"(3) [OF False] "3.prems" by auto
  qed
qed

lemma descendants_levels:
  "findDescendants jm n l st = (ds, st') \<Longrightarrow> a \<in> set ds \<Longrightarrow>
     \<exists>k > 0. (child_of jm ^^ k) n a \<and> map_get (snd st') a = Some (l + int k)"
  "forEachChild jm cs l st = (ds, st') \<Longrightarrow> a \<in> set ds \<Longrightarrow>
     \<exists>c k. c \<in> set cs \<and> map_has jm c \<and> (child_of jm ^^ k) c a \<and>
       map_get (snd st') a = Some (l + 1 + int k)"
proof (induction jm n l st and jm cs l st arbitrary: ds st' a and ds st' a
    rule: findDescendants_forEachChild.induct)
  case (1 jm n l proc lv)
  from "1.prems"(1) show ?case
  proof (cases rule: findDescendants_cases)
    case (down j)
    from "1.IH" [OF down(1) refl down(2,3) "1.prems"(2)] obtain c k where
      "c \<in> set (children j)" "map_has jm c" and k: "(child_of jm ^^ k) c a"
      "map_get (snd st') a = Some (l + 1 + int k)" by auto
    then have "child_of jm n c" using down(2) by (simp add: child_of_children)
    from relpowp_Suc_I2 [OF this k(1)] k(2) show ?thesis by (intro exI [of _ "Suc k"]) simp
  qed (use "1.prems"(2) in simp_all)
next
  case (2 jm l proc lv)
  then show ?case by simp
next
  case (3 jm c cs l proc lv)
  show ?case
  proof (cases "map_has jm c")
    case True
    from True "3.prems"(1) obtain found p1 lv1 rest where
      f: "findDescendants jm c (l + 1) (proc, map_set c (l + 1) lv) = (found, p1, lv1)" and
      r: "forEachChild jm cs l (p1, lv1) = (rest, st')" and ds: "ds = c # found @ rest"
      by (rule forEachChild_child)
    have frame1: "map_get lv1 a = map_get (map_set c (l + 1) lv) a" if "a \<notin> set found"
      using descendants_walk_ok(1) [OF f] that by (auto simp: walk_ok_def)
    have frame2: "map_get (snd st') a = map_get lv1 a" if "a \<notin> set rest"
      using descendants_walk_ok(2) [OF r] that by (auto simp: walk_ok_def)
    consider (rest) "a \<in> set rest" | (found) "a \<in> set found" "a \<notin> set rest"
      | (self) "a = c" "a \<notin> set found" "a \<notin> set rest"
      using "3.prems"(2) ds by auto
    then show ?thesis
    proof cases
      case rest
      then show ?thesis using "3.IH"(2) [OF True f [symmetric] refl refl r rest] by auto
    next
      case found
      then obtain k where "k > 0" "(child_of jm ^^ k) c a" "map_get lv1 a = Some (l + 1 + int k)"
        using "3.IH"(1) [OF True f found(1)] by auto
      with True found frame2 show ?thesis by auto
    next
      case self
      with frame1 frame2 have "map_get (snd st') a = Some (l + 1 + int 0)" by simp
      moreover have "(child_of jm ^^ 0) c a" using self by simp
      ultimately show ?thesis using True by (intro exI [of _ c] exI [of _ 0]) simp
    qed
  next
    case False
    then have "forEachChild jm cs l (proc, lv) = (ds, st')" using "3.prems"(1) by simp
    from "3.IH"(3) [OF False this "3.prems"(2)] show ?thesis by auto
  qed
qed

section \<open>The two walks together\<close>

lemma walks_cases:
  obtains as ds p1 lv1 p2 lv2 where
    "findAncestors jm cur 0 ([], map_set cur 0 []) = (as, p1, lv1)"
    "findDescendants jm cur 0 ([], lv1) = (ds, p2, lv2)"
    "walks jm cur = (as, ds, lv2)"
proof -
  obtain as p1 lv1 where a: "findAncestors jm cur 0 ([], map_set cur 0 []) = (as, p1, lv1)"
    by (metis prod.exhaust)
  obtain ds p2 lv2 where d: "findDescendants jm cur 0 ([], lv1) = (ds, p2, lv2)"
    by (metis prod.exhaust)
  from a d that show ?thesis by (simp add: walks_def)
qed

lemma tranclp_subset_closed:
  assumes "r\<^sup>+\<^sup>+ n a" and "\<And>a b. a = n \<or> a \<in> S \<Longrightarrow> r a b \<Longrightarrow> b \<in> S"
  shows "a \<in> S"
  using assms(1) by induction (auto intro: assms(2))

lemma walks_ancestors:
  assumes "walks jm cur = (as, ds, lv)"
  shows "set as = {a. (parent_of jm)\<^sup>+\<^sup>+ cur a}"
proof -
  obtain p1 lv1 where a: "findAncestors jm cur 0 ([], map_set cur 0 []) = (as, p1, lv1)"
    using assms walks_cases [of jm cur] by (metis prod.inject)
  show ?thesis
  proof (intro equalityI subsetI CollectI)
    fix x assume "x \<in> set as"
    with findAncestors_levels [OF a] show "(parent_of jm)\<^sup>+\<^sup>+ cur x"
      by (auto simp: tranclp_power)
  next
    fix x assume "x \<in> {a. (parent_of jm)\<^sup>+\<^sup>+ cur a}"
    then have "(parent_of jm)\<^sup>+\<^sup>+ cur x" by simp
    then show "x \<in> set as"
      by (rule tranclp_subset_closed) (auto intro: findAncestors_closed [OF a])
  qed
qed

lemma walks_descendants:
  assumes "walks jm cur = (as, ds, lv)"
  shows "set ds = {d. (child_of jm)\<^sup>+\<^sup>+ cur d}"
proof -
  obtain lv1 p2 where d: "findDescendants jm cur 0 ([], lv1) = (ds, p2, lv)"
    using assms walks_cases [of jm cur] by (metis prod.inject)
  have ok: "walk_ok jm ([], lv1) ds (p2, lv) {cur}" and cur: "cur \<in> set p2"
    using descendants_walk_ok(1) [OF d] by auto
  show ?thesis
  proof (intro equalityI subsetI CollectI)
    fix x assume "x \<in> set ds"
    with descendants_levels(1) [OF d] show "(child_of jm)\<^sup>+\<^sup>+ cur x"
      by (auto simp: tranclp_power)
  next
    fix x assume "x \<in> {d. (child_of jm)\<^sup>+\<^sup>+ cur d}"
    then have "(child_of jm)\<^sup>+\<^sup>+ cur x" by simp
    then show "x \<in> set ds"
    proof (rule tranclp_subset_closed)
      fix a b assume "a = cur \<or> a \<in> set ds" and "child_of jm a b"
      with ok cur show "b \<in> set ds" by (auto simp: walk_ok_def)
    qed
  qed
qed

lemma set_relatedJobs:
  "set (relatedJobs jm cur) =
     insert cur ({a. (parent_of jm)\<^sup>+\<^sup>+ cur a} \<union> {d. (child_of jm)\<^sup>+\<^sup>+ cur d})"
proof -
  obtain as ds lv where w: "walks jm cur = (as, ds, lv)" by (metis prod.exhaust)
  with walks_ancestors [OF w] walks_descendants [OF w] show ?thesis
    by (simp add: relatedJobs_def)
qed

lemma distinct_relatedJobs [simp]: "distinct (relatedJobs jm cur)"
  by (auto simp: relatedJobs_def split: prod.splits)

section \<open>Levels\<close>

lemma level_cases:
  assumes "x \<in> set (relatedJobs jm cur)"
  obtains (down) k where "k > 0" "(child_of jm ^^ k) cur x" "levelOf (jobLevels jm cur) x = int k"
    | (up) k where "k > 0" "(parent_of jm ^^ k) cur x" "levelOf (jobLevels jm cur) x = - int k"
    | (self) "x = cur" "levelOf (jobLevels jm cur) x = 0" "\<not> (parent_of jm)\<^sup>+\<^sup>+ cur cur"
        "\<not> (child_of jm)\<^sup>+\<^sup>+ cur cur"
proof -
  obtain as ds p1 lv1 p2 lv2 where
    a: "findAncestors jm cur 0 ([], map_set cur 0 []) = (as, p1, lv1)" and
    d: "findDescendants jm cur 0 ([], lv1) = (ds, p2, lv2)" and w: "walks jm cur = (as, ds, lv2)"
    by (rule walks_cases)
  have lv: "jobLevels jm cur = lv2" using w by (simp add: jobLevels_def)
  have frame_d: "map_get lv2 x = map_get lv1 x" if "x \<notin> set ds"
    using descendants_walk_ok(1) [OF d] that by (auto simp: walk_ok_def)
  have frame_a: "map_get lv1 x = map_get (map_set cur 0 []) x" if "x \<notin> set as"
    using findAncestors_frame [OF a that] by simp
  have "x = cur \<or> x \<in> set as \<or> x \<in> set ds"
    using assms w by (auto simp: relatedJobs_def)
  then consider "x \<in> set ds" | "x \<in> set as" "x \<notin> set ds" | "x = cur" "x \<notin> set as" "x \<notin> set ds"
    by blast
  then show thesis
  proof cases
    case 1
    with descendants_levels(1) [OF d 1] down show ?thesis by (auto simp: lv levelOf_def)
  next
    case 2
    with findAncestors_levels [OF a 2(1)] frame_d up show ?thesis by (auto simp: lv levelOf_def)
  next
    case 3
    with frame_a frame_d have "levelOf (jobLevels jm cur) x = 0" by (simp add: lv levelOf_def)
    with 3 self walks_ancestors [OF w] walks_descendants [OF w] show ?thesis by auto
  qed
qed

text \<open>
  The job maps the server maintains: a job lists another as dependent exactly when that one names it as
  its parent, and no job is its own transitive parent.
\<close>

definition job_forest :: "job_map \<Rightarrow> bool" where
  "job_forest jm \<longleftrightarrow>
     (\<forall>a b. child_of jm a b \<longleftrightarrow> parent_of jm b a) \<and> (\<forall>a. \<not> (parent_of jm)\<^sup>+\<^sup>+ a a)"

lemma acyclic_by_rank:
  assumes "\<And>a b. r a b \<Longrightarrow> rank b < (rank a :: nat)"
  shows "\<not> r\<^sup>+\<^sup>+ a a"
proof
  assume "r\<^sup>+\<^sup>+ a a"
  moreover have "rank b < rank a" if "r\<^sup>+\<^sup>+ a b" for b
    using that by induction (auto dest: assms)
  ultimately show False by blast
qed

lemma functional_power:
  fixes r :: "'a \<Rightarrow> 'a \<Rightarrow> bool"
  assumes "\<And>a b c. r a b \<Longrightarrow> r a c \<Longrightarrow> b = c"
  shows "(r ^^ i) a b \<Longrightarrow> (r ^^ i) a c \<Longrightarrow> b = c"
proof (induction i arbitrary: b c)
  case (Suc i)
  from Suc.prems obtain d e where "(r ^^ i) a d" "r d b" "(r ^^ i) a e" "r e c"
    by (auto elim!: relpowp_Suc_E)
  with Suc.IH [of d e] assms show ?case by blast
qed simp

lemma functional_power_unique:
  fixes r :: "'a \<Rightarrow> 'a \<Rightarrow> bool"
  assumes func: "\<And>a b c. r a b \<Longrightarrow> r a c \<Longrightarrow> b = c" and acyc: "\<And>a. \<not> r\<^sup>+\<^sup>+ a a"
    and "(r ^^ i) a b" and "(r ^^ j) a b"
  shows "i = j"
proof -
  have no: False if "i < j" "(r ^^ i) a b" "(r ^^ j) a b" for i j
  proof -
    have "(r ^^ (i + (j - i))) a b" using that by simp
    then obtain c where "(r ^^ i) a c" "(r ^^ (j - i)) c b"
      by (auto simp: relpowp_add)
    moreover have "c = b" using functional_power [of r i a c b] func calculation(1) that(2) by blast
    ultimately have "(r ^^ (j - i)) b b" by simp
    then have "r\<^sup>+\<^sup>+ b b" using that(1) by (auto simp: tranclp_power intro!: exI [of _ "j - i"])
    with acyc show False by blast
  qed
  from no [of i j] no [of j i] assms(3,4) show ?thesis by (meson linorder_neqE_nat)
qed

lemma relpowp_converse:
  fixes r s :: "'a \<Rightarrow> 'a \<Rightarrow> bool"
  assumes "\<And>a b. r a b \<longleftrightarrow> s b a"
  shows "(r ^^ k) a b \<longleftrightarrow> (s ^^ k) b a"
proof (induction k arbitrary: a b)
  case (Suc k)
  have "(r ^^ Suc k) a b \<longleftrightarrow> (\<exists>c. (r ^^ k) a c \<and> r c b)" by (auto simp: relcompp.simps)
  also have "\<dots> \<longleftrightarrow> (\<exists>c. s b c \<and> (s ^^ k) c a)" using Suc.IH assms by blast
  also have "\<dots> \<longleftrightarrow> (s ^^ Suc k) b a" by (meson relpowp_Suc_D2 relpowp_Suc_I2)
  finally show ?case .
qed auto

lemma forest_unique:
  assumes "job_forest jm" and "(parent_of jm ^^ i) a b" and "(parent_of jm ^^ j) a b"
  shows "i = j"
  using assms functional_power_unique [of "parent_of jm" i a b j] parent_of_functional
  by (auto simp: job_forest_def)

lemma forest_no_loop:
  assumes "job_forest jm" and "(parent_of jm ^^ i) a b" and "(parent_of jm ^^ j) b a"
  shows "i = 0 \<and> j = 0"
proof -
  have "(parent_of jm ^^ (i + j)) a a" using assms(2,3) by (auto simp: relpowp_add)
  moreover have "(parent_of jm ^^ 0) a a" by simp
  ultimately show ?thesis using forest_unique [OF assms(1)] by fastforce
qed

lemma forest_level:
  assumes "job_forest jm" and "x \<in> set (relatedJobs jm cur)"
  obtains (below) k where "(parent_of jm ^^ k) x cur" "levelOf (jobLevels jm cur) x = int k"
    | (above) k where "(parent_of jm ^^ k) cur x" "levelOf (jobLevels jm cur) x = - int k"
proof -
  have conv: "(child_of jm ^^ k) cur x \<longleftrightarrow> (parent_of jm ^^ k) x cur" for k
    using assms(1) by (intro relpowp_converse) (auto simp: job_forest_def)
  from assms(2) show thesis
  proof (cases rule: level_cases)
    case self
    then show ?thesis using below [of 0] by simp
  qed (use conv below above in auto)
qed

theorem forest_level_step:
  assumes f: "job_forest jm" and x: "x \<in> set (relatedJobs jm cur)"
    and p: "p \<in> set (relatedJobs jm cur)" and xp: "parent_of jm x p"
  shows "levelOf (jobLevels jm cur) x = levelOf (jobLevels jm cur) p + 1"
  using f x
proof (cases rule: forest_level)
  case (above k)
  then have cp: "(parent_of jm ^^ Suc k) cur p" using xp by auto
  from f p show ?thesis
  proof (cases rule: forest_level)
    case below
    with forest_no_loop [OF f cp] show ?thesis by blast
  next
    case (above k')
    with forest_unique [OF f cp] \<open>levelOf _ x = - int k\<close> show ?thesis by force
  qed
next
  case (below k)
  show ?thesis
  proof (cases k)
    case 0
    with below xp have cp: "(parent_of jm ^^ Suc 0) cur p" by (auto simp: relcompp.simps)
    from f p show ?thesis
    proof (cases rule: forest_level)
      case below
      with forest_no_loop [OF f cp] show ?thesis by blast
    next
      case (above k')
      with forest_unique [OF f cp] 0 \<open>levelOf _ x = int k\<close> show ?thesis by force
    qed
  next
    case (Suc m)
    with below(1) obtain y where "parent_of jm x y" "(parent_of jm ^^ m) y cur"
      by (meson relpowp_Suc_D2)
    then have pc: "(parent_of jm ^^ m) p cur" using xp parent_of_functional by blast
    from f p show ?thesis
    proof (cases rule: forest_level)
      case (below k')
      with forest_unique [OF f pc] Suc \<open>levelOf _ x = int k\<close> show ?thesis by force
    next
      case (above k')
      with forest_no_loop [OF f pc] Suc \<open>levelOf _ x = int k\<close> show ?thesis by force
    qed
  qed
qed

end
