(* ===== verification/DependencyLayout.thy ===== *)
theory DependencyLayout
  imports DependencyWalks
begin

text \<open>
  The geometry of the dependency diagram. The placement loops are brought into closed form (a slot for
  every related job, computed from its level and its index in the row of that level), from which the
  nodes are shown to be complete, disjoint and inside the drawing, and the edges to join the nodes
  they name.
\<close>

section \<open>Rows\<close>

definition row :: "job_map \<Rightarrow> string \<Rightarrow> int \<Rightarrow> string list" where
  "row jm cur l = filter (\<lambda>n. levelOf (jobLevels jm cur) n = l) (relatedJobs jm cur)"

definition groups :: "job_map \<Rightarrow> string \<Rightarrow> (int, string list) js_map" where
  "groups jm cur = levelGroups (jobLevels jm cur) (relatedJobs jm cur)"

definition levels :: "job_map \<Rightarrow> string \<Rightarrow> int list" where
  "levels jm cur = sortedLevels (groups jm cur)"

lemma add_to_level_eq:
  "add_to_level lv n g = map_set (levelOf lv n) (jobsAtLevel g (levelOf lv n) @ [n]) g"
proof (cases "map_get g (levelOf lv n)")
  case None
  then show ?thesis
    by (simp add: add_to_level_def jobsAtLevel_def map_has_get Let_def)
next
  case (Some a)
  then show ?thesis by (simp add: add_to_level_def jobsAtLevel_def map_has_get Let_def)
qed

lemma jobsAtLevel_set:
  "jobsAtLevel (map_set k v g) l = (if l = k then v else jobsAtLevel g l)"
  by (simp add: jobsAtLevel_def)

lemma jobsAtLevel_Nil [simp]: "jobsAtLevel [] l = []"
  by (simp add: jobsAtLevel_def)

lemma jobsAtLevel_fold:
  "jobsAtLevel (fold (add_to_level lv) ns g) l =
     jobsAtLevel g l @ filter (\<lambda>n. levelOf lv n = l) ns"
  by (induction ns arbitrary: g) (auto simp: add_to_level_eq jobsAtLevel_set)

lemma keys_fold_levels:
  "distinct (map fst g) \<Longrightarrow>
     distinct (map fst (fold (add_to_level lv) ns g)) \<and>
     set (map_keys (fold (add_to_level lv) ns g)) = set (map_keys g) \<union> levelOf lv ` set ns"
  by (induction ns arbitrary: g) (auto simp: add_to_level_eq jmap.inv_set jmap.keys_set)

lemma jobsAtLevel_groups [simp]: "jobsAtLevel (groups jm cur) l = row jm cur l"
  by (simp add: groups_def levelGroups_def jobsAtLevel_fold row_def)

lemma set_levels: "set (levels jm cur) = levelOf (jobLevels jm cur) ` set (relatedJobs jm cur)"
  using keys_fold_levels [of "[]"]
  by (simp add: levels_def sortedLevels_def groups_def levelGroups_def jmap.keys_empty)

lemma distinct_levels: "distinct (levels jm cur)"
  using keys_fold_levels [of "[]"]
  by (simp add: levels_def sortedLevels_def groups_def levelGroups_def map_keys_def)

lemma levels_nonempty: "levels jm cur \<noteq> []"
proof -
  have "cur \<in> set (relatedJobs jm cur)" by (simp add: set_relatedJobs)
  then have "set (levels jm cur) \<noteq> {}" unfolding set_levels by auto
  then show ?thesis by auto
qed

lemma minLevel_le: "l \<in> set (levels jm cur) \<Longrightarrow> minLevel (levels jm cur) \<le> l"
proof -
  assume l: "l \<in> set (levels jm cur)"
  have "sorted_wrt (\<lambda>a b. num_cmp a b \<le> 0) (levels jm cur)"
    unfolding levels_def sortedLevels_def by (rule numc.sorted_js_sort)
  with l show ?thesis
    by (cases "levels jm cur") (auto simp: minLevel_def num_cmp_def)
qed

lemma row_mem: "n \<in> set (row jm cur l) \<longleftrightarrow> n \<in> set (relatedJobs jm cur) \<and> levelOf (jobLevels jm cur) n = l"
  by (auto simp: row_def)

lemma distinct_row [simp]: "distinct (row jm cur l)"
  by (simp add: row_def)

section \<open>Slots\<close>

definition width :: "job_map \<Rightarrow> string \<Rightarrow> rat" where
  "width jm cur = maxWidth (groups jm cur) (levels jm cur)"

definition slotX :: "job_map \<Rightarrow> string \<Rightarrow> int \<Rightarrow> nat \<Rightarrow> rat" where
  "slotX jm cur l i =
     (width jm cur - levelWidth (row jm cur l)) / 2 + of_nat i * (NODE_WIDTH + NODE_SPACING)"

definition slotY :: "job_map \<Rightarrow> string \<Rightarrow> int \<Rightarrow> rat" where
  "slotY jm cur l = of_int (l - minLevel (levels jm cur)) * LEVEL_HEIGHT + 30"

definition row_slots :: "job_map \<Rightarrow> string \<Rightarrow> int \<Rightarrow> (string \<times> rat \<times> rat) list" where
  "row_slots jm cur l =
     map (\<lambda>(i, n). (n, slotX jm cur l i, slotY jm cur l)) (enumerate 0 (row jm cur l))"

definition slots :: "job_map \<Rightarrow> string \<Rightarrow> (string \<times> rat \<times> rat) list" where
  "slots jm cur = concat (map (row_slots jm cur) (levels jm cur))"

definition slot_node :: "job_map \<Rightarrow> string \<Rightarrow> string \<times> rat \<times> rat \<Rightarrow> dep_node list" where
  "slot_node jm cur = (\<lambda>(n, x, y).
     case map_get jm n of
       None \<Rightarrow> []
     | Some j \<Rightarrow> [mkNode cur (minLevel (levels jm cur)) (levelOf (jobLevels jm cur) n) x y n j])"

lemma place_row:
  "fold (place_job jm cur lm l sx y) (enumerate k ns) (ps, nds) =
     (fold (\<lambda>(i, n). map_set n (sx + of_nat i * (NODE_WIDTH + NODE_SPACING), y)) (enumerate k ns) ps,
      nds @ concat (map (\<lambda>(i, n). case map_get jm n of None \<Rightarrow> []
        | Some j \<Rightarrow> [mkNode cur lm l (sx + of_nat i * (NODE_WIDTH + NODE_SPACING)) y n j])
          (enumerate k ns)))"
  by (induction ns arbitrary: k ps nds)
    (auto simp: place_job_def Let_def split: option.splits)

lemma place_level_slots:
  "place_level jm cur (groups jm cur) (width jm cur) (minLevel (levels jm cur)) l (ps, nds) =
     (fold (\<lambda>(n, p). map_set n p) (row_slots jm cur l) ps,
      nds @ concat (map (slot_node jm cur) (row_slots jm cur l)))"
proof -
  have nodes: "(case map_get jm n of None \<Rightarrow> []
      | Some j \<Rightarrow> [mkNode cur (minLevel (levels jm cur)) l (slotX jm cur l i) (slotY jm cur l) n j]) =
      slot_node jm cur (n, slotX jm cur l i, slotY jm cur l)"
    if "(i, n) \<in> set (enumerate 0 (row jm cur l))" for i n
  proof -
    have "n \<in> set (row jm cur l)" using that by (auto simp: in_set_enumerate_eq)
    then show ?thesis by (simp add: row_mem slot_node_def split: option.splits)
  qed
  have mapped: "map (\<lambda>(i, n). case map_get jm n of None \<Rightarrow> []
      | Some j \<Rightarrow> [mkNode cur (minLevel (levels jm cur)) l (slotX jm cur l i) (slotY jm cur l) n j])
      (enumerate 0 (row jm cur l)) = map (slot_node jm cur) (row_slots jm cur l)"
    by (auto simp: row_slots_def nodes intro!: map_cong)
  show ?thesis
    unfolding place_level_def Let_def jobsAtLevel_groups place_row
      slotX_def [symmetric] slotY_def [symmetric] mapped
    by (simp add: row_slots_def fold_map comp_def case_prod_unfold)
qed

lemma place_levels_slots:
  "fold (place_level jm cur (groups jm cur) (width jm cur) (minLevel (levels jm cur))) ls (ps, nds) =
     (fold (\<lambda>(n, p). map_set n p) (concat (map (row_slots jm cur) ls)) ps,
      nds @ concat (map (slot_node jm cur) (concat (map (row_slots jm cur) ls))))"
  by (induction ls arbitrary: ps nds) (simp_all add: place_level_slots)

theorem place_all_slots:
  "place_all jm cur = (map_new (slots jm cur), concat (map (slot_node jm cur) (slots jm cur)))"
proof -
  have "place_all jm cur =
      fold (place_level jm cur (groups jm cur) (width jm cur) (minLevel (levels jm cur)))
        (levels jm cur) ([], [])"
    by (simp add: place_all_def Let_def groups_def levels_def width_def)
  then show ?thesis by (simp add: place_levels_slots slots_def map_new_def)
qed

section \<open>Facts about the slots\<close>

lemma row_slots_mem:
  "(n, x, y) \<in> set (row_slots jm cur l) \<longleftrightarrow>
     (\<exists>i < length (row jm cur l). n = row jm cur l ! i \<and> x = slotX jm cur l i \<and> y = slotY jm cur l)"
proof -
  have "(i, m) \<in> set (enumerate 0 (row jm cur l)) \<longleftrightarrow> i < length (row jm cur l) \<and> m = row jm cur l ! i"
    for i m by (auto simp: in_set_enumerate_eq)
  then show ?thesis by (auto simp: row_slots_def image_iff Bex_def)
qed

lemma slots_mem:
  "(n, x, y) \<in> set (slots jm cur) \<longleftrightarrow>
     (\<exists>l \<in> set (levels jm cur). \<exists>i < length (row jm cur l).
        n = row jm cur l ! i \<and> x = slotX jm cur l i \<and> y = slotY jm cur l)"
  by (simp add: slots_def row_slots_mem)

lemma map_fst_row_slots: "map fst (row_slots jm cur l) = row jm cur l"
proof -
  have "map fst (row_slots jm cur l) = map snd (enumerate 0 (row jm cur l))"
    by (simp add: row_slots_def case_prod_unfold comp_def)
  then show ?thesis by simp
qed

lemma slot_names: "map fst (slots jm cur) = concat (map (row jm cur) (levels jm cur))"
  by (simp add: slots_def map_concat comp_def map_fst_row_slots)

lemma set_slot_names: "fst ` set (slots jm cur) = set (relatedJobs jm cur)"
proof -
  have "fst ` set (slots jm cur) = set (concat (map (row jm cur) (levels jm cur)))"
    by (metis list.set_map slot_names)
  then show ?thesis by (auto simp: row_mem set_levels)
qed

lemma distinct_slot_names: "distinct (map fst (slots jm cur))"
proof -
  have "distinct (concat (map (row jm cur) ls))" if "distinct ls" for ls
    using that by (induction ls) (auto simp: row_mem)
  then show ?thesis unfolding slot_names using distinct_levels by blast
qed

lemma position_iff: "map_get (map_new (slots jm cur)) n = Some p \<longleftrightarrow> (n, p) \<in> set (slots jm cur)"
proof -
  have "distinct (map fst (rev (slots jm cur)))"
    using distinct_slot_names by (simp add: rev_map [symmetric])
  then show ?thesis by (simp add: map_new_get)
qed

lemma slotE:
  assumes "(n, x, y) \<in> set (slots jm cur)"
  obtains i where "i < length (row jm cur (levelOf (jobLevels jm cur) n))"
    "n = row jm cur (levelOf (jobLevels jm cur) n) ! i"
    "x = slotX jm cur (levelOf (jobLevels jm cur) n) i"
    "y = slotY jm cur (levelOf (jobLevels jm cur) n)"
    "levelOf (jobLevels jm cur) n \<in> set (levels jm cur)"
proof -
  from assms obtain l i where l: "l \<in> set (levels jm cur)" "i < length (row jm cur l)"
      "n = row jm cur l ! i" "x = slotX jm cur l i" "y = slotY jm cur l"
    unfolding slots_mem by blast
  then have "n \<in> set (row jm cur l)" by simp
  then have "levelOf (jobLevels jm cur) n = l" by (simp add: row_mem)
  with l that [of i] show ?thesis by simp
qed

lemma int_gap: "i \<noteq> j \<Longrightarrow> 1 \<le> \<bar>(of_int i :: rat) - of_int j\<bar>"
proof -
  assume "i \<noteq> j"
  then have "(of_int 1 :: rat) \<le> of_int \<bar>i - j\<bar>" by (simp only: of_int_le_iff)
  then show ?thesis by simp
qed

lemma gap_scaled: "i \<noteq> j \<Longrightarrow> d = ((of_int i :: rat) - of_int j) * k \<Longrightarrow> 0 \<le> k \<Longrightarrow> k \<le> \<bar>d\<bar>"
  using int_gap [of i j] mult_right_mono [of 1 "\<bar>(of_int i :: rat) - of_int j\<bar>" k]
  by (simp add: abs_mult)

lemma slots_disjoint:
  assumes "(a, xa, ya) \<in> set (slots jm cur)" and "(b, xb, yb) \<in> set (slots jm cur)" and "a \<noteq> b"
  shows "NODE_WIDTH + NODE_SPACING \<le> \<bar>xa - xb\<bar> \<or> LEVEL_HEIGHT \<le> \<bar>ya - yb\<bar>"
proof -
  let ?l = "levelOf (jobLevels jm cur)"
  obtain i where i: "a = row jm cur (?l a) ! i" "xa = slotX jm cur (?l a) i" "ya = slotY jm cur (?l a)"
    using assms(1) by (rule slotE)
  obtain j where j: "b = row jm cur (?l b) ! j" "xb = slotX jm cur (?l b) j" "yb = slotY jm cur (?l b)"
    using assms(2) by (rule slotE)
  show ?thesis
  proof (cases "?l a = ?l b")
    case True
    then have "int i \<noteq> int j" using i(1) j(1) assms(3) by auto
    moreover have "xa - xb = (of_int (int i) - of_int (int j)) * (NODE_WIDTH + NODE_SPACING)"
      using i(2) j(2) True by (simp add: slotX_def algebra_simps)
    ultimately have "NODE_WIDTH + NODE_SPACING \<le> \<bar>xa - xb\<bar>"
      by (rule gap_scaled) (simp add: node_sizes)
    then show ?thesis ..
  next
    case False
    moreover have "ya - yb = (of_int (?l a) - of_int (?l b)) * LEVEL_HEIGHT"
      using i(3) j(3) by (simp add: slotY_def algebra_simps)
    ultimately have "LEVEL_HEIGHT \<le> \<bar>ya - yb\<bar>" by (rule gap_scaled) (simp add: node_sizes)
    then show ?thesis ..
  qed
qed

lemma fold_max_acc: "w \<le> fold (\<lambda>l w. max w (f l)) ls (w :: 'a :: linorder)"
proof (induction ls arbitrary: w)
  case (Cons l ls)
  from Cons.IH [of "max w (f l)"] show ?case by simp
qed simp

lemma fold_max_ge: "l \<in> set ls \<Longrightarrow> f l \<le> fold (\<lambda>l w. max w (f l)) ls (w :: 'a :: linorder)"
proof (induction ls arbitrary: w)
  case (Cons k ls)
  show ?case
  proof (cases "l = k")
    case True
    with fold_max_acc [of "max w (f k)" f ls] show ?thesis by simp
  next
    case False
    with Cons show ?thesis by simp
  qed
qed simp

lemma row_width_le: "l \<in> set (levels jm cur) \<Longrightarrow> levelWidth (row jm cur l) \<le> width jm cur"
  using fold_max_ge [of l "levels jm cur" "\<lambda>l. levelWidth (jobsAtLevel (groups jm cur) l)" 0]
  by (simp add: width_def maxWidth_def)

lemma slots_bounds:
  assumes "(n, x, y) \<in> set (slots jm cur)"
  shows "0 \<le> x" and "x + NODE_WIDTH \<le> width jm cur" and "30 \<le> y"
proof -
  let ?l = "levelOf (jobLevels jm cur) n"
  obtain i where i: "i < length (row jm cur ?l)" "x = slotX jm cur ?l i" "y = slotY jm cur ?l"
      "?l \<in> set (levels jm cur)"
    using assms by (rule slotE)
  have w: "levelWidth (row jm cur ?l) \<le> width jm cur" using i(4) by (rule row_width_le)
  then show "0 \<le> x" using i(2) by (simp add: slotX_def node_sizes)
  have "(of_nat (Suc i) :: rat) \<le> of_nat (length (row jm cur ?l))"
    using i(1) by (simp only: of_nat_le_iff)
  then have "of_nat i * 180 + 180 \<le> of_nat (length (row jm cur ?l)) * (180 :: rat)" by simp
  then have "of_nat i * 180 + 160 \<le> levelWidth (row jm cur ?l)"
    by (simp add: levelWidth_def node_sizes)
  with w i(2) show "x + NODE_WIDTH \<le> width jm cur" by (simp add: slotX_def node_sizes field_simps)
  have "0 \<le> (of_int (?l - minLevel (levels jm cur)) :: rat)"
    using minLevel_le [OF i(4)] by simp
  then show "30 \<le> y" using i(3) by (simp add: slotY_def node_sizes)
qed

section \<open>The graph\<close>

abbreviation nodes_of :: "job \<Rightarrow> job list \<Rightarrow> dep_node list" where
  "nodes_of currentJob allJobs \<equiv> fst (buildDependencyGraph currentJob allJobs)"

abbreviation edges_of :: "job \<Rightarrow> job list \<Rightarrow> dep_edge list" where
  "edges_of currentJob allJobs \<equiv> snd (buildDependencyGraph currentJob allJobs)"

lemma nodes_of_slots:
  "nodes_of c js = concat (map (slot_node (jobMapOf js) (job_name c)) (slots (jobMapOf js) (job_name c)))"
  by (simp add: buildDependencyGraph_def Let_def place_all_slots)

lemma node_cases:
  assumes "nd \<in> set (nodes_of c js)"
  obtains j where
    "(node_id nd, node_x nd, node_y nd) \<in> set (slots (jobMapOf js) (job_name c))"
    "map_get (jobMapOf js) (node_id nd) = Some j"
    "nd = mkNode (job_name c) (minLevel (levels (jobMapOf js) (job_name c)))
       (levelOf (jobLevels (jobMapOf js) (job_name c)) (node_id nd)) (node_x nd) (node_y nd) (node_id nd) j"
proof -
  let ?jm = "jobMapOf js" and ?cur = "job_name c"
  from assms obtain n x y where slot: "(n, x, y) \<in> set (slots ?jm ?cur)"
    and nd: "nd \<in> set (slot_node ?jm ?cur (n, x, y))"
    unfolding nodes_of_slots by auto
  from nd obtain j where j: "map_get ?jm n = Some j"
    and "nd = mkNode ?cur (minLevel (levels ?jm ?cur)) (levelOf (jobLevels ?jm ?cur) n) x y n j"
    by (cases "map_get ?jm n") (simp_all add: slot_node_def)
  then show ?thesis using slot that [of j] by (simp add: mkNode_def)
qed

lemma node_of_slot:
  assumes "(n, x, y) \<in> set (slots (jobMapOf js) (job_name c))" and "map_has (jobMapOf js) n"
  shows "\<exists>nd \<in> set (nodes_of c js). node_id nd = n \<and> node_x nd = x \<and> node_y nd = y"
proof -
  obtain j where j: "map_get (jobMapOf js) n = Some j" using assms(2) by (auto simp: map_has_get)
  let ?nd = "mkNode (job_name c) (minLevel (levels (jobMapOf js) (job_name c)))
    (levelOf (jobLevels (jobMapOf js) (job_name c)) n) x y n j"
  have "?nd \<in> set (slot_node (jobMapOf js) (job_name c) (n, x, y))" by (simp add: slot_node_def j)
  then have "?nd \<in> set (nodes_of c js)" unfolding nodes_of_slots using assms(1) by fastforce
  then show ?thesis by (rule rev_bexI) (simp add: mkNode_def)
qed

lemma slot_node_ids:
  "map node_id (slot_node jm cur s) = (if map_has jm (fst s) then [fst s] else [])"
  by (auto simp: slot_node_def mkNode_def map_has_get split: prod.splits option.splits)

lemma node_ids:
  "map node_id (nodes_of c js) =
     filter (map_has (jobMapOf js)) (map fst (slots (jobMapOf js) (job_name c)))"
proof -
  have "map node_id (concat (map (slot_node jm cur) ss)) = filter (map_has jm) (map fst ss)" for jm cur ss
    by (induction ss) (auto simp: slot_node_ids)
  then show ?thesis by (simp add: nodes_of_slots)
qed

definition edge_of :: "job_map \<Rightarrow> string \<Rightarrow> string \<Rightarrow> dep_edge list" where
  "edge_of jm cur x = add_edge jm (relatedJobs jm cur) (map_new (slots jm cur)) x []"

lemma add_edge_append: "add_edge jm rel ps x es = es @ add_edge jm rel ps x []"
  by (auto simp: add_edge_def split: option.splits)

lemma fold_add_edge:
  "fold (add_edge jm rel ps) xs es = es @ concat (map (\<lambda>x. add_edge jm rel ps x []) xs)"
proof (induction xs arbitrary: es)
  case (Cons x xs)
  show ?case by (simp add: Cons.IH [of "add_edge jm rel ps x es"]) (subst add_edge_append, simp)
qed simp

lemma edges_of_concat:
  "edges_of c js =
     concat (map (edge_of (jobMapOf js) (job_name c)) (relatedJobs (jobMapOf js) (job_name c)))"
  by (simp add: buildDependencyGraph_def Let_def place_all_slots edge_of_def [abs_def] fold_add_edge)

lemma add_edge_cases:
  assumes "e \<in> set (add_edge jm rel ps x [])"
  obtains j where "map_get jm x = Some j" "parent_job j = Some (edge_from e)" "edge_from e \<noteq> []"
    "edge_from e \<in> set rel" "edge_to e = x"
    "map_get ps (edge_from e) = Some (fromX e, fromY e)" "map_get ps x = Some (toX e, toY e)"
proof -
  have "map_get jm x \<noteq> None" by (rule notI) (use assms in \<open>simp add: add_edge_def\<close>)
  then obtain j where j: "map_get jm x = Some j" by blast
  have "parent_job j \<noteq> None" by (rule notI) (use assms j in \<open>simp add: add_edge_def\<close>)
  then obtain p where p: "parent_job j = Some p" by blast
  have rel: "p \<noteq> []" by (rule notI) (use assms j p in \<open>simp add: add_edge_def\<close>)
  have "p \<in> set rel" by (rule ccontr) (use assms j p in \<open>simp add: add_edge_def\<close>)
  note rel = rel this
  have "map_get ps p \<noteq> None" by (rule notI) (use assms j p rel in \<open>simp add: add_edge_def\<close>)
  then obtain fx fy where f: "map_get ps p = Some (fx, fy)" by fastforce
  have "map_get ps x \<noteq> None" by (rule notI) (use assms j p rel f in \<open>simp add: add_edge_def\<close>)
  then obtain tx ty where t: "map_get ps x = Some (tx, ty)" by fastforce
  have "e = \<lparr>edge_from = p, edge_to = x, fromX = fx, fromY = fy, toX = tx, toY = ty\<rparr>"
    using assms j p rel f t by (simp add: add_edge_def)
  then show ?thesis using that [of j] j p rel f t by simp
qed

lemma related_position:
  "n \<in> set (relatedJobs jm cur) \<Longrightarrow> \<exists>x y. map_get (map_new (slots jm cur)) n = Some (x, y)"
  using set_slot_names [of jm cur] position_iff [of jm cur n] by force

lemma related_has:
  assumes "n \<in> set (relatedJobs jm cur)" and "m \<in> set (relatedJobs jm cur)" and "map_has jm m"
  shows "map_has jm n"
proof -
  have up: "map_has jm b" if "(parent_of jm)\<^sup>+\<^sup>+ a b" for a b
    using that by (cases rule: tranclp.cases) (auto simp: parent_of_def)
  have down: "map_has jm b" if "(child_of jm)\<^sup>+\<^sup>+ a b" for a b
    using that by (cases rule: tranclp.cases) (auto simp: child_of_def)
  have "map_has jm cur"
    if "(parent_of jm)\<^sup>+\<^sup>+ cur m \<or> (child_of jm)\<^sup>+\<^sup>+ cur m"
    using that by (auto dest!: tranclpD simp: parent_of_def child_of_def map_has_get)
  with assms up down show ?thesis by (auto simp: set_relatedJobs)
qed

lemma edge_mem:
  "e \<in> set (edges_of c js) \<longleftrightarrow>
     edge_to e \<in> set (relatedJobs (jobMapOf js) (job_name c)) \<and>
     edge_from e \<in> set (relatedJobs (jobMapOf js) (job_name c)) \<and>
     parent_of (jobMapOf js) (edge_to e) (edge_from e) \<and>
     (edge_from e, fromX e, fromY e) \<in> set (slots (jobMapOf js) (job_name c)) \<and>
     (edge_to e, toX e, toY e) \<in> set (slots (jobMapOf js) (job_name c))"
  (is "?L \<longleftrightarrow> ?R")
proof
  let ?jm = "jobMapOf js" and ?cur = "job_name c"
  assume ?L
  then obtain x where x: "x \<in> set (relatedJobs ?jm ?cur)" and e: "e \<in> set (edge_of ?jm ?cur x)"
    unfolding edges_of_concat by auto
  from e [unfolded edge_of_def] show ?R
  proof (cases rule: add_edge_cases)
    case (1 j)
    have "map_has ?jm (edge_from e)" using related_has [OF 1(4) x] 1(1) by (simp add: map_has_get)
    with 1 x show ?thesis by (simp add: parent_of_def position_iff)
  qed
next
  let ?jm = "jobMapOf js" and ?cur = "job_name c"
  assume R: ?R
  then obtain j where "map_get ?jm (edge_to e) = Some j" "parent_job j = Some (edge_from e)"
      "edge_from e \<noteq> []"
    by (auto simp: parent_of_def)
  with R have "edge_of ?jm ?cur (edge_to e) = [e]"
    by (simp add: edge_of_def add_edge_def position_iff [symmetric])
  then have "e \<in> set (edge_of ?jm ?cur (edge_to e))" by simp
  with R have "\<exists>x \<in> set (relatedJobs ?jm ?cur). e \<in> set (edge_of ?jm ?cur x)" by blast
  then show ?L unfolding edges_of_concat by simp
qed

lemma jobMapOf_has: "map_has (jobMapOf js) n \<longleftrightarrow> n \<in> job_name ` set js"
proof -
  have "map_has (jobMapOf js) n \<longleftrightarrow> n \<in> fst ` set (rev (map (\<lambda>j. (job_name j, j)) js))"
    by (simp add: jobMapOf_def map_has_get map_new_get dom_map_of_fst [simplified])
  then show ?thesis by (simp add: image_image)
qed

lemma node_id_set: "node_id ` set (nodes_of c js) =
    {n \<in> set (relatedJobs (jobMapOf js) (job_name c)). map_has (jobMapOf js) n}"
proof -
  have "node_id ` set (nodes_of c js) = set (map node_id (nodes_of c js))" by simp
  also have "\<dots> = {n \<in> fst ` set (slots (jobMapOf js) (job_name c)). map_has (jobMapOf js) n}"
    unfolding node_ids by auto
  finally show ?thesis unfolding set_slot_names .
qed

lemma distinct_node_ids: "distinct (map node_id (nodes_of c js))"
  unfolding node_ids by (intro distinct_filter distinct_slot_names)

section \<open>Properties\<close>

lemma parent_of_has: "parent_of jm x p \<Longrightarrow> map_has jm x \<and> map_has jm p"
  by (auto simp: parent_of_def map_has_get)

lemma edge_ends:
  assumes "e \<in> set (edges_of c js)"
  obtains a b where "a \<in> set (nodes_of c js)" "node_id a = edge_from e" "node_x a = fromX e" "node_y a = fromY e"
    and "b \<in> set (nodes_of c js)" "node_id b = edge_to e" "node_x b = toX e" "node_y b = toY e"
proof -
  let ?jm = "jobMapOf js" and ?cur = "job_name c"
  from assms have e: "parent_of ?jm (edge_to e) (edge_from e)"
      "(edge_from e, fromX e, fromY e) \<in> set (slots ?jm ?cur)"
      "(edge_to e, toX e, toY e) \<in> set (slots ?jm ?cur)"
    by (simp_all add: edge_mem)
  from node_of_slot [OF e(2)] node_of_slot [OF e(3)] parent_of_has [OF e(1)] that show ?thesis by blast
qed

text \<open>
  C1: the diagram shows exactly the loaded jobs that are the current job, a transitive parent of it or a
  transitive dependent of it, each of them once. This holds for every job list, with cycles,
  dangling references and duplicates included, so it is also the termination of the two recursive walks.
\<close>

theorem graph_nodes_exact:
  "distinct (map node_id (nodes_of c js)) \<and>
   node_id ` set (nodes_of c js) =
     {n. n \<in> job_name ` set js \<and>
         (n = job_name c \<or> (parent_of (jobMapOf js))\<^sup>+\<^sup>+ (job_name c) n \<or>
          (child_of (jobMapOf js))\<^sup>+\<^sup>+ (job_name c) n)}"
  using distinct_node_ids by (auto simp: node_id_set set_relatedJobs jobMapOf_has)

text \<open>
  C2: two different nodes never overlap: they are at least a node width plus the spacing apart
  horizontally, or a whole level apart vertically.
\<close>

theorem graph_no_overlap:
  "pairwise (\<lambda>a b. NODE_WIDTH + NODE_SPACING \<le> \<bar>node_x a - node_x b\<bar> \<or>
                   LEVEL_HEIGHT \<le> \<bar>node_y a - node_y b\<bar>)
     (set (nodes_of c js))"
proof (rule pairwiseI)
  fix a b assume ab: "a \<in> set (nodes_of c js)" "b \<in> set (nodes_of c js)" "a \<noteq> b"
  have "node_id a \<noteq> node_id b"
    using ab distinct_node_ids [of c js] by (auto simp: distinct_map inj_on_def)
  moreover obtain "(node_id a, node_x a, node_y a) \<in> set (slots (jobMapOf js) (job_name c))"
    using ab(1) by (rule node_cases)
  moreover obtain "(node_id b, node_x b, node_y b) \<in> set (slots (jobMapOf js) (job_name c))"
    using ab(2) by (rule node_cases)
  ultimately show "NODE_WIDTH + NODE_SPACING \<le> \<bar>node_x a - node_x b\<bar> \<or>
      LEVEL_HEIGHT \<le> \<bar>node_y a - node_y b\<bar>"
    by (intro slots_disjoint)
qed

text \<open>
  C3: there is an arrow for a pair of shown jobs exactly when the second names the first as its
  parent, and both ends of every arrow carry the coordinates of the nodes they name.
\<close>

theorem graph_edges_exact:
  "(\<lambda>e. (edge_from e, edge_to e)) ` set (edges_of c js) =
     {(p, x). p \<in> node_id ` set (nodes_of c js) \<and> x \<in> node_id ` set (nodes_of c js) \<and>
              parent_of (jobMapOf js) x p} \<and>
   list_all (\<lambda>e. \<exists>a \<in> set (nodes_of c js). \<exists>b \<in> set (nodes_of c js).
       (node_id a, node_x a, node_y a) = (edge_from e, fromX e, fromY e) \<and>
       (node_id b, node_x b, node_y b) = (edge_to e, toX e, toY e)) (edges_of c js)"
proof (intro conjI)
  let ?jm = "jobMapOf js" and ?cur = "job_name c"
  have drawn: "(p, x) \<in> (\<lambda>e. (edge_from e, edge_to e)) ` set (edges_of c js)"
    if rel: "p \<in> set (relatedJobs ?jm ?cur)" "x \<in> set (relatedJobs ?jm ?cur)" "parent_of ?jm x p" for p x
  proof -
    obtain fx fy tx ty where "(p, fx, fy) \<in> set (slots ?jm ?cur)" "(x, tx, ty) \<in> set (slots ?jm ?cur)"
      using related_position [OF rel(1)] related_position [OF rel(2)] position_iff by blast
    with rel have "\<lparr>edge_from = p, edge_to = x, fromX = fx, fromY = fy, toX = tx, toY = ty\<rparr>
        \<in> set (edges_of c js)" by (simp add: edge_mem)
    then show ?thesis by (rule rev_image_eqI) simp
  qed
  show "(\<lambda>e. (edge_from e, edge_to e)) ` set (edges_of c js) =
     {(p, x). p \<in> node_id ` set (nodes_of c js) \<and> x \<in> node_id ` set (nodes_of c js) \<and> parent_of ?jm x p}"
    unfolding node_id_set using drawn parent_of_has by (auto simp: edge_mem)
  show "list_all (\<lambda>e. \<exists>a \<in> set (nodes_of c js). \<exists>b \<in> set (nodes_of c js).
       (node_id a, node_x a, node_y a) = (edge_from e, fromX e, fromY e) \<and>
       (node_id b, node_x b, node_y b) = (edge_to e, toX e, toY e)) (edges_of c js)"
    unfolding list_all_iff by (metis edge_ends)
qed

text \<open>
  C4: when the loaded jobs form a forest, every arrow goes down by exactly one level: the child is
  drawn \<open>LEVEL_HEIGHT\<close> below its parent.
\<close>

theorem graph_edges_descend:
  assumes "job_forest (jobMapOf js)"
  shows "list_all (\<lambda>e. toY e = fromY e + LEVEL_HEIGHT) (edges_of c js)"
  unfolding list_all_iff
proof
  let ?jm = "jobMapOf js" and ?cur = "job_name c"
  let ?l = "levelOf (jobLevels ?jm ?cur)"
  fix e assume "e \<in> set (edges_of c js)"
  then have rel: "edge_to e \<in> set (relatedJobs ?jm ?cur)" "edge_from e \<in> set (relatedJobs ?jm ?cur)"
      "parent_of ?jm (edge_to e) (edge_from e)"
    and from_slot: "(edge_from e, fromX e, fromY e) \<in> set (slots ?jm ?cur)"
    and to_slot: "(edge_to e, toX e, toY e) \<in> set (slots ?jm ?cur)"
    by (simp_all add: edge_mem)
  have "?l (edge_to e) = ?l (edge_from e) + 1" using forest_level_step [OF assms] rel by blast
  moreover obtain "fromY e = slotY ?jm ?cur (?l (edge_from e))" using from_slot by (rule slotE)
  moreover obtain "toY e = slotY ?jm ?cur (?l (edge_to e))" using to_slot by (rule slotE)
  ultimately show "toY e = fromY e + LEVEL_HEIGHT" by (simp add: slotY_def algebra_simps)
qed

text \<open>Two jobs, the second one dependent on the first.\<close>

definition job_extract :: job where
  "job_extract = \<lparr>job_id = ''extract'', job_name = ''extract'', displayname = None, parent_job = None,
     dependent_jobs = Some [''load''], job_status = Some ''success''\<rparr>"

definition job_load :: job where
  "job_load = \<lparr>job_id = ''load'', job_name = ''load'', displayname = Some ''Load'',
     parent_job = Some ''extract'', dependent_jobs = None, job_status = None\<rparr>"

lemma extract_load_map: "jobMapOf [job_extract, job_load] = [(''extract'', job_extract), (''load'', job_load)]"
  by (simp add: jobMapOf_def map_new_def map_set_def job_extract_def job_load_def)

lemma extract_load_forest: "job_forest (jobMapOf [job_extract, job_load])"
proof -
  let ?jm = "jobMapOf [job_extract, job_load]"
  have par: "parent_of ?jm a p \<longleftrightarrow> a = ''load'' \<and> p = ''extract''" for a p
    unfolding extract_load_map parent_of_def map_get_def map_has_def
    by (auto simp: job_extract_def job_load_def split: if_splits)
  have chi: "child_of ?jm a c \<longleftrightarrow> a = ''extract'' \<and> c = ''load''" for a c
    unfolding extract_load_map child_of_def map_get_def map_has_def
    by (auto simp: job_extract_def job_load_def split: if_splits)
  have "\<not> (parent_of ?jm)\<^sup>+\<^sup>+ a a" for a
    by (rule acyclic_by_rank [of _ "\<lambda>n. if n = ''load'' then 1 else 0"]) (simp add: par)
  then show ?thesis by (auto simp: job_forest_def par chi)
qed

theorem graph_edges_descend_witness:
  "job_forest (jobMapOf [job_extract, job_load]) \<and> edges_of job_extract [job_extract, job_load] \<noteq> [] \<and>
   list_all (\<lambda>e. toY e = fromY e + LEVEL_HEIGHT) (edges_of job_extract [job_extract, job_load])"
proof (intro conjI)
  show "list_all (\<lambda>e. toY e = fromY e + LEVEL_HEIGHT) (edges_of job_extract [job_extract, job_load])"
    using extract_load_forest by (rule graph_edges_descend)
  show "edges_of job_extract [job_extract, job_load] \<noteq> []" by code_simp
qed (rule extract_load_forest)

end
