(* ===== verification/Loading.thy ===== *)
theory Loading
  imports JsCore
begin

text \<open>
  Components that load their data in an effect: \<open>JobDependencyDiagram\<close> and \<open>ExecutionStatsChart\<close>
  keep the data, a loading flag and an error message, and run an asynchronous function of the shape
  \<open>try { setLoading(true); setData(await ...); setError(null) } catch { setError(message) } finally {
  setLoading(false) }\<close>. An effect may run again before an earlier one has settled; the answers
  that are still under way are counted.

  The contract of such a function is the locale \<open>loading_effect\<close>; the components interpret it.
\<close>

record 'a loader =
  ld_data :: 'a
  ld_loading :: bool
  ld_error :: "string option"
  ld_pending :: nat

datatype 'r load_event = RunEffect | Answer 'r

locale loading_effect =
  fixes step :: "'a loader \<Rightarrow> 'r load_event \<Rightarrow> 'a loader"
    and start :: "'a loader"
    and decode :: "'r \<Rightarrow> 'a option"
    and message :: string
  assumes start_state: "ld_loading start" "ld_error start = None" "ld_pending start = 0"
    and run_effect: "step s RunEffect = s\<lparr>ld_loading := True, ld_pending := Suc (ld_pending s)\<rparr>"
    and no_answer: "ld_pending s = 0 \<Longrightarrow> step s (Answer r) = s"
    and good_answer: "\<lbrakk>ld_pending s = Suc n; decode r = Some d\<rbrakk> \<Longrightarrow>
      step s (Answer r) = s\<lparr>ld_data := d, ld_loading := False, ld_error := None, ld_pending := n\<rparr>"
    and bad_answer: "\<lbrakk>ld_pending s = Suc n; decode r = None\<rbrakk> \<Longrightarrow>
      step s (Answer r) = s\<lparr>ld_loading := False, ld_error := Some message, ld_pending := n\<rparr>"
begin

abbreviation run :: "'r load_event list \<Rightarrow> 'a loader" where
  "run es \<equiv> run_events step start es"

text \<open>What the state says about the answers so far; \<open>last\<close> is the last one that was awaited.\<close>

definition settled_with :: "'a loader \<Rightarrow> 'r \<Rightarrow> bool" where
  "settled_with s r \<longleftrightarrow> \<not> ld_loading s \<and>
     (case decode r of Some d \<Rightarrow> ld_data s = d \<and> ld_error s = None | None \<Rightarrow> ld_error s = Some message)"

lemma answer_settles: "ld_pending s \<noteq> 0 \<Longrightarrow> settled_with (step s (Answer r)) r"
  by (cases "ld_pending s"; cases "decode r") (auto simp: good_answer bad_answer settled_with_def)

lemma run_snoc: "run (es @ [e]) = step (run es) e"
  by simp

text \<open>The flag is set until the first answer; the message is the component's own.\<close>

lemma error_message: "ld_error (run es) \<in> {None, Some message}"
proof (induction es rule: rev_induct)
  case Nil
  then show ?case by (simp add: start_state)
next
  case (snoc e es)
  show ?case
  proof (cases e)
    case RunEffect
    with snoc show ?thesis by (simp add: run_effect)
  next
    case (Answer r)
    with snoc show ?thesis
      by (cases "ld_pending (run es)"; cases "decode r") (auto simp: no_answer good_answer bad_answer)
  qed
qed

text \<open>Each effect run is answered at most once.\<close>

lemma pending_count:
  "ld_pending (run es) \<le> length (filter (\<lambda>e. e = RunEffect) es)"
proof (induction es rule: rev_induct)
  case Nil
  then show ?case by (simp add: start_state)
next
  case (snoc e es)
  show ?case
  proof (cases e)
    case RunEffect
    with snoc show ?thesis by (simp add: run_effect)
  next
    case (Answer r)
    with snoc show ?thesis
      by (cases "ld_pending (run es)"; cases "decode r") (auto simp: no_answer good_answer bad_answer)
  qed
qed

text \<open>Nothing is under way and an effect has run: the component is not loading any more.\<close>

lemma idle_not_loading:
  "ld_pending (run es) = 0 \<Longrightarrow> RunEffect \<in> set es \<Longrightarrow> \<not> ld_loading (run es)"
proof (induction es rule: rev_induct)
  case Nil
  then show ?case by simp
next
  case (snoc e es)
  show ?case
  proof (cases e)
    case RunEffect
    with snoc.prems show ?thesis by (simp add: run_effect)
  next
    case (Answer r)
    show ?thesis
    proof (cases "ld_pending (run es)")
      case 0
      with snoc Answer show ?thesis by (simp add: no_answer)
    next
      case (Suc n)
      then have "settled_with (step (run es) (Answer r)) r" by (intro answer_settles) simp
      then show ?thesis by (simp add: Answer settled_with_def)
    qed
  qed
qed

text \<open>The first load: an effect run and its answer.\<close>

lemma first_load:
  "run [RunEffect, Answer r] =
     start\<lparr>ld_data := (case decode r of Some d \<Rightarrow> d | None \<Rightarrow> ld_data start), ld_loading := False,
           ld_error := (case decode r of Some d \<Rightarrow> None | None \<Rightarrow> Some message)\<rparr>"
  by (cases "decode r")
    (simp_all add: run_effect start_state good_answer [where n = 0] bad_answer [where n = 0])

end

end
