(* ===== verification/Jsx.thy ===== *)
theory Jsx
  imports JsCore
begin

text \<open>
  React elements and the JavaScript operators that compute them.

  A JSX expression \<open><Tag a={x}>c</Tag>\<close> evaluates to \<open>JElem ''Tag'' [(''a'', x)] [c]\<close>: components of
  third-party packages (react-admin, Material UI, recharts, Docusaurus) and HTML tags are names, as
  the code only builds elements of them. A component of this repository is a definition, and its use
  in JSX is the call of that definition: the trees below are what React has after rendering the
  components of the repository. Fragments are elements with the tag \<open>Fragment\<close>. Handlers passed as
  properties are named functions \<open>JFun\<close>; what a handler does is an operation of the theory of its
  component.
\<close>

section \<open>Operators\<close>

fun js_fields :: "js \<Rightarrow> js_props" where
  "js_fields (JObj ps) = ps"
| "js_fields _ = []"

text \<open>\<open>{...a, ...b}\<close>: the entries of \<open>b\<close> overwrite those of \<open>a\<close> in place or are appended.\<close>

definition js_assign :: "js_props \<Rightarrow> js_props \<Rightarrow> js_props" where
  "js_assign a b = fold (\<lambda>(k, v). map_set k v) b a"

fun js_elems :: "js \<Rightarrow> js list" where
  "js_elems (JArr xs) = xs"
| "js_elems _ = []"

text \<open>\<open>a.join(',')\<close>, which is also how an array is converted to a string.\<close>

fun join_comma :: "string list \<Rightarrow> string" where
  "join_comma [] = []"
| "join_comma [s] = s"
| "join_comma (s # t # ss) = s @ '','' @ join_comma (t # ss)"

fun js_string :: "js \<Rightarrow> string" where
  "js_string JUndef = ''undefined''"
| "js_string JNull = ''null''"
| "js_string (JBool b) = (if b then ''true'' else ''false'')"
| "js_string (JNum n) = show_num n"
| "js_string (JStr s) = s"
| "js_string (JArr xs) = join_comma (map (\<lambda>x. if x = JUndef \<or> x = JNull then [] else js_string x) xs)"
| "js_string (JFun f) = f"
| "js_string _ = ''[object Object]''"

definition js_index :: "js \<Rightarrow> js \<Rightarrow> js" where
  "js_index a k = js_get a (js_string k)"

fun js_typeof :: "js \<Rightarrow> string" where
  "js_typeof JUndef = ''undefined''"
| "js_typeof (JBool _) = ''boolean''"
| "js_typeof (JNum _) = ''number''"
| "js_typeof (JStr _) = ''string''"
| "js_typeof (JFun _) = ''function''"
| "js_typeof _ = ''object''"

text \<open>The tag of \<open><Icon />\<close> when \<open>Icon\<close> is a value, and the key of an element of the repository.\<close>

fun component_name :: "js \<Rightarrow> string" where
  "component_name (JFun f) = f"
| "component_name (JStr s) = s"
| "component_name _ = []"

definition keyed :: "js \<Rightarrow> js \<Rightarrow> js" where
  "keyed k e = JElem ''Keyed'' [(''key'', k)] [e]"

text \<open>
  \<open>Object.keys\<close>: the keys that are array indices come first, in ascending order, then the others in
  the order in which they were added.
\<close>

definition index_of :: "string \<Rightarrow> nat option" where
  "index_of k =
     (if list_all is_digit k \<and> show_nat (digits_val k) = k \<and> digits_val k < 2 ^ 32 - 1
      then Some (digits_val k) else None)"

definition key_order :: "string list \<Rightarrow> string list" where
  "key_order ks =
     map show_nat (sort (List.map_filter index_of ks)) @ filter (\<lambda>k. index_of k = None) ks"

definition object_keys :: "js \<Rightarrow> string list" where
  "object_keys ob = key_order (map fst (js_fields ob))"

text \<open>A nullable string as a value.\<close>

definition js_opt :: "string option \<Rightarrow> js" where
  "js_opt s = (case s of None \<Rightarrow> JNull | Some x \<Rightarrow> JStr x)"

section \<open>Looking into a tree\<close>

type_synonym element = "string \<times> js_props \<times> js list"

text \<open>All the elements of a tree in document order, those in properties before the children.\<close>

fun elements :: "js \<Rightarrow> element list" where
  "elements (JElem t ps cs) =
     (t, ps, cs) # concat (map (\<lambda>(k, v). elements v) ps) @ concat (map elements cs)"
| "elements (JArr xs) = concat (map elements xs)"
| "elements (JObj ps) = concat (map (\<lambda>(k, v). elements v) ps)"
| "elements _ = []"

text \<open>The text a tree displays: strings and numbers among the children.\<close>

fun texts :: "js \<Rightarrow> string list" where
  "texts (JElem t ps cs) = concat (map texts cs)"
| "texts (JArr xs) = concat (map texts xs)"
| "texts (JStr s) = (if s = [] then [] else [s])"
| "texts (JNum n) = [show_num n]"
| "texts _ = []"

definition tagged :: "string \<Rightarrow> js \<Rightarrow> element list" where
  "tagged t e = filter (\<lambda>(t', ps, cs). t' = t) (elements e)"

text \<open>The values of the property \<open>k\<close> on the elements that have it, in document order.\<close>

definition prop_values :: "string \<Rightarrow> element list \<Rightarrow> js list" where
  "prop_values k es = concat (map (\<lambda>(t, ps, cs). case map_of ps k of None \<Rightarrow> [] | Some v \<Rightarrow> [v]) es)"

definition elem_prop :: "string \<Rightarrow> element \<Rightarrow> js" where
  "elem_prop k e = (case e of (t, ps, cs) \<Rightarrow> js_field ps k)"

text \<open>
  React warns unless the elements of a rendered array have distinct keys. \<open>keys_of\<close> lists the keys of
  an array's elements; an element with no key has the key \<open>JUndef\<close>.
\<close>

fun key_of :: "js \<Rightarrow> js" where
  "key_of (JElem t ps cs) = js_field ps ''key''"
| "key_of _ = JUndef"

definition keys_of :: "js \<Rightarrow> js list" where
  "keys_of a = map key_of (js_elems a)"

definition good_keys :: "js \<Rightarrow> bool" where
  "good_keys a = (distinct (keys_of a) \<and> JUndef \<notin> set (keys_of a))"

section \<open>Lemmas\<close>

named_theorems jsx_simps \<open>evaluation of element trees\<close>

lemma js_field_simps [simp, jsx_simps]:
  "js_field [] k = JUndef"
  "js_field ((k', v) # ps) k = (if k = k' then v else js_field ps k)"
  by (simp_all add: js_field_def)

lemma js_assign_Nil [simp]: "js_assign ps [] = ps" and
  js_assign_Cons [simp]: "js_assign ps ((k, v) # qs) = js_assign (map_set k v ps) qs"
  by (simp_all add: js_assign_def)

text \<open>An assignment overrides what it names and keeps the rest: \<open>{...a, ...b}\<close> as a dictionary.\<close>

lemma js_field_assign:
  assumes "distinct (map fst a)"
  shows "js_field (js_assign a b) k = (case map_of (rev b) k of Some v \<Rightarrow> v | None \<Rightarrow> js_field a k)"
proof -
  have "map_get (fold (\<lambda>(k, v). map_set k v) b a) k =
      (case map_of (rev b) k of Some v \<Rightarrow> Some v | None \<Rightarrow> map_get a k)"
    using assms by (rule jmap.get_fold_set)
  then show ?thesis
    by (auto simp: js_field_def js_assign_def map_get_def split: option.splits)
qed

lemma index_of_Some: "index_of k = Some n \<Longrightarrow> k = show_nat n"
  by (auto simp: index_of_def split: if_splits)

lemma map_filter_index: "map show_nat (List.map_filter index_of ks) = filter (\<lambda>k. index_of k \<noteq> None) ks"
  by (induction ks) (auto simp: List.map_filter_simps dest: index_of_Some split: option.splits)

lemma mset_key_order: "mset (key_order ks) = mset ks"
proof -
  have "mset (map show_nat (sort (List.map_filter index_of ks))) = mset (map show_nat (List.map_filter index_of ks))"
    by simp
  also have "\<dots> = mset (filter (\<lambda>k. index_of k \<noteq> None) ks)" by (simp only: map_filter_index)
  finally have "mset (map show_nat (sort (List.map_filter index_of ks))) = mset (filter (\<lambda>k. index_of k \<noteq> None) ks)" .
  then show ?thesis
    using union_filter_mset_complement [of "\<lambda>k. index_of k \<noteq> None" "\<lambda>k. index_of k = None" "mset ks"]
    by (simp add: key_order_def mset_filter fun_eq_iff)
qed

lemma set_key_order [simp]: "set (key_order ks) = set ks"
  by (metis mset_key_order set_mset_mset)

lemma distinct_key_order [simp]: "distinct (key_order ks) = distinct ks"
  by (metis mset_key_order mset_eq_imp_distinct_iff)

lemma set_object_keys: "set (object_keys (JObj ps)) = fst ` set ps"
  by (simp add: object_keys_def)

lemma distinct_object_keys: "distinct (map fst ps) \<Longrightarrow> distinct (object_keys (JObj ps))"
  by (simp add: object_keys_def)

lemma key_of_keyed [simp]: "key_of (keyed k e) = k"
  by (simp add: keyed_def js_field_def)

lemma elements_keyed [simp]:
  "elements (keyed k e) = (''Keyed'', [(''key'', k)], [e]) # elements k @ elements e"
  by (simp add: keyed_def)

lemma filter_concat_map: "filter P (concat (map f xs)) = concat (map (\<lambda>x. filter P (f x)) xs)"
  by (induction xs) simp_all

lemma concat_map_Nil [simp]: "concat (map (\<lambda>x. []) xs) = []"
  by (induction xs) simp_all

lemma map_enumerate_snd: "map (\<lambda>p. f (snd p)) (enumerate n xs) = map f xs"
  by (metis map_map comp_def map_snd_enumerate [of n xs] map_cong)

text \<open>The elements with a tag, computed along the tree.\<close>

lemma tagged_simps [simp, jsx_simps]:
  "tagged t (JElem t' ps cs) =
     (if t' = t then [(t', ps, cs)] else []) @
     concat (map (\<lambda>p. tagged t (snd p)) ps) @ concat (map (tagged t) cs)"
  "tagged t (JArr xs) = concat (map (tagged t) xs)"
  "tagged t (JObj ps) = concat (map (\<lambda>p. tagged t (snd p)) ps)"
  "tagged t JUndef = []" "tagged t JNull = []" "tagged t (JBool b) = []" "tagged t (JNum n) = []"
  "tagged t (JStr s) = []" "tagged t (JFun f) = []"
  by (simp_all add: tagged_def [abs_def] filter_concat_map split_beta)

lemma tagged_keyed [simp, jsx_simps]:
  "t \<noteq> ''Keyed'' \<Longrightarrow> tagged t (keyed k e) = tagged t k @ tagged t e"
  by (simp add: keyed_def)

lemma js_and_bool [simp, jsx_simps]: "js_and (JBool b) e = (if b then e else JBool False)"
  by (simp add: js_and_def)

lemma js_opt_simps [simp, jsx_simps]:
  "truthy (js_opt s) \<longleftrightarrow> str_truthy s"
  "tagged t (js_opt s) = []"
  "texts (js_opt s) = (case s of None \<Rightarrow> [] | Some x \<Rightarrow> if x = [] then [] else [x])"
  by (simp_all add: js_opt_def str_truthy_def split: option.splits)

lemma tagged_js_and [simp, jsx_simps]:
  "tagged t (js_and a b) = (if truthy a then tagged t b else tagged t a)"
  by (simp add: js_and_def)

lemma prop_values_simps [simp, jsx_simps]:
  "prop_values k [] = []"
  "prop_values k ((t, ps, cs) # es) =
     (case map_of ps k of None \<Rightarrow> [] | Some v \<Rightarrow> [v]) @ prop_values k es"
  "prop_values k (es @ fs) = prop_values k es @ prop_values k fs"
  "prop_values k (concat ess) = concat (map (prop_values k) ess)"
proof -
  show "prop_values k (concat ess) = concat (map (prop_values k) ess)"
    by (induction ess) (simp_all add: prop_values_def)
qed (simp_all add: prop_values_def)

lemma prop_values_map [simp, jsx_simps]:
  "prop_values k (map f xs) = concat (map (\<lambda>x. prop_values k [f x]) xs)"
  by (simp add: prop_values_def comp_def)

lemma keys_of_map [simp]: "keys_of (JArr (map f xs)) = map (\<lambda>x. key_of (f x)) xs"
  by (simp add: keys_of_def)

lemma good_keys_map:
  assumes "distinct (map g xs)" and "\<And>x. key_of (f x) = JStr (g x)"
  shows "good_keys (JArr (map f xs))"
proof -
  have eq: "map (\<lambda>x. key_of (f x)) xs = map JStr (map g xs)"
    by (simp add: assms(2))
  show ?thesis
    unfolding good_keys_def keys_of_map eq using assms(1) by (auto simp: distinct_map inj_on_def)
qed

end
