(* ===== verification/DependencyView.thy ===== *)
theory DependencyView
  imports DependencyLayout Loading Jsx
begin

text \<open>
  The dependency diagram on the page of a job, \<open>src/ui/src/jobs/JobDependencyDiagram.tsx\<close>: the effect
  that loads all jobs, the size of the drawing, what a node and an arrow draw, what the panel shows in
  each state, and what a click on a node does.

  \<open>console.error\<close> is left out.
\<close>

section \<open>Loading the jobs\<close>

type_synonym jobs_answer = "unit + job list"

definition diagram_start :: "job list loader" where
  "diagram_start = \<lparr>ld_data = [], ld_loading = True, ld_error = None, ld_pending = 0\<rparr>"

definition diagram_message :: string where
  "diagram_message = ''Failed to load job dependencies''"

fun fetchJobs :: "job list loader \<Rightarrow> jobs_answer load_event \<Rightarrow> job list loader" where
  "fetchJobs s RunEffect = s\<lparr>ld_loading := True, ld_pending := Suc (ld_pending s)\<rparr>"
| "fetchJobs s (Answer res) =
     (case ld_pending s of
        0 \<Rightarrow> s
      | Suc n \<Rightarrow>
          let s = s\<lparr>ld_pending := n\<rparr>;
              s = (case res of
                     Inr jobs \<Rightarrow> s\<lparr>ld_data := jobs, ld_error := None\<rparr>
                   | Inl _ \<Rightarrow> s\<lparr>ld_error := Some diagram_message\<rparr>)
          in s\<lparr>ld_loading := False\<rparr>)"

definition answered_jobs :: "jobs_answer \<Rightarrow> job list option" where
  "answered_jobs res = (case res of Inl _ \<Rightarrow> None | Inr jobs \<Rightarrow> Some jobs)"

text \<open>The query of the effect: the first page of a thousand jobs, ordered by name.\<close>

definition fetchJobs_params :: js where
  "fetchJobs_params =
     JObj [(''pagination'', JObj [(''page'', JNum 1), (''perPage'', JNum 1000)]),
           (''sort'', JObj [(''field'', JStr ''name''), (''order'', JStr ''ASC'')]),
           (''filter'', JObj [])]"

section \<open>The graph of the record and the size of the drawing\<close>

definition diagram_graph :: "job option \<Rightarrow> job list \<Rightarrow> dep_node list \<times> dep_edge list" where
  "diagram_graph record allJobs =
     (case record of
        None \<Rightarrow> ([], [])
      | Some r \<Rightarrow> (if length allJobs = 0 then ([], []) else buildDependencyGraph r allJobs))"

definition svgPadding :: rat where "svgPadding = 40"

definition maxX :: "dep_node list \<Rightarrow> rat" where
  "maxX nodes = fold max (map (\<lambda>n. node_x n + NODE_WIDTH) nodes) 300"

definition maxY :: "dep_node list \<Rightarrow> rat" where
  "maxY nodes = fold max (map (\<lambda>n. node_y n + NODE_HEIGHT + 30) nodes) 150"

definition svgWidth :: "dep_node list \<Rightarrow> rat" where
  "svgWidth nodes = maxX nodes + svgPadding * 2"

definition svgHeight :: "dep_node list \<Rightarrow> rat" where
  "svgHeight nodes = maxY nodes + svgPadding"

section \<open>Nodes and arrows\<close>

definition SectionHeader :: "js \<Rightarrow> js \<Rightarrow> js" where
  "SectionHeader icon title =
     JElem ''Box'' [
         (''sx'', JObj [
           (''display'', JStr ''flex''),
           (''alignItems'', JStr ''center''),
           (''gap'', JNum (15 / 10)),
           (''mb'', JNum 2),
           (''pb'', JNum 1),
           (''borderBottom'', JStr ''1px solid''),
           (''borderColor'', JStr ''divider'')])] [
       JElem ''Box'' [
           (''sx'', JObj [
             (''width'', JNum 36),
             (''height'', JNum 36),
             (''borderRadius'', JNum (15 / 10)),
             (''background'', JStr ''linear-gradient(135deg, #3182ce 0%, #2c5282 100%)''),
             (''display'', JStr ''flex''),
             (''alignItems'', JStr ''center''),
             (''justifyContent'', JStr ''center''),
             (''color'', JStr ''white'')])] [
         JElem (component_name icon) [(''fontSize'', JStr ''small'')] []],
       JElem ''Typography'' [
           (''variant'', JStr ''h6''),
           (''sx'', JObj [(''fontWeight'', JNum 600), (''color'', JStr ''text.primary'')])] [
         title]]"

fun getStatusColor :: "string \<Rightarrow> string" where
  "getStatusColor status =
     (if status = ''success'' then ''#22c55e''
      else if status = ''failed'' then ''#ef4444''
      else if status = ''running'' then ''#f59e0b''
      else ''#94a3b8'')"

definition shownName :: "dep_node \<Rightarrow> string" where
  "shownName node = (if displayName node = [] then node_name node else displayName node)"

definition truncatedName :: "dep_node \<Rightarrow> string" where
  "truncatedName node =
     (if length (shownName node) > 18 then take 15 (shownName node) @ ''...'' else shownName node)"

datatype navigation = Redirect string string string

definition handleNodeClick :: "string \<Rightarrow> navigation" where
  "handleNodeClick jobId = Redirect ''show'' ''jobs'' jobId"

definition node_clicked :: "js \<Rightarrow> dep_node \<Rightarrow> navigation option" where
  "node_clicked onClick node =
     (if truthy onClick \<and> \<not> isCurrent node then Some (handleNodeClick (node_id node)) else None)"

definition DiagramNode :: "js \<Rightarrow> dep_node \<Rightarrow> js" where
  "DiagramNode onClick node =
     JElem ''g'' [
         (''transform'', JStr (''translate('' @ show_num (node_x node) @ '', '' @ show_num (node_y node) @ '')'')),
         (''style'', JObj [
           (''cursor'', if truthy onClick \<and> \<not> isCurrent node then JStr ''pointer'' else JStr ''default'')]),
         (''onClick'', JFun ''node_clicked'')] [
       JElem ''rect'' [
           (''x'', JNum 0),
           (''y'', JNum 0),
           (''width'', JNum NODE_WIDTH),
           (''height'', JNum NODE_HEIGHT),
           (''rx'', JNum 8),
           (''ry'', JNum 8),
           (''fill'', if isCurrent node then JStr ''#1a365d'' else JStr ''#ffffff''),
           (''stroke'', if isCurrent node then JStr ''#1a365d'' else JStr ''#e2e8f0''),
           (''strokeWidth'', if isCurrent node then JNum 3 else JNum 2),
           (''style'', JObj [
             (''filter'', (if isCurrent node then
               JStr ''drop-shadow(0 4px 6px rgba(26, 54, 93, 0.3))''
              else
               JStr ''drop-shadow(0 1px 3px rgba(0, 0, 0, 0.1))''))])] [],
       JElem ''rect'' [
           (''x'', JNum 0),
           (''y'', JNum 0),
           (''width'', JNum 4),
           (''height'', JNum NODE_HEIGHT),
           (''rx'', JNum 8),
           (''fill'', JStr (getStatusColor (node_status node)))] [],
       JElem ''text'' [
           (''x'', JNum (NODE_WIDTH / 2)),
           (''y'', JNum (NODE_HEIGHT / 2 - 8)),
           (''textAnchor'', JStr ''middle''),
           (''fontSize'', JStr ''13''),
           (''fontWeight'', JStr ''600''),
           (''fill'', if isCurrent node then JStr ''#ffffff'' else JStr ''#1a365d'')] [
         JElem ''title'' [] [JStr (shownName node)],
         JStr (truncatedName node)],
       JElem ''text'' [
           (''x'', JNum (NODE_WIDTH / 2)),
           (''y'', JNum (NODE_HEIGHT / 2 + 12)),
           (''textAnchor'', JStr ''middle''),
           (''fontSize'', JStr ''11''),
           (''fill'', if isCurrent node then JStr ''#94a3b8'' else JStr ''#64748b'')] [
         JStr (str_or (Some (node_status node)) ''untriggered'')],
       js_and (JBool (isCurrent node))
         (JElem ''text'' [
              (''x'', JNum (NODE_WIDTH / 2)),
              (''y'', JNum (NODE_HEIGHT + 18)),
              (''textAnchor'', JStr ''middle''),
              (''fontSize'', JStr ''10''),
              (''fontWeight'', JStr ''500''),
              (''fill'', JStr ''#3182ce'')] [
            JStr ''(current job)''])]"

definition edge_path :: "dep_edge \<Rightarrow> string" where
  "edge_path edge =
     (let startX = fromX edge + NODE_WIDTH / 2;
          startY = fromY edge + NODE_HEIGHT;
          endX = toX edge + NODE_WIDTH / 2;
          endY = toY edge;
          midY = (startY + endY) / 2
      in ''M '' @ show_num startX @ '' '' @ show_num startY @ '' C '' @ show_num startX @ '' '' @ show_num midY
           @ '', '' @ show_num endX @ '' '' @ show_num midY @ '', '' @ show_num endX @ '' '' @ show_num endY)"

definition DiagramEdge :: "dep_edge \<Rightarrow> js" where
  "DiagramEdge edge =
     JElem ''g'' [] [
       JElem ''path'' [
           (''d'', JStr (edge_path edge)),
           (''fill'', JStr ''none''),
           (''stroke'', JStr ''#94a3b8''),
           (''strokeWidth'', JNum 2),
           (''markerEnd'', JStr ''url(#arrowhead)'')] []]"

section \<open>The panel\<close>

definition no_dependencies_panel :: "js" where
  "no_dependencies_panel =
     JElem ''Box'' [(''sx'', JObj [(''py'', JNum 4), (''textAlign'', JStr ''center'')])] [
       JElem ''AccountTreeIcon'' [(''sx'', JObj [(''fontSize'', JNum 48), (''color'', JStr ''text.secondary''), (''mb'', JNum 2)])] [],
       JElem ''Typography'' [(''variant'', JStr ''body1''), (''color'', JStr ''text.secondary'')] [
         JStr ''This job has no parent or dependent jobs.''],
       JElem ''Typography'' [
           (''variant'', JStr ''body2''),
           (''color'', JStr ''text.secondary''),
           (''sx'', JObj [(''mt'', JNum 1)])] [
         JStr ''Set a '',
         JElem ''strong'' [] [JStr ''parent_job''],
         JStr '' to create a dependency relationship.'']]"

definition diagram_legend :: "js" where
  "diagram_legend =
     JElem ''Box'' [
         (''sx'', JObj [
           (''mb'', JNum 2),
           (''display'', JStr ''flex''),
           (''gap'', JNum 1),
           (''flexWrap'', JStr ''wrap'')])] [
       JElem ''Chip'' [
           (''size'', JStr ''small''),
           (''icon'', JElem ''CheckCircleIcon'' [] []),
           (''label'', JStr ''Success''),
           (''sx'', JObj [(''backgroundColor'', JStr ''#dcfce7''), (''color'', JStr ''#15803d'')])] [],
       JElem ''Chip'' [
           (''size'', JStr ''small''),
           (''icon'', JElem ''ErrorIcon'' [] []),
           (''label'', JStr ''Failed''),
           (''sx'', JObj [(''backgroundColor'', JStr ''#fee2e2''), (''color'', JStr ''#b91c1c'')])] [],
       JElem ''Chip'' [
           (''size'', JStr ''small''),
           (''icon'', JElem ''HourglassEmptyIcon'' [] []),
           (''label'', JStr ''Running''),
           (''sx'', JObj [(''backgroundColor'', JStr ''#fef3c7''), (''color'', JStr ''#b45309'')])] [],
       JElem ''Chip'' [
           (''size'', JStr ''small''),
           (''icon'', JElem ''ScheduleIcon'' [] []),
           (''label'', JStr ''Untriggered''),
           (''sx'', JObj [(''backgroundColor'', JStr ''#f1f5f9''), (''color'', JStr ''#475569'')])] []]"

definition diagram_svg :: "dep_node list \<Rightarrow> dep_edge list \<Rightarrow> js" where
  "diagram_svg nodes edges =
     JElem ''svg'' [
         (''width'', JNum (svgWidth nodes)),
         (''height'', JNum (svgHeight nodes)),
         (''style'', JObj [(''display'', JStr ''block''), (''margin'', JStr ''0 auto'')])] [
       JElem ''defs'' [] [
         JElem ''marker'' [
             (''id'', JStr ''arrowhead''),
             (''markerWidth'', JStr ''10''),
             (''markerHeight'', JStr ''7''),
             (''refX'', JStr ''9''),
             (''refY'', JStr ''3.5''),
             (''orient'', JStr ''auto'')] [
           JElem ''polygon'' [(''points'', JStr ''0 0, 10 3.5, 0 7''), (''fill'', JStr ''#94a3b8'')] []]],
       JElem ''g'' [(''transform'', JStr (''translate('' @ show_num svgPadding @ '', 0)''))] [
         JArr (map (\<lambda>(index, edge). keyed (JStr (''edge-'' @ show_nat index)) (DiagramEdge edge)) (List.enumerate 0 edges)),
         JArr (map (\<lambda>node. keyed (JStr (node_id node)) (DiagramNode (JFun ''handleNodeClick'') node)) nodes)]]"

definition dependencies_panel :: "dep_node list \<Rightarrow> dep_edge list \<Rightarrow> js" where
  "dependencies_panel nodes edges =
     JElem ''Fragment'' [] [
       diagram_legend,
       JElem ''Box'' [
           (''sx'', JObj [
             (''overflowX'', JStr ''auto''),
             (''backgroundColor'', JStr ''#f8fafc''),
             (''borderRadius'', JNum 2),
             (''border'', JStr ''1px solid #e2e8f0''),
             (''p'', JNum 2)])] [
         diagram_svg nodes edges],
       JElem ''Typography'' [
           (''variant'', JStr ''caption''),
           (''color'', JStr ''text.secondary''),
           (''sx'', JObj [(''display'', JStr ''block''), (''mt'', JNum 2), (''textAlign'', JStr ''center'')])] [
         JStr (''Click on a node to navigate to that job. Arrows indicate execution order (parent '' @ [CHR 0xE2, CHR 0x86, CHR 0x92] @ '' child).'')]]"

definition hasNoDependencies :: "dep_node list \<Rightarrow> bool" where
  "hasNoDependencies nodes = (length nodes \<le> 1)"

definition diagram_card :: "bool \<Rightarrow> string option \<Rightarrow> dep_node list \<Rightarrow> dep_edge list \<Rightarrow> js" where
  "diagram_card loading error nodes edges =
     JElem ''Card'' [(''sx'', JObj [(''mb'', JNum 3)])] [
       JElem ''CardContent'' [] [
         SectionHeader (JFun ''AccountTreeIcon'') (JStr ''Job Dependencies''),
         js_and (JBool loading)
           (JElem ''Box'' [
                (''sx'', JObj [(''display'', JStr ''flex''), (''justifyContent'', JStr ''center''), (''py'', JNum 4)])] [
              JElem ''CircularProgress'' [] []]),
         js_and (js_opt error)
           (JElem ''Box'' [(''sx'', JObj [(''py'', JNum 4), (''textAlign'', JStr ''center'')])] [
              JElem ''Typography'' [(''color'', JStr ''error'')] [js_opt error]]),
         js_and (JBool (\<not> loading \<and> \<not> str_truthy error \<and> hasNoDependencies nodes))
           no_dependencies_panel,
         js_and (JBool (\<not> loading \<and> \<not> str_truthy error \<and> \<not> hasNoDependencies nodes))
           (dependencies_panel nodes edges)]]"

definition JobDependencyDiagram :: "job option \<Rightarrow> job list loader \<Rightarrow> js" where
  "JobDependencyDiagram record st =
     (case record of
        None \<Rightarrow> JNull
      | Some r \<Rightarrow>
          let (nodes, edges) = diagram_graph record (ld_data st)
          in diagram_card (ld_loading st) (ld_error st) nodes edges)"

section \<open>Lemmas\<close>

interpretation diagram: loading_effect fetchJobs diagram_start answered_jobs diagram_message
  by unfold_locales
    (auto simp: diagram_start_def answered_jobs_def Let_def split: nat.splits sum.splits)

lemma fold_max_flip: "fold max xs (b :: 'a :: linorder) = fold (\<lambda>x w. max w x) xs b"
  by (rule fold_cong) (simp_all add: fun_eq_iff max.commute)

lemma fold_max_mem: "x \<in> set xs \<Longrightarrow> x \<le> fold max xs (b :: 'a :: linorder)"
  unfolding fold_max_flip by (rule fold_max_ge [where f = "\<lambda>x. x"])

lemma node_in_svg:
  assumes "nd \<in> set nodes"
  shows "svgPadding + (node_x nd + NODE_WIDTH) + svgPadding \<le> svgWidth nodes"
    and "node_y nd + NODE_HEIGHT + 30 + svgPadding \<le> svgHeight nodes"
  using fold_max_mem [of "node_x nd + NODE_WIDTH" "map (\<lambda>n. node_x n + NODE_WIDTH) nodes" 300]
    fold_max_mem [of "node_y nd + NODE_HEIGHT + 30" "map (\<lambda>n. node_y n + NODE_HEIGHT + 30) nodes" 150] assms
  by (auto simp: svgWidth_def svgHeight_def maxX_def maxY_def)

lemma node_coordinates:
  assumes "nd \<in> set (nodes_of c js)"
  shows "0 \<le> node_x nd" and "30 \<le> node_y nd"
  using assms by (metis node_cases slots_bounds)+

lemmas panel_defs = SectionHeader_def no_dependencies_panel_def diagram_legend_def diagram_svg_def
  dependencies_panel_def diagram_card_def

text \<open>What an arrow and a node contribute to the elements of the drawing.\<close>

lemma edge_paths: "prop_values ''d'' (tagged ''path'' (DiagramEdge e)) = [JStr (edge_path e)]"
  by (simp add: DiagramEdge_def)

lemma node_paths: "tagged ''path'' (DiagramNode h nd) = []"
  by (simp add: DiagramNode_def)

lemma edge_titles: "tagged ''title'' (DiagramEdge e) = []"
  by (simp add: DiagramEdge_def)

lemma node_titles: "tagged ''title'' (DiagramNode h nd) = [(''title'', [], [JStr (shownName nd)])]"
  by (simp add: DiagramNode_def)

text \<open>The drawing is there exactly in the last panel, the spinner exactly while loading.\<close>

lemma card_svgs:
  "tagged ''svg'' (diagram_card ld err nodes edges) =
     (if \<not> ld \<and> \<not> str_truthy err \<and> 1 < length nodes then tagged ''svg'' (diagram_svg nodes edges) else [])"
  by (simp add: panel_defs hasNoDependencies_def)

lemma card_spinners:
  "length (tagged ''CircularProgress'' (diagram_card ld err nodes edges)) = (if ld then 1 else 0)"
  by (simp add: panel_defs DiagramEdge_def DiagramNode_def split_beta)

lemma card_strongs:
  "tagged ''strong'' (diagram_card ld err nodes edges) =
     (if \<not> ld \<and> \<not> str_truthy err \<and> length nodes \<le> 1 then tagged ''strong'' no_dependencies_panel else [])"
  by (simp add: panel_defs hasNoDependencies_def DiagramEdge_def DiagramNode_def split_beta)

lemma card_paths:
  "prop_values ''d'' (tagged ''path'' (diagram_card ld err nodes edges)) =
     (if \<not> ld \<and> \<not> str_truthy err \<and> 1 < length nodes then map (\<lambda>e. JStr (edge_path e)) edges else [])"
  by (simp add: panel_defs hasNoDependencies_def node_paths edge_paths comp_def split_beta
    map_enumerate_snd [of "\<lambda>e. JStr (edge_path e)"])

lemma card_titles:
  "tagged ''title'' (diagram_card ld err nodes edges) =
     (if \<not> ld \<and> \<not> str_truthy err \<and> 1 < length nodes
      then map (\<lambda>n. (''title'', [], [JStr (shownName n)])) nodes else [])"
  by (simp add: panel_defs hasNoDependencies_def node_titles edge_titles comp_def split_beta)

lemma diagram_of_record:
  "JobDependencyDiagram (Some r) st =
     diagram_card (ld_loading st) (ld_error st)
       (fst (diagram_graph (Some r) (ld_data st))) (snd (diagram_graph (Some r) (ld_data st)))"
  by (simp add: JobDependencyDiagram_def split_beta Let_def)

lemma diagram_graph_nodes: "set (fst (diagram_graph (Some r) js)) \<subseteq> set (nodes_of r js)"
  by (simp add: diagram_graph_def)

lemma node_isCurrent:
  assumes "n \<in> set (nodes_of c js)"
  shows "isCurrent n \<longleftrightarrow> node_id n = job_name c"
proof -
  obtain j where n: "n = mkNode (job_name c) (minLevel (levels (jobMapOf js) (job_name c)))
      (levelOf (jobLevels (jobMapOf js) (job_name c)) (node_id n)) (node_x n) (node_y n) (node_id n) j"
    using assms by (rule node_cases)
  show ?thesis using arg_cong [OF n, of isCurrent] by (simp add: mkNode_def)
qed

section \<open>Properties\<close>

text \<open>
  C17: every node and every arrow lies inside the drawing: with the horizontal padding on both sides a
  node fits in the width of the SVG element, its box and the label below it fit in the height, and the
  end points of an arrow are the bottom centre and the top centre of boxes that do.
\<close>

theorem diagram_in_viewport:
  "list_all (\<lambda>n. 0 \<le> node_x n \<and> svgPadding + node_x n + NODE_WIDTH + svgPadding \<le> svgWidth (nodes_of c js) \<and>
       0 \<le> node_y n \<and> node_y n + NODE_HEIGHT + 18 < svgHeight (nodes_of c js)) (nodes_of c js) \<and>
   list_all (\<lambda>e. 0 \<le> fromX e \<and> fromX e + NODE_WIDTH / 2 + svgPadding < svgWidth (nodes_of c js) \<and>
       0 \<le> toX e \<and> toX e + NODE_WIDTH / 2 + svgPadding < svgWidth (nodes_of c js) \<and>
       0 \<le> fromY e \<and> fromY e + NODE_HEIGHT < svgHeight (nodes_of c js) \<and>
       0 \<le> toY e \<and> toY e < svgHeight (nodes_of c js)) (edges_of c js)"
proof -
  let ?ns = "nodes_of c js"
  have node: "0 \<le> node_x n \<and> svgPadding + node_x n + NODE_WIDTH + svgPadding \<le> svgWidth ?ns \<and>
       0 \<le> node_y n \<and> node_y n + NODE_HEIGHT + 18 < svgHeight ?ns" if "n \<in> set ?ns" for n
    using node_in_svg [OF that] node_coordinates [OF that] by (simp add: svgPadding_def)
  have "0 \<le> fromX e \<and> fromX e + NODE_WIDTH / 2 + svgPadding < svgWidth ?ns \<and>
       0 \<le> toX e \<and> toX e + NODE_WIDTH / 2 + svgPadding < svgWidth ?ns \<and>
       0 \<le> fromY e \<and> fromY e + NODE_HEIGHT < svgHeight ?ns \<and>
       0 \<le> toY e \<and> toY e < svgHeight ?ns" if "e \<in> set (edges_of c js)" for e
  proof -
    from that obtain a b where "a \<in> set ?ns" "node_x a = fromX e" "node_y a = fromY e"
      and "b \<in> set ?ns" "node_x b = toX e" "node_y b = toY e"
      by (rule edge_ends)
    with node [of a] node [of b] show ?thesis by (simp add: svgPadding_def node_sizes)
  qed
  with node show ?thesis by (simp add: list_all_iff)
qed

text \<open>
  C18: a node displays, besides the tooltip with the full name, a label of at most 18 characters that
  starts with the first 15 characters of the name, then the status, and the marker of the current job
  on that job only; a name of at most 18 characters is displayed as it is.
\<close>

theorem node_label:
  "texts (DiagramNode h nd) =
     filter (\<lambda>s. s \<noteq> []) [shownName nd, truncatedName nd, str_or (Some (node_status nd)) ''untriggered''] @
     (if isCurrent nd then [''(current job)''] else []) \<and>
   length (truncatedName nd) = min 18 (length (shownName nd)) \<and>
   take 15 (truncatedName nd) = take 15 (shownName nd) \<and>
   (truncatedName nd = shownName nd \<or> 18 < length (shownName nd))"
  by (auto simp: DiagramNode_def truncatedName_def)

text \<open>
  C19: once the jobs are loaded, the panel of a job with relatives draws the graph and nothing else: one
  path for every arrow, one titled box for every node, both in the order of the graph, and React finds
  a distinct key on each of the arrows and of the boxes.
\<close>

theorem diagram_draws_graph:
  "prop_values ''d'' (tagged ''path'' (diagram_card False None (nodes_of c js) (edges_of c js))) =
     (if length (nodes_of c js) \<le> 1 then [] else map (\<lambda>e. JStr (edge_path e)) (edges_of c js)) \<and>
   tagged ''title'' (diagram_card False None (nodes_of c js) (edges_of c js)) =
     (if length (nodes_of c js) \<le> 1 then []
      else map (\<lambda>n. (''title'', [], [JStr (shownName n)])) (nodes_of c js)) \<and>
   (\<exists>ps arrows boxes. tagged ''g'' (diagram_svg (nodes_of c js) (edges_of c js)) ! 0 = (''g'', ps, [arrows, boxes]) \<and>
      good_keys arrows \<and> length (js_elems arrows) = length (edges_of c js) \<and>
      good_keys boxes \<and> keys_of boxes = map (\<lambda>n. JStr (node_id n)) (nodes_of c js))"
proof (intro conjI)
  let ?arrows = "JArr (map (\<lambda>(index, edge). keyed (JStr (''edge-'' @ show_nat index)) (DiagramEdge edge))
      (enumerate 0 (edges_of c js)))"
  let ?boxes = "JArr (map (\<lambda>node. keyed (JStr (node_id node)) (DiagramNode (JFun ''handleNodeClick'') node))
      (nodes_of c js))"
  have "good_keys ?arrows"
    by (rule good_keys_map [of "\<lambda>p. ''edge-'' @ show_nat (fst p)"])
      (auto simp: distinct_map inj_on_def in_set_enumerate_eq split_beta)
  moreover have "good_keys ?boxes"
    by (rule good_keys_map [of node_id]) (simp_all add: distinct_node_ids)
  moreover have "\<exists>ps. tagged ''g'' (diagram_svg (nodes_of c js) (edges_of c js)) ! 0 = (''g'', ps, [?arrows, ?boxes])"
    by (simp add: diagram_svg_def)
  ultimately show "\<exists>ps arrows boxes.
      tagged ''g'' (diagram_svg (nodes_of c js) (edges_of c js)) ! 0 = (''g'', ps, [arrows, boxes]) \<and>
      good_keys arrows \<and> length (js_elems arrows) = length (edges_of c js) \<and>
      good_keys boxes \<and> keys_of boxes = map (\<lambda>n. JStr (node_id n)) (nodes_of c js)"
    by (auto simp: comp_def)
qed (simp_all add: card_paths card_titles not_le)

text \<open>
  C20: the states of the panel exclude each other as the code means: the spinner is shown exactly while
  the jobs are loading, the drawing exactly when they are loaded without an error and the job has a
  relative, and the text that there are no relatives exactly when they are loaded without an error
  and it has none.
\<close>

theorem diagram_panels:
  "length (tagged ''CircularProgress'' (JobDependencyDiagram (Some r) st)) = (if ld_loading st then 1 else 0) \<and>
   (tagged ''svg'' (JobDependencyDiagram (Some r) st) = [] \<longleftrightarrow>
      ld_loading st \<or> str_truthy (ld_error st) \<or> length (fst (diagram_graph (Some r) (ld_data st))) \<le> 1) \<and>
   tagged ''strong'' (JobDependencyDiagram (Some r) st) =
     (if \<not> ld_loading st \<and> \<not> str_truthy (ld_error st) \<and> length (fst (diagram_graph (Some r) (ld_data st))) \<le> 1
      then tagged ''strong'' no_dependencies_panel else []) \<and>
   texts no_dependencies_panel = [''This job has no parent or dependent jobs.'',
     ''Set a '', ''parent_job'', '' to create a dependency relationship.'']"
  unfolding diagram_of_record card_spinners card_svgs card_strongs
  by (auto simp: diagram_svg_def no_dependencies_panel_def not_less not_le)

text \<open>
  C21: over every interleaving of effect runs and answers, an awaited answer ends the loading state and
  leaves the answered jobs with no error or, when the request failed, the message; when nothing is
  under way any more after the effect has run, the panel does not stay in the loading state.
\<close>

theorem diagram_settles:
  assumes "ld_pending (run_events fetchJobs diagram_start es) \<noteq> 0"
  shows "run_events fetchJobs diagram_start (es @ [Answer (Inr jobs)]) =
       (run_events fetchJobs diagram_start es)\<lparr>ld_data := jobs, ld_loading := False, ld_error := None,
          ld_pending := ld_pending (run_events fetchJobs diagram_start es) - 1\<rparr> \<and>
     run_events fetchJobs diagram_start (es @ [Answer (Inl ())]) =
       (run_events fetchJobs diagram_start es)\<lparr>ld_loading := False, ld_error := Some ''Failed to load job dependencies'',
          ld_pending := ld_pending (run_events fetchJobs diagram_start es) - 1\<rparr> \<and>
     (ld_pending (run_events fetchJobs diagram_start fs) = 0 \<and> RunEffect \<in> set fs \<longrightarrow>
        \<not> ld_loading (run_events fetchJobs diagram_start fs))"
  using assms diagram.idle_not_loading [of fs]
  by (auto simp: diagram_message_def gr0_conv_Suc)

theorem diagram_settles_witness:
  "ld_pending (run_events fetchJobs diagram_start [RunEffect]) \<noteq> 0 \<and>
   ld_data (run_events fetchJobs diagram_start [RunEffect, Answer (Inr [job_load])]) = [job_load] \<and>
   \<not> ld_loading (run_events fetchJobs diagram_start [RunEffect, Answer (Inl ())])"
proof -
  have p: "ld_pending (run_events fetchJobs diagram_start [RunEffect]) \<noteq> 0" by simp
  show ?thesis
    using p diagram_settles [OF p, of "[job_load]" "[RunEffect, Answer (Inl ())]"] by simp
qed

text \<open>
  C22: a click on a node that is not the current job opens the page of that job, which is one of the
  loaded jobs; a click on the current job does nothing.
\<close>

theorem node_click_navigates:
  "list_all (\<lambda>n. node_id n \<in> job_name ` set js \<and>
      node_clicked (JFun ''handleNodeClick'') n =
        (if node_id n = job_name c then None else Some (Redirect ''show'' ''jobs'' (node_id n)))) (nodes_of c js)"
proof -
  have "node_id n \<in> job_name ` set js" if "n \<in> set (nodes_of c js)" for n
  proof -
    have "node_id n \<in> node_id ` set (nodes_of c js)" using that by simp
    then show ?thesis by (auto simp: node_id_set jobMapOf_has)
  qed
  then show ?thesis by (simp add: list_all_iff node_clicked_def handleNodeClick_def node_isCurrent)
qed

end
