(* ===== verification/JobFields.thy ===== *)
theory JobFields
  imports Jsx
begin

text \<open>
  The fields that display one property of a record: the status and enabled chips of the job list
  (\<open>StatusField.tsx\<close>, \<open>EnabledField.tsx\<close>), the date that may be Go's zero time
  (\<open>ZeroDateField.tsx\<close>), the tags of a node (\<open>TagsField.tsx\<close>), the result of an execution and the
  status chip of the job page (\<open>JobShow.tsx\<close>), the liveness of a node (\<open>NodeList.tsx\<close>) and the output
  panels. The record of the context is a value; \<open>useRecordContext\<close> gives \<open>undefined\<close> outside one.
\<close>

section \<open>The status of a job\<close>

definition status_success :: "js" where
  "status_success =
     JObj [
       (''icon'', JElem ''SuccessIcon'' [(''sx'', JObj [(''fontSize'', JNum 16)])] []),
       (''label'', JStr ''Success''),
       (''color'', JStr ''#38a169''),
       (''bgColor'', JStr ''rgba(56, 161, 105, 0.1)'')]"

definition status_failed :: "js" where
  "status_failed =
     JObj [
       (''icon'', JElem ''FailedIcon'' [(''sx'', JObj [(''fontSize'', JNum 16)])] []),
       (''label'', JStr ''Failed''),
       (''color'', JStr ''#e53e3e''),
       (''bgColor'', JStr ''rgba(229, 62, 62, 0.1)'')]"

definition status_pending :: "js" where
  "status_pending =
     JObj [
       (''icon'', JElem ''UntriggeredIcon'' [(''sx'', JObj [(''fontSize'', JNum 16)])] []),
       (''label'', JStr ''Pending''),
       (''color'', JStr ''#d69e2e''),
       (''bgColor'', JStr ''rgba(214, 158, 46, 0.1)'')]"

definition getStatusConfig :: "js \<Rightarrow> js" where
  "getStatusConfig record =
     (if js_get record ''status'' = JStr ''success'' then status_success
      else if js_get record ''status'' = JStr ''failed'' then status_failed
      else status_pending)"

definition status_chip :: "js \<Rightarrow> js" where
  "status_chip config =
     JElem ''Tooltip'' [(''title'', js_get config ''label'')] [
       JElem ''Chip'' [
           (''icon'', js_get config ''icon''),
           (''label'', js_get config ''label''),
           (''size'', JStr ''small''),
           (''sx'', JObj [
             (''backgroundColor'', js_get config ''bgColor''),
             (''color'', js_get config ''color''),
             (''fontWeight'', JNum 500),
             (''fontSize'', JStr ''0.75rem''),
             (''height'', JNum 24),
             (''& .MuiChip-icon'', JObj [(''color'', js_get config ''color'')])])] []]"

definition StatusField :: "js \<Rightarrow> js" where
  "StatusField record = (if \<not> truthy record then JNull else status_chip (getStatusConfig record))"

definition colorMap :: "js" where
  "colorMap =
     JObj [
       (''success'', JStr ''success''),
       (''failed'', JStr ''error''),
       (''running'', JStr ''warning''),
       (''untriggered'', JStr ''default'')]"

definition status_tag :: "js \<Rightarrow> js" where
  "status_tag status =
     JElem ''Chip'' [
         (''label'', js_or status (JStr ''unknown'')),
         (''color'', js_or (js_index colorMap status) (JStr ''default'')),
         (''size'', JStr ''small''),
         (''sx'', JObj [(''fontWeight'', JNum 500)])] []"

definition StatusChip :: "js \<Rightarrow> js" where
  "StatusChip record = (if \<not> truthy record then JNull else status_tag (js_get record ''status''))"

section \<open>Enabled or disabled\<close>

definition disabled_chip :: "js" where
  "disabled_chip =
     JElem ''Tooltip'' [(''title'', JStr ''Disabled'')] [
       JElem ''Chip'' [
           (''icon'', JElem ''CancelIcon'' [(''sx'', JObj [(''fontSize'', JNum 16)])] []),
           (''label'', JStr ''Disabled''),
           (''size'', JStr ''small''),
           (''sx'', JObj [
             (''backgroundColor'', JStr ''rgba(229, 62, 62, 0.1)''),
             (''color'', JStr ''#e53e3e''),
             (''fontWeight'', JNum 500),
             (''fontSize'', JStr ''0.75rem''),
             (''height'', JNum 24),
             (''& .MuiChip-icon'', JObj [(''color'', JStr ''#e53e3e'')])])] []]"

definition enabled_chip :: "js" where
  "enabled_chip =
     JElem ''Tooltip'' [(''title'', JStr ''Enabled'')] [
       JElem ''Chip'' [
           (''icon'', JElem ''CheckCircleIcon'' [(''sx'', JObj [(''fontSize'', JNum 16)])] []),
           (''label'', JStr ''Enabled''),
           (''size'', JStr ''small''),
           (''sx'', JObj [
             (''backgroundColor'', JStr ''rgba(56, 161, 105, 0.1)''),
             (''color'', JStr ''#38a169''),
             (''fontWeight'', JNum 500),
             (''fontSize'', JStr ''0.75rem''),
             (''height'', JNum 24),
             (''& .MuiChip-icon'', JObj [(''color'', JStr ''#38a169'')])])] []]"

definition EnabledField :: "js \<Rightarrow> js" where
  "EnabledField record =
     (if \<not> truthy record then JNull
      else if truthy (js_get record ''disabled'') then disabled_chip
      else enabled_chip)"

section \<open>Dates and results of an execution\<close>

definition zero_date :: js where
  "zero_date = JStr ''0001-01-01T00:00:00Z''"

text \<open>
  The field of the record that \<open>source\<close> names is set to \<open>null\<close> in place; the element gets the same
  properties, so also the changed record.
\<close>

definition ZeroDateField :: "js_props \<Rightarrow> js_props \<times> js" where
  "ZeroDateField props =
     (let record = js_field props ''record''; source = js_field props ''source'';
          props =
            (if record \<noteq> JUndef \<and> source \<noteq> JUndef \<and> js_index record source = zero_date
             then map_set ''record'' (JObj (map_set (js_string source) JNull (js_fields record))) props
             else props)
      in (props, JElem ''DateField'' props []))"

definition ZeroDateField_view :: "js_props \<Rightarrow> js" where
  "ZeroDateField_view props = snd (ZeroDateField props)"

definition success_running :: "js" where
  "success_running =
     JElem ''Tooltip'' [(''title'', JStr ''Running'')] [
       JElem ''HourglassEmptyIcon'' [(''color'', JStr ''info'')] []]"

definition success_success :: "js" where
  "success_success =
     JElem ''Tooltip'' [(''title'', JStr ''Success'')] [
       JElem ''CheckCircleIcon'' [(''color'', JStr ''success'')] []]"

definition success_failed :: "js" where
  "success_failed =
     JElem ''Tooltip'' [(''title'', JStr ''Failed'')] [JElem ''ErrorIcon'' [(''color'', JStr ''error'')] []]"

definition SuccessField :: "js \<Rightarrow> js" where
  "SuccessField record =
     (if truthy record \<and> js_get record ''finished_at'' = zero_date then success_running
      else if truthy record \<and> truthy (js_get record ''success'') then success_success
      else success_failed)"

section \<open>Output of an execution\<close>

definition full_button :: "js \<Rightarrow> js" where
  "full_button loading =
     JElem ''Button'' [(''label'', JStr ''Load full output''), (''onClick'', JFun ''handleClick''), (''disabled'', loading)] [
       JElem ''FullIcon'' [] []]"

definition FullButton_view :: "js \<Rightarrow> js \<Rightarrow> js" where
  "FullButton_view loading record =
     (if js_get record ''output_truncated'' = JBool False then js_get record ''output'' else full_button loading)"

definition output_box :: "js \<Rightarrow> js \<Rightarrow> js" where
  "output_box loading record =
     JElem ''Box'' [
         (''sx'', JObj [
           (''p'', JNum 2),
           (''backgroundColor'', JStr ''#1a202c''),
           (''borderRadius'', JNum 1),
           (''fontFamily'', JStr ''monospace''),
           (''fontSize'', JStr ''0.875rem''),
           (''color'', JStr ''#e2e8f0''),
           (''whiteSpace'', JStr ''pre-wrap''),
           (''wordBreak'', JStr ''break-word''),
           (''maxHeight'', JNum 400),
           (''overflow'', JStr ''auto'')])] [
       js_and (js_get record ''output_truncated'')
         (JElem ''Box'' [(''sx'', JObj [(''mb'', JNum 2)])] [FullButton_view loading record]),
       js_or (js_get record ''output'') (JStr ''Nothing to show'')]"

definition SpecialOutputPanel :: "js \<Rightarrow> js \<Rightarrow> js" where
  "SpecialOutputPanel loading record = (if \<not> truthy record then JNull else output_box loading record)"

definition OutputPanel :: "js \<Rightarrow> js" where
  "OutputPanel record =
     JElem ''div'' [(''className'', JStr ''execution-output'')] [
       js_or (js_get record ''output'') (JStr ''Empty output'')]"

section \<open>Nodes\<close>

definition tag_chip :: "js \<Rightarrow> string \<Rightarrow> js" where
  "tag_chip tags key =
     JElem ''Chip'' [
         (''key'', JStr key),
         (''label'', JStr (key @ '': '' @ js_string (js_get tags key))),
         (''size'', JStr ''small''),
         (''sx'', JObj [
           (''backgroundColor'', JStr ''rgba(49, 130, 206, 0.1)''),
           (''color'', JStr ''#2c5282''),
           (''fontWeight'', JNum 500),
           (''fontSize'', JStr ''0.7rem''),
           (''height'', JNum 22)])] []"

definition tags_box :: "js \<Rightarrow> js" where
  "tags_box tags =
     JElem ''Box'' [(''sx'', JObj [(''display'', JStr ''flex''), (''flexWrap'', JStr ''wrap''), (''gap'', JNum (5 / 10))])] [
       JArr (map (tag_chip tags) (object_keys tags))]"

definition TagsField :: "js \<Rightarrow> js" where
  "TagsField record =
     (if record = JUndef \<or> \<not> truthy (js_get record ''Tags'') then JNull else tags_box (js_get record ''Tags''))"

definition renderStatusChip :: "js \<Rightarrow> js" where
  "renderStatusChip record =
     (if js_get record ''Status'' = JNum 1 then
       JElem ''Chip'' [
           (''label'', JStr ''Alive''),
           (''size'', JStr ''small''),
           (''sx'', JObj [
             (''backgroundColor'', JStr ''#e6f4ea''),
             (''color'', JStr ''#137333''),
             (''fontWeight'', JNum 600)])] []
      else
       JElem ''Chip'' [
           (''label'', JStr ''Dead''),
           (''size'', JStr ''small''),
           (''sx'', JObj [
             (''backgroundColor'', JStr ''#fce8e6''),
             (''color'', JStr ''#c5221f''),
             (''fontWeight'', JNum 600)])] [])"

section \<open>Lemmas\<close>

lemmas status_defs = status_success_def status_failed_def status_pending_def
lemmas chip_defs = status_chip_def status_tag_def disabled_chip_def enabled_chip_def
lemmas result_defs = success_running_def success_success_def success_failed_def

lemma js_field_map_set [simp]: "js_field (map_set k v ps) k' = (if k' = k then v else js_field ps k')"
  by (simp add: js_field_def map_set_def update_conv')

lemma js_get_JObj: "js_get (JObj ps) k = js_field ps k"
  by simp

text \<open>The label and the colour that the chip of a field shows.\<close>

definition chip_label :: "js \<Rightarrow> js list" where
  "chip_label e = prop_values ''label'' (tagged ''Chip'' e)"

definition chip_color :: "js \<Rightarrow> js list" where
  "chip_color e = prop_values ''color'' (tagged ''Chip'' e)"

lemma StatusField_label:
  "truthy r \<Longrightarrow> chip_label (StatusField r) =
     [if js_get r ''status'' = JStr ''success'' then JStr ''Success''
      else if js_get r ''status'' = JStr ''failed'' then JStr ''Failed'' else JStr ''Pending'']"
  by (simp add: StatusField_def chip_defs getStatusConfig_def status_defs chip_label_def)

lemma StatusChip_color:
  "truthy r \<Longrightarrow> js_get r ''status'' = JStr s \<Longrightarrow> chip_color (StatusChip r) =
     [if s = ''success'' then JStr ''success'' else if s = ''failed'' then JStr ''error''
      else if s = ''running'' then JStr ''warning'' else JStr ''default'']"
  by (simp add: StatusChip_def chip_defs colorMap_def chip_color_def js_index_def js_or_def)

section \<open>Properties\<close>



text \<open>
  C25: a node shows one chip for each of its tags, labelled with the name and the value of the tag, and
  the chips have distinct React keys.
\<close>

theorem tags_shown:
  assumes "distinct (map fst tags)"
  shows "\<exists>chips. TagsField (JObj [(''Tags'', JObj tags)]) =
       JElem ''Box'' [(''sx'', JObj [(''display'', JStr ''flex''), (''flexWrap'', JStr ''wrap''), (''gap'', JNum (5 / 10))])] [chips] \<and>
     good_keys chips \<and>
     set (prop_values ''label'' (tagged ''Chip'' chips)) = (\<lambda>(k, v). JStr (k @ '': '' @ js_string v)) ` set tags"
proof -
  let ?chips = "JArr (map (tag_chip (JObj tags)) (object_keys (JObj tags)))"
  have "good_keys ?chips"
    by (rule good_keys_map [of "\<lambda>k. k"])
      (simp_all add: distinct_object_keys [OF assms] tag_chip_def js_field_def)
  moreover have "set (prop_values ''label'' (tagged ''Chip'' ?chips)) =
      (\<lambda>k. JStr (k @ '': '' @ js_string (js_field tags k))) ` (fst ` set tags)"
    by (simp add: tag_chip_def comp_def set_object_keys)
  moreover have "\<dots> = (\<lambda>(k, v). JStr (k @ '': '' @ js_string v)) ` set tags"
    using assms by (force simp: js_field_def image_image)
  ultimately show ?thesis by (auto simp: TagsField_def tags_box_def)
qed

theorem tags_shown_witness:
  "distinct (map fst [(''role'', JStr ''dkron''), (''port'', JStr ''8946'')]) \<and>
   (\<exists>chips. TagsField (JObj [(''Tags'', JObj [(''role'', JStr ''dkron''), (''port'', JStr ''8946'')])]) =
       JElem ''Box'' [(''sx'', JObj [(''display'', JStr ''flex''), (''flexWrap'', JStr ''wrap''), (''gap'', JNum (5 / 10))])] [chips] \<and>
     good_keys chips \<and>
     set (prop_values ''label'' (tagged ''Chip'' chips)) = {JStr ''role: dkron'', JStr ''port: 8946''})"
  using tags_shown [of "[(''role'', JStr ''dkron''), (''port'', JStr ''8946'')]"] by simp

end
