(* ===== verification/JobGroups.thy ===== *)
theory JobGroups
  imports JsCore
begin

text \<open>
  The grouping of the job list, \<open>src/ui/src/jobs/JobList.tsx\<close>: the group of a job, the choices of the
  group filter, and the rows that the data grid shows for the selected group, ordered by group and name.

  \<open>String.prototype.localeCompare\<close> depends on the locale of the browser; it is the parameter
  \<open>localeCompare\<close>, of which only the consistency of a comparison function is used.
\<close>

section \<open>Rows\<close>

record job_row =
  row_id :: "string option"
  row_name :: "string option"
  row_metadata :: "(string \<times> string) list option"

definition getJobGroupValue :: "job_row option \<Rightarrow> string" where
  "getJobGroupValue r =
     str_or (Option.bind (Option.bind r row_metadata) (\<lambda>m. map_of m ''group'')) []"

definition getJobGroup :: "job_row option \<Rightarrow> string" where
  "getJobGroup r = (if getJobGroupValue r = [] then ''-'' else getJobGroupValue r)"

abbreviation group_of :: "job_row \<Rightarrow> string" where
  "group_of r \<equiv> getJobGroupValue (Some r)"

definition name_of :: "job_row \<Rightarrow> string" where
  "name_of r = str_or (row_name r) (str_or (row_id r) [])"

section \<open>The choices of the filter\<close>

definition group_choices :: "job_row list option \<Rightarrow> string \<Rightarrow> string list" where
  "group_choices list_data selectedGroup =
     (let data = (case list_data of None \<Rightarrow> [] | Some d \<Rightarrow> d);
          loaded = fold (\<lambda>job s. if group_of job \<noteq> [] then set_add (group_of job) s else s) data [];
          loaded = (if selectedGroup \<noteq> [] then set_add selectedGroup loaded else loaded)
      in js_sort code_unit_cmp loaded)"

section \<open>The rows of the grid\<close>

record list_context =
  ctx_data :: "job_row list option"
  ctx_total :: "int option"

definition compareJobs :: "(string \<Rightarrow> string \<Rightarrow> int) \<Rightarrow> job_row \<Rightarrow> job_row \<Rightarrow> int" where
  "compareJobs localeCompare a b =
     (let groupCompare = localeCompare (group_of a) (group_of b) in
      if groupCompare \<noteq> 0 then groupCompare else localeCompare (name_of a) (name_of b))"

definition visibleJobs :: "string \<Rightarrow> job_row list \<Rightarrow> job_row list" where
  "visibleJobs selectedGroup data =
     (if selectedGroup \<noteq> [] then filter (\<lambda>job. group_of job = selectedGroup) data else data)"

definition groupedData ::
    "(string \<Rightarrow> string \<Rightarrow> int) \<Rightarrow> string \<Rightarrow> list_context \<Rightarrow> job_row list option" where
  "groupedData localeCompare selectedGroup ctx =
     (case ctx_data ctx of
        None \<Rightarrow> None
      | Some data \<Rightarrow> Some (js_sort (compareJobs localeCompare) (visibleJobs selectedGroup data)))"

text \<open>The list context the grid is rendered in.\<close>

definition groupedContext ::
    "(string \<Rightarrow> string \<Rightarrow> int) \<Rightarrow> string \<Rightarrow> list_context \<Rightarrow> list_context" where
  "groupedContext localeCompare selectedGroup ctx =
     (case groupedData localeCompare selectedGroup ctx of
        None \<Rightarrow> ctx
      | Some rows \<Rightarrow>
          ctx\<lparr>ctx_data := Some rows,
              ctx_total := (if selectedGroup \<noteq> [] then Some (int (length rows)) else ctx_total ctx)\<rparr>)"

section \<open>Lemmas\<close>

lemma set_loaded_groups:
  "set (fold (\<lambda>job s. if group_of job \<noteq> [] then set_add (group_of job) s else s) data s) =
     set s \<union> (group_of ` set data - {[]})"
  by (induction data arbitrary: s) auto

lemma distinct_set_add [simp]: "distinct s \<Longrightarrow> distinct (set_add x s)"
  by (simp add: set_add_def)

lemma distinct_loaded_groups:
  "distinct s \<Longrightarrow>
     distinct (fold (\<lambda>job s. if group_of job \<noteq> [] then set_add (group_of job) s else s) data s)"
  by (induction data arbitrary: s) auto

lemma set_group_choices:
  "set (group_choices (Some data) sel) = (insert sel (group_of ` set data)) - {[]}"
  by (auto simp: group_choices_def Let_def set_loaded_groups)

lemma distinct_group_choices: "distinct (group_choices d sel)"
  by (simp add: group_choices_def Let_def distinct_loaded_groups)

text \<open>Every locale-dependent order that is consistent orders the jobs consistently.\<close>

locale locale_compare = js_comparator localeCompare
  for localeCompare :: "string \<Rightarrow> string \<Rightarrow> int"

lemma compareJobs_comparator:
  assumes "js_comparator localeCompare"
  shows "js_comparator (compareJobs localeCompare)"
proof -
  have eq: "compareJobs localeCompare =
      then_cmp (\<lambda>a b. localeCompare (group_of a) (group_of b)) (\<lambda>a b. localeCompare (name_of a) (name_of b))"
    by (simp add: fun_eq_iff compareJobs_def then_cmp_def Let_def)
  show ?thesis unfolding eq 
    by (rule js_comparator_then [OF js_comparator_on [OF assms] js_comparator_on [OF assms]])
qed

sublocale locale_compare \<subseteq> jobs: js_comparator "compareJobs localeCompare"
  by (rule compareJobs_comparator) (rule js_comparator_axioms)

context locale_compare
begin

abbreviation row_le :: "job_row \<Rightarrow> job_row \<Rightarrow> bool" where
  "row_le a b \<equiv> localeCompare (group_of a) (group_of b) < 0 \<or>
     localeCompare (group_of a) (group_of b) = 0 \<and> localeCompare (name_of a) (name_of b) \<le> 0"

lemma compareJobs_le: "compareJobs localeCompare a b \<le> 0 \<longleftrightarrow> row_le a b"
  by (auto simp: compareJobs_def Let_def)

lemma grouped_rows:
  "\<exists>rows. groupedData localeCompare sel (ctx\<lparr>ctx_data := Some data\<rparr>) = Some rows \<and>
     mset rows = mset (visibleJobs sel data) \<and> sorted_wrt row_le rows \<and>
     (\<forall>a. filter (\<lambda>b. compareJobs localeCompare b a = 0) rows =
          filter (\<lambda>b. compareJobs localeCompare b a = 0) (visibleJobs sel data))"
  using jobs.sorted_js_sort [of "visibleJobs sel data", unfolded compareJobs_le]
  by (simp add: groupedData_def jobs.stable_js_sort)

end

interpretation code_units: locale_compare code_unit_cmp
  by unfold_locales

lemma visibleJobs_filter: "visibleJobs sel data = filter (\<lambda>job. sel \<in> {[], group_of job}) data"
  by (auto simp: visibleJobs_def intro: filter_cong)

section \<open>Properties\<close>

text \<open>
  C15: for every consistent \<open>localeCompare\<close> the grid shows exactly the loaded jobs of the selected group
  (all of them when no group is selected), ordered by group and within a group by name, and jobs that
  compare equal keep the order the server gave them.
\<close>

theorem grouped_jobs_sorted:
  assumes "js_comparator localeCompare"
  shows "\<exists>rows. groupedData localeCompare sel (ctx\<lparr>ctx_data := Some data\<rparr>) = Some rows \<and>
     mset rows = mset (filter (\<lambda>job. sel \<in> {[], group_of job}) data) \<and>
     sorted_wrt (\<lambda>a b. localeCompare (group_of a) (group_of b) < 0 \<or>
       localeCompare (group_of a) (group_of b) = 0 \<and> localeCompare (name_of a) (name_of b) \<le> 0) rows \<and>
     (\<forall>a. filter (\<lambda>b. compareJobs localeCompare b a = 0) rows =
        filter (\<lambda>b. compareJobs localeCompare b a = 0)
          (filter (\<lambda>job. sel \<in> {[], group_of job}) data))"
  by (rule locale_compare.grouped_rows [unfolded visibleJobs_filter]) (simp add: locale_compare_def assms)

definition sample_rows :: "job_row list" where
  "sample_rows =
     [\<lparr>row_id = Some ''b'', row_name = None, row_metadata = Some [(''group'', ''etl'')]\<rparr>,
      \<lparr>row_id = Some ''c'', row_name = None, row_metadata = None\<rparr>,
      \<lparr>row_id = Some ''a'', row_name = None, row_metadata = Some [(''group'', ''etl'')]\<rparr>]"

theorem grouped_jobs_sorted_witness:
  "js_comparator code_unit_cmp \<and>
   (\<exists>rows. groupedData code_unit_cmp ''etl'' \<lparr>ctx_data = Some sample_rows, ctx_total = None\<rparr> = Some rows \<and>
      mset rows = mset [sample_rows ! 0, sample_rows ! 2] \<and>
      sorted_wrt (\<lambda>a b. code_unit_cmp (group_of a) (group_of b) < 0 \<or>
        code_unit_cmp (group_of a) (group_of b) = 0 \<and> code_unit_cmp (name_of a) (name_of b) \<le> 0) rows)"
proof (rule conjI)
  show c: "js_comparator code_unit_cmp" by (rule cuc.js_comparator_axioms)
  have f: "filter (\<lambda>job. ''etl'' \<in> {[], group_of job}) sample_rows = [sample_rows ! 0, sample_rows ! 2]"
    by code_simp
  show "\<exists>rows. groupedData code_unit_cmp ''etl'' \<lparr>ctx_data = Some sample_rows, ctx_total = None\<rparr> = Some rows \<and>
      mset rows = mset [sample_rows ! 0, sample_rows ! 2] \<and>
      sorted_wrt (\<lambda>a b. code_unit_cmp (group_of a) (group_of b) < 0 \<or>
        code_unit_cmp (group_of a) (group_of b) = 0 \<and> code_unit_cmp (name_of a) (name_of b) \<le> 0) rows"
    using grouped_jobs_sorted [OF c, where sel = "''etl''"
      and ctx = "\<lparr>ctx_data = None, ctx_total = None\<rparr>" and data = sample_rows]
    by (simp only: f list_context.simps) blast
qed

text \<open>
  C16: the group filter offers every group of the loaded jobs and the selected group once, never the
  empty group, in strictly increasing order of their code units.
\<close>

theorem group_choices_exact:
  "set (group_choices (Some data) sel) = (insert sel (group_of ` set data)) - {[]} \<and>
   sorted_wrt (\<lambda>a b. code_unit_cmp a b < 0) (group_choices (Some data) sel)"
proof -
  have "sorted_wrt (\<lambda>a b. code_unit_cmp a b \<le> 0) (group_choices (Some data) sel)"
    unfolding group_choices_def Let_def by (rule cuc.sorted_js_sort)
  with distinct_group_choices [of "Some data" sel]
  have "sorted_wrt (\<lambda>a b. code_unit_cmp a b < 0) (group_choices (Some data) sel)"
    by (auto simp: sorted_wrt_iff_nth_less nth_eq_iff_index_eq code_unit_cmp_eq order_less_le)
  then show ?thesis by (simp add: set_group_choices)
qed

end
