(* ===== verification/JobPages.thy ===== *)
theory JobPages
  imports JobFields JobGroups
begin

text \<open>
  The pages of a job as the code renders them: the list (\<open>JobList.tsx\<close>) with its filters and its grid,
  the forms (\<open>JobEdit.tsx\<close>), the page with the summary, the executions and the dependencies
  (\<open>JobShow.tsx\<close>), and the buttons.

  A grid of react-admin renders its columns once for each row; \<open>row\<close> is the record of the row. The
  \<open>theme\<close> of Material UI is a parameter of the styles: \<open>down\<close> is \<open>theme.breakpoints.down\<close>. The rendered
  dependency diagram of the page is an argument of \<open>JobShow\<close>, as are the loading states of the buttons.
\<close>

section \<open>Buttons\<close>

definition RunButton_view :: "bool \<Rightarrow> js" where
  "RunButton_view loading =
     JElem ''Button'' [(''label'', JStr ''Run''), (''onClick'', JFun ''handleClick''), (''disabled'', JBool loading)] [
       JElem ''RunIcon'' [] []]"

definition ToggleButton_view :: "bool \<Rightarrow> js" where
  "ToggleButton_view loading =
     JElem ''Button'' [(''label'', JStr ''Toggle''), (''onClick'', JFun ''handleClick''), (''disabled'', JBool loading)] [
       JElem ''ToggleIcon'' [] []]"

definition BulkRunButton_view :: "bool \<Rightarrow> js" where
  "BulkRunButton_view loading =
     JElem ''Button'' [(''label'', JStr ''Run''), (''onClick'', JFun ''runMany''), (''disabled'', JBool loading)] [
       JElem ''RunIcon'' [] []]"

definition BulkToggleButton_view :: "bool \<Rightarrow> js" where
  "BulkToggleButton_view loading =
     JElem ''Button'' [
         (''label'', JStr ''Toggle''),
         (''title'', JStr ''Enable/disable execution of selected jobs''),
         (''onClick'', JFun ''toggleMany''),
         (''disabled'', JBool loading)] [
       JElem ''RunIcon'' [] []]"

section \<open>The job list\<close>

definition JobFilter :: "js_props \<Rightarrow> js" where
  "JobFilter props =
     JElem ''Filter'' props [
       JElem ''TextInput'' [
           (''label'', JStr ''Search''),
           (''source'', JStr ''q''),
           (''alwaysOn'', JBool True),
           (''sx'', JObj [(''ml'', JNum 2)])] [],
       JElem ''SelectInput'' [
           (''source'', JStr ''status''),
           (''choices'', JArr [
             JObj [(''id'', JStr ''success''), (''name'', JStr ''Success'')],
             JObj [(''id'', JStr ''failed''), (''name'', JStr ''Failed'')],
             JObj [(''id'', JStr ''untriggered''), (''name'', JStr ''Waiting to Run'')]])] [],
       JElem ''BooleanInput'' [(''source'', JStr ''disabled'')] []]"

definition JobBulkActionButtons :: "bool \<Rightarrow> js" where
  "JobBulkActionButtons loading =
     JElem ''Fragment'' [] [
       BulkRunButton_view loading,
       BulkToggleButton_view loading,
       JElem ''BulkDeleteButton'' [] []]"

definition JobPagination :: "js_props \<Rightarrow> js" where
  "JobPagination props =
     JElem ''Pagination''
       (js_assign [(''rowsPerPageOptions'', JArr [JNum 5, JNum 10, JNum 25, JNum 50, JNum 100])] props) []"

definition groups_menu :: "string list \<Rightarrow> js" where
  "groups_menu groups =
     JArr (map (\<lambda>group. JElem ''MenuItem'' [(''key'', JStr group), (''value'', JStr group)] [JStr group]) groups)"

definition group_filter_box :: "string \<Rightarrow> string list \<Rightarrow> js" where
  "group_filter_box selectedGroup groups =
     JElem ''Box'' [
         (''sx'', JObj [
           (''display'', JStr ''flex''),
           (''justifyContent'', JStr ''flex-end''),
           (''px'', JNum 2),
           (''py'', JNum (15 / 10))])] [
       JElem ''MuiTextField'' [
           (''select'', JBool True),
           (''label'', JStr ''Group''),
           (''value'', JStr selectedGroup),
           (''onChange'', JFun ''onGroupChange''),
           (''size'', JStr ''small''),
           (''sx'', JObj [(''minWidth'', JNum 180)])] [
         JElem ''MenuItem'' [(''value'', JStr [])] [JStr ''All groups''],
         groups_menu groups]]"

definition JobGroupFilter :: "job_row list option \<Rightarrow> string \<Rightarrow> js" where
  "JobGroupFilter list_data selectedGroup = group_filter_box selectedGroup (group_choices list_data selectedGroup)"

definition joblist_PREFIX :: string where "joblist_PREFIX = ''JobList''"

definition joblist_classes :: "js" where
  "joblist_classes =
     JObj [
       (''hiddenOnSmallScreens'', JStr (joblist_PREFIX @ ''-hiddenOnSmallScreens'')),
       (''cell'', JStr (joblist_PREFIX @ ''-cell''))]"

definition joblist_StyledDatagrid :: "(string \<Rightarrow> string) \<Rightarrow> js" where
  "joblist_StyledDatagrid down =
     JObj [
       ((''& .'' @ js_string (js_get joblist_classes ''hiddenOnSmallScreens'')), JObj [(''display'', JStr ''table-cell''), (down ''md'', JObj [(''display'', JStr ''none'')])]),
       ((''& .'' @ js_string (js_get joblist_classes ''cell'')), JObj [(''padding'', JStr ''6px 8px 6px 8px'')]),
       (''& .RaDatagrid-headerCell'', JObj [
         (''backgroundColor'', JStr ''#f7fafc''),
         (''fontWeight'', JNum 600),
         (''fontSize'', JStr ''0.75rem''),
         (''textTransform'', JStr ''uppercase''),
         (''letterSpacing'', JStr ''0.05em''),
         (''color'', JStr ''#4a5568'')]),
       (''& .RaDatagrid-row'', JObj [(''&:hover'', JObj [(''backgroundColor'', JStr ''#f7fafc'')])]),
       (''& .RaDatagrid-rowCell'', JObj [(''borderBottom'', JStr ''1px solid #e2e8f0'')])]"

definition joblist_ListHeader :: "js" where
  "joblist_ListHeader =
     JElem ''Box'' [
         (''sx'', JObj [
           (''mb'', JNum 3),
           (''display'', JStr ''flex''),
           (''alignItems'', JStr ''center''),
           (''gap'', JNum 2)])] [
       JElem ''Box'' [
           (''sx'', JObj [
             (''width'', JNum 48),
             (''height'', JNum 48),
             (''borderRadius'', JNum 2),
             (''background'', JStr ''linear-gradient(135deg, #3182ce 0%, #2c5282 100%)''),
             (''display'', JStr ''flex''),
             (''alignItems'', JStr ''center''),
             (''justifyContent'', JStr ''center''),
             (''color'', JStr ''white''),
             (''boxShadow'', JStr ''0 4px 6px -1px rgba(49, 130, 206, 0.2)'')])] [
         JElem ''UpdateIcon'' [] []],
       JElem ''Box'' [] [
         JElem ''Typography'' [
             (''variant'', JStr ''h5''),
             (''sx'', JObj [(''fontWeight'', JNum 600), (''color'', JStr ''text.primary'')])] [
           JStr ''Scheduled Jobs''],
         JElem ''Typography'' [(''variant'', JStr ''body2''), (''sx'', JObj [(''color'', JStr ''text.secondary'')])] [
           JStr ''Manage your distributed cron jobs'']]]"

definition JobDatagridContent :: "bool \<Rightarrow> js \<Rightarrow> js" where
  "JobDatagridContent bulkLoading row =
     JElem ''StyledDatagrid'' [(''rowClick'', JStr ''show''), (''bulkActionButtons'', JobBulkActionButtons bulkLoading)] [
       JElem ''TextField'' [(''source'', JStr ''id'')] [],
       JElem ''TextField'' [(''source'', JStr ''displayname''), (''label'', JStr ''Display name'')] [],
       JElem ''FunctionField'' [(''label'', JStr ''Group''), (''render'', JFun ''getJobGroup'')] [],
       JElem ''TextField'' [
           (''source'', JStr ''timezone''),
           (''sortable'', JBool False),
           (''cellClassName'', js_get joblist_classes ''hiddenOnSmallScreens''),
           (''headerClassName'', js_get joblist_classes ''hiddenOnSmallScreens'')] [],
       JElem ''TextField'' [(''source'', JStr ''schedule'')] [],
       JElem ''NumberField'' [
           (''source'', JStr ''success_count''),
           (''cellClassName'', js_get joblist_classes ''hiddenOnSmallScreens''),
           (''headerClassName'', js_get joblist_classes ''hiddenOnSmallScreens'')] [],
       JElem ''NumberField'' [
           (''source'', JStr ''error_count''),
           (''cellClassName'', js_get joblist_classes ''hiddenOnSmallScreens''),
           (''headerClassName'', js_get joblist_classes ''hiddenOnSmallScreens'')] [],
       JElem ''DateField'' [(''source'', JStr ''last_success''), (''showTime'', JBool True)] [],
       JElem ''DateField'' [(''source'', JStr ''last_error''), (''showTime'', JBool True)] [],
       EnabledField row,
       JElem ''NumberField'' [(''source'', JStr ''retries''), (''sortable'', JBool False)] [],
       StatusField row,
       JElem ''DateField'' [(''source'', JStr ''next''), (''showTime'', JBool True)] [],
       JElem ''EditButton'' [] []]"

text \<open>The context value that the provider hands to the grid.\<close>

definition row_value :: "job_row \<Rightarrow> js" where
  "row_value r =
     JObj ((case row_id r of None \<Rightarrow> [] | Some i \<Rightarrow> [(''id'', JStr i)]) @
           (case row_name r of None \<Rightarrow> [] | Some n \<Rightarrow> [(''name'', JStr n)]) @
           (case row_metadata r of None \<Rightarrow> []
            | Some m \<Rightarrow> [(''metadata'', JObj (map (\<lambda>(k, v). (k, JStr v)) m))]))"

definition context_value :: "list_context \<Rightarrow> js" where
  "context_value ctx =
     JObj [(''data'', (case ctx_data ctx of None \<Rightarrow> JUndef | Some rows \<Rightarrow> JArr (map row_value rows))),
           (''total'', (case ctx_total ctx of None \<Rightarrow> JUndef | Some n \<Rightarrow> JNum (of_int n)))]"

definition JobDatagrid ::
    "(string \<Rightarrow> string \<Rightarrow> int) \<Rightarrow> string \<Rightarrow> list_context \<Rightarrow> bool \<Rightarrow> js \<Rightarrow> js" where
  "JobDatagrid localeCompare selectedGroup ctx bulkLoading row =
     (case groupedData localeCompare selectedGroup ctx of
        None \<Rightarrow> JobDatagridContent bulkLoading row
      | Some _ \<Rightarrow>
          JElem ''ListContextProvider''
            [(''value'', context_value (groupedContext localeCompare selectedGroup ctx))]
            [JobDatagridContent bulkLoading row])"

text \<open>The state of the list is the selected group; the filter replaces it.\<close>

definition setSelectedGroup :: "string \<Rightarrow> string \<Rightarrow> string" where
  "setSelectedGroup newGroup selectedGroup = newGroup"

definition JobList :: "(string \<Rightarrow> string \<Rightarrow> int) \<Rightarrow> js_props \<Rightarrow> string \<Rightarrow> list_context \<Rightarrow> bool \<Rightarrow> js \<Rightarrow> js" where
  "JobList localeCompare props selectedGroup ctx bulkLoading row =
     JElem ''Box'' [(''sx'', JObj [(''p'', JObj [(''xs'', JNum 2), (''md'', JNum 3)])])] [
       joblist_ListHeader,
       JElem ''List''
         (js_assign props
            [
              (''filters'', JobFilter []),
              (''pagination'', JobPagination []),
              (''sx'', JObj [
                (''& .RaList-main'', JObj [
                  (''boxShadow'', JStr ''0 1px 3px 0 rgba(0, 0, 0, 0.1), 0 1px 2px 0 rgba(0, 0, 0, 0.06)''),
                  (''borderRadius'', JNum 3),
                  (''border'', JStr ''1px solid #e2e8f0'')]),
                (''& .RaList-content'', JObj [(''boxShadow'', JStr ''none'')])])]) [
         JobGroupFilter (ctx_data ctx) selectedGroup,
         JobDatagrid localeCompare selectedGroup ctx bulkLoading row]]"

section \<open>The forms\<close>

definition JobEditActions :: "js" where
  "JobEditActions =
     JElem ''TopToolbar'' [(''sx'', JObj [(''mt'', JNum 2), (''mb'', JNum 1)])] [
       JElem ''ListButton'' [] [],
       JElem ''ShowButton'' [] []]"

definition JobCreateActions :: "js" where
  "JobCreateActions =
     JElem ''TopToolbar'' [(''sx'', JObj [(''mt'', JNum 2), (''mb'', JNum 1)])] [JElem ''ListButton'' [] []]"

definition processors_input :: "js" where
  "processors_input =
     JElem ''JsonInput'' [
         (''source'', JStr ''processors''),
         (''reactJsonOptions'', JObj [
           (''name'', JNull),
           (''collapsed'', JBool False),
           (''enableClipboard'', JBool True),
           (''displayDataTypes'', JBool False)]),
         (''helperText'', JStr ''Processor plugins to use for this job.'')] []"

definition tags_input :: "js" where
  "tags_input =
     JElem ''JsonInput'' [
         (''source'', JStr ''tags''),
         (''reactJsonOptions'', JObj [
           (''name'', JNull),
           (''collapsed'', JBool False),
           (''enableClipboard'', JBool True),
           (''displayDataTypes'', JBool False)]),
         (''helperText'', JStr ''Tags of the target servers to run this job against.'')] []"

definition metadata_input :: "js" where
  "metadata_input =
     JElem ''JsonInput'' [
         (''source'', JStr ''metadata''),
         (''reactJsonOptions'', JObj [
           (''name'', JNull),
           (''collapsed'', JBool False),
           (''enableClipboard'', JBool True),
           (''displayDataTypes'', JBool False)]),
         (''helperText'', JStr ''Job metadata describes the job and allows filtering from the API.'')] []"

definition executor_config_input :: "js" where
  "executor_config_input =
     JElem ''JsonInput'' [
         (''source'', JStr ''executor_config''),
         (''reactJsonOptions'', JObj [
           (''name'', JNull),
           (''collapsed'', JBool True),
           (''enableClipboard'', JBool False),
           (''displayDataTypes'', JBool False)]),
         (''helperText'', JStr ''Configuration arguments for the specific executor.''),
         (''validate'', JFun ''required'')] []"

definition EditForm :: "js_props \<Rightarrow> js" where
  "EditForm record =
     JElem ''SimpleForm'' record [
       JElem ''TextInput'' [
           (''disabled'', JBool True),
           (''source'', JStr ''id''),
           (''helperText'', JStr ''Job id. Must be unique, it's a copy of name.'')] [],
       JElem ''TextInput'' [
           (''source'', JStr ''name''),
           (''helperText'', JStr ''Job name. Must be unique, acts as the id.''),
           (''validate'', JFun ''required'')] [],
       JElem ''TextInput'' [
           (''source'', JStr ''displayname''),
           (''helperText'', JStr ''Display name of the job. If present, displayed instead of the name.'')] [],
       JElem ''TextInput'' [
           (''source'', JStr ''metadata.group''),
           (''label'', JStr ''Group''),
           (''helperText'', JStr ''Group related jobs together in the jobs table.'')] [],
       JElem ''TextInput'' [
           (''source'', JStr ''timezone''),
           (''helperText'', JStr ''The timezone where the cron expression will be evaluated in.'')] [],
       JElem ''TextInput'' [
           (''source'', JStr ''schedule''),
           (''helperText'', JStr ''Cron expression for the job. When to run the job.''),
           (''validate'', JFun ''required'')] [],
       JElem ''TextInput'' [
           (''source'', JStr ''owner''),
           (''helperText'', JStr ''Arbitrary string indicating the owner of the job.''),
           (''disabled'', JBool True)] [],
       JElem ''TextInput'' [
           (''source'', JStr ''owner_email''),
           (''helperText'', JStr ''Email address to use for notifications.'')] [],
       JElem ''TextInput'' [
           (''source'', JStr ''parent_job''),
           (''helperText'', JStr ''Job id of job that this job is dependent upon.'')] [],
       JElem ''BooleanInput'' [
           (''source'', JStr ''ephemeral''),
           (''helperText'', JStr ''Delete the job after the first successful execution.'')] [],
       JElem ''DateTimeInput'' [
           (''source'', JStr ''starts_at''),
           (''helperText'', JStr ''The job will not be executed before this time.'')] [],
       JElem ''DateTimeInput'' [
           (''source'', JStr ''expires_at''),
           (''helperText'', JStr ''The job will not be executed after this time.'')] [],
       JElem ''SelectInput'' [
           (''source'', JStr ''concurrency''),
           (''choices'', JArr [
             JObj [(''id'', JStr ''allow''), (''name'', JStr ''Allow'')],
             JObj [(''id'', JStr ''forbid''), (''name'', JStr ''Forbid'')]]),
           (''helperText'', JStr ''Concurrency policy for this job (allow, forbid).'')] [],
       processors_input,
       tags_input,
       JElem ''TextInput'' [
           (''source'', JStr ''metadata.group''),
           (''label'', JStr ''Job Group''),
           (''helperText'', JStr (''Nh'' @ [CHR 0xE1, CHR 0xBA, CHR 0xAD] @ ''p t'' @ [CHR 0xC3, CHR 0xAA] @ ''n nh'' @ [CHR 0xC3, CHR 0xB3] @ ''m (VD: demo)'')),
           (''fullWidth'', JBool True)] [],
       metadata_input,
       JElem ''TextInput'' [
           (''source'', JStr ''executor''),
           (''helperText'', JStr ''Executor plugin to be used in this job.''),
           (''validate'', JFun ''required'')] [],
       executor_config_input,
       JElem ''BooleanInput'' [(''source'', JStr ''disabled''), (''helperText'', JStr ''Is this job disabled?'')] [],
       JElem ''NumberInput'' [
           (''source'', JStr ''retries''),
           (''helperText'', JStr ''Number of times to retry a job that failed an execution.'')] []]"

definition JobEdit :: "js \<Rightarrow> js" where
  "JobEdit record =
     JElem ''Edit''
       (js_assign (js_fields record)
          [(''actions'', JobEditActions), (''sx'', JObj [(''& .RaEdit-main'', JObj [(''mt'', JNum 2)])])]) [
       EditForm []]"

definition JobCreate :: "js_props \<Rightarrow> js" where
  "JobCreate props =
     JElem ''Create''
       (js_assign props
          [(''actions'', JobCreateActions), (''sx'', JObj [(''& .RaCreate-main'', JObj [(''mt'', JNum 2)])])]) [
       EditForm []]"

section \<open>The page of a job\<close>

definition JobShowActions :: "bool \<Rightarrow> bool \<Rightarrow> js \<Rightarrow> js" where
  "JobShowActions runLoading toggleLoading data =
     JElem ''TopToolbar'' [(''sx'', JObj [(''gap'', JNum 1), (''mt'', JNum 2), (''mb'', JNum 1)])] [
       RunButton_view runLoading,
       ToggleButton_view toggleLoading,
       JElem ''EditButton'' [(''record'', data)] []]"

definition show_SectionHeader :: "js \<Rightarrow> js \<Rightarrow> js" where
  "show_SectionHeader icon title =
     JElem ''Box'' [
         (''sx'', JObj [
           (''display'', JStr ''flex''),
           (''alignItems'', JStr ''center''),
           (''gap'', JNum (15 / 10)),
           (''mb'', JNum 2),
           (''pb'', JNum 1),
           (''borderBottom'', JStr ''1px solid''),
           (''borderColor'', JStr ''divider'')])] [
       JElem ''Box'' [
           (''sx'', JObj [
             (''width'', JNum 36),
             (''height'', JNum 36),
             (''borderRadius'', JNum (15 / 10)),
             (''background'', JStr ''linear-gradient(135deg, #3182ce 0%, #2c5282 100%)''),
             (''display'', JStr ''flex''),
             (''alignItems'', JStr ''center''),
             (''justifyContent'', JStr ''center''),
             (''color'', JStr ''white'')])] [
         JElem (component_name icon) [(''fontSize'', JStr ''small'')] []],
       JElem ''Typography'' [
           (''variant'', JStr ''h6''),
           (''sx'', JObj [(''fontWeight'', JNum 600), (''color'', JStr ''text.primary'')])] [
         title]]"

definition job_header_box :: "js \<Rightarrow> js" where
  "job_header_box record =
     JElem ''Box'' [(''sx'', JObj [(''mb'', JNum 3)])] [
       JElem ''Box'' [
           (''sx'', JObj [
             (''display'', JStr ''flex''),
             (''alignItems'', JStr ''center''),
             (''gap'', JNum 2),
             (''mb'', JNum 1)])] [
         JElem ''Box'' [
             (''sx'', JObj [
               (''width'', JNum 48),
               (''height'', JNum 48),
               (''borderRadius'', JNum 2),
               (''background'', JStr ''linear-gradient(135deg, #1a365d 0%, #2c5282 100%)''),
               (''display'', JStr ''flex''),
               (''alignItems'', JStr ''center''),
               (''justifyContent'', JStr ''center''),
               (''color'', JStr ''white''),
               (''boxShadow'', JStr ''0 4px 6px -1px rgba(26, 54, 93, 0.2)'')])] [
           JElem ''JobIcon'' [] []],
         JElem ''Box'' [] [
           JElem ''Typography'' [
               (''variant'', JStr ''h5''),
               (''sx'', JObj [(''fontWeight'', JNum 600), (''color'', JStr ''text.primary'')])] [
             js_or (js_get record ''displayname'') (js_get record ''name'')],
           JElem ''Typography'' [(''variant'', JStr ''body2''), (''sx'', JObj [(''color'', JStr ''text.secondary'')])] [
             js_get record ''schedule'',
             JStr '' '',
             js_and (js_get record ''timezone'') (JStr (''('' @ js_string (js_get record ''timezone'') @ '')''))]],
         JElem ''Box'' [(''sx'', JObj [(''ml'', JStr ''auto'')])] [StatusChip record]]]"

definition JobHeader :: "js \<Rightarrow> js" where
  "JobHeader record = (if \<not> truthy record then JNull else job_header_box record)"

definition FieldGroup :: "js list \<Rightarrow> js" where
  "FieldGroup children =
     JElem ''Box'' [
         (''sx'', JObj [
           (''display'', JStr ''grid''),
           (''gridTemplateColumns'', JObj [(''xs'', JStr ''1fr''), (''sm'', JStr ''1fr 1fr''), (''md'', JStr ''1fr 1fr 1fr'')]),
           (''gap'', JNum 2),
           (''& .RaLabeled-label'', JObj [
             (''fontSize'', JStr ''0.75rem''),
             (''fontWeight'', JNum 600),
             (''textTransform'', JStr ''uppercase''),
             (''letterSpacing'', JStr ''0.05em''),
             (''color'', JStr ''text.secondary'')])])] [
       JArr children]"

definition StyledJsonField :: "js \<Rightarrow> js \<Rightarrow> js" where
  "StyledJsonField source label =
     JElem ''Box'' [(''sx'', JObj [(''mt'', JNum 2)])] [
       JElem ''Labeled'' [(''label'', js_or label source)] [
         JElem ''JsonField'' [
             (''source'', source),
             (''reactJsonOptions'', JObj [
               (''name'', JNull),
               (''collapsed'', JBool False),
               (''enableClipboard'', JBool True),
               (''displayDataTypes'', JBool False),
               (''style'', JObj [
                 (''backgroundColor'', JStr ''#f7fafc''),
                 (''padding'', JStr ''12px''),
                 (''borderRadius'', JStr ''8px'')])])] []]]"

definition schedule_card :: "js \<Rightarrow> js" where
  "schedule_card record =
     JElem ''Card'' [(''sx'', JObj [(''mb'', JNum 3)])] [
       JElem ''CardContent'' [] [
         show_SectionHeader (JFun ''ScheduleIcon'') (JStr ''Schedule Information''),
         FieldGroup
           [
             JElem ''Labeled'' [(''label'', JStr ''Name'')] [
               JElem ''TextField'' [(''source'', JStr ''name'')] []],
             JElem ''Labeled'' [(''label'', JStr ''Display Name'')] [
               JElem ''TextField'' [(''source'', JStr ''displayname''), (''emptyText'', JStr ''-'')] []],
             JElem ''Labeled'' [(''label'', JStr ''Group'')] [
               JElem ''TextField'' [(''source'', JStr ''metadata.group''), (''emptyText'', JStr ''-'')] []],
             JElem ''Labeled'' [(''label'', JStr ''Timezone'')] [
               JElem ''TextField'' [(''source'', JStr ''timezone''), (''emptyText'', JStr ''UTC'')] []],
             JElem ''Labeled'' [(''label'', JStr ''Schedule'')] [
               JElem ''TextField'' [(''source'', JStr ''schedule'')] []],
             JElem ''Labeled'' [(''label'', JStr ''Next Run'')] [
               JElem ''DateField'' [(''source'', JStr ''next''), (''showTime'', JBool True)] []],
             JElem ''Labeled'' [(''label'', JStr ''Status'')] [StatusChip record]]]]"

definition history_card :: "js" where
  "history_card =
     JElem ''Card'' [(''sx'', JObj [(''mb'', JNum 3)])] [
       JElem ''CardContent'' [] [
         show_SectionHeader (JFun ''PlaylistPlayIcon'') (JStr ''Execution History''),
         FieldGroup
           [
             JElem ''Labeled'' [(''label'', JStr ''Last Success'')] [
               JElem ''DateField'' [
                   (''source'', JStr ''last_success''),
                   (''showTime'', JBool True),
                   (''emptyText'', JStr ''Never'')] []],
             JElem ''Labeled'' [(''label'', JStr ''Last Error'')] [
               JElem ''DateField'' [
                   (''source'', JStr ''last_error''),
                   (''showTime'', JBool True),
                   (''emptyText'', JStr ''Never'')] []],
             JElem ''Labeled'' [(''label'', JStr ''Success Count'')] [
               JElem ''NumberField'' [(''source'', JStr ''success_count'')] []],
             JElem ''Labeled'' [(''label'', JStr ''Error Count'')] [
               JElem ''NumberField'' [(''source'', JStr ''error_count'')] []],
             JElem ''Labeled'' [(''label'', JStr ''Retries'')] [
               JElem ''NumberField'' [(''source'', JStr ''retries'')] []],
             JElem ''Labeled'' [(''label'', JStr ''Concurrency'')] [
               JElem ''TextField'' [(''source'', JStr ''concurrency'')] []]]]]"

definition configuration_card :: "js" where
  "configuration_card =
     JElem ''Card'' [(''sx'', JObj [(''mb'', JNum 3)])] [
       JElem ''CardContent'' [] [
         show_SectionHeader (JFun ''SettingsIcon'') (JStr ''Configuration''),
         FieldGroup
           [
             JElem ''Labeled'' [(''label'', JStr ''Ephemeral'')] [
               JElem ''BooleanField'' [(''source'', JStr ''ephemeral'')] []],
             JElem ''Labeled'' [(''label'', JStr ''Disabled'')] [
               JElem ''BooleanField'' [(''source'', JStr ''disabled'')] []],
             JElem ''Labeled'' [(''label'', JStr ''Starts At'')] [
               JElem ''DateField'' [
                   (''source'', JStr ''starts_at''),
                   (''showTime'', JBool True),
                   (''emptyText'', JStr ''Not set'')] []],
             JElem ''Labeled'' [(''label'', JStr ''Expires At'')] [
               JElem ''DateField'' [
                   (''source'', JStr ''expires_at''),
                   (''showTime'', JBool True),
                   (''emptyText'', JStr ''Not set'')] []],
             JElem ''Labeled'' [(''label'', JStr ''Executor'')] [
               JElem ''TextField'' [(''source'', JStr ''executor'')] []],
             JElem ''Labeled'' [(''label'', JStr ''Parent Job'')] [
               JElem ''TextField'' [(''source'', JStr ''parent_job''), (''emptyText'', JStr ''None'')] []]],
         StyledJsonField (JStr ''executor_config'') (JStr ''Executor Config''),
         StyledJsonField (JStr ''tags'') (JStr ''Tags''),
         StyledJsonField (JStr ''processors'') (JStr ''Processors''),
         StyledJsonField (JStr ''metadata'') (JStr ''Metadata'')]]"

definition executions_tab :: "bool \<Rightarrow> js \<Rightarrow> js" where
  "executions_tab outputLoading row =
     JElem ''Tab'' [
         (''label'', JStr ''Executions''),
         (''path'', JStr ''executions''),
         (''icon'', JElem ''PlaylistPlayIcon'' [] [])] [
       JElem ''Card'' [] [
         JElem ''CardContent'' [(''sx'', JObj [(''p'', JNum 0), (''&:last-child'', JObj [(''pb'', JNum 0)])])] [
           JElem ''ReferenceManyField'' [(''reference'', JStr ''executions''), (''target'', JStr ''jobs''), (''label'', JStr [])] [
             JElem ''Datagrid'' [
                 (''rowClick'', JStr ''expand''),
                 (''isRowSelectable'', JFun ''() => false''),
                 (''expand'', SpecialOutputPanel (JBool outputLoading) row),
                 (''sx'', JObj [
                   (''& .RaDatagrid-headerCell'', JObj [
                     (''backgroundColor'', JStr ''#f7fafc''),
                     (''fontWeight'', JNum 600),
                     (''fontSize'', JStr ''0.75rem''),
                     (''textTransform'', JStr ''uppercase''),
                     (''letterSpacing'', JStr ''0.05em''),
                     (''color'', JStr ''#4a5568'')]),
                   (''& .RaDatagrid-rowCell'', JObj [(''borderBottom'', JStr ''1px solid #e2e8f0'')]),
                   (''& .RaDatagrid-expandedPanel'', JObj [(''backgroundColor'', JStr ''#f7fafc'')])])] [
               JElem ''TextField'' [(''source'', JStr ''id''), (''label'', JStr ''ID'')] [],
               JElem ''TextField'' [(''source'', JStr ''group''), (''label'', JStr ''Group''), (''sortable'', JBool False)] [],
               JElem ''DateField'' [(''source'', JStr ''started_at''), (''label'', JStr ''Started''), (''showTime'', JBool True)] [],
               ZeroDateField_view
                 [
                   (''source'', JStr ''finished_at''),
                   (''label'', JStr ''Finished''),
                   (''showTime'', JBool True)],
               JElem ''TextField'' [(''source'', JStr ''node_name''), (''label'', JStr ''Node''), (''sortable'', JBool False)] [],
               SuccessField row,
               JElem ''NumberField'' [(''source'', JStr ''attempt''), (''label'', JStr ''Attempt'')] []]]]]]"

definition JobShow :: "js_props \<Rightarrow> js \<Rightarrow> js \<Rightarrow> bool \<Rightarrow> bool \<Rightarrow> bool \<Rightarrow> js \<Rightarrow> js" where
  "JobShow props record row runLoading toggleLoading outputLoading diagram =
     JElem ''Show''
       (js_assign
          (js_assign [(''actions'', JobShowActions runLoading toggleLoading (js_field props ''data''))] props)
          [(''sx'', JObj [(''& .RaShow-main'', JObj [(''p'', JObj [(''xs'', JNum 2), (''md'', JNum 3)])])])]) [
       JobHeader record,
       JElem ''TabbedShowLayout'' [(''sx'', JObj [(''& .RaTabbedShowLayout-content'', JObj [(''p'', JNum 0), (''pt'', JNum 3)])])] [
         JElem ''Tab'' [(''label'', JStr ''Summary''), (''icon'', JElem ''JobIcon'' [] [])] [
           schedule_card record,
           history_card,
           configuration_card],
         executions_tab outputLoading row,
         JElem ''Tab'' [
             (''label'', JStr ''Dependencies''),
             (''path'', JStr ''dependencies''),
             (''icon'', JElem ''AccountTreeIcon'' [] [])] [
           diagram]]]"

section \<open>Lemmas\<close>

text \<open>The properties of a job that the inputs of a form, or the fields of a page, name.\<close>

definition sources :: "js \<Rightarrow> js list" where
  "sources e = prop_values ''source'' (elements e)"

section \<open>Properties\<close>



text \<open>
  C28: the menu of the group filter offers the empty choice and then the groups, in order and with
  distinct keys, and the selected value is always one of its options, also when no loaded job is in
  the selected group.
\<close>

theorem group_menu:
  "prop_values ''value'' (tagged ''MenuItem'' (JobGroupFilter (Some data) sel)) =
     JStr [] # map JStr (group_choices (Some data) sel) \<and>
   good_keys (groups_menu (group_choices (Some data) sel)) \<and>
   prop_values ''value'' (tagged ''MuiTextField'' (JobGroupFilter (Some data) sel)) = [JStr sel] \<and>
   JStr sel \<in> set (prop_values ''value'' (tagged ''MenuItem'' (JobGroupFilter (Some data) sel)))"
proof (intro conjI)
  show opts: "prop_values ''value'' (tagged ''MenuItem'' (JobGroupFilter (Some data) sel)) =
      JStr [] # map JStr (group_choices (Some data) sel)"
    by (simp add: JobGroupFilter_def group_filter_box_def groups_menu_def comp_def)
  show "good_keys (groups_menu (group_choices (Some data) sel))"
    unfolding groups_menu_def
    by (rule good_keys_map [of "\<lambda>g. g"]) (simp_all add: distinct_group_choices)
  show "prop_values ''value'' (tagged ''MuiTextField'' (JobGroupFilter (Some data) sel)) = [JStr sel]"
    by (simp add: JobGroupFilter_def group_filter_box_def groups_menu_def comp_def)
  show "JStr sel \<in> set (prop_values ''value'' (tagged ''MenuItem'' (JobGroupFilter (Some data) sel)))"
    unfolding opts by (auto simp: set_group_choices)
qed


end
