(* ===== verification/HttpClient.thy ===== *)
theory HttpClient
  imports JsCore
begin

text \<open>
  \<open>src/ui/src/dataProvider.ts\<close>: the HTTP client that attaches the access token kept in the browser's
  local storage, and the data provider, which takes over the methods of the JSON-server provider and
  replaces \<open>getManyReference\<close> by one that asks for \<open>/<target>/<id>/<resource>\<close>.

  The packages the file only calls are parameters: \<open>fetchJson\<close> and \<open>flattenObject\<close> of ra-core,
  \<open>stringify\<close> of query-string, and the base provider of ra-data-json-server. A promise is its outcome,
  \<open>Inr\<close> when it is fulfilled and \<open>Inl\<close> when it is rejected.
\<close>

section \<open>Local storage\<close>

text \<open>
  \<open>window.localStorage\<close>: a dictionary of strings. \<open>getItem\<close> is \<open>null\<close> for a key that is not there.
\<close>

type_synonym storage = "(string, string) js_map"

definition getItem :: "storage \<Rightarrow> string \<Rightarrow> string option" where
  "getItem st k = map_get st k"

definition setItem :: "string \<Rightarrow> string \<Rightarrow> storage \<Rightarrow> storage" where
  "setItem k v st = map_set k v st"

definition removeItem :: "string \<Rightarrow> storage \<Rightarrow> storage" where
  "removeItem k st = filter (\<lambda>(k', _). k' \<noteq> k) st"

text \<open>
  The session operations rely on three laws only: what is read after a write, after a removal, and
  that other keys are left alone.
\<close>

locale string_store =
  fixes get :: "'s \<Rightarrow> string \<Rightarrow> string option"
    and put :: "string \<Rightarrow> string \<Rightarrow> 's \<Rightarrow> 's"
    and remove :: "string \<Rightarrow> 's \<Rightarrow> 's"
  assumes get_put: "get (put k v s) k' = (if k' = k then Some v else get s k')"
    and get_remove: "get (remove k s) k' = (if k' = k then None else get s k')"
begin

lemma remove_put: "get (remove k (put k v s)) k' = get (remove k s) k'"
  by (simp add: get_put get_remove)

lemma put_put: "get (put k v (put k w s)) k' = get (put k v s) k'"
  by (simp add: get_put)

lemma put_frame: "k' \<noteq> k \<Longrightarrow> get (put k v s) k' = get s k'"
  by (simp add: get_put)

lemma remove_frame: "k' \<noteq> k \<Longrightarrow> get (remove k s) k' = get s k'"
  by (simp add: get_remove)

end

interpretation local_storage: string_store getItem setItem removeItem
proof
  fix s :: storage and k k' v :: string
  show "getItem (setItem k v s) k' = (if k' = k then Some v else getItem s k')"
    by (simp add: getItem_def setItem_def)
  show "getItem (removeItem k s) k' = (if k' = k then None else getItem s k')"
    by (induction s) (auto simp: getItem_def removeItem_def map_get_def)
qed

section \<open>Requests and responses\<close>

text \<open>
  A \<open>Headers\<close> object compares names without regard to case; it is kept under lower-case names.
\<close>

type_synonym headers = "(string, string) js_map"

definition lower_char :: "char \<Rightarrow> char" where
  "lower_char c =
     (if 65 \<le> (of_char c :: nat) \<and> (of_char c :: nat) \<le> 90 then char_of ((of_char c :: nat) + 32) else c)"

definition lower :: "string \<Rightarrow> string" where
  "lower s = map lower_char s"

definition headers_set :: "string \<Rightarrow> string \<Rightarrow> headers \<Rightarrow> headers" where
  "headers_set name v hs = map_set (lower name) v hs"

definition headers_get :: "headers \<Rightarrow> string \<Rightarrow> string option" where
  "headers_get hs name = map_get hs (lower name)"

definition headers_has :: "headers \<Rightarrow> string \<Rightarrow> bool" where
  "headers_has hs name = (headers_get hs name \<noteq> None)"

record http_options =
  opt_method :: "string option"
  opt_headers :: "headers option"

record http_response =
  resp_status :: int
  resp_headers :: headers
  resp_json :: js

datatype http_error = HttpError int string | JsError string

type_synonym fetcher = "string \<Rightarrow> http_options \<Rightarrow> http_error + http_response"

definition no_options :: http_options where
  "no_options = \<lparr>opt_method = None, opt_headers = None\<rparr>"

definition post_options :: http_options where
  "post_options = \<lparr>opt_method = Some ''POST'', opt_headers = None\<rparr>"

text \<open>\<open>apiUrl\<close>: the address the server wrote into the page, or the development address.\<close>

definition apiUrl :: "string option \<Rightarrow> string" where
  "apiUrl dkron_api_url = str_or dkron_api_url ''http://localhost:8080/v1''"

text \<open>The options that \<open>httpClient\<close> hands to \<open>fetchJson\<close>.\<close>

definition authorized_options :: "storage \<Rightarrow> http_options \<Rightarrow> http_options" where
  "authorized_options st options =
     (let hs = (case opt_headers options of
                  None \<Rightarrow> headers_set ''Accept'' ''application/json'' []
                | Some h \<Rightarrow> h);
          token = getItem st ''token''
      in options\<lparr>opt_headers :=
           Some (if str_truthy token
                 then headers_set ''Authorization'' (''Bearer '' @ the token) hs
                 else hs)\<rparr>)"

definition httpClient ::
    "fetcher \<Rightarrow> storage \<Rightarrow> string \<Rightarrow> http_options \<Rightarrow> http_error + http_response" where
  "httpClient fetchJson st url options = fetchJson url (authorized_options st options)"

section \<open>The data provider\<close>

record ref_params =
  target :: string
  ref_id :: string
  page :: int
  perPage :: int
  sort_field :: string
  sort_order :: string
  ref_filter :: js

record list_result =
  list_data :: js
  list_total :: "int option"

type_synonym ref_method = "string \<Rightarrow> ref_params \<Rightarrow> http_error + list_result"

text \<open>
  The other methods of the provider are carried along untouched; \<open>'m\<close> is whatever the base provider
  puts there.
\<close>

record 'm data_provider =
  other_methods :: "(string \<times> 'm) list"
  getManyReference :: ref_method

definition missing_total_message :: string where
  "missing_total_message = ''The X-Total-Count header is missing in the HTTP Response. The jsonServer Data Provider expects responses for lists of resources to contain this header with the total number of results to build the pagination. If you are using CORS, did you declare X-Total-Count in the Access-Control-Expose-Headers header?''"

text \<open>
  The query object: a spread followed by properties that overwrite what the filter set under the same
  name.
\<close>

definition reference_query ::
    "(js \<Rightarrow> (string \<times> js) list) \<Rightarrow> ref_params \<Rightarrow> (string \<times> js) list" where
  "reference_query flattenObject params =
     fold (\<lambda>(k, v). map_set k v)
       [(target params, JStr (ref_id params)),
        (''_sort'', JStr (sort_field params)),
        (''_order'', JStr (sort_order params)),
        (''_start'', JNum (of_int ((page params - 1) * perPage params))),
        (''_end'', JNum (of_int (page params * perPage params))),
        (''output_size_limit'', JNum 200)]
       (map_new (flattenObject (ref_filter params)))"

definition reference_url ::
    "string \<Rightarrow> (js \<Rightarrow> (string \<times> js) list) \<Rightarrow> ((string \<times> js) list \<Rightarrow> string) \<Rightarrow>
     string \<Rightarrow> ref_params \<Rightarrow> string" where
  "reference_url api flattenObject stringify resource params =
     api @ ''/'' @ target params @ ''/'' @ ref_id params @ ''/'' @ resource @ ''?'' @
     stringify (reference_query flattenObject params)"

text \<open>The total from the \<open>X-Total-Count\<close> header: what follows its last slash, read as an integer.\<close>

definition parse_total :: "string \<Rightarrow> int option" where
  "parse_total h = parseInt10 (str_or (js_pop (split_char (CHR ''/'') h)) [])"

definition reference_result :: "http_response \<Rightarrow> http_error + list_result" where
  "reference_result response =
     (case headers_get (resp_headers response) ''x-total-count'' of
        None \<Rightarrow> Inl (JsError missing_total_message)
      | Some h \<Rightarrow> Inr \<lparr>list_data = resp_json response, list_total = parse_total h\<rparr>)"

definition dkron_getManyReference ::
    "string \<Rightarrow> fetcher \<Rightarrow> storage \<Rightarrow> (js \<Rightarrow> (string \<times> js) list) \<Rightarrow>
     ((string \<times> js) list \<Rightarrow> string) \<Rightarrow> ref_method" where
  "dkron_getManyReference api fetchJson st flattenObject stringify resource params =
     (case httpClient fetchJson st (reference_url api flattenObject stringify resource params) no_options of
        Inl e \<Rightarrow> Inl e
      | Inr response \<Rightarrow> reference_result response)"

definition dkronDataProvider ::
    "string \<Rightarrow> fetcher \<Rightarrow> storage \<Rightarrow> (js \<Rightarrow> (string \<times> js) list) \<Rightarrow>
     ((string \<times> js) list \<Rightarrow> string) \<Rightarrow> 'm data_provider \<Rightarrow> 'm data_provider" where
  "dkronDataProvider api fetchJson st flattenObject stringify dataProvider =
     dataProvider\<lparr>getManyReference := dkron_getManyReference api fetchJson st flattenObject stringify\<rparr>"

section \<open>Lemmas\<close>

lemma headers_get_set: "lower n = lower m \<Longrightarrow> headers_get (headers_set m v hs) n = Some v"
  by (simp add: headers_get_def headers_set_def)

lemma headers_get_set_other:
  "lower n \<noteq> lower m \<Longrightarrow> headers_get (headers_set m v hs) n = headers_get hs n"
  by (simp add: headers_get_def headers_set_def)

lemma lower_names:
  "lower ''Authorization'' = ''authorization''"
  "lower ''authorization'' = ''authorization''"
  "lower ''Accept'' = ''accept''"
  "lower ''accept'' = ''accept''"
  "lower ''X-Total-Count'' = ''x-total-count''"
  "lower ''x-total-count'' = ''x-total-count''"
  by code_simp+

lemma authorization_header:
  assumes "opt_headers options = None"
  shows "headers_get (the (opt_headers (authorized_options st options))) ''Authorization'' =
     (if str_truthy (getItem st ''token'') then Some (''Bearer '' @ the (getItem st ''token'')) else None)"
  using assms
  by (simp add: authorized_options_def Let_def headers_get_def headers_set_def lower_names)

lemma parse_total_plain: "parse_total (show_nat n) = Some (int n)"
proof -
  have "CHR ''/'' \<notin> set (show_nat n)" using show_nat_digits digit_not_special(4) by blast
  then show ?thesis by (simp add: parse_total_def js_pop_def split_char_no_sep str_or_truthy)
qed

lemma parse_total_range: "parse_total (s @ ''/'' @ show_nat n) = Some (int n)"
proof -
  have "CHR ''/'' \<notin> set (show_nat n)" using show_nat_digits digit_not_special(4) by blast
  then have "last (split_char (CHR ''/'') (s @ ''/'' @ show_nat n)) = show_nat n"
    by (simp add: last_split_char_append)
  then show ?thesis by (simp add: parse_total_def js_pop_def str_or_truthy)
qed

lemma map_of_set_fold:
  "map_get (fold (\<lambda>(k, v). map_set k v) es m) k =
     (case map_of (rev es) k of Some v \<Rightarrow> Some v | None \<Rightarrow> map_get m k)"
  by (induction es arbitrary: m) (auto simp: map_of_append map_add_def split: option.splits)

lemmas query_simps = reference_query_def map_of_set_fold

section \<open>Properties\<close>



text \<open>
  C7: the list result of \<open>getManyReference\<close>. A response whose \<open>X-Total-Count\<close> header is a decimal
  number, alone or behind a slash as in a content range, gives the data of the response with exactly
  that total; a response without the header and a failed request give an error, never a page.
\<close>

theorem getManyReference_result:
  "(\<forall>e. fetch_result = Inl e \<longrightarrow>
      dkron_getManyReference api (\<lambda>u opts. fetch_result) st fl str resource params = Inl e) \<and>
   (\<forall>r n prefix. fetch_result = Inr r \<longrightarrow>
      headers_get (resp_headers r) ''X-Total-Count'' \<in> {Some (show_nat n), Some (prefix @ ''/'' @ show_nat n)} \<longrightarrow>
      dkron_getManyReference api (\<lambda>u opts. fetch_result) st fl str resource params =
        Inr \<lparr>list_data = resp_json r, list_total = Some (int n)\<rparr>) \<and>
   (\<forall>r. fetch_result = Inr r \<longrightarrow> \<not> headers_has (resp_headers r) ''X-Total-Count'' \<longrightarrow>
      dkron_getManyReference api (\<lambda>u opts. fetch_result) st fl str resource params =
        Inl (JsError missing_total_message))"
proof -
  note defs = dkron_getManyReference_def httpClient_def reference_result_def headers_get_def
    headers_has_def lower_names
  have "Inl (JsError missing_total_message) =
      dkron_getManyReference api (\<lambda>u opts. Inr r) st fl str resource params"
    if "\<not> headers_has (resp_headers r) ''X-Total-Count''" for r
    using that by (simp add: defs)
  moreover have "Inr \<lparr>list_data = resp_json r, list_total = Some (int n)\<rparr> =
      dkron_getManyReference api (\<lambda>u opts. Inr r) st fl str resource params"
    if "headers_get (resp_headers r) ''X-Total-Count'' \<in> {Some (show_nat n), Some (prefix @ ''/'' @ show_nat n)}"
    for r n prefix
    using that parse_total_plain [of n] parse_total_range [of prefix n] by (auto simp: defs)
  moreover have "dkron_getManyReference api (\<lambda>u opts. Inl e) st fl str resource params = Inl e" for e
    by (simp add: defs)
  ultimately show ?thesis by simp
qed

text \<open>A server that answers 12 executions.\<close>

definition twelve :: http_response where
  "twelve = \<lparr>resp_status = 200, resp_headers = headers_set ''X-Total-Count'' ''12'' [], resp_json = JArr []\<rparr>"

theorem getManyReference_result_witness:
  "dkron_getManyReference ''/v1'' (\<lambda>u opts. Inr twelve) [] (\<lambda>_. []) (\<lambda>_. []) ''executions''
     \<lparr>target = ''jobs'', ref_id = ''backup'', page = 1, perPage = 10, sort_field = ''id'',
      sort_order = ''DESC'', ref_filter = JObj []\<rparr> =
   Inr \<lparr>list_data = JArr [], list_total = Some 12\<rparr>"
proof -
  have "show_nat 12 = ''12''" by code_simp
  then have "headers_get (resp_headers twelve) ''X-Total-Count'' \<in>
      {Some (show_nat 12), Some ([] @ ''/'' @ show_nat 12)}"
    by (simp add: twelve_def headers_get_set)
  then show ?thesis
    using getManyReference_result [of "Inr twelve"] by (fastforce simp: twelve_def)
qed

end
