(* ===== verification/Charts.thy ===== *)
theory Charts
  imports HttpClient Loading Jsx
begin

text \<open>
  The charts of the dashboard: \<open>src/ui/src/dashboard/ExecutionStatsChart.tsx\<close>, which loads the execution
  counts of the last thirty days, and \<open>src/ui/src/dashboard/JobChart.tsx\<close>, which sums job totals by day.

  The locale-dependent \<open>toLocaleDateString\<close> and the date functions of date-fns are parameters. The body
  of an answer is given by its \<open>stats\<close> array, or by \<open>None\<close> when it has none, in which case reading
  it throws.
\<close>

section \<open>Execution statistics\<close>

record execution_stat =
  stat_date :: string
  success_count :: int
  failed_count :: int

record chart_point =
  point_date :: string
  dateFormatted :: string
  point_success :: int
  point_failed :: int
  point_total :: int

type_synonym stats_answer = "http_error + execution_stat list option"

definition stats_url :: "string \<Rightarrow> string" where
  "stats_url api = api @ ''/stats?days=30''"

definition chartData :: "(string \<Rightarrow> string) \<Rightarrow> execution_stat list \<Rightarrow> chart_point list" where
  "chartData dateFormatter stats =
     map (\<lambda>stat. \<lparr>point_date = stat_date stat, dateFormatted = dateFormatter (stat_date stat),
                  point_success = success_count stat, point_failed = failed_count stat,
                  point_total = success_count stat + failed_count stat\<rparr>) stats"

definition stats_start :: "chart_point list loader" where
  "stats_start = \<lparr>ld_data = [], ld_loading = True, ld_error = None, ld_pending = 0\<rparr>"

definition stats_message :: string where
  "stats_message = ''Failed to load statistics''"

fun fetchStats ::
    "(string \<Rightarrow> string) \<Rightarrow> chart_point list loader \<Rightarrow> stats_answer load_event \<Rightarrow> chart_point list loader" where
  "fetchStats dateFormatter s RunEffect = s\<lparr>ld_loading := True, ld_pending := Suc (ld_pending s)\<rparr>"
| "fetchStats dateFormatter s (Answer res) =
     (case ld_pending s of
        0 \<Rightarrow> s
      | Suc n \<Rightarrow>
          let s = s\<lparr>ld_pending := n\<rparr>;
              s = (case res of
                     Inr (Some stats) \<Rightarrow> s\<lparr>ld_data := chartData dateFormatter stats, ld_error := None\<rparr>
                   | _ \<Rightarrow> s\<lparr>ld_error := Some stats_message\<rparr>)
          in s\<lparr>ld_loading := False\<rparr>)"

definition answered_points :: "(string \<Rightarrow> string) \<Rightarrow> stats_answer \<Rightarrow> chart_point list option" where
  "answered_points dateFormatter res =
     (case res of Inr (Some stats) \<Rightarrow> Some (chartData dateFormatter stats) | _ \<Rightarrow> None)"

definition totalSuccess :: "chart_point list \<Rightarrow> int" where
  "totalSuccess data = foldl (\<lambda>sum d. sum + point_success d) 0 data"

definition totalFailed :: "chart_point list \<Rightarrow> int" where
  "totalFailed data = foldl (\<lambda>sum d. sum + point_failed d) 0 data"

definition stats_subheader :: "chart_point list \<Rightarrow> string" where
  "stats_subheader data =
     ''Total: '' @ show_int (totalSuccess data + totalFailed data) @ '' executions ('' @
     show_int (totalSuccess data) @ '' successful, '' @ show_int (totalFailed data) @ '' failed)''"

text \<open>The name that the tooltip and the legend give to a series, and the tooltip's label.\<close>

definition series_name :: "string \<Rightarrow> string" where
  "series_name name = (if name = ''success'' then ''Successful'' else ''Failed'')"

definition tooltip_formatter :: "js \<Rightarrow> string \<Rightarrow> js" where
  "tooltip_formatter value name = JArr [value, JStr (series_name name)]"

definition labelFormatter :: "js \<Rightarrow> js" where
  "labelFormatter label = (if js_typeof label = ''string'' then label else JStr (js_string label))"

definition point_value :: "chart_point \<Rightarrow> js" where
  "point_value p =
     JObj [(''date'', JStr (point_date p)), (''dateFormatted'', JStr (dateFormatted p)),
           (''success'', JNum (of_int (point_success p))), (''failed'', JNum (of_int (point_failed p))),
           (''total'', JNum (of_int (point_total p)))]"

definition stats_loading_card :: "js" where
  "stats_loading_card =
     JElem ''Card'' [] [
       JElem ''CardHeader'' [(''title'', JStr ''Execution Statistics (Last 30 Days)'')] [],
       JElem ''CardContent'' [] [
         JElem ''Box'' [
             (''display'', JStr ''flex''),
             (''justifyContent'', JStr ''center''),
             (''alignItems'', JStr ''center''),
             (''height'', JNum 300)] [
           JElem ''CircularProgress'' [] []]]]"

definition stats_error_card :: "js \<Rightarrow> js" where
  "stats_error_card error =
     JElem ''Card'' [] [
       JElem ''CardHeader'' [(''title'', JStr ''Execution Statistics (Last 30 Days)'')] [],
       JElem ''CardContent'' [] [
         JElem ''Box'' [
             (''display'', JStr ''flex''),
             (''justifyContent'', JStr ''center''),
             (''alignItems'', JStr ''center''),
             (''height'', JNum 300)] [
           JElem ''Typography'' [(''color'', JStr ''error'')] [error]]]]"

definition stats_gradients :: "js" where
  "stats_gradients =
     JElem ''defs'' [] [
       JElem ''linearGradient'' [
           (''id'', JStr ''colorSuccess''),
           (''x1'', JStr ''0''),
           (''y1'', JStr ''0''),
           (''x2'', JStr ''0''),
           (''y2'', JStr ''1'')] [
         JElem ''stop'' [(''offset'', JStr ''5%''), (''stopColor'', JStr ''#4caf50''), (''stopOpacity'', JNum (8 / 10))] [],
         JElem ''stop'' [(''offset'', JStr ''95%''), (''stopColor'', JStr ''#4caf50''), (''stopOpacity'', JNum (1 / 10))] []],
       JElem ''linearGradient'' [
           (''id'', JStr ''colorFailed''),
           (''x1'', JStr ''0''),
           (''y1'', JStr ''0''),
           (''x2'', JStr ''0''),
           (''y2'', JStr ''1'')] [
         JElem ''stop'' [(''offset'', JStr ''5%''), (''stopColor'', JStr ''#f44336''), (''stopOpacity'', JNum (8 / 10))] [],
         JElem ''stop'' [(''offset'', JStr ''95%''), (''stopColor'', JStr ''#f44336''), (''stopOpacity'', JNum (1 / 10))] []]]"

definition stats_card :: "chart_point list \<Rightarrow> js" where
  "stats_card data =
     JElem ''Card'' [] [
       JElem ''CardHeader'' [
           (''title'', JStr ''Execution Statistics (Last 30 Days)''),
           (''subheader'', JStr (stats_subheader data))] [],
       JElem ''CardContent'' [] [
         JElem ''div'' [(''style'', JObj [(''width'', JStr ''100%''), (''height'', JNum 300)])] [
           JElem ''ResponsiveContainer'' [] [
             JElem ''AreaChart'' [(''data'', JArr (map point_value data))] [
               stats_gradients,
               JElem ''CartesianGrid'' [(''strokeDasharray'', JStr ''3 3'')] [],
               JElem ''XAxis'' [
                   (''dataKey'', JStr ''dateFormatted''),
                   (''tick'', JObj [(''fontSize'', JNum 12)]),
                   (''interval'', JStr ''preserveStartEnd'')] [],
               JElem ''YAxis'' [(''allowDecimals'', JBool False), (''tick'', JObj [(''fontSize'', JNum 12)])] [],
               JElem ''Tooltip'' [(''labelFormatter'', JFun ''labelFormatter''), (''formatter'', JFun ''tooltip_formatter'')] [],
               JElem ''Legend'' [(''formatter'', JFun ''series_name'')] [],
               JElem ''Area'' [
                   (''type'', JStr ''monotone''),
                   (''dataKey'', JStr ''success''),
                   (''stackId'', JStr ''1''),
                   (''stroke'', JStr ''#4caf50''),
                   (''strokeWidth'', JNum 2),
                   (''fill'', JStr ''url(#colorSuccess)'')] [],
               JElem ''Area'' [
                   (''type'', JStr ''monotone''),
                   (''dataKey'', JStr ''failed''),
                   (''stackId'', JStr ''1''),
                   (''stroke'', JStr ''#f44336''),
                   (''strokeWidth'', JNum 2),
                   (''fill'', JStr ''url(#colorFailed)'')] []]]]]]"

definition ExecutionStatsChart :: "chart_point list loader \<Rightarrow> js" where
  "ExecutionStatsChart st =
     (if ld_loading st then stats_loading_card
      else if str_truthy (ld_error st) then stats_error_card (js_opt (ld_error st))
      else stats_card (ld_data st))"

section \<open>Jobs by day\<close>

record job_data =
  data_date :: string
  data_total :: int

text \<open>
  One step of the \<open>reduce\<close>: the total of the day is created with 0 when it is missing or 0, then
  increased. \<open>format\<close> stands for \<open>format(new Date(d), 'yyyy-MM-dd')\<close>.
\<close>

definition add_to_day :: "(string \<Rightarrow> string) \<Rightarrow> (string, int) js_map \<Rightarrow> job_data \<Rightarrow> (string, int) js_map" where
  "add_to_day format acc cur =
     (let day = format (data_date cur);
          acc = (if map_get acc day \<in> {None, Some 0} then map_set day 0 acc else acc)
      in map_set day (the (map_get acc day) + data_total cur) acc)"

definition aggregateJobsByHour ::
    "(string \<Rightarrow> string) \<Rightarrow> (string \<Rightarrow> int) \<Rightarrow> job_data list \<Rightarrow> (int \<times> int) list" where
  "aggregateJobsByHour format getTime jobs =
     (let acc = foldl (add_to_day format) [] jobs
      in map (\<lambda>date. (getTime date, the (map_get acc date))) (key_order (map_keys acc)))"

definition day_value :: "int \<times> int \<Rightarrow> js" where
  "day_value d = JObj [(''date'', JNum (of_int (fst d))), (''total'', JNum (of_int (snd d)))]"

definition job_chart_card :: "int \<Rightarrow> int \<Rightarrow> js \<Rightarrow> js" where
  "job_chart_card monthStart now days =
     JElem ''Card'' [] [
       JElem ''CardHeader'' [(''title'', JStr ''Job Executions'')] [],
       JElem ''CardContent'' [] [
         JElem ''div'' [(''style'', JObj [(''width'', JStr ''100%''), (''height'', JNum 300)])] [
           JElem ''ResponsiveContainer'' [] [
             JElem ''AreaChart'' [(''data'', days)] [
               JElem ''defs'' [] [
                 JElem ''linearGradient'' [
                     (''id'', JStr ''colorUv''),
                     (''x1'', JStr ''0''),
                     (''y1'', JStr ''0''),
                     (''x2'', JStr ''0''),
                     (''y2'', JStr ''1'')] [
                   JElem ''stop'' [
                       (''offset'', JStr ''5%''),
                       (''stopColor'', JStr ''#8884d8''),
                       (''stopOpacity'', JNum (8 / 10))] [],
                   JElem ''stop'' [(''offset'', JStr ''95%''), (''stopColor'', JStr ''#8884d8''), (''stopOpacity'', JNum 0)] []]],
               JElem ''XAxis'' [
                   (''dataKey'', JStr ''date''),
                   (''name'', JStr ''Date''),
                   (''type'', JStr ''number''),
                   (''scale'', JStr ''time''),
                   (''domain'', JArr [JNum (of_int monthStart), JNum (of_int now)]),
                   (''tickFormatter'', JFun ''dateFormatter'')] [],
               JElem ''YAxis'' [
                   (''dataKey'', JStr ''total''),
                   (''name'', JStr ''Revenue''),
                   (''unit'', JStr [CHR 0xE2, CHR 0x82, CHR 0xAC])] [],
               JElem ''CartesianGrid'' [(''strokeDasharray'', JStr ''3 3'')] [],
               JElem ''Tooltip'' [
                   (''cursor'', JObj [(''strokeDasharray'', JStr ''3 3'')]),
                   (''formatter'', JFun ''Intl.NumberFormat''),
                   (''labelFormatter'', JFun ''dateFormatter'')] [],
               JElem ''Area'' [
                   (''type'', JStr ''monotone''),
                   (''dataKey'', JStr ''total''),
                   (''stroke'', JStr ''#8884d8''),
                   (''strokeWidth'', JNum 2),
                   (''fill'', JStr ''url(#colorUv)'')] []]]]]]"

definition JobChart ::
    "(string \<Rightarrow> string) \<Rightarrow> (string \<Rightarrow> int) \<Rightarrow> int \<Rightarrow> int \<Rightarrow> job_data list option \<Rightarrow> js" where
  "JobChart format getTime monthStart now jobs =
     (case jobs of
        None \<Rightarrow> JNull
      | Some js \<Rightarrow> job_chart_card monthStart now (JArr (map day_value (aggregateJobsByHour format getTime js))))"

section \<open>Lemmas\<close>

interpretation stats: loading_effect "fetchStats f" stats_start "answered_points f" stats_message for f
  by unfold_locales
    (auto simp: stats_start_def answered_points_def Let_def split: nat.splits sum.splits option.splits)

lemma foldl_sum: "foldl (\<lambda>s d. s + g d) (z :: int) xs = z + sum_list (map g xs)"
  by (induction xs arbitrary: z) simp_all

lemma totals:
  "totalSuccess (chartData f ss) = sum_list (map success_count ss)"
  "totalFailed (chartData f ss) = sum_list (map failed_count ss)"
  by (simp_all add: totalSuccess_def totalFailed_def foldl_sum chartData_def comp_def)

lemmas card_defs = stats_loading_card_def stats_error_card_def stats_card_def stats_gradients_def

lemma tagged_points [simp]: "tagged t (point_value p) = []"
  by (simp add: point_value_def)

lemma stats_card_parts:
  "prop_values ''subheader'' (tagged ''CardHeader'' (stats_card d)) = [JStr (stats_subheader d)]"
  "prop_values ''data'' (tagged ''AreaChart'' (stats_card d)) = [JArr (map point_value d)]"
  "tagged ''CircularProgress'' (stats_card d) = []"
  by (simp_all add: card_defs comp_def)

text \<open>The dictionary of day totals: one step adds to one day and keeps the others.\<close>

lemma add_to_day_get:
  "map_get (add_to_day format acc j) d =
     (if d = format (data_date j)
      then Some ((case map_get acc d of None \<Rightarrow> 0 | Some n \<Rightarrow> n) + data_total j) else map_get acc d)"
  by (auto simp: add_to_day_def Let_def split: option.splits)

lemma add_to_day_distinct: "distinct (map fst acc) \<Longrightarrow> distinct (map fst (add_to_day format acc j))"
  by (simp add: add_to_day_def Let_def jmap.inv_set)

lemma days_get:
  "map_get (foldl (add_to_day format) acc jobs) d =
     (if d \<in> (\<lambda>j. format (data_date j)) ` set jobs
      then Some ((case map_get acc d of None \<Rightarrow> 0 | Some n \<Rightarrow> n) +
        sum_list (map data_total (filter (\<lambda>j. format (data_date j) = d) jobs)))
      else map_get acc d)"
proof (induction jobs arbitrary: acc)
  case (Cons j jobs)
  have "filter (\<lambda>i. format (data_date i) = d) jobs = []" if "d \<notin> (\<lambda>j. format (data_date j)) ` set jobs"
    using that by (auto simp: filter_empty_conv)
  with Cons show ?case by (auto simp: add_to_day_get split: option.splits)
qed simp

lemma days_distinct: "distinct (map fst acc) \<Longrightarrow> distinct (map fst (foldl (add_to_day format) acc jobs))"
  by (induction jobs arbitrary: acc) (simp_all add: add_to_day_distinct)

lemma day_keys:
  "set (map_keys (foldl (add_to_day format) [] jobs)) = (\<lambda>j. format (data_date j)) ` set jobs"
proof -
  have "d \<in> set (map_keys (foldl (add_to_day format) [] jobs)) \<longleftrightarrow> d \<in> (\<lambda>j. format (data_date j)) ` set jobs" for d
    using jmap.keys_get [OF days_distinct, of "[]" d format jobs] by (simp add: days_get split: if_splits)
  then show ?thesis by blast
qed

text \<open>A sum over the classes of a function is the sum over all.\<close>

lemma sum_by_class:
  fixes g :: "'a \<Rightarrow> int"
  assumes "finite A" and "h ` set xs \<subseteq> A"
  shows "(\<Sum>a \<in> A. sum_list (map g (filter (\<lambda>x. h x = a) xs))) = sum_list (map g xs)"
  using assms(2)
proof (induction xs)
  case (Cons x xs)
  have "(\<Sum>a \<in> A. sum_list (map g (filter (\<lambda>x. h x = a) (x # xs)))) =
      (\<Sum>a \<in> A. (if h x = a then g x else 0) + sum_list (map g (filter (\<lambda>x. h x = a) xs)))"
    by (rule sum.cong) auto
  also have "\<dots> = g x + sum_list (map g xs)"
    using Cons assms(1) by (simp add: sum.distrib)
  finally show ?case by simp
qed simp

section \<open>Properties\<close>

text \<open>
  C30: when the statistics arrive, the card states the sums of the successful and failed executions and
  their total, and draws one point per day in the order of the answer; the totals of the points add
  up to the total that the card states.
\<close>

theorem stats_shown:
  "prop_values ''subheader'' (tagged ''CardHeader''
      (ExecutionStatsChart (run_events (fetchStats f) stats_start [RunEffect, Answer (Inr (Some ss))]))) =
     [JStr (''Total: '' @ show_int (sum_list (map success_count ss) + sum_list (map failed_count ss)) @ '' executions ('' @
        show_int (sum_list (map success_count ss)) @ '' successful, '' @
        show_int (sum_list (map failed_count ss)) @ '' failed)'')] \<and>
   (\<exists>points. prop_values ''data'' (tagged ''AreaChart''
        (ExecutionStatsChart (run_events (fetchStats f) stats_start [RunEffect, Answer (Inr (Some ss))]))) =
        [JArr (map point_value points)] \<and>
      map point_date points = map stat_date ss \<and>
      sum_list (map point_total points) = sum_list (map success_count ss) + sum_list (map failed_count ss))"
proof -
  have st: "ExecutionStatsChart (run_events (fetchStats f) stats_start [RunEffect, Answer (Inr (Some ss))]) =
      stats_card (chartData f ss)"
    unfolding stats.first_load by (simp add: ExecutionStatsChart_def answered_points_def)
  have "sum_list (map point_total (chartData f ss)) = sum_list (map success_count ss) + sum_list (map failed_count ss)"
    by (simp add: chartData_def comp_def sum_list_addf)
  moreover have "map point_date (chartData f ss) = map stat_date ss"
    by (simp add: chartData_def comp_def)
  ultimately show ?thesis
    unfolding st stats_card_parts by (auto simp: stats_subheader_def totals)
qed

text \<open>
  C31: whatever happened before, an awaited answer ends the spinner; the card then shows the chart when
  the answer has statistics, and only the error message when the request failed or the body had none.
\<close>

theorem stats_answer_shown:
  assumes "ld_pending (run_events (fetchStats f) stats_start es) \<noteq> 0"
  shows "ExecutionStatsChart (run_events (fetchStats f) stats_start (es @ [Answer (Inr (Some ss))])) =
      stats_card (chartData f ss) \<and>
    tagged ''CircularProgress'' (stats_card (chartData f ss)) = [] \<and>
    ExecutionStatsChart (run_events (fetchStats f) stats_start (es @ [Answer (Inr None)])) =
      stats_error_card (JStr ''Failed to load statistics'') \<and>
    ExecutionStatsChart (run_events (fetchStats f) stats_start (es @ [Answer (Inl e)])) =
      stats_error_card (JStr ''Failed to load statistics'') \<and>
    texts (stats_error_card (JStr ''Failed to load statistics'')) = [''Failed to load statistics'']"
proof -
  have settled: "stats.settled_with f (run_events (fetchStats f) stats_start (es @ [Answer r])) r" for r
    using stats.answer_settles [OF assms] by simp
  note shown = settled [unfolded stats.settled_with_def]
  have "texts (stats_error_card (JStr ''Failed to load statistics'')) = [''Failed to load statistics'']"
    by (simp add: stats_error_card_def)
  then show ?thesis
    using shown [of "Inr (Some ss)"] shown [of "Inr None"] shown [of "Inl e"]
    by (simp del: run_events_append add: ExecutionStatsChart_def stats_card_parts js_opt_def
        answered_points_def stats_message_def)
qed

theorem stats_answer_shown_witness:
  "ld_pending (run_events (fetchStats (\<lambda>d. d)) stats_start [RunEffect]) \<noteq> 0 \<and>
   texts (ExecutionStatsChart (run_events (fetchStats (\<lambda>d. d)) stats_start [RunEffect, Answer (Inr None)])) =
     [''Failed to load statistics'']"
proof -
  have p: "ld_pending (run_events (fetchStats (\<lambda>d. d)) stats_start [RunEffect]) \<noteq> 0" by simp
  with stats_answer_shown [OF p] show ?thesis by (metis append_Cons append_Nil)
qed

text \<open>
  C32: the chart of jobs has one point for each day on which there is a job, with the sum of the totals
  of that day; the points together carry the sum over all jobs.
\<close>

theorem jobs_by_day:
  "mset (aggregateJobsByHour format getTime jobs) =
     image_mset (\<lambda>d. (getTime d, sum_list (map data_total (filter (\<lambda>j. format (data_date j) = d) jobs))))
       (mset_set ((\<lambda>j. format (data_date j)) ` set jobs)) \<and>
   sum_list (map snd (aggregateJobsByHour format getTime jobs)) = sum_list (map data_total jobs)"
proof
  let ?acc = "foldl (add_to_day format) [] jobs" and ?D = "(\<lambda>j. format (data_date j)) ` set jobs"
  have keys: "mset (key_order (map_keys ?acc)) = mset_set ?D"
    using day_keys [of format jobs] days_distinct [of "[]" format jobs]
    by (metis mset_key_order mset_set_set jmap.keys_distinct distinct.simps(1) list.simps(8))
  show ms: "mset (aggregateJobsByHour format getTime jobs) =
     image_mset (\<lambda>d. (getTime d, sum_list (map data_total (filter (\<lambda>j. format (data_date j) = d) jobs)))) (mset_set ?D)"
    unfolding aggregateJobsByHour_def Let_def mset_map keys
    by (rule image_mset_cong) (simp add: days_get)
  have "sum_list (map snd (aggregateJobsByHour format getTime jobs)) =
      \<Sum>\<^sub># (image_mset snd (mset (aggregateJobsByHour format getTime jobs)))"
    by (simp add: sum_mset_sum_list [symmetric])
  also have "\<dots> = (\<Sum>d \<in> ?D. sum_list (map data_total (filter (\<lambda>j. format (data_date j) = d) jobs)))"
    by (simp add: ms sum_unfold_sum_mset image_mset.compositionality comp_def)
  also have "\<dots> = sum_list (map data_total jobs)" by (rule sum_by_class) auto
  finally show "sum_list (map snd (aggregateJobsByHour format getTime jobs)) = sum_list (map data_total jobs)" .
qed

end
