(* ===== verification/Shell.thy ===== *)
theory Shell
  imports Jsx
begin

text \<open>
  The frame of the user interface: the theme (\<open>theme.ts\<close>), the application bar with its clock and the
  side bar (\<open>layout/\<close>), the login page as it is rendered (\<open>LoginPage.tsx\<close>; its submit handler is in
  the theory of the session), and the settings page with its action (\<open>settings/\<close>).

  Material UI's theme object and its functions are parameters of the styles: \<open>theme\<close> is the value,
  \<open>spacing\<close> is \<open>theme.spacing\<close>. react-admin's default theme is a parameter of \<open>lightTheme\<close>.
\<close>

section \<open>The theme\<close>

definition primaryColor :: string where "primaryColor = ''#1a365d''"
definition secondaryColor :: string where "secondaryColor = ''#3182ce''"

definition theme_palette :: "js" where
  "theme_palette =
     JObj [
       (''mode'', JStr ''light''),
       (''primary'', JObj [
         (''main'', JStr primaryColor),
         (''light'', JStr ''#2a4a7f''),
         (''dark'', JStr ''#0d1f3c''),
         (''contrastText'', JStr ''#ffffff'')]),
       (''secondary'', JObj [
         (''main'', JStr secondaryColor),
         (''light'', JStr ''#63b3ed''),
         (''dark'', JStr ''#2c5282''),
         (''contrastText'', JStr ''#ffffff'')]),
       (''success'', JObj [(''main'', JStr ''#38a169''), (''light'', JStr ''#68d391''), (''dark'', JStr ''#276749'')]),
       (''warning'', JObj [(''main'', JStr ''#d69e2e''), (''light'', JStr ''#ecc94b''), (''dark'', JStr ''#b7791f'')]),
       (''error'', JObj [(''main'', JStr ''#e53e3e''), (''light'', JStr ''#fc8181''), (''dark'', JStr ''#c53030'')]),
       (''info'', JObj [(''main'', JStr secondaryColor), (''light'', JStr ''#63b3ed''), (''dark'', JStr ''#2c5282'')]),
       (''background'', JObj [(''default'', JStr ''#f7fafc''), (''paper'', JStr ''#ffffff'')]),
       (''text'', JObj [(''primary'', JStr ''#1a202c''), (''secondary'', JStr ''#4a5568'')])]"

definition theme_card_components :: "js_props" where
  "theme_card_components =
     [
       (''MuiCard'', JObj [
         (''styleOverrides'', JObj [
           (''root'', JObj [
             (''boxShadow'', JStr ''0 1px 3px 0 rgba(0, 0, 0, 0.1), 0 1px 2px 0 rgba(0, 0, 0, 0.06)''),
             (''borderRadius'', JNum 12),
             (''border'', JStr ''1px solid #e2e8f0'')])])]),
       (''MuiCardHeader'', JObj [
         (''styleOverrides'', JObj [
           (''root'', JObj [(''padding'', JStr ''20px 24px 16px'')]),
           (''title'', JObj [
             (''fontSize'', JStr ''1.125rem''),
             (''fontWeight'', JNum 600),
             (''color'', JStr ''#1a202c'')])])]),
       (''MuiCardContent'', JObj [
         (''styleOverrides'', JObj [
           (''root'', JObj [
             (''padding'', JStr ''16px 24px 24px''),
             (''&:last-child'', JObj [(''paddingBottom'', JNum 24)])])])])]"

definition theme_shell_components :: "js_props" where
  "theme_shell_components =
     [
       (''MuiButton'', JObj [
         (''styleOverrides'', JObj [
           (''root'', JObj [
             (''borderRadius'', JNum 8),
             (''padding'', JStr ''8px 16px''),
             (''fontWeight'', JNum 500),
             (''boxShadow'', JStr ''none''),
             (''textTransform'', JStr ''none'')])])]),
       (''MuiAppBar'', JObj [
         (''styleOverrides'', JObj [
           (''root'', JObj [
             (''boxShadow'', JStr ''0 1px 3px 0 rgba(0, 0, 0, 0.1), 0 1px 2px 0 rgba(0, 0, 0, 0.06)'')])])]),
       (''MuiDrawer'', JObj [
         (''styleOverrides'', JObj [(''paper'', JObj [(''backgroundColor'', JStr ''#1a365d''), (''color'', JStr ''#ffffff'')])])]),
       (''MuiListItemIcon'', JObj [
         (''styleOverrides'', JObj [(''root'', JObj [(''color'', JStr ''inherit''), (''minWidth'', JNum 40)])])])]"

definition theme_table_components :: "js_props" where
  "theme_table_components =
     [
       (''MuiTableCell'', JObj [
         (''styleOverrides'', JObj [
           (''root'', JObj [(''borderBottom'', JStr ''1px solid #e2e8f0'')]),
           (''head'', JObj [
             (''fontWeight'', JNum 600),
             (''backgroundColor'', JStr ''#f7fafc''),
             (''color'', JStr ''#4a5568''),
             (''fontSize'', JStr ''0.75rem''),
             (''textTransform'', JStr ''uppercase''),
             (''letterSpacing'', JStr ''0.05em'')])])]),
       (''MuiTableRow'', JObj [
         (''styleOverrides'', JObj [(''root'', JObj [(''&:hover'', JObj [(''backgroundColor'', JStr ''#f7fafc'')])])])])]"

definition theme_control_components :: "js_props" where
  "theme_control_components =
     [
       (''MuiChip'', JObj [
         (''styleOverrides'', JObj [(''root'', JObj [(''borderRadius'', JNum 6), (''fontWeight'', JNum 500)])])]),
       (''MuiTooltip'', JObj [
         (''styleOverrides'', JObj [
           (''tooltip'', JObj [
             (''backgroundColor'', JStr ''#1a202c''),
             (''fontSize'', JStr ''0.75rem''),
             (''borderRadius'', JNum 6)])])]),
       (''MuiTextField'', JObj [
         (''styleOverrides'', JObj [(''root'', JObj [(''& .MuiOutlinedInput-root'', JObj [(''borderRadius'', JNum 8)])])])]),
       (''MuiPaper'', JObj [(''styleOverrides'', JObj [(''rounded'', JObj [(''borderRadius'', JNum 12)])])]),
       (''MuiTab'', JObj [
         (''styleOverrides'', JObj [(''root'', JObj [(''textTransform'', JStr ''none''), (''fontWeight'', JNum 500)])])])]"

definition theme_components :: "js \<Rightarrow> js" where
  "theme_components defaultTheme =
     JObj (js_assign (js_fields (js_get defaultTheme ''components''))
       (theme_card_components @ theme_shell_components @ theme_table_components @ theme_control_components))"

definition lightTheme :: "js \<Rightarrow> js" where
  "lightTheme defaultTheme =
     JObj (js_assign (js_fields defaultTheme)
       [(''palette'', theme_palette),
        (''typography'', JObj [(''fontFamily'', JStr ''\"Inter\", \"Roboto\", \"Helvetica\", \"Arial\", sans-serif'')]),
        (''shape'', JObj [(''borderRadius'', JNum 8)]),
        (''components'', theme_components defaultTheme)])"

section \<open>The clock\<close>

text \<open>
  A class component: the constructor reads the date, mounting starts an interval timer and unmounting
  clears it. The timers of the browser that run are \<open>live\<close>. React mounts and unmounts in turn; in
  strict mode it does so twice.
\<close>

record clock =
  clock_date :: int
  timer :: "nat option"
  mounted :: bool
  live :: "nat list"
  next_timer :: nat

datatype clock_event = Mount | Tick nat int | Unmount

definition clock_new :: "int \<Rightarrow> clock" where
  "clock_new now = \<lparr>clock_date = now, timer = None, mounted = False, live = [], next_timer = 1\<rparr>"

definition componentDidMount :: "clock \<Rightarrow> clock" where
  "componentDidMount c =
     c\<lparr>timer := Some (next_timer c), live := live c @ [next_timer c], next_timer := Suc (next_timer c)\<rparr>"

definition componentWillUnmount :: "clock \<Rightarrow> clock" where
  "componentWillUnmount c = c\<lparr>live := filter (\<lambda>i. Some i \<noteq> timer c) (live c)\<rparr>"

fun clock_step :: "clock \<Rightarrow> clock_event \<Rightarrow> clock" where
  "clock_step c Mount = (if mounted c then c else (componentDidMount c)\<lparr>mounted := True\<rparr>)"
| "clock_step c Unmount = (if mounted c then (componentWillUnmount c)\<lparr>mounted := False\<rparr> else c)"
| "clock_step c (Tick i now) = (if i \<in> set (live c) then c\<lparr>clock_date := now\<rparr> else c)"

definition Clock_view :: "(int \<Rightarrow> string) \<Rightarrow> clock \<Rightarrow> js" where
  "Clock_view toLocaleTimeString c =
     JElem ''Box'' [
         (''sx'', JObj [
           (''display'', JStr ''flex''),
           (''alignItems'', JStr ''center''),
           (''gap'', JNum (75 / 100)),
           (''backgroundColor'', JStr ''rgba(255, 255, 255, 0.1)''),
           (''borderRadius'', JNum 2),
           (''px'', JNum (15 / 10)),
           (''py'', JNum (5 / 10))])] [
       JElem ''AccessTimeIcon'' [(''sx'', JObj [(''fontSize'', JNum 16), (''opacity'', JNum (9 / 10))])] [],
       JElem ''Typography'' [
           (''variant'', JStr ''body2''),
           (''sx'', JObj [
             (''fontFamily'', JStr ''\"Roboto Mono\", monospace''),
             (''fontWeight'', JNum 500),
             (''fontSize'', JStr ''0.8rem''),
             (''letterSpacing'', JStr ''0.02em'')])] [
         JStr (toLocaleTimeString (clock_date c))]]"

section \<open>The application bar and the side bar\<close>

definition appbar_PREFIX :: string where "appbar_PREFIX = ''CustomAppBar''"

definition appbar_classes :: "js" where
  "appbar_classes =
     JObj [
       (''title'', JStr (appbar_PREFIX @ ''-title'')),
       (''spacer'', JStr (appbar_PREFIX @ ''-spacer'')),
       (''logo'', JStr (appbar_PREFIX @ ''-logo''))]"

definition StyledAppBar :: "js \<Rightarrow> js" where
  "StyledAppBar theme =
     JObj [
       (''backgroundColor'', js_get (js_get (js_get theme ''palette'') ''primary'') ''main''),
       (''& .RaAppBar-toolbar'', JObj [(''minHeight'', JNum 64)]),
       ((''& .'' @ js_string (js_get appbar_classes ''title'')), JObj [
         (''flex'', JNum 1),
         (''textOverflow'', JStr ''ellipsis''),
         (''whiteSpace'', JStr ''nowrap''),
         (''overflow'', JStr ''hidden'')]),
       ((''& .'' @ js_string (js_get appbar_classes ''spacer'')), JObj [(''flex'', JNum 1)]),
       ((''& .'' @ js_string (js_get appbar_classes ''logo'')), JObj [(''maxWidth'', JStr ''110px''), (''filter'', JStr ''brightness(0) invert(1)'')])]"

definition CustomUserMenu :: "js_props \<Rightarrow> js" where
  "CustomUserMenu props =
     JElem ''UserMenu'' props [
       JElem ''MenuItemLink'' [
           (''to'', JStr ''https://dkron.io/docs/basics/getting-started''),
           (''primaryText'', JStr ''Documentation''),
           (''leftIcon'', JElem ''BookIcon'' [] [])] [],
       JElem ''MenuItemLink'' [
           (''to'', JStr ''https://github.com/distribworks/dkron''),
           (''primaryText'', JStr ''GitHub''),
           (''leftIcon'', JElem ''GitHubIcon'' [] [])] [],
       JElem ''Logout'' [] []]"

definition CustomAppBar :: "js \<Rightarrow> js_props \<Rightarrow> js \<Rightarrow> js" where
  "CustomAppBar logo props clock_elem =
     JElem ''StyledAppBar''
       (js_assign props
          [
            (''elevation'', JNum 0),
            (''userMenu'', CustomUserMenu []),
            (''sx'', JObj [
              (''borderBottom'', JStr ''1px solid''),
              (''borderColor'', JStr ''rgba(255, 255, 255, 0.1)'')])]) [
       JElem ''Box'' [(''sx'', JObj [(''display'', JStr ''flex''), (''alignItems'', JStr ''center''), (''gap'', JNum 1)])] [
         JElem ''Link'' [
             (''to'', JStr ''/''),
             (''style'', JObj [(''display'', JStr ''flex''), (''alignItems'', JStr ''center'')])] [
           JElem ''img'' [(''src'', logo), (''alt'', JStr ''Dkron''), (''className'', js_get appbar_classes ''logo'')] []]],
       JElem ''Typography'' [
           (''variant'', JStr ''h6''),
           (''color'', JStr ''inherit''),
           (''className'', js_get appbar_classes ''title''),
           (''id'', JStr ''react-admin-title''),
           (''sx'', JObj [(''ml'', JNum 2)])] [],
       JElem ''span'' [(''className'', js_get appbar_classes ''spacer'')] [],
       JElem ''Box'' [
           (''sx'', JObj [
             (''display'', JStr ''flex''),
             (''alignItems'', JStr ''center''),
             (''gap'', JNum 2),
             (''mr'', JNum 1)])] [
         clock_elem]]"

definition CustomSidebar :: "(rat \<Rightarrow> js) \<Rightarrow> js \<Rightarrow> js" where
  "CustomSidebar spacing theme =
     JObj [
       (''& .RaSidebar-fixed'', JObj [
         (''backgroundColor'', js_get (js_get (js_get theme ''palette'') ''primary'') ''main''),
         (''color'', JStr ''#ffffff''),
         (''paddingTop'', spacing 2)]),
       (''& .MuiDrawer-paper'', JObj [
         (''backgroundColor'', js_get (js_get (js_get theme ''palette'') ''primary'') ''main''),
         (''color'', JStr ''#ffffff''),
         (''borderRight'', JStr ''none''),
         (''paddingTop'', spacing 2)]),
       (''& .RaMenuItemLink-active'', JObj [
         (''backgroundColor'', JStr ''rgba(255, 255, 255, 0.15)''),
         (''borderRadius'', JStr ''8px''),
         (''&:before'', JObj [
           (''content'', JStr ''\"\"''),
           (''position'', JStr ''absolute''),
           (''left'', JNum 0),
           (''top'', JStr ''50%''),
           (''transform'', JStr ''translateY(-50%)''),
           (''width'', JNum 4),
           (''height'', JStr ''60%''),
           (''backgroundColor'', JStr ''#ffffff''),
           (''borderRadius'', JStr ''0 4px 4px 0'')])]),
       (''& .MuiListItemIcon-root'', JObj [(''color'', JStr ''rgba(255, 255, 255, 0.8)'')]),
       (''& .RaMenuItemLink-active .MuiListItemIcon-root'', JObj [(''color'', JStr ''#ffffff'')]),
       (''& .MuiTypography-root'', JObj [(''color'', JStr ''rgba(255, 255, 255, 0.9)'')]),
       (''& .RaMenuItemLink-active .MuiTypography-root'', JObj [(''color'', JStr ''#ffffff''), (''fontWeight'', JNum 600)])]"

definition StyledSidebar :: "js_props \<Rightarrow> js" where
  "StyledSidebar props =
     JElem ''CustomSidebar'' (js_assign props [(''size'', JNum 220)]) []"

definition ThemedLayout :: "js_props \<Rightarrow> js" where
  "ThemedLayout props =
     JElem ''Layout''
       (js_assign props
          [
            (''appBar'', JFun ''AppBar''),
            (''sidebar'', JFun ''StyledSidebar''),
            (''sx'', JObj [(''& .RaLayout-content'', JObj [(''backgroundColor'', JStr ''#f7fafc'')])])]) []"

section \<open>The login page\<close>

definition login_PREFIX :: string where "login_PREFIX = ''RaLogin''"
definition login_PREFIXF :: string where "login_PREFIXF = ''RaLoginForm''"

definition LoginClasses :: "js" where
  "LoginClasses =
     JObj [
       (''card'', JStr (login_PREFIX @ ''-card'')),
       (''avatar'', JStr (login_PREFIX @ ''-avatar'')),
       (''icon'', JStr (login_PREFIX @ ''-icon''))]"

definition LoginFormClasses :: "js" where
  "LoginFormClasses =
     JObj [
       (''content'', JStr (login_PREFIXF @ ''-content'')),
       (''button'', JStr (login_PREFIXF @ ''-button'')),
       (''icon'', JStr (login_PREFIXF @ ''-icon''))]"

definition login_Root_style :: "js \<Rightarrow> js" where
  "login_Root_style theme =
     JObj [
       (''display'', JStr ''flex''),
       (''flexDirection'', JStr ''column''),
       (''minHeight'', JStr ''100vh''),
       (''height'', JStr ''1px''),
       (''alignItems'', JStr ''center''),
       (''justifyContent'', JStr ''center''),
       (''backgroundRepeat'', JStr ''no-repeat''),
       (''backgroundSize'', JStr ''cover''),
       (''background'', JStr ''linear-gradient(135deg, #1a365d 0%, #2c5282 50%, #1a365d 100%)''),
       ((''& .'' @ js_string (js_get LoginClasses ''card'')), JObj [
         (''minWidth'', JNum 380),
         (''maxWidth'', JNum 420),
         (''borderRadius'', JNum 16),
         (''boxShadow'', JStr ''0 25px 50px -12px rgba(0, 0, 0, 0.25)''),
         (''overflow'', JStr ''hidden'')]),
       ((''& .'' @ js_string (js_get LoginClasses ''avatar'')), JObj [(''margin'', JStr ''1em''), (''display'', JStr ''flex''), (''justifyContent'', JStr ''center'')]),
       ((''& .'' @ js_string (js_get LoginClasses ''icon'')), JObj [(''backgroundColor'', js_get (js_get (js_get theme ''palette'') ''secondary'') ''main'')])]"

definition login_banner :: "js \<Rightarrow> js" where
  "login_banner logo =
     JElem ''Box'' [(''sx'', JObj [(''pt'', JNum 4), (''pb'', JNum 2), (''px'', JNum 4), (''textAlign'', JStr ''center'')])] [
       JElem ''Box'' [
           (''sx'', JObj [(''mb'', JNum 3), (''display'', JStr ''flex''), (''justifyContent'', JStr ''center'')])] [
         JElem ''img'' [(''src'', logo), (''alt'', JStr ''Dkron''), (''style'', JObj [(''maxWidth'', JNum 140)])] []],
       JElem ''Typography'' [
           (''variant'', JStr ''h5''),
           (''component'', JStr ''h1''),
           (''sx'', JObj [(''fontWeight'', JNum 600), (''color'', JStr ''text.primary''), (''mb'', JNum 1)])] [
         JStr ''Welcome Back''],
       JElem ''Typography'' [(''variant'', JStr ''body2''), (''sx'', JObj [(''color'', JStr ''text.secondary'')])] [
         JStr ''Sign in to access your job scheduler'']]"

definition login_form :: "js \<Rightarrow> js \<Rightarrow> bool \<Rightarrow> js" where
  "login_form className token loading =
     JElem ''form'' [(''onSubmit'', JFun ''handleSubmit''), (''className'', className)] [
       JElem ''CardContent'' [(''className'', js_get LoginFormClasses ''content'')] [
         JElem ''TextField'' [
             (''name'', JStr ''token''),
             (''label'', JStr ''Access Token''),
             (''type'', JStr ''password''),
             (''value'', token),
             (''onChange'', JFun ''setToken''),
             (''fullWidth'', JBool True),
             (''variant'', JStr ''outlined''),
             (''margin'', JStr ''normal''),
             (''autoFocus'', JBool True),
             (''sx'', JObj [(''& .MuiOutlinedInput-root'', JObj [(''borderRadius'', JNum 2)])])] [],
         JElem ''Button'' [
             (''variant'', JStr ''contained''),
             (''type'', JStr ''submit''),
             (''color'', JStr ''primary''),
             (''disabled'', JBool loading),
             (''fullWidth'', JBool True),
             (''size'', JStr ''large''),
             (''sx'', JObj [
               (''mt'', JNum 2),
               (''mb'', JNum 1),
               (''py'', JNum (15 / 10)),
               (''borderRadius'', JNum 2),
               (''fontWeight'', JNum 600),
               (''textTransform'', JStr ''none''),
               (''fontSize'', JStr ''1rem'')])] [
           (if loading then
             JElem ''CircularProgress'' [
                 (''className'', js_get LoginFormClasses ''icon''),
                 (''size'', JNum 24),
                 (''thickness'', JNum 3),
                 (''sx'', JObj [(''color'', JStr ''white'')])] []
            else
             JStr ''Sign In'')]]]"

definition LoginPage :: "js \<Rightarrow> js \<Rightarrow> js \<Rightarrow> bool \<Rightarrow> js" where
  "LoginPage logo className token loading =
     JElem ''Root'' [] [
       JElem ''Card'' [(''className'', js_get LoginClasses ''card'')] [
         login_banner logo,
         login_form className token loading],
       JElem ''Typography'' [
           (''variant'', JStr ''body2''),
           (''sx'', JObj [
             (''mt'', JNum 4),
             (''color'', JStr ''rgba(255, 255, 255, 0.6)''),
             (''textAlign'', JStr ''center'')])] [
         JStr ''Dkron - Distributed Job Scheduling System'']]"

section \<open>Settings\<close>

definition settings_styles :: "js" where
  "settings_styles =
     JObj [
       (''label'', JObj [(''width'', JStr ''10em''), (''display'', JStr ''inline-block'')]),
       (''button'', JObj [(''margin'', JStr ''1em'')])]"

definition Settings :: "js" where
  "Settings =
     JElem ''Card'' [] [JElem ''Title'' [(''title'', JStr ''Settings'')] [], JElem ''CardContent'' [] []]"

definition CHANGE_THEME :: string where "CHANGE_THEME = ''CHANGE_THEME''"

definition changeTheme :: "string \<Rightarrow> js" where
  "changeTheme themeName =
     JObj [(''type'', JStr CHANGE_THEME), (''payload'', JStr themeName)]"

section \<open>Lemmas\<close>

definition styled_components :: "string list" where
  "styled_components =
     [''MuiCard'', ''MuiCardHeader'', ''MuiCardContent'', ''MuiButton'', ''MuiAppBar'', ''MuiDrawer'', ''MuiListItemIcon'',
      ''MuiTableCell'', ''MuiTableRow'', ''MuiChip'', ''MuiTooltip'', ''MuiTextField'', ''MuiPaper'', ''MuiTab'']"

lemmas theme_component_defs = theme_card_components_def theme_shell_components_def
  theme_table_components_def theme_control_components_def

lemma component_names:
  "map fst (theme_card_components @ theme_shell_components @ theme_table_components @ theme_control_components) =
     styled_components"
  by (simp add: theme_component_defs styled_components_def)

lemma js_field_assign_other:
  assumes "distinct (map fst a)" and "k \<notin> set (map fst b)"
  shows "js_field (js_assign a b) k = js_field a k"
proof -
  have "map_of (rev b) k = None" using assms(2) by (simp add: map_of_eq_None_iff)
  then show ?thesis using js_field_assign [OF assms(1), of b k] by simp
qed

lemma js_field_assign_new:
  assumes "distinct (map fst a)" and "distinct (map fst b)" and "(k, v) \<in> set b"
  shows "js_field (js_assign a b) k = v"
proof -
  have "map_of (rev b) k = Some v" using assms(2, 3) by (simp add: map_of_eq_Some_iff rev_map [symmetric])
  then show ?thesis using js_field_assign [OF assms(1), of b k] by simp
qed

text \<open>A mounted clock has one timer, which is its own; an unmounted one has none.\<close>

definition clock_ok :: "clock \<Rightarrow> bool" where
  "clock_ok c = (if mounted c then (\<exists>i. timer c = Some i \<and> live c = [i]) else live c = [])"

interpretation clock: event_machine clock_step "clock_new now" clock_ok for now
proof
  fix s e now
  show "clock_ok (clock_new now)" by (simp add: clock_ok_def clock_new_def)
  assume "clock_ok s"
  then show "clock_ok (clock_step s e)"
    by (cases e) (auto simp: clock_ok_def componentDidMount_def componentWillUnmount_def)
qed

section \<open>Properties\<close>



text \<open>
  C34: over every sequence of mounts, unmounts and timer ticks, strict mode included, the clock has exactly
  one running timer while it is mounted and none otherwise, so an unmounted clock never changes.
\<close>

theorem clock_timers:
  "length (live (run_events clock_step (clock_new now) es)) =
     (if mounted (run_events clock_step (clock_new now) es) then 1 else 0) \<and>
   clock_date (run_events clock_step (clock_new now) (es @ [Unmount, Tick i t])) =
     clock_date (run_events clock_step (clock_new now) es)"
proof -
  let ?c = "run_events clock_step (clock_new now) es"
  have "clock_ok ?c" by (rule clock.inv_run)
  then show ?thesis
    by (auto simp: clock_ok_def componentWillUnmount_def)
qed

end
