(* ===== verification/Dashboard.thy ===== *)
theory Dashboard
  imports JobPages Charts Shell
begin

text \<open>
  The dashboard (\<open>dashboard/\<close>), the pages of the nodes (\<open>nodes/NodeList.tsx\<close>) and of the running
  executions (\<open>executions/BusyList.tsx\<close>), and the application that puts the pages together
  (\<open>App.tsx\<close>, \<open>routes.tsx\<close>, \<open>jobs/index.ts\<close>, \<open>index.tsx\<close>).

  \<open>window\<close> holds the strings that the server writes into the page. Material UI's \<open>alpha\<close> is a parameter.
\<close>

section \<open>Cards\<close>

definition card_with_icon :: "(string \<Rightarrow> rat \<Rightarrow> string) \<Rightarrow> js \<Rightarrow> js \<Rightarrow> js \<Rightarrow> js \<Rightarrow> js list \<Rightarrow> string \<Rightarrow> js" where
  "card_with_icon alpha icon title subtitle dest children color =
     JElem ''Card'' [
         (''sx'', JObj [
           (''minHeight'', JNum 140),
           (''display'', JStr ''flex''),
           (''flexDirection'', JStr ''column''),
           (''flex'', JStr ''1''),
           (''position'', JStr ''relative''),
           (''overflow'', JStr ''hidden''),
           (''transition'', JStr ''all 0.2s ease-in-out''),
           (''&:hover'', JObj [
             (''transform'', JStr ''translateY(-2px)''),
             (''boxShadow'', JStr ''0 10px 15px -3px rgba(0, 0, 0, 0.1), 0 4px 6px -2px rgba(0, 0, 0, 0.05)'')]),
           (''& a'', JObj [(''textDecoration'', JStr ''none''), (''color'', JStr ''inherit'')])])] [
       JElem ''Link'' [(''to'', dest)] [
         JElem ''Box'' [
             (''sx'', JObj [
               (''p'', JNum 3),
               (''display'', JStr ''flex''),
               (''flexDirection'', JStr ''column''),
               (''height'', JStr ''100%''),
               (''position'', JStr ''relative'')])] [
           JElem ''Box'' [
               (''sx'', JObj [
                 (''position'', JStr ''absolute''),
                 (''top'', JNum (- 20)),
                 (''right'', JNum (- 20)),
                 (''width'', JNum 100),
                 (''height'', JNum 100),
                 (''borderRadius'', JStr ''50%''),
                 (''backgroundColor'', JStr (alpha color (1 / 10)))])] [],
           JElem ''Box'' [
               (''sx'', JObj [
                 (''position'', JStr ''absolute''),
                 (''top'', JNum 10),
                 (''right'', JNum 10),
                 (''width'', JNum 60),
                 (''height'', JNum 60),
                 (''borderRadius'', JStr ''50%''),
                 (''backgroundColor'', JStr (alpha color (5 / 100)))])] [],
           JElem ''Box'' [
               (''sx'', JObj [
                 (''width'', JNum 48),
                 (''height'', JNum 48),
                 (''borderRadius'', JNum 2),
                 (''backgroundColor'', JStr (alpha color (1 / 10))),
                 (''display'', JStr ''flex''),
                 (''alignItems'', JStr ''center''),
                 (''justifyContent'', JStr ''center''),
                 (''mb'', JNum 2),
                 (''color'', JStr color)])] [
             JElem (component_name icon) [(''sx'', JObj [(''fontSize'', JNum 24)])] []],
           JElem ''Box'' [(''sx'', JObj [(''position'', JStr ''relative''), (''zIndex'', JNum 1)])] [
             JElem ''Typography'' [
                 (''variant'', JStr ''h4''),
                 (''component'', JStr ''div''),
                 (''sx'', JObj [
                   (''fontWeight'', JNum 700),
                   (''color'', JStr ''text.primary''),
                   (''mb'', JNum (5 / 10)),
                   (''lineHeight'', JNum (12 / 10))])] [
               js_or subtitle (JStr ''0'')],
             JElem ''Typography'' [
                 (''variant'', JStr ''body2''),
                 (''sx'', JObj [(''color'', JStr ''text.secondary''), (''fontWeight'', JNum 500)])] [
               title]]]],
       JArr children]"

definition CardWithIcon ::
    "(string \<Rightarrow> rat \<Rightarrow> string) \<Rightarrow> js \<Rightarrow> js \<Rightarrow> js \<Rightarrow> js \<Rightarrow> js list \<Rightarrow> js \<Rightarrow> js" where
  "CardWithIcon alpha icon title subtitle dest children color =
     card_with_icon alpha icon title subtitle dest children
       (if color = JUndef then ''#3182ce'' else js_string color)"

definition Leader :: "(string \<Rightarrow> rat \<Rightarrow> string) \<Rightarrow> js \<Rightarrow> js" where
  "Leader alpha val =
     CardWithIcon alpha (JFun ''DeviceHub'') (JStr ''Leader'') val (JStr ''/jobs'') [] (JStr ''#1a365d'')"

definition TotalJobs :: "(string \<Rightarrow> rat \<Rightarrow> string) \<Rightarrow> js \<Rightarrow> js" where
  "TotalJobs alpha val =
     CardWithIcon alpha (JFun ''Update'') (JStr ''Total Jobs'') val (JStr ''/jobs'') [] (JStr ''#3182ce'')"

definition SuccessfulJobs :: "(string \<Rightarrow> rat \<Rightarrow> string) \<Rightarrow> js \<Rightarrow> js" where
  "SuccessfulJobs alpha val =
     CardWithIcon alpha (JFun ''ThumbUp'') (JStr ''Successful Jobs'') val
       (JStr ''/jobs?filter={\"status\":\"success\"}'')
       []
       (JStr ''#38a169'')"

definition FailedJobs :: "(string \<Rightarrow> rat \<Rightarrow> string) \<Rightarrow> js \<Rightarrow> js" where
  "FailedJobs alpha val =
     CardWithIcon alpha (JFun ''ThumbDown'') (JStr ''Failed Jobs'') val
       (JStr ''/jobs?filter={\"status\":\"failed\"}'')
       []
       (JStr ''#e53e3e'')"

definition UntriggeredJobs :: "(string \<Rightarrow> rat \<Rightarrow> string) \<Rightarrow> js \<Rightarrow> js" where
  "UntriggeredJobs alpha val =
     CardWithIcon alpha (JFun ''NewReleases'') (JStr ''Untriggered Jobs'') val
       (JStr ''/jobs?filter={\"status\":\"untriggered\"}'')
       []
       (JStr ''#d69e2e'')"

section \<open>The dashboard\<close>

definition fakeProps :: "js_props" where
  "fakeProps =
     [
       (''basePath'', JStr ''/members''),
       (''count'', JNum 10),
       (''hasCreate'', JBool False),
       (''hasEdit'', JBool False),
       (''hasList'', JBool True),
       (''hasShow'', JBool False),
       (''location'', JObj [(''pathname'', JStr ''/''), (''search'', JStr []), (''hash'', JStr []), (''state'', JUndef)]),
       (''match'', JObj [(''path'', JStr ''/''), (''url'', JStr ''/''), (''isExact'', JBool True), (''params'', JObj [])]),
       (''options'', JObj []),
       (''permissions'', JNull),
       (''resource'', JStr ''members'')]"

definition dashboard_header :: "js" where
  "dashboard_header =
     JElem ''Box'' [(''sx'', JObj [(''mb'', JNum 4)])] [
       JElem ''Typography'' [
           (''variant'', JStr ''h4''),
           (''component'', JStr ''h1''),
           (''sx'', JObj [
             (''fontWeight'', JNum 700),
             (''color'', JStr ''text.primary''),
             (''mb'', JNum 1),
             (''fontSize'', JObj [(''xs'', JStr ''1.75rem''), (''md'', JStr ''2.125rem'')])])] [
         JStr ''Dashboard''],
       JElem ''Typography'' [(''variant'', JStr ''body1''), (''sx'', JObj [(''color'', JStr ''text.secondary'')])] [
         JStr ''Monitor your distributed job scheduler at a glance'']]"

definition dashboard_stats :: "(string \<Rightarrow> rat \<Rightarrow> string) \<Rightarrow> (string \<times> string) list \<Rightarrow> js" where
  "dashboard_stats alpha window =
     JElem ''Box'' [
         (''sx'', JObj [
           (''display'', JStr ''grid''),
           (''gridTemplateColumns'', JObj [
             (''xs'', JStr ''1fr''),
             (''sm'', JStr ''repeat(2, 1fr)''),
             (''md'', JStr ''repeat(3, 1fr)''),
             (''lg'', JStr ''repeat(5, 1fr)'')]),
           (''gap'', JObj [(''xs'', JNum 2), (''md'', JNum 3)]),
           (''mb'', JNum 4)])] [
       Leader alpha (JStr (str_or (map_of window ''DKRON_LEADER'') ''devel'')),
       TotalJobs alpha (JStr (str_or (map_of window ''DKRON_TOTAL_JOBS'') ''0'')),
       SuccessfulJobs alpha (JStr (str_or (map_of window ''DKRON_SUCCESSFUL_JOBS'') ''0'')),
       FailedJobs alpha (JStr (str_or (map_of window ''DKRON_FAILED_JOBS'') ''0'')),
       UntriggeredJobs alpha (JStr (str_or (map_of window ''DKRON_UNTRIGGERED_JOBS'') ''0''))]"

definition dashboard_nodes :: "js \<Rightarrow> js" where
  "dashboard_nodes row =
     JElem ''Card'' [] [
       JElem ''Box'' [
           (''sx'', JObj [
             (''p'', JNum 3),
             (''borderBottom'', JStr ''1px solid''),
             (''borderColor'', JStr ''divider''),
             (''display'', JStr ''flex''),
             (''alignItems'', JStr ''center''),
             (''gap'', JNum 2)])] [
         JElem ''Box'' [
             (''sx'', JObj [
               (''width'', JNum 44),
               (''height'', JNum 44),
               (''borderRadius'', JNum 2),
               (''background'', JStr ''linear-gradient(135deg, #1a365d 0%, #2c5282 100%)''),
               (''display'', JStr ''flex''),
               (''alignItems'', JStr ''center''),
               (''justifyContent'', JStr ''center''),
               (''color'', JStr ''white''),
               (''boxShadow'', JStr ''0 4px 6px -1px rgba(26, 54, 93, 0.2)'')])] [
           JElem ''DnsIcon'' [] []],
         JElem ''Box'' [] [
           JElem ''Typography'' [
               (''variant'', JStr ''h6''),
               (''sx'', JObj [(''fontWeight'', JNum 600), (''color'', JStr ''text.primary'')])] [
             JStr ''Cluster Nodes''],
           JElem ''Typography'' [(''variant'', JStr ''body2''), (''sx'', JObj [(''color'', JStr ''text.secondary'')])] [
             JStr ''Active members in your Dkron cluster'']]],
       JElem ''CardContent'' [(''sx'', JObj [(''p'', JNum 0), (''&:last-child'', JObj [(''pb'', JNum 0)])])] [
         JElem ''List'' fakeProps [
           JElem ''Datagrid'' [
               (''isRowSelectable'', JFun ''selectRowDisabled''),
               (''sx'', JObj [
                 (''& .RaDatagrid-headerCell'', JObj [
                   (''backgroundColor'', JStr ''#f7fafc''),
                   (''fontWeight'', JNum 600),
                   (''color'', JStr ''#4a5568''),
                   (''fontSize'', JStr ''0.75rem''),
                   (''textTransform'', JStr ''uppercase''),
                   (''letterSpacing'', JStr ''0.05em'')]),
                 (''& .RaDatagrid-rowCell'', JObj [(''borderBottom'', JStr ''1px solid #e2e8f0'')])])] [
             JElem ''TextField'' [(''source'', JStr ''Name''), (''sortable'', JBool False)] [],
             JElem ''TextField'' [(''source'', JStr ''Addr''), (''sortable'', JBool False)] [],
             JElem ''TextField'' [(''source'', JStr ''Port''), (''sortable'', JBool False)] [],
             JElem ''TextField'' [(''label'', JStr ''Status''), (''source'', JStr ''statusText''), (''sortable'', JBool False)] [],
             TagsField row]]]]"

definition Dashboard :: "(string \<Rightarrow> rat \<Rightarrow> string) \<Rightarrow> (string \<times> string) list \<Rightarrow> chart_point list loader \<Rightarrow> js \<Rightarrow> js" where
  "Dashboard alpha window stats row =
     JElem ''Box'' [(''sx'', JObj [(''p'', JObj [(''xs'', JNum 2), (''md'', JNum 3)])])] [
       dashboard_header,
       dashboard_stats alpha window,
       JElem ''Box'' [(''sx'', JObj [(''mb'', JNum 4)])] [ExecutionStatsChart stats],
       dashboard_nodes row]"

section \<open>Nodes and running executions\<close>

definition NodeHeader :: "js" where
  "NodeHeader =
     JElem ''Box'' [
         (''sx'', JObj [
           (''mb'', JNum 3),
           (''display'', JStr ''flex''),
           (''alignItems'', JStr ''center''),
           (''gap'', JNum 2)])] [
       JElem ''Box'' [
           (''sx'', JObj [
             (''width'', JNum 48),
             (''height'', JNum 48),
             (''borderRadius'', JNum 2),
             (''background'', JStr ''linear-gradient(135deg, #2ecc71 0%, #27ae60 100%)''),
             (''display'', JStr ''flex''),
             (''alignItems'', JStr ''center''),
             (''justifyContent'', JStr ''center''),
             (''color'', JStr ''white''),
             (''boxShadow'', JStr ''0 4px 6px -1px rgba(46, 204, 113, 0.2)'')])] [
         JElem ''DnsIcon'' [] []],
       JElem ''Box'' [] [
         JElem ''Typography'' [
             (''variant'', JStr ''h5''),
             (''sx'', JObj [(''fontWeight'', JNum 600), (''color'', JStr ''text.primary'')])] [
           JStr ''Cluster Nodes''],
         JElem ''Typography'' [(''variant'', JStr ''body2''), (''sx'', JObj [(''color'', JStr ''text.secondary'')])] [
           JStr ''Monitor your distributed Dkron server instances and their status'']]]"

definition nodes_StyledDatagrid :: "js" where
  "nodes_StyledDatagrid =
     JObj [
       (''& .RaDatagrid-headerCell'', JObj [
         (''backgroundColor'', JStr ''#f7fafc''),
         (''fontWeight'', JNum 600),
         (''fontSize'', JStr ''0.75rem''),
         (''textTransform'', JStr ''uppercase''),
         (''letterSpacing'', JStr ''0.05em''),
         (''color'', JStr ''#4a5568'')]),
       (''& .RaDatagrid-row'', JObj [(''&:hover'', JObj [(''backgroundColor'', JStr ''#f7fafc'')])]),
       (''& .RaDatagrid-rowCell'', JObj [(''borderBottom'', JStr ''1px solid #e2e8f0''), (''padding'', JStr ''12px 8px'')])]"

definition NodeList :: "js_props \<Rightarrow> js" where
  "NodeList props =
     JElem ''Box'' [(''sx'', JObj [(''p'', JObj [(''xs'', JNum 2), (''md'', JNum 3)])])] [
       NodeHeader,
       JElem ''List''
         (js_assign props
            [
              (''bulkActionButtons'', JBool False),
              (''sx'', JObj [
                (''& .RaList-main'', JObj [
                  (''boxShadow'', JStr ''0 1px 3px 0 rgba(0, 0, 0, 0.1), 0 1px 2px 0 rgba(0, 0, 0, 0.06)''),
                  (''borderRadius'', JNum 3),
                  (''border'', JStr ''1px solid #e2e8f0'')]),
                (''& .RaList-content'', JObj [(''boxShadow'', JStr ''none'')])])]) [
         JElem ''StyledDatagrid'' [(''rowClick'', JBool False)] [
           JElem ''TextField'' [
               (''source'', JStr ''Name''),
               (''label'', JStr ''Node Name''),
               (''sx'', JObj [(''fontWeight'', JNum 500)])] [],
           JElem ''TextField'' [(''source'', JStr ''Addr''), (''label'', JStr ''Address'')] [],
           JElem ''FunctionField'' [(''label'', JStr ''Status''), (''render'', JFun ''renderStatusChip'')] [],
           JElem ''TextField'' [
               (''source'', JStr ''Tags.version''),
               (''label'', JStr ''Version''),
               (''defaultValue'', JStr ''-'')] []]]]"

definition busy_ListHeader :: "js" where
  "busy_ListHeader =
     JElem ''Box'' [
         (''sx'', JObj [
           (''mb'', JNum 3),
           (''display'', JStr ''flex''),
           (''alignItems'', JStr ''center''),
           (''gap'', JNum 2)])] [
       JElem ''Box'' [
           (''sx'', JObj [
             (''width'', JNum 48),
             (''height'', JNum 48),
             (''borderRadius'', JNum 2),
             (''background'', JStr ''linear-gradient(135deg, #d69e2e 0%, #b7791f 100%)''),
             (''display'', JStr ''flex''),
             (''alignItems'', JStr ''center''),
             (''justifyContent'', JStr ''center''),
             (''color'', JStr ''white''),
             (''boxShadow'', JStr ''0 4px 6px -1px rgba(214, 158, 46, 0.2)'')])] [
         JElem ''PlayCircleOutlineIcon'' [] []],
       JElem ''Box'' [] [
         JElem ''Typography'' [
             (''variant'', JStr ''h5''),
             (''sx'', JObj [(''fontWeight'', JNum 600), (''color'', JStr ''text.primary'')])] [
           JStr ''Running Jobs''],
         JElem ''Typography'' [(''variant'', JStr ''body2''), (''sx'', JObj [(''color'', JStr ''text.secondary'')])] [
           JStr ''Jobs currently being executed across the cluster'']]]"

definition BusyList :: "js_props \<Rightarrow> js \<Rightarrow> js" where
  "BusyList props row =
     JElem ''Box'' [(''sx'', JObj [(''p'', JObj [(''xs'', JNum 2), (''md'', JNum 3)])])] [
       busy_ListHeader,
       JElem ''List''
         (js_assign props
            [
              (''pagination'', JBool False),
              (''sx'', JObj [
                (''& .RaList-main'', JObj [
                  (''boxShadow'', JStr ''0 1px 3px 0 rgba(0, 0, 0, 0.1), 0 1px 2px 0 rgba(0, 0, 0, 0.06)''),
                  (''borderRadius'', JNum 3),
                  (''overflow'', JStr ''hidden''),
                  (''border'', JStr ''1px solid #e2e8f0'')]),
                (''& .RaList-content'', JObj [(''boxShadow'', JStr ''none'')])])]) [
         JElem ''Datagrid'' [
             (''rowClick'', JStr ''expand''),
             (''isRowSelectable'', JFun ''selectRowDisabled''),
             (''expand'', OutputPanel row),
             (''sx'', JObj [
               (''& .RaDatagrid-headerCell'', JObj [
                 (''backgroundColor'', JStr ''#f7fafc''),
                 (''fontWeight'', JNum 600),
                 (''fontSize'', JStr ''0.75rem''),
                 (''textTransform'', JStr ''uppercase''),
                 (''letterSpacing'', JStr ''0.05em''),
                 (''color'', JStr ''#4a5568'')]),
               (''& .RaDatagrid-row'', JObj [(''&:hover'', JObj [(''backgroundColor'', JStr ''#f7fafc'')])]),
               (''& .RaDatagrid-rowCell'', JObj [(''borderBottom'', JStr ''1px solid #e2e8f0'')])])] [
           JElem ''TextField'' [(''source'', JStr ''id''), (''sortable'', JBool False)] [],
           JElem ''TextField'' [(''source'', JStr ''job_name''), (''sortable'', JBool False)] [],
           JElem ''TextField'' [(''source'', JStr ''node_name''), (''sortable'', JBool False)] [],
           JElem ''DateField'' [(''source'', JStr ''started_at''), (''sortable'', JBool False), (''showTime'', JBool True)] []]]]"

section \<open>The application\<close>

definition jobs_resource :: "js" where
  "jobs_resource =
     JObj [
       (''list'', JFun ''JobList''),
       (''edit'', JFun ''JobEdit''),
       (''create'', JFun ''JobCreate''),
       (''show'', JFun ''JobShow''),
       (''icon'', JFun ''JobIcon'')]"

definition App :: "js \<Rightarrow> bool \<Rightarrow> js" where
  "App lightThemeValue aclEnabled =
     JElem ''Admin'' [
         (''dashboard'', JFun ''Dashboard''),
         (''loginPage'', JFun ''LoginPage''),
         (''authProvider'', if aclEnabled then JFun ''authProvider'' else JUndef),
         (''dataProvider'', JFun ''dataProvider''),
         (''layout'', JFun ''Layout''),
         (''theme'', lightThemeValue)] [
       JElem ''Resource'' (js_assign [(''name'', JStr ''jobs'')] (js_fields jobs_resource)) [],
       JElem ''Resource'' [
           (''name'', JStr ''busy''),
           (''options'', JObj [(''label'', JStr ''Busy'')]),
           (''list'', JFun ''BusyList''),
           (''icon'', JFun ''PlayCircleOutlineIcon'')] [],
       JElem ''Resource'' [(''name'', JStr ''executions'')] [],
       JElem ''Resource'' [
           (''name'', JStr ''members''),
           (''options'', JObj [(''label'', JStr ''Nodes'')]),
           (''list'', JFun ''NodeList''),
           (''icon'', JFun ''DnsIcon'')] [],
       JElem ''CustomRoutes'' [] [JElem ''Route'' [(''path'', JStr ''/settings''), (''element'', Settings)] []]]"

definition Routes :: "js" where
  "Routes =
     JArr [JElem ''Route'' [(''path'', JStr ''/configuration''), (''element'', Settings)] []]"

definition index_render :: "js \<Rightarrow> js" where
  "index_render app =
     JElem ''React.StrictMode'' [] [app]"

section \<open>Lemmas\<close>

fun elem_children :: "js \<Rightarrow> js list" where
  "elem_children (JElem t ps cs) = cs"
| "elem_children _ = []"

lemmas dashboard_card_defs = CardWithIcon_def card_with_icon_def Leader_def TotalJobs_def SuccessfulJobs_def
  FailedJobs_def UntriggeredJobs_def

section \<open>Properties\<close>

text \<open>
  C35: the five cards of the dashboard show the values that the server wrote into the page, with their
  defaults, and lead to the job list; the last three lead to the list filtered by a status, and these
  are exactly the statuses that the filter of the job list offers, in the same order.
\<close>

theorem dashboard_cards:
  "prop_values ''to'' (tagged ''Link'' (dashboard_stats alpha w)) =
     map JStr [''/jobs'', ''/jobs''] @
     map (\<lambda>c. JStr (''/jobs?filter={\"status\":\"'' @ js_string (js_get c ''id'') @ ''\"}''))
       (js_elems (hd (prop_values ''choices'' (tagged ''SelectInput'' (JobFilter []))))) \<and>
   texts (dashboard_stats alpha w) =
     [str_or (map_of w ''DKRON_LEADER'') ''devel'', ''Leader'', str_or (map_of w ''DKRON_TOTAL_JOBS'') ''0'', ''Total Jobs'',
      str_or (map_of w ''DKRON_SUCCESSFUL_JOBS'') ''0'', ''Successful Jobs'',
      str_or (map_of w ''DKRON_FAILED_JOBS'') ''0'', ''Failed Jobs'',
      str_or (map_of w ''DKRON_UNTRIGGERED_JOBS'') ''0'', ''Untriggered Jobs'']"
proof
  show "prop_values ''to'' (tagged ''Link'' (dashboard_stats alpha w)) =
     map JStr [''/jobs'', ''/jobs''] @
     map (\<lambda>c. JStr (''/jobs?filter={\"status\":\"'' @ js_string (js_get c ''id'') @ ''\"}''))
       (js_elems (hd (prop_values ''choices'' (tagged ''SelectInput'' (JobFilter [])))))"
    by (simp add: dashboard_stats_def dashboard_card_defs JobFilter_def js_or_def)
  have ne: "str_or s (c # cs) \<noteq> []" for s c cs by (auto simp: str_or_def split: option.splits)
  show "texts (dashboard_stats alpha w) =
     [str_or (map_of w ''DKRON_LEADER'') ''devel'', ''Leader'', str_or (map_of w ''DKRON_TOTAL_JOBS'') ''0'', ''Total Jobs'',
      str_or (map_of w ''DKRON_SUCCESSFUL_JOBS'') ''0'', ''Successful Jobs'',
      str_or (map_of w ''DKRON_FAILED_JOBS'') ''0'', ''Failed Jobs'',
      str_or (map_of w ''DKRON_UNTRIGGERED_JOBS'') ''0'', ''Untriggered Jobs'']"
    by (simp add: dashboard_stats_def dashboard_card_defs js_or_def ne)
qed

end
