(* ===== verification/Actions.thy ===== *)
theory Actions
  imports HttpClient
begin

text \<open>
  The buttons that talk to the server: \<open>RunButton\<close>, \<open>ToggleButton\<close>, \<open>BulkRunButton\<close> and
  \<open>BulkToggleButton\<close> of \<open>src/ui/src/jobs/\<close>, and \<open>FullButton\<close> of \<open>src/ui/src/jobs/JobShow.tsx\<close>.

  A button is an event machine. A click runs the handler, unless the button is disabled, which it is
  while its \<open>loading\<close> state is set; a request that is under way settles later, in any order, and runs
  the handlers chained on its promise. What the handlers do to the rest of the application is
  recorded in order in the log.
\<close>

section \<open>State, events and effects\<close>

datatype effect =
    Request string http_options
  | Notify string "string option"
  | Refresh
  | CallHook string string

datatype button_event = Click | Settle nat bool

record button =
  loading :: bool
  in_flight :: "string list"
  log :: "effect list"

definition idle :: button where
  "idle = \<lparr>loading = False, in_flight = [], log = []\<rparr>"

definition emit :: "effect list \<Rightarrow> button \<Rightarrow> button" where
  "emit es b = b\<lparr>log := log b @ es\<rparr>"

text \<open>Sending a request: it is under way under its address.\<close>

definition send :: "string \<Rightarrow> button \<Rightarrow> button" where
  "send url b = emit [Request url post_options] (b\<lparr>in_flight := in_flight b @ [url]\<rparr>)"

text \<open>The \<open>i\<close>-th request that is under way settles; \<open>None\<close> when there is none.\<close>

definition settled :: "nat \<Rightarrow> button \<Rightarrow> button option" where
  "settled i b =
     (if i < length (in_flight b)
      then Some (b\<lparr>in_flight := take i (in_flight b) @ drop (Suc i) (in_flight b)\<rparr>)
      else None)"

section \<open>The buttons of one job\<close>

text \<open>
  The two handlers have the same shape: nothing without a record; otherwise the loading state is set
  and a POST is sent. On success they notify and refresh, on failure they warn; the loading state is
  reset in both cases.
\<close>

definition job_url :: "string \<Rightarrow> string \<Rightarrow> string" where
  "job_url api i = api @ ''/jobs/'' @ i"

definition toggle_url :: "string \<Rightarrow> string \<Rightarrow> string" where
  "toggle_url api i = api @ ''/jobs/'' @ i @ ''/toggle''"

fun RunButton :: "string \<Rightarrow> string option \<Rightarrow> button \<Rightarrow> button_event \<Rightarrow> button" where
  "RunButton api record_id b Click =
     (if loading b then b
      else case record_id of
             None \<Rightarrow> b
           | Some i \<Rightarrow> send (job_url api i) (b\<lparr>loading := True\<rparr>))"
| "RunButton api record_id b (Settle i ok) =
     (case settled i b of
        None \<Rightarrow> b
      | Some b' \<Rightarrow>
          (if ok then emit [Notify ''Success running job'' None, Refresh] b'
           else emit [Notify ''Error on running job'' (Some ''warning'')] b')\<lparr>loading := False\<rparr>)"

fun ToggleButton :: "string \<Rightarrow> string option \<Rightarrow> button \<Rightarrow> button_event \<Rightarrow> button" where
  "ToggleButton api record_id b Click =
     (if loading b then b
      else case record_id of
             None \<Rightarrow> b
           | Some i \<Rightarrow> send (toggle_url api i) (b\<lparr>loading := True\<rparr>))"
| "ToggleButton api record_id b (Settle i ok) =
     (case settled i b of
        None \<Rightarrow> b
      | Some b' \<Rightarrow>
          (if ok then emit [Notify ''Job toggled'' None, Refresh] b'
           else emit [Notify ''Error on toggle job'' (Some ''warning'')] b')\<lparr>loading := False\<rparr>)"

section \<open>The buttons of a selection\<close>

text \<open>
  One request per selected job, in the order of the selection. The selection itself is not cleared:
  \<open>unselectAll\<close> is the hook \<open>useUnselectAll\<close>, so the call only obtains a callback, which is dropped.
\<close>

fun BulkRunButton :: "string \<Rightarrow> string list \<Rightarrow> button \<Rightarrow> button_event \<Rightarrow> button" where
  "BulkRunButton api selectedIds b Click =
     (if loading b then b
      else emit [CallHook ''useUnselectAll'' ''jobs'']
             (fold (\<lambda>i b. send (job_url api i) (b\<lparr>loading := True\<rparr>)) selectedIds b))"
| "BulkRunButton api selectedIds b (Settle i ok) =
     (case settled i b of
        None \<Rightarrow> b
      | Some b' \<Rightarrow>
          emit [Refresh]
            ((if ok then emit [Notify ''Success running job'' None] b'
              else emit [Notify ''Error on running job'' (Some ''warning'')] b')\<lparr>loading := False\<rparr>))"

fun BulkToggleButton :: "string \<Rightarrow> string list \<Rightarrow> button \<Rightarrow> button_event \<Rightarrow> button" where
  "BulkToggleButton api selectedIds b Click =
     (if loading b then b
      else emit [CallHook ''useUnselectAll'' ''jobs'']
             (fold (\<lambda>i b. send (toggle_url api i) (b\<lparr>loading := True\<rparr>)) selectedIds b))"
| "BulkToggleButton api selectedIds b (Settle i ok) =
     (case settled i b of
        None \<Rightarrow> b
      | Some b' \<Rightarrow>
          emit [Refresh]
            ((if ok then emit [Notify ''Job toggled'' None] b'
              else emit [Notify ''Error on job toggle'' (Some ''warning'')] b')\<lparr>loading := False\<rparr>))"

section \<open>The log\<close>

fun is_request :: "effect \<Rightarrow> bool" where
  "is_request (Request u opts) = True"
| "is_request _ = False"

fun is_notice :: "effect \<Rightarrow> bool" where
  "is_notice (Notify m t) = True"
| "is_notice _ = False"

definition requests :: "button \<Rightarrow> effect list" where
  "requests b = filter is_request (log b)"

definition notices :: "button \<Rightarrow> effect list" where
  "notices b = filter is_notice (log b)"

lemmas log_simps = requests_def notices_def emit_def send_def

text \<open>
  Whatever the handlers, a button that keeps its books says: every request sent has been answered by
  one notice or is still under way.
\<close>

definition balanced :: "button \<Rightarrow> bool" where
  "balanced b \<longleftrightarrow> length (requests b) = length (notices b) + length (in_flight b)"

text \<open>
  A button with a single request: disabled exactly while it waits, and never waiting for two answers.
\<close>

definition one_at_a_time :: "button \<Rightarrow> bool" where
  "one_at_a_time b \<longleftrightarrow>
     balanced b \<and> loading b = (in_flight b \<noteq> []) \<and> length (in_flight b) \<le> 1"

lemma settled_SomeD:
  "settled i b = Some b' \<Longrightarrow>
     i < length (in_flight b) \<and> length (in_flight b) = Suc (length (in_flight b')) \<and>
     log b' = log b \<and> loading b' = loading b"
  by (auto simp: settled_def split: if_splits)

lemma idle_ok: "one_at_a_time idle"
  by (simp add: idle_def one_at_a_time_def balanced_def log_simps)

text \<open>The contract the two single-job buttons share, and what follows from it for every run.\<close>

locale single_button =
  fixes step :: "button \<Rightarrow> button_event \<Rightarrow> button"
    and sends :: "string option"
    and answer :: "bool \<Rightarrow> effect list"
  assumes click_busy: "loading b \<Longrightarrow> step b Click = b"
    and click_none: "sends = None \<Longrightarrow> step b Click = b"
    and click_send: "\<not> loading b \<Longrightarrow> sends = Some u \<Longrightarrow>
          step b Click = send u (b\<lparr>loading := True\<rparr>)"
    and settle_none: "settled i b = None \<Longrightarrow> step b (Settle i ok) = b"
    and settle_some: "settled i b = Some b' \<Longrightarrow>
          step b (Settle i ok) = (emit (answer ok) b')\<lparr>loading := False\<rparr>"
    and answer_shape: "filter is_request (answer ok) = []" "length (filter is_notice (answer ok)) = 1"
begin

lemma step_one_at_a_time: "one_at_a_time b \<Longrightarrow> one_at_a_time (step b e)"
proof (cases e)
  case Click
  assume b: "one_at_a_time b"
  show ?thesis
  proof (cases "loading b \<or> sends = None")
    case True
    with b Click click_busy click_none show ?thesis by auto
  next
    case False
    then obtain u where "sends = Some u" "\<not> loading b" by auto
    with b Click click_send show ?thesis
      by (simp add: one_at_a_time_def balanced_def log_simps)
  qed
next
  case (Settle i ok)
  assume b: "one_at_a_time b"
  show ?thesis
  proof (cases "settled i b")
    case None
    with b Settle settle_none show ?thesis by simp
  next
    case (Some b')
    with settled_SomeD [OF Some] b answer_shape show ?thesis
      by (auto simp: Settle settle_some one_at_a_time_def balanced_def log_simps)
  qed
qed

end

sublocale single_button \<subseteq> event_machine step idle one_at_a_time
  by unfold_locales (auto intro: idle_ok step_one_at_a_time)

definition run_answer :: "bool \<Rightarrow> effect list" where
  "run_answer ok = (if ok then [Notify ''Success running job'' None, Refresh]
     else [Notify ''Error on running job'' (Some ''warning'')])"

definition toggle_answer :: "bool \<Rightarrow> effect list" where
  "toggle_answer ok = (if ok then [Notify ''Job toggled'' None, Refresh]
     else [Notify ''Error on toggle job'' (Some ''warning'')])"

interpretation run_button: single_button "RunButton api record_id"
    "map_option (job_url api) record_id" run_answer
  for api record_id
  by unfold_locales (auto simp: run_answer_def split: option.splits)

interpretation toggle_button: single_button "ToggleButton api record_id"
    "map_option (toggle_url api) record_id" toggle_answer
  for api record_id
  by unfold_locales (auto simp: toggle_answer_def split: option.splits)

section \<open>Bulk requests\<close>

lemma fold_send:
  "fold (\<lambda>i b. send (url i) (b\<lparr>loading := True\<rparr>)) ids b =
     b\<lparr>loading := loading b \<or> ids \<noteq> [], in_flight := in_flight b @ map url ids,
       log := log b @ map (\<lambda>i. Request (url i) post_options) ids\<rparr>"
  by (induction ids arbitrary: b) (auto simp: log_simps)

lemma filter_requests [simp]:
  "filter is_request (map (\<lambda>i. Request (url i) opts) ids) = map (\<lambda>i. Request (url i) opts) ids"
  "filter is_notice (map (\<lambda>i. Request (url i) opts) ids) = []"
  by (induction ids) auto

lemma bulk_run_balanced: "balanced b \<Longrightarrow> balanced (BulkRunButton api ids b e)"
  by (cases e)
    (auto simp: fold_send balanced_def requests_def notices_def emit_def
      split: option.splits dest!: settled_SomeD)

lemma bulk_toggle_balanced: "balanced b \<Longrightarrow> balanced (BulkToggleButton api ids b e)"
  by (cases e)
    (auto simp: fold_send balanced_def requests_def notices_def emit_def
      split: option.splits dest!: settled_SomeD)

lemma idle_balanced: "balanced idle"
  using idle_ok by (simp add: one_at_a_time_def)

interpretation bulk_run: event_machine "BulkRunButton api ids" idle balanced for api ids
  by unfold_locales (auto intro: idle_balanced bulk_run_balanced)

interpretation bulk_toggle: event_machine "BulkToggleButton api ids" idle balanced for api ids
  by unfold_locales (auto intro: idle_balanced bulk_toggle_balanced)

section \<open>Loading the full output of an execution\<close>

text \<open>
  The record of an execution is mutated in place. The click sends a GET; the first handler accepts
  status 200 only, the second copies the output. A response without a JSON body makes the second
  handler throw, after the success notice has been shown.
\<close>

record execution =
  exec_id :: string
  exec_job_name :: string
  exec_output :: js
  output_truncated :: bool

record full_button =
  full_loading :: bool
  full_waiting :: bool
  full_log :: "effect list"

datatype full_event = FullClick | FullSettle "http_error + http_response"

definition full_url :: "string \<Rightarrow> execution \<Rightarrow> string" where
  "full_url api r = api @ ''/jobs/'' @ exec_job_name r @ ''/executions/'' @ exec_id r"

fun FullButton ::
    "string \<Rightarrow> full_button \<times> execution \<Rightarrow> full_event \<Rightarrow> full_button \<times> execution" where
  "FullButton api (b, r) FullClick =
     (if full_loading b then (b, r)
      else (b\<lparr>full_loading := True, full_waiting := True,
              full_log := full_log b @ [Request (full_url api r) no_options]\<rparr>, r))"
| "FullButton api (b, r) (FullSettle res) =
     (if \<not> full_waiting b then (b, r)
      else
        let done = b\<lparr>full_loading := False, full_waiting := False\<rparr>;
            warn = [Notify ''Error on loading full output'' (Some ''warning'')]
        in case res of
             Inl e \<Rightarrow> (done\<lparr>full_log := full_log b @ warn\<rparr>, r)
           | Inr response \<Rightarrow>
               (if resp_status response = 200
                then
                  let ok = [Notify ''Success loading full output'' None] in
                  if resp_json response \<in> {JUndef, JNull}
                  then (done\<lparr>full_log := full_log b @ ok @ warn\<rparr>, r)
                  else (done\<lparr>full_log := full_log b @ ok\<rparr>,
                        r\<lparr>output_truncated := False,
                          exec_output := js_get (resp_json response) ''output''\<rparr>)
                else (done\<lparr>full_log := full_log b @ warn\<rparr>, r)))"

definition full_idle :: full_button where
  "full_idle = \<lparr>full_loading = False, full_waiting = False, full_log = []\<rparr>"

section \<open>Properties\<close>

text \<open>
  C11: over every sequence of clicks and answers, the run and toggle buttons of a job have at most one
  request under way, are disabled exactly while it is, and have shown one notice for each request
  that was answered.
\<close>

theorem job_buttons_one_at_a_time:
  "one_at_a_time (run_events (RunButton api record_id) idle es) \<and>
   one_at_a_time (run_events (ToggleButton api record_id) idle es)"
  using run_button.inv_run toggle_button.inv_run by blast

text \<open>
  C12: a click on an enabled bulk button sends exactly one POST for every selected job, in the order of
  the selection, and disables the button unless the selection is empty; over every run of either bulk
  button each request is answered by one notice or still under way.
\<close>

theorem bulk_buttons_send_selection:
  "(loading b \<or>
    requests (BulkRunButton api ids b Click) =
      requests b @ map (\<lambda>i. Request (api @ ''/jobs/'' @ i) post_options) ids \<and>
    loading (BulkRunButton api ids b Click) = (ids \<noteq> []) \<and>
    requests (BulkToggleButton api ids b Click) =
      requests b @ map (\<lambda>i. Request (api @ ''/jobs/'' @ i @ ''/toggle'') post_options) ids \<and>
    loading (BulkToggleButton api ids b Click) = (ids \<noteq> [])) \<and>
   balanced (run_events (BulkRunButton api ids) idle es) \<and>
   balanced (run_events (BulkToggleButton api ids) idle es)"
  using bulk_run.inv_run bulk_toggle.inv_run
  by (auto simp: fold_send requests_def emit_def job_url_def toggle_url_def)

text \<open>
  C13: with two or more selected jobs the bulk run button is enabled again as soon as the first answer
  arrives, while the other requests are still under way, and a second click runs every job again.
\<close>

theorem bulk_button_reenabled_early:
  assumes "2 \<le> length ids"
  shows "\<not> loading (run_events (BulkRunButton api ids) idle [Click, Settle 0 ok]) \<and>
     in_flight (run_events (BulkRunButton api ids) idle [Click, Settle 0 ok]) = map (job_url api) (tl ids) \<and>
     tl ids \<noteq> [] \<and>
     requests (run_events (BulkRunButton api ids) idle [Click, Settle 0 ok, Click]) =
       map (\<lambda>i. Request (job_url api i) post_options) (ids @ ids)"
proof -
  have click: "BulkRunButton api ids b Click =
      b\<lparr>loading := ids \<noteq> [], in_flight := in_flight b @ map (job_url api) ids,
        log := log b @ map (\<lambda>i. Request (job_url api i) post_options) ids @
          [CallHook ''useUnselectAll'' ''jobs'']\<rparr>" if "\<not> loading b" for b
    using that by (simp add: fold_send emit_def)
  have ids: "ids \<noteq> []" "tl ids \<noteq> []" using assms by (cases ids; cases "tl ids"; simp)+
  have first: "BulkRunButton api ids idle Click = \<lparr>loading = True, in_flight = map (job_url api) ids,
      log = map (\<lambda>i. Request (job_url api i) post_options) ids @ [CallHook ''useUnselectAll'' ''jobs'']\<rparr>"
    using click [of idle] ids by (simp add: idle_def)
  have "run_events (BulkRunButton api ids) idle [Click, Settle 0 ok] =
      \<lparr>loading = False, in_flight = map (job_url api) (tl ids),
       log = map (\<lambda>i. Request (job_url api i) post_options) ids @
         [CallHook ''useUnselectAll'' ''jobs'',
          if ok then Notify ''Success running job'' None
          else Notify ''Error on running job'' (Some ''warning''), Refresh]\<rparr>" (is "?run = ?b")
    using ids by (simp add: first settled_def emit_def drop_Suc map_tl del: BulkRunButton.simps(1))
  moreover have "run_events (BulkRunButton api ids) idle [Click, Settle 0 ok, Click] =
      BulkRunButton api ids ?run Click" by simp
  ultimately show ?thesis using ids click [of ?b] by (simp add: requests_def)
qed

theorem bulk_button_reenabled_early_witness:
  "in_flight (run_events (BulkRunButton ''/v1'' [''a'', ''b'']) idle [Click, Settle 0 True]) =
     [''/v1/jobs/b''] \<and>
   \<not> loading (run_events (BulkRunButton ''/v1'' [''a'', ''b'']) idle [Click, Settle 0 True])"
  using bulk_button_reenabled_early [of "[''a'', ''b'']" "''/v1''" True] by (simp add: job_url_def)


end
