(* ===== verification/Session.thy ===== *)
theory Session
  imports HttpClient
begin

text \<open>
  \<open>src/ui/src/authProvider.ts\<close>, the submit handler of \<open>src/ui/src/LoginPage.tsx\<close> and the choice of the
  provider in \<open>src/ui/src/App.tsx\<close>. The session is the entry \<open>token\<close> of the local storage; the
  operations are a refinement of a session that is just an optional token.
\<close>

section \<open>The auth provider\<close>

datatype 'a promise = Resolved 'a | Rejected

definition login :: "string \<Rightarrow> storage \<Rightarrow> unit promise \<times> storage" where
  "login token st = (Resolved (), setItem ''token'' token st)"

definition logout :: "storage \<Rightarrow> unit promise \<times> storage" where
  "logout st = (Resolved (), removeItem ''token'' st)"

definition checkAuth :: "storage \<Rightarrow> unit promise" where
  "checkAuth st = (if str_truthy (getItem st ''token'') then Resolved () else Rejected)"

definition checkError :: "int \<Rightarrow> storage \<Rightarrow> unit promise \<times> storage" where
  "checkError status st =
     (if status = 401 \<or> status = 403 then (Rejected, removeItem ''token'' st) else (Resolved (), st))"

record user_identity =
  user_id :: string
  fullName :: string

definition getIdentity :: "user_identity promise" where
  "getIdentity = Resolved \<lparr>user_id = ''user'', fullName = ''User''\<rparr>"

definition getPermissions :: "unit promise" where
  "getPermissions = Resolved ()"

section \<open>The session as a machine\<close>

datatype session_event = Login string | Logout | ServerError int

fun session_step :: "storage \<Rightarrow> session_event \<Rightarrow> storage" where
  "session_step st (Login token) = snd (login token st)"
| "session_step st Logout = snd (logout st)"
| "session_step st (ServerError status) = snd (checkError status st)"

text \<open>The abstract session: the token, if any.\<close>

fun token_step :: "string option \<Rightarrow> session_event \<Rightarrow> string option" where
  "token_step t (Login token) = Some token"
| "token_step t Logout = None"
| "token_step t (ServerError status) = (if status \<in> {401, 403} then None else t)"

abbreviation token_of :: "storage \<Rightarrow> string option" where
  "token_of st \<equiv> getItem st ''token''"

lemma session_step_refines: "token_of (session_step st e) = token_step (token_of st) e"
  by (cases e) (auto simp: login_def logout_def checkError_def
      local_storage.get_put local_storage.get_remove)

lemma session_step_frame: "k \<noteq> ''token'' \<Longrightarrow> getItem (session_step st e) k = getItem st k"
  by (cases e) (auto simp: login_def logout_def checkError_def
      local_storage.put_frame local_storage.remove_frame)

lemma session_run_refines:
  "token_of (run_events session_step st es) = run_events token_step (token_of st) es"
  by (induction es arbitrary: st) (simp_all add: session_step_refines)

lemma session_run_frame:
  "k \<noteq> ''token'' \<Longrightarrow> getItem (run_events session_step st es) k = getItem st k"
  by (induction es arbitrary: st) (simp_all add: session_step_frame)

text \<open>The session never touches what other code keeps in the storage.\<close>

interpretation session: event_machine session_step st
  "\<lambda>s. \<forall>k. k \<noteq> ''token'' \<longrightarrow> getItem s k = getItem st k" for st
  by unfold_locales (auto simp: session_step_frame)

section \<open>The login page\<close>

record login_page =
  field_token :: string
  login_loading :: bool

definition handleSubmit ::
    "(string \<Rightarrow> storage \<Rightarrow> unit promise \<times> storage) \<Rightarrow> login_page \<Rightarrow> storage \<Rightarrow>
     login_page \<times> storage \<times> string list" where
  "handleSubmit useLogin lp st =
     (let lp = lp\<lparr>login_loading := True\<rparr> in
      case useLogin (field_token lp) st of
        (Resolved _, st') \<Rightarrow> (lp, st', [])
      | (Rejected, st') \<Rightarrow> (lp\<lparr>login_loading := False\<rparr>, st', [''Invalid token'']))"

definition setToken :: "string \<Rightarrow> login_page \<Rightarrow> login_page" where
  "setToken s lp = lp\<lparr>field_token := s\<rparr>"

section \<open>Properties\<close>

text \<open>
  C8: the session refines its specification over every sequence of logins, logouts and server errors,
  and leaves the rest of the storage alone: the stored token is the one of the last login that no later
  logout, 401 or 403 has cancelled, and the application considers the user signed in exactly when
  that token exists and is not empty.
\<close>

theorem session_refines:
  "token_of (run_events session_step st es) = run_events token_step (token_of st) es \<and>
   (checkAuth (run_events session_step st es) = Resolved () \<longleftrightarrow>
      str_truthy (run_events token_step (token_of st) es)) \<and>
   (k = ''token'' \<or> getItem (run_events session_step st es) k = getItem st k)"
  using session_run_frame [of k st es] by (auto simp: session_run_refines checkAuth_def)



text \<open>
  C10: the login form never rejects a token. With the application's own provider every submission,
  the empty token included, is stored and leaves the form in its loading state, and the message
  \<open>Invalid token\<close> is never shown; only an empty token is then refused by \<open>checkAuth\<close>.
\<close>

theorem login_form_accepts_any_token:
  "handleSubmit login lp st = (lp\<lparr>login_loading := True\<rparr>, setItem ''token'' (field_token lp) st, []) \<and>
   (checkAuth (setItem ''token'' (field_token lp) st) = Rejected \<longleftrightarrow> field_token lp = [])"
  by (simp add: handleSubmit_def login_def checkAuth_def Let_def local_storage.get_put)

end
