(* ===== verification/Pricing.thy ===== *)
theory Pricing
  imports Jsx
begin

text \<open>
  The comparison of the plans on the web site, \<open>src/website/src/components/HomepagePricing.js\<close>: the data and
  the two layouts, one table per plan for small screens and one table of all plans for large ones.
\<close>

section \<open>The plans and their features\<close>

definition tiers :: "js" where
  "tiers =
     JArr [
       JObj [
         (''name'', JStr ''Free''),
         (''href'', JStr ''https://github.com/distribworks/dkron/''),
         (''priceYearly'', JStr ''FREE'')],
       JObj [(''name'', JStr ''Pro''), (''href'', JStr ''/pro/''), (''priceYearly'', JNum 450)]]"

definition sections :: "js" where
  "sections =
     JArr [
       JObj [
         (''name'', JStr ''Features''),
         (''features'', JArr [
           JObj [
             (''name'', JStr ''Executor plugins''),
             (''tiers'', JObj [(''Free'', JBool True), (''Pro'', JBool True)])],
           JObj [
             (''name'', JStr ''Processor plugins''),
             (''tiers'', JObj [(''Free'', JBool True), (''Pro'', JBool True)])],
           JObj [
             (''name'', JStr ''Web UI''),
             (''tiers'', JObj [(''Free'', JBool True), (''Pro'', JBool True)])],
           JObj [
             (''name'', JStr ''Rest API''),
             (''tiers'', JObj [(''Free'', JBool True), (''Pro'', JBool True)])],
           JObj [
             (''name'', JStr ''Job retries''),
             (''tiers'', JObj [(''Free'', JBool True), (''Pro'', JBool True)])],
           JObj [
             (''name'', JStr ''Job chaining''),
             (''tiers'', JObj [(''Free'', JBool True), (''Pro'', JBool True)])],
           JObj [
             (''name'', JStr ''Concurrency control''),
             (''tiers'', JObj [(''Free'', JBool True), (''Pro'', JBool True)])],
           JObj [
             (''name'', JStr ''Metrics''),
             (''tiers'', JObj [(''Free'', JBool True), (''Pro'', JBool True)])],
           JObj [
             (''name'', JStr ''Embedded storage engine''),
             (''tiers'', JObj [(''Free'', JBool True), (''Pro'', JBool True)])],
           JObj [(''name'', JStr ''Fast mode''), (''tiers'', JObj [(''Pro'', JBool True)])],
           JObj [(''name'', JStr ''Docker executor''), (''tiers'', JObj [(''Pro'', JBool True)])],
           JObj [(''name'', JStr ''AWS ECS executor''), (''tiers'', JObj [(''Pro'', JBool True)])],
           JObj [(''name'', JStr ''Elasticsearch processor''), (''tiers'', JObj [(''Pro'', JBool True)])],
           JObj [(''name'', JStr ''Advanced Email processor''), (''tiers'', JObj [(''Pro'', JBool True)])],
           JObj [(''name'', JStr ''Slack processor''), (''tiers'', JObj [(''Pro'', JBool True)])],
           JObj [(''name'', JStr ''Encryption''), (''tiers'', JObj [(''Pro'', JBool True)])],
           JObj [(''name'', JStr ''Web UI Authentication''), (''tiers'', JObj [(''Pro'', JBool True)])],
           JObj [(''name'', JStr ''API Authentication''), (''tiers'', JObj [(''Pro'', JBool True)])],
           JObj [(''name'', JStr ''Access Control''), (''tiers'', JObj [(''Pro'', JBool True)])],
           JObj [(''name'', JStr ''Cross region failover''), (''tiers'', JObj [(''Pro'', JBool True)])],
           JObj [
             (''name'', JStr ''Dedicated Support''),
             (''tiers'', JObj [(''Free'', JStr ''None''), (''Pro'', JStr ''Email'')])],
           JObj [
             (''name'', JStr ''License''),
             (''tiers'', JObj [(''Free'', JStr ''LGPL''), (''Pro'', JStr ''Commercial - No custom terms'')])],
           JObj [(''name'', JStr ''Purchasing''), (''tiers'', JObj [(''Pro'', JStr ''Credit Card'')])]])]]"

section \<open>Small screens\<close>

definition small_price :: "js \<Rightarrow> js" where
  "small_price tier =
     JElem ''div'' [(''className'', JStr ''px-4 mb-8'')] [
       JElem ''h2'' [(''className'', JStr ''text-lg font-medium leading-6 text-gray-900'')] [
         js_get tier ''name''],
       JElem ''p'' [(''className'', JStr ''mt-4 mb-0'')] [
         (if (js_get tier ''name'') = JStr ''Pro'' then
           JElem ''Fragment'' [] [
             JElem ''span'' [(''className'', JStr ''text-4xl font-extrabold text-gray-900'')] [
               JStr ''$'',
               js_get tier ''priceYearly''],
             JElem ''span'' [(''className'', JStr ''text-base font-medium text-gray-500'')] [JStr ''/year'']]
          else
           JElem ''span'' [(''className'', JStr ''text-4xl font-extrabold text-gray-900'')] [
             js_get tier ''priceYearly''])]]"

definition small_cell :: "js \<Rightarrow> js \<Rightarrow> js" where
  "small_cell feature tier =
     JElem ''td'' [(''className'', JStr ''py-5 pr-4'')] [
       (if js_typeof (js_index (js_get feature ''tiers'') (js_get tier ''name'')) = ''string'' then
         JElem ''span'' [(''className'', JStr ''block text-sm text-right text-gray-700'')] [
           js_index (js_get feature ''tiers'') (js_get tier ''name'')]
        else
         JElem ''Fragment'' [] [
           (if (js_index (js_get feature ''tiers'') (js_get tier ''name'')) = JBool True then
             JElem ''CheckIcon'' [(''className'', JStr ''w-5 h-5 ml-auto text-green-500''), (''aria-hidden'', JStr ''true'')] []
            else
             JElem ''MinusIcon'' [(''className'', JStr ''w-5 h-5 ml-auto text-gray-400''), (''aria-hidden'', JStr ''true'')] []),
           JElem ''span'' [(''className'', JStr ''sr-only'')] [
             (if (js_index (js_get feature ''tiers'') (js_get tier ''name'')) = JBool True then
               JStr ''Yes''
              else
               JStr ''No'')]])]"

definition small_row :: "js \<Rightarrow> js \<Rightarrow> js" where
  "small_row tier feature =
     JElem ''tr'' [(''key'', js_get feature ''name''), (''className'', JStr ''border-t border-gray-200'')] [
       JElem ''th'' [
           (''className'', JStr ''px-4 py-5 text-sm font-normal text-left text-gray-500''),
           (''scope'', JStr ''row'')] [
         js_get feature ''name''],
       small_cell feature tier]"

definition small_table :: "js \<Rightarrow> js \<Rightarrow> js" where
  "small_table tier section =
     JElem ''table'' [(''key'', js_get section ''name''), (''className'', JStr ''w-full inline-table'')] [
       JElem ''caption'' [
           (''className'', JStr ''px-4 py-3 text-sm font-medium text-left text-gray-900 border-t border-gray-200 bg-gray-50'')] [
         js_get section ''name''],
       JElem ''thead'' [] [
         JElem ''tr'' [] [
           JElem ''th'' [(''className'', JStr ''sr-only''), (''scope'', JStr ''col'')] [JStr ''Feature''],
           JElem ''th'' [(''className'', JStr ''sr-only''), (''scope'', JStr ''col'')] [JStr ''Included'']]],
       JElem ''tbody'' [(''className'', JStr ''divide-y divide-gray-200'')] [
         JArr (map (\<lambda>feature. small_row tier feature) (js_elems (js_get section ''features'')))]]"

definition small_button :: "js \<Rightarrow> js" where
  "small_button tier =
     JElem ''div'' [(''className'', JStr ''px-4 pt-5 border-t border-gray-200'')] [
       (if (js_get tier ''name'') = JStr ''Pro'' then
         JElem ''a'' [
             (''href'', JStr ''https://gum.co/dkron-pro''),
             (''target'', JStr ''_blank''),
             (''className'', JStr ''block w-full py-3 text-base font-medium text-center text-white border-2 border-transparent rounded-md gumroad-button bg-gradient-to-r from-fuchsia-600 to-pink-600 hover:bg-fuchsia-700 md:py-4 md:text-lg md:px-10 hover:no-underline hover:text-white/90'')] [
           JStr ''Buy'']
        else
         JElem ''a'' [
             (''href'', JStr ''https://github.com/distribworks/dkron/releases''),
             (''className'', JStr ''block w-full py-3 text-base font-medium text-center text-white border-2 border-transparent rounded-md bg-gradient-to-r from-fuchsia-600 to-pink-600 hover:bg-fuchsia-700 md:py-4 md:text-lg md:px-10 hover:no-underline hover:text-white/90'')] [
           JStr ''Download''])]"

definition small_tier :: "js \<Rightarrow> js" where
  "small_tier tier =
     JElem ''section'' [(''key'', js_get tier ''name'')] [
       small_price tier,
       JArr (map (\<lambda>section. small_table tier section) (js_elems sections)),
       small_button tier]"

section \<open>Large screens\<close>

definition large_heading :: "js \<Rightarrow> js" where
  "large_heading tier =
     JElem ''th'' [
         (''key'', js_get tier ''name''),
         (''className'', JStr ''w-1/4 px-6 pb-4 text-lg font-medium leading-6 text-left text-gray-900''),
         (''scope'', JStr ''col'')] [
       js_get tier ''name'',
       JElem ''svg'' [
           (''className'', JStr ''w-2 h-2 mx-2 text-gray-800/20''),
           (''fill'', JStr ''currentColor''),
           (''viewBox'', JStr ''0 0 8 8'')] [
         JElem ''circle'' [(''cx'', JNum 4), (''cy'', JNum 4), (''r'', JNum 3)] []],
       JElem ''a'' [(''className'', JStr ''text-xs''), (''href'', js_get tier ''href'')] [JStr ''Learn more'']]"

definition large_price :: "js \<Rightarrow> js" where
  "large_price tier =
     JElem ''td'' [(''key'', js_get tier ''name''), (''className'', JStr ''h-full px-6 py-8 align-top'')] [
       JElem ''div'' [(''className'', JStr ''flex flex-col justify-between h-full'')] [
         JElem ''div'' [] [
           JElem ''p'' [(''className'', JStr ''mb-0'')] [
             (if (js_get tier ''name'') = JStr ''Pro'' then
               JElem ''Fragment'' [] [
                 JElem ''span'' [
                     (''className'', JStr ''text-4xl font-extrabold text-transparent bg-clip-text bg-gradient-to-r from-pink-400 to-fuchsia-600'')] [
                   JStr ''$'',
                   js_get tier ''priceYearly''],
                 JElem ''span'' [(''className'', JStr ''text-base font-medium text-gray-500'')] [
                   JStr ''/year'']]
              else
               JElem ''span'' [
                   (''className'', JStr ''text-4xl font-extrabold text-transparent bg-clip-text bg-gradient-to-r from-pink-400 to-fuchsia-600'')] [
                 js_get tier ''priceYearly''])]]]]"

definition large_cell :: "js \<Rightarrow> js \<Rightarrow> js" where
  "large_cell feature tier =
     JElem ''td'' [(''key'', js_get tier ''name''), (''className'', JStr ''px-6 py-2'')] [
       (if js_typeof (js_index (js_get feature ''tiers'') (js_get tier ''name'')) = ''string'' then
         JElem ''span'' [(''className'', JStr ''block text-sm text-gray-700'')] [
           js_index (js_get feature ''tiers'') (js_get tier ''name'')]
        else
         JElem ''Fragment'' [] [
           (if (js_index (js_get feature ''tiers'') (js_get tier ''name'')) = JBool True then
             JElem ''CheckIcon'' [(''className'', JStr ''w-5 h-5 text-green-500''), (''aria-hidden'', JStr ''true'')] []
            else
             JElem ''MinusIcon'' [(''className'', JStr ''w-5 h-5 text-gray-400''), (''aria-hidden'', JStr ''true'')] []),
           JElem ''span'' [(''className'', JStr ''sr-only'')] [
             (if (js_index (js_get feature ''tiers'') (js_get tier ''name'')) = JBool True then
               JStr ''Included''
              else
               JStr ''Not included''),
             JStr '' in '',
             js_get tier ''name'']])]"

definition large_row :: "js \<Rightarrow> js" where
  "large_row feature =
     JElem ''tr'' [(''key'', js_get feature ''name'')] [
       JElem ''th'' [
           (''className'', JStr ''py-2 pl-6 pr-6 text-sm font-normal text-left text-gray-500''),
           (''scope'', JStr ''row'')] [
         js_get feature ''name''],
       JArr (map (\<lambda>tier. large_cell feature tier) (js_elems tiers))]"

definition large_section :: "js \<Rightarrow> js" where
  "large_section section =
     JElem ''Fragment'' [(''key'', js_get section ''name'')] [
       JElem ''tr'' [] [
         JElem ''th'' [
             (''className'', JStr ''py-3 pl-6 text-sm font-medium text-left text-gray-900 bg-gray-50''),
             (''colSpan'', JNum 4),
             (''scope'', JStr ''colgroup'')] [
           js_get section ''name'']],
       JArr (map (\<lambda>feature. large_row feature) (js_elems (js_get section ''features'')))]"

definition large_button :: "js \<Rightarrow> js" where
  "large_button tier =
     JElem ''td'' [(''key'', js_get tier ''name''), (''className'', JStr ''px-6 pt-5'')] [
       (if (js_get tier ''name'') = JStr ''Pro'' then
         JElem ''Fragment'' [] [
           JElem ''a'' [
               (''href'', JStr ''https://buy.stripe.com/9AQ9BP1UV8jkgowaEF''),
               (''target'', JStr ''_blank''),
               (''className'', JStr ''block w-full py-3 mt-2 text-base font-medium text-center text-white border-2 border-transparent rounded-md gumroad-button bg-gradient-to-r from-fuchsia-600 to-pink-600 hover:bg-fuchsia-700 md:py-4 md:text-lg md:px-10 hover:no-underline hover:text-white/90'')] [
             JStr ''Subscribe''],
           JElem ''a'' [
               (''href'', js_get tier ''href''),
               (''target'', JStr ''_blank''),
               (''rel'', JStr ''noopener noreferrer''),
               (''className'', JStr ''block w-full mt-1 text-center'')] [
             JStr ''Learn more'']]
        else
         JElem ''a'' [
             (''href'', js_get tier ''href''),
             (''className'', JStr ''block w-full py-3 mb-5 text-base font-medium text-center text-white border-2 border-transparent rounded-md bg-gradient-to-r from-fuchsia-600 to-pink-600 hover:bg-fuchsia-700 md:py-4 md:text-lg md:px-10 hover:no-underline hover:text-white/90'')] [
           JStr ''Download''])]"

definition large_table :: "js" where
  "large_table =
     JElem ''div'' [(''className'', JStr ''hidden lg:block'')] [
       JElem ''table'' [(''className'', JStr ''w-full table-fixed'')] [
         JElem ''caption'' [(''className'', JStr ''sr-only'')] [JStr ''Pricing plan comparison''],
         JElem ''thead'' [] [
           JElem ''tr'' [] [
             JElem ''th'' [
                 (''className'', JStr ''pb-4 pl-6 pr-6 text-sm font-medium text-left text-gray-900''),
                 (''scope'', JStr ''col'')] [
               JElem ''span'' [(''className'', JStr ''sr-only'')] [JStr ''Feature by''],
               JElem ''span'' [] [JStr ''Plans'']],
             JArr (map (\<lambda>tier. large_heading tier) (js_elems tiers))]],
         JElem ''tbody'' [(''className'', JStr ''border-t border-gray-200 divide-y divide-gray-200'')] [
           JElem ''tr'' [] [
             JElem ''th'' [
                 (''className'', JStr ''py-8 pl-6 pr-6 text-sm font-medium text-left text-gray-900 align-top''),
                 (''scope'', JStr ''row'')] [
               JStr ''Pricing''],
             JArr (map (\<lambda>tier. large_price tier) (js_elems tiers))],
           JArr (map (\<lambda>section. large_section section) (js_elems sections))],
         JElem ''tfoot'' [] [
           JElem ''tr'' [(''className'', JStr ''border-t border-gray-200'')] [
             JElem ''th'' [(''className'', JStr ''sr-only''), (''scope'', JStr ''row'')] [
               JStr ''Choose your plan''],
             JArr (map (\<lambda>tier. large_button tier) (js_elems tiers))]]]]"

definition HomepagePricing :: "js" where
  "HomepagePricing =
     JElem ''section'' [(''className'', JStr ''py-12 bg-white'')] [
       JElem ''div'' [(''className'', JStr ''px-4 mx-auto max-w-7xl sm:px-6 lg:px-8'')] [
         JElem ''h2'' [(''className'', JStr ''text-4xl font-bold text-fuchsia-700'')] [JStr ''Plans''],
         JElem ''div'' [(''className'', JStr ''max-w-2xl py-4 mx-auto bg-white sm:py-8 lg:max-w-7xl'')] [
           JElem ''div'' [(''className'', JStr ''space-y-24 lg:hidden'')] [
             JArr (map (\<lambda>tier. small_tier tier) (js_elems tiers))],
           large_table],
         JElem ''p'' [(''className'', JStr ''mb-0'')] [
           JStr ''All sales come with a two week, 100% money back guarantee.''],
         JElem ''p'' [] [
           JStr ''Looking to embed Dkron in your virtual server or appliance? '',
           JElem ''a'' [(''href'', JStr ''docs/pro/commercial-faq'')] [JStr ''Read the Commercial FAQ.'']]]]"

section \<open>Lemmas\<close>

text \<open>What the data say about a feature in a plan, and what a cell shows about it.\<close>

definition offer :: "js \<Rightarrow> js \<Rightarrow> js" where
  "offer feature tier = js_index (js_get feature ''tiers'') (js_get tier ''name'')"

definition cell_marks :: "js \<Rightarrow> nat \<times> nat" where
  "cell_marks c = (length (tagged ''CheckIcon'' c), length (tagged ''MinusIcon'' c))"

definition all_features :: "js list" where
  "all_features = concat (map (\<lambda>s. js_elems (js_get s ''features'')) (js_elems sections))"

lemmas small_defs = small_tier_def small_table_def small_row_def small_cell_def small_price_def small_button_def
lemmas large_defs = large_table_def large_section_def large_row_def large_cell_def large_heading_def
  large_price_def large_button_def
lemmas pricing_data_defs = all_features_def sections_def tiers_def offer_def js_index_def

lemma feature_names: "distinct (map (\<lambda>f. js_get f ''name'') all_features)"
  by (simp add: pricing_data_defs)

lemma feature_keys: "JUndef \<notin> (\<lambda>f. js_get f ''name'') ` set all_features"
  by (simp add: pricing_data_defs)

lemma row_keys:
  "good_keys (JArr (map (small_row t) all_features))" "good_keys (JArr (map large_row all_features))"
  using feature_names feature_keys by (simp_all add: good_keys_def small_row_def large_row_def)

lemma small_checks: "length (tagged ''CheckIcon'' (small_tier t)) = length (filter (\<lambda>f. offer f t = JBool True) all_features)"
  if "t \<in> set (js_elems tiers)"
  using that by (auto simp: small_defs pricing_data_defs)

lemma large_checks: "length (tagged ''CheckIcon'' large_table) = 29"
  by (simp add: large_defs pricing_data_defs)

section \<open>Properties\<close>

text \<open>
  C38: the two layouts agree on every cell, for all data: both show the same text when the data give one,
  otherwise both show one check mark exactly when the feature is included and one minus sign when it
  is not, and the hidden text for screen readers says the same.
\<close>

theorem pricing_layouts_agree:
  "cell_marks (small_cell f (JObj ((''name'', JStr n) # ps))) = cell_marks (large_cell f (JObj ((''name'', JStr n) # ps))) \<and>
   cell_marks (small_cell f (JObj ((''name'', JStr n) # ps))) =
     (case js_get (js_get f ''tiers'') n of JStr s \<Rightarrow> (0, 0) | v \<Rightarrow> if v = JBool True then (1, 0) else (0, 1)) \<and>
   texts (small_cell f (JObj ((''name'', JStr n) # ps))) =
     (case js_get (js_get f ''tiers'') n of JStr s \<Rightarrow> texts (JStr s) | v \<Rightarrow> if v = JBool True then [''Yes''] else [''No'']) \<and>
   texts (large_cell f (JObj ((''name'', JStr n) # ps))) =
     (case js_get (js_get f ''tiers'') n of JStr s \<Rightarrow> texts (JStr s)
      | v \<Rightarrow> (if v = JBool True then ''Included'' else ''Not included'') # '' in '' # texts (JStr n))"
  by (cases "js_get (js_get f ''tiers'') n") (auto simp: small_cell_def large_cell_def js_index_def cell_marks_def)


end
