(* ===== verification/Homepage.thy ===== *)
theory Homepage
  imports Pricing
begin

text \<open>
  The home page of the web site, \<open>src/website/src/pages/index.js\<close> and the components it shows. \<open>siteConfig\<close> is
  the configuration that Docusaurus hands to the components.
\<close>

section \<open>Components\<close>

definition HomepageBanner :: "js" where
  "HomepageBanner =
     JElem ''div'' [(''className'', JStr ''bg-gradient-to-tr from-pink-600 to-fuchsia-700'')] [
       JElem ''div'' [(''className'', JStr ''px-3 py-3 mx-auto max-w-7xl sm:px-6 lg:px-8'')] [
         JElem ''div'' [(''className'', JStr ''flex flex-wrap items-center justify-between'')] [
           JElem ''div'' [(''className'', JStr ''flex items-center flex-1'')] [
             JElem ''span'' [(''className'', JStr ''flex p-2 rounded-md bg-fuchsia-800'')] [
               JElem ''SpeakerphoneIcon'' [(''className'', JStr ''w-6 h-6 text-white''), (''aria-hidden'', JStr ''true'')] []],
             JElem ''p'' [(''className'', JStr ''mb-0 ml-3 font-medium text-white truncate'')] [
               JElem ''span'' [(''className'', JStr ''md:hidden'')] [JStr ''Dkron 4.0 Beta is here!''],
               JElem ''span'' [(''className'', JStr ''hidden md:inline'')] [
                 JStr ''Big news! Dkron 4.0 Stable is here!'']]],
           JElem ''div'' [(''className'', JStr ''flex-shrink-0 order-3 w-full mt-2 sm:order-2 sm:mt-0 sm:w-auto'')] [
             JElem ''a'' [
                 (''href'', JStr ''/blog/dkron-pro-4.0-stable/''),
                 (''className'', JStr ''flex items-center justify-center px-4 py-2 text-sm font-medium bg-white border border-transparent rounded-sm shadow-sm text-fuchsia-600 hover:bg-indigo-50'')] [
               JStr ''Learn more'']]]]]"

definition header_pattern :: "js" where
  "header_pattern =
     JElem ''svg'' [
         (''className'', JStr ''absolute mt-8 -top-16''),
         (''width'', JNum 400),
         (''height'', JNum 620),
         (''viewBox'', JStr ''0 0 1200 630''),
         (''xmlns'', JStr ''http://www.w3.org/2000/svg'')] [
       JElem ''defs'' [] [
         JElem ''pattern'' [
             (''id'', JStr ''pattern''),
             (''x'', JStr ''0''),
             (''y'', JStr ''0''),
             (''width'', JStr ''100''),
             (''height'', JStr ''100''),
             (''patternUnits'', JStr ''userSpaceOnUse''),
             (''patternTransform'', JStr ''translate(0, 0) rotate(0) skewX(0)'')] [
           JElem ''svg'' [(''width'', JStr ''46''), (''height'', JStr ''46''), (''viewBox'', JStr ''0 0 100 100'')] [
             JElem ''g'' [
                 (''className'', JStr ''text-pink-100''),
                 (''fill'', JStr ''currentColor''),
                 (''opacity'', JStr ''1'')] [
               JElem ''path'' [
                   (''d'', JStr ''M95.2171 74.9997V25.0003L50.1086 0L5 25.0003V74.9997L50.1086 100L95.2171 74.9997Z'')] []]]]],
       JElem ''rect'' [
           (''x'', JStr ''0''),
           (''y'', JStr ''0''),
           (''width'', JNum 400),
           (''height'', JNum 1200),
           (''fill'', JStr ''url(#pattern)'')] []]"

definition header_pattern_rotated :: "js" where
  "header_pattern_rotated =
     JElem ''svg'' [
         (''className'', JStr ''absolute mt-2 transform rotate-180 right-8''),
         (''width'', JNum 400),
         (''height'', JNum 320),
         (''viewBox'', JStr ''0 0 1200 630''),
         (''xmlns'', JStr ''http://www.w3.org/2000/svg'')] [
       JElem ''defs'' [] [
         JElem ''pattern'' [
             (''id'', JStr ''pattern''),
             (''x'', JStr ''0''),
             (''y'', JStr ''0''),
             (''width'', JStr ''100''),
             (''height'', JStr ''100''),
             (''patternUnits'', JStr ''userSpaceOnUse''),
             (''patternTransform'', JStr ''translate(0, 0) rotate(0) skewX(0)'')] [
           JElem ''svg'' [(''width'', JStr ''46''), (''height'', JStr ''46''), (''viewBox'', JStr ''0 0 100 100'')] [
             JElem ''g'' [
                 (''className'', JStr ''text-pink-100''),
                 (''fill'', JStr ''currentColor''),
                 (''opacity'', JStr ''1'')] [
               JElem ''path'' [
                   (''d'', JStr ''M95.2171 74.9997V25.0003L50.1086 0L5 25.0003V74.9997L50.1086 100L95.2171 74.9997Z'')] []]]]],
       JElem ''rect'' [
           (''x'', JStr ''0''),
           (''y'', JStr ''0''),
           (''width'', JNum 400),
           (''height'', JNum 1200),
           (''fill'', JStr ''url(#pattern)'')] []]"

definition HomepageHeader :: "js \<Rightarrow> js" where
  "HomepageHeader siteConfig =
     JElem ''header'' [] [
       JElem ''div'' [(''className'', JStr ''container relative overflow-hidden'')] [
         JElem ''div'' [(''className'', JStr ''absolute inset-y-0 w-full h-full''), (''aria-hidden'', JStr ''true'')] [
           JElem ''div'' [(''className'', JStr ''relative h-full'')] [header_pattern, header_pattern_rotated]],
         JElem ''div'' [(''className'', JStr ''relative px-4 mx-auto mt-16 max-w-7xl sm:mt-24 sm:px-6'')] [
           JElem ''div'' [(''className'', JStr ''text-center'')] [
             JElem ''h1'' [
                 (''className'', JStr ''text-4xl font-extrabold tracking-tight text-fuchsia-900 sm:text-5xl md:text-6xl lg:text-5xl xl:text-6xl'')] [
               JElem ''span'' [(''className'', JStr ''block xl:inline'')] [js_get siteConfig ''tagline'']],
             JElem ''p'' [
                 (''className'', JStr ''max-w-md mx-auto mt-3 text-lg text-gray-500 sm:text-xl md:mt-5 md:max-w-3xl'')] [
               js_get (js_get siteConfig ''customFields'') ''description''],
             JElem ''div'' [(''className'', JStr ''mt-10 sm:flex sm:justify-center'')] [
               JElem ''div'' [(''className'', JStr ''rounded-md shadow'')] [
                 JElem ''a'' [
                     (''href'', JStr ''https://github.com/distribworks/dkron/releases''),
                     (''className'', JStr ''flex items-center justify-center w-full px-8 py-3 text-base font-medium text-white border-2 border-transparent border-solid rounded-md bg-gradient-to-r from-fuchsia-600 to-pink-600 hover:bg-fuchsia-700 md:py-4 md:text-lg md:px-10 hover:no-underline hover:text-white/90'')] [
                   JStr ''Download'']],
               JElem ''div'' [(''className'', JStr ''mt-3 rounded-md shadow sm:mt-0 sm:ml-3'')] [
                 JElem ''a'' [
                     (''href'', JStr ''http://test.dkron.io:8080/ui''),
                     (''className'', JStr ''flex items-center justify-center w-full px-8 py-3 text-base font-medium bg-white border-2 border-solid rounded-md text-fuchsia-600 hover:text-fuchsia-700 border-fuchsia-600 hover:bg-white md:py-4 md:text-lg md:px-10 hover:no-underline'')] [
                   JStr ''Live demo'']]]]],
         JElem ''div'' [(''className'', JStr ''relative mt-4'')] [
           JElem ''div'' [(''className'', JStr ''absolute inset-0 flex flex-col''), (''aria-hidden'', JStr ''true'')] [
             JElem ''div'' [(''className'', JStr ''flex-1'')] [],
             JElem ''div'' [(''className'', JStr ''flex-1 w-full'')] []],
           JElem ''div'' [(''className'', JStr ''px-4 mx-auto max-w-7xl sm:px-6'')] [
             JElem ''img'' [
                 (''className'', JStr ''relative rounded-lg''),
                 (''src'', JStr ''../img/job-list-new.png''),
                 (''alt'', JStr ''App screenshot'')] []]]]]"

definition HomepageDescPanel :: "js \<Rightarrow> js" where
  "HomepageDescPanel siteConfig =
     JElem ''div'' [(''className'', JStr ''bg-white'')] [
       JElem ''div'' [(''className'', JStr ''px-4 py-8 mx-auto max-w-7xl sm:px-6 lg:px-8'')] [
         JElem ''div'' [
             (''className'', JStr ''px-6 py-10 rounded-md bg-gradient-to-tr from-pink-600 to-fuchsia-700 sm:py-16 sm:px-12 lg:p-16 lg:flex lg:items-center'')] [
           JElem ''div'' [(''className'', JStr ''lg:w-0 lg:flex-1'')] [
             JElem ''p'' [(''className'', JStr ''max-w-3xl text-2xl text-pink-50'')] [
               js_get (js_get siteConfig ''customFields'') ''description_extended'']],
           JElem ''div'' [(''className'', JStr ''relative mt-12 sm:w-full sm:max-w-md lg:mt-0 lg:ml-8 lg:flex-1'')] [
             JElem ''div'' [
                 (''className'', JStr ''absolute right-0 flex items-center justify-center transform -translate-y-1/2 opacity-10 md:opacity-50 top-1/2'')] [
               JElem ''svg'' [
                   (''className'', JStr ''w-64 h-auto''),
                   (''viewBox'', JStr ''0 0 120 124''),
                   (''fill'', JStr ''none''),
                   (''xmlns'', JStr ''http://www.w3.org/2000/svg'')] [
                 JElem ''path'' [
                     (''d'', JStr ''M111.75 52.2198V74.4199C111.75 82.3199 107.54 89.6198 100.7 93.5698L81.4795 104.67C80.1895 97.7599 75.6896 91.9798 69.5796 88.9498C68.0796 88.1998 67.1197 86.6698 67.1197 84.9898V71.9099C67.1197 67.8399 63.8196 64.5399 59.7496 64.5399C55.6796 64.5399 52.3794 67.8399 52.3794 71.9099V84.9898C52.3794 86.6698 51.4195 88.1998 49.9095 88.9498C43.7995 91.9898 39.2996 97.7599 38.0096 104.67L18.7896 93.5698C11.9496 89.6198 7.73955 82.3199 7.73955 74.4199V52.2198C14.3695 54.5598 21.6196 53.5499 27.3096 49.7699C28.7096 48.8399 30.5095 48.7799 31.9695 49.6199L43.1495 56.0698C46.6095 58.0698 51.1095 57.0798 53.2295 53.6898C55.4595 50.1298 54.2695 45.4699 50.6695 43.3899L39.3396 36.8498C37.8796 36.0098 37.0395 34.4198 37.1395 32.7398C37.5595 25.9298 34.8095 19.1398 29.4695 14.5698L48.6895 3.46982C55.5295 -0.480176 63.9596 -0.480176 70.7996 3.46982L90.0196 14.5698C84.6796 19.1398 81.9297 25.9298 82.3497 32.7298C82.4497 34.4098 81.6095 36.0098 80.1495 36.8498L68.8196 43.3899C65.2896 45.4299 64.0897 49.9298 66.1197 53.4598C68.1597 56.9898 72.6595 58.1899 76.1895 56.1599L87.5196 49.6199C88.9796 48.7799 90.7795 48.8399 92.1795 49.7699C97.8695 53.5399 105.12 54.5598 111.75 52.2198ZM68.8895 97.1898C68.1695 96.6198 67.1097 97.1498 67.1097 98.0698V108.75C67.1097 112.82 63.8095 116.12 59.7395 116.12C55.6695 116.12 52.3697 112.82 52.3697 108.75V98.0798C52.3697 97.1498 51.2996 96.6398 50.5696 97.2098C46.9596 100.08 44.7296 104.6 45.0196 109.64C45.4496 116.97 51.3395 122.93 58.6595 123.45C67.2895 124.06 74.4695 117.24 74.4695 108.75C74.4795 104.06 72.2895 99.8898 68.8895 97.1898ZM20.4595 45.0698C21.3295 44.7298 21.4297 43.5398 20.6197 43.0798L11.3794 37.7398C7.78944 35.6698 6.59961 31.0298 8.79961 27.4798C10.9196 24.0498 15.5196 23.1099 19.0196 25.1299L29.8096 31.3598C29.7996 25.9998 26.8695 20.7899 21.6595 18.1699C15.0295 14.8399 6.75953 17.0899 2.71953 23.3099C-1.91047 30.4499 0.429507 39.9199 7.69951 44.1199C11.7395 46.4599 16.4295 46.6598 20.4595 45.0698ZM117.179 23.9898C113.109 16.9398 104.1 14.5298 97.0396 18.5998C92.9896 20.9398 90.4796 24.8998 89.8296 29.1898C89.6896 30.1098 90.6795 30.7799 91.4795 30.3099L100.72 24.9698C104.25 22.9298 108.75 24.1399 110.79 27.6699C112.83 31.1999 111.62 35.6998 108.09 37.7398L98.8497 43.0798C98.0497 43.5398 98.1396 44.7298 98.9996 45.0698C103.04 46.6598 107.73 46.4599 111.78 44.1299C118.84 40.0499 121.249 31.0398 117.179 23.9898Z''),
                     (''fill'', JStr ''white'')] []]]]]]]"

definition home_features :: "js" where
  "home_features =
     JArr [
       JObj [
         (''title'', JStr ''Easy integration''),
         (''img'', JStr ''../img/integration.png''),
         (''description'', JElem ''Fragment'' [] [
           JStr ''Dkron is easy to setup and use. Choose your OS package and it's ready to run out-of-the-box. The administration panel and it's simple JSON API makes a breeze to integrate with you current workflow or deploy system.''])],
       JObj [
         (''title'', JStr ''Always available''),
         (''img'', JStr ''../img/available.png''),
         (''description'', JElem ''Fragment'' [] [
           JStr ''Using the power of the Raft protocol, Dkron is designed to be always available. If the cluster leader node fails, a follower will replace it, all without human intervention.''])],
       JObj [
         (''title'', JStr ''Flexible targets''),
         (''img'', JStr ''../img/targets.png''),
         (''description'', JElem ''Fragment'' [] [
           JStr ''Simple but powerful tag-based target node selection for jobs. Tag node count allows to run jobs in an arbitrary number of nodes in the same group or groups.''])]]"

definition HomepageFeatures :: "js" where
  "HomepageFeatures =
     JElem ''section'' [(''className'', JStr ''py-12 mt-16 bg-zinc-100'')] [
       JElem ''div'' [(''className'', JStr ''px-4 mx-auto max-w-7xl sm:px-6 lg:px-8'')] [
         JElem ''h2'' [(''className'', JStr ''text-4xl font-bold text-fuchsia-700'')] [JStr ''Features''],
         JElem ''dl'' [(''className'', JStr ''space-y-10 lg:space-y-0 lg:grid lg:grid-cols-3 lg:gap-16'')] [
           JArr (map (\<lambda>feature.
             JElem ''div'' [(''key'', js_get feature ''title'')] [
               JElem ''dt'' [] [
                 JElem ''div'' [(''className'', JStr [])] [
                   JElem ''img'' [(''src'', js_get feature ''img''), (''alt'', JStr [])] []],
                 JElem ''p'' [
                     (''className'', JStr ''mt-4 text-2xl font-bold text-transparent bg-clip-text bg-gradient-to-r from-pink-400 to-fuchsia-600'')] [
                   js_get feature ''title'']],
               JElem ''dd'' [(''className'', JStr ''mt-4 ml-0 text-base text-gray-500'')] [
                 js_get feature ''description'']])
             (js_elems home_features))]]]"

definition useCases :: "js" where
  "useCases =
     JArr [
       JObj [(''name'', JStr ''Email delivery''), (''img'', JStr ''img/email-delivery.png'')],
       JObj [(''name'', JStr ''Payroll generation''), (''img'', JStr ''img/payroll-generation.png'')],
       JObj [(''name'', JStr ''Bookkeeping''), (''img'', JStr ''img/book-keeping.png'')],
       JObj [(''name'', JStr ''Data consolidation for BI''), (''img'', JStr ''img/data-consolidation.png'')],
       JObj [(''name'', JStr ''Recurring invoicing''), (''img'', JStr ''img/recurring-invoicing.png'')],
       JObj [(''name'', JStr ''Data transfer''), (''img'', JStr ''img/data-transfer.png'')]]"

definition HomepageUseCases :: "js" where
  "HomepageUseCases =
     JElem ''section'' [(''className'', JStr ''bg-gradient-to-tr from-pink-600 to-fuchsia-700'')] [
       JElem ''div'' [
           (''className'', JStr ''px-4 py-12 mx-auto border-t border-gray-200 max-w-7xl sm:px-6 lg:py-20 lg:px-8'')] [
         JElem ''h3'' [(''className'', JStr ''text-4xl font-bold text-white'')] [JStr ''Example use cases''],
         JElem ''div'' [(''className'', JStr ''grid sm:grid-cols-2 gap-0.5 md:grid-cols-3 lg:mt-8'')] [
           JArr (map (\<lambda>use.
             JElem ''div'' [
                 (''key'', js_get use ''name''),
                 (''className'', JStr ''flex items-center col-span-1 px-8 py-8 bg-gray-50/20'')] [
               JElem ''img'' [
                   (''className'', JStr ''shrink-0 max-h-16''),
                   (''src'', js_get use ''img''),
                   (''alt'', js_get use ''name'')] [],
               JElem ''p'' [(''className'', JStr ''mb-0 ml-4 text-xl text-white'')] [js_get use ''name'']])
             (js_elems useCases))]]]"

definition HomepageStats :: "js" where
  "HomepageStats =
     JElem ''section'' [(''className'', JStr ''py-12 mt-16 bg-zinc-100'')] [
       JElem ''div'' [(''className'', JStr ''px-4 mx-auto max-w-7xl sm:px-6 lg:px-8'')] [
         JElem ''h2'' [(''className'', JStr ''text-4xl font-bold text-fuchsia-700'')] [JStr ''Stats''],
         JElem ''div'' [(''className'', JStr ''flex flex-row'')] [
           JElem ''div'' [(''class'', JStr ''basis-1/2 '')] [
             JElem ''CountUp'' [
                 (''end'', JNum 807),
                 (''duration'', JNum 5),
                 (''useEasing'', JBool True),
                 (''className'', JStr ''text-6xl font-bold'')] [],
             JElem ''h3'' [] [JStr ''Clusters Running'']],
           JElem ''div'' [(''class'', JStr ''basis-1/2'')] [
             JElem ''CountUp'' [
                 (''end'', JNum 2536),
                 (''duration'', JNum 5),
                 (''useEasing'', JBool True),
                 (''className'', JStr ''text-6xl font-bold'')] [],
             JElem ''h3'' [] [JStr ''Servers Running'']]]]]"

definition testimonial_blackstone :: "js" where
  "testimonial_blackstone =
     JElem ''div'' [(''className'', JStr ''px-4 py-12 sm:px-6 md:flex md:flex-col md:py-16 md:pl-0 md:pr-10 lg:pr-16'')] [
       JElem ''blockquote'' [(''className'', JStr ''mt-6 border-0 md:flex-grow md:flex md:flex-col'')] [
         JElem ''div'' [(''className'', JStr ''relative text-lg font-medium text-white md:flex-grow'')] [
           JElem ''svg'' [
               (''className'', JStr ''absolute w-16 h-16 transform -translate-x-3 -translate-y-2 text-fuchsia-300/20 -top-8 -left-8''),
               (''fill'', JStr ''currentColor''),
               (''viewBox'', JStr ''0 0 32 32''),
               (''aria-hidden'', JStr ''true'')] [
             JElem ''path'' [
                 (''d'', JStr ''M9.352 4C4.456 7.456 1 13.12 1 19.36c0 5.088 3.072 8.064 6.624 8.064 3.36 0 5.856-2.688 5.856-5.856 0-3.168-2.208-5.472-5.088-5.472-.576 0-1.344.096-1.536.192.48-3.264 3.552-7.104 6.624-9.024L9.352 4zm16.512 0c-4.8 3.456-8.256 9.12-8.256 15.36 0 5.088 3.072 8.064 6.624 8.064 3.264 0 5.856-2.688 5.856-5.856 0-3.168-2.304-5.472-5.184-5.472-.576 0-1.248.096-1.44.192.48-3.264 3.456-7.104 6.528-9.024L25.864 4z'')] []],
           JElem ''p'' [(''className'', JStr ''relative'')] [
             JStr ''Dkron is an essential part of our fault-tolerant distributed automation workflow. Its deceptively simple setup hides a well implemented architecture. Using established tools to coordinate our large number of endpoints, allows us to set-and-forget many of the tasks that would normally require a single, dedicated server.'']],
         JElem ''footer'' [(''className'', JStr ''mt-8'')] [
           JElem ''div'' [(''className'', JStr ''flex items-start'')] [
             JElem ''div'' [(''className'', JStr ''inline-flex flex-shrink-0 border-2 border-white rounded-full'')] [
               JElem ''img'' [
                   (''className'', JStr ''w-12 h-12 rounded-full''),
                   (''src'', JStr ''https://www.gravatar.com/avatar/196032196bfacfc2e1e4c5891ca500a6''),
                   (''alt'', JStr [])] []],
             JElem ''div'' [(''className'', JStr ''ml-4'')] [
               JElem ''div'' [(''className'', JStr ''text-base font-medium text-white'')] [
                 JStr ''Geoff Jukes''],
               JElem ''div'' [(''className'', JStr ''text-base font-medium text-pink-200'')] [
                 JStr ''Director of Information Technology, Blackstone Publishing'']]]]]]"

definition testimonial_jobandtalent :: "js" where
  "testimonial_jobandtalent =
     JElem ''div'' [(''className'', JStr ''px-4 py-12 sm:px-6 md:flex md:flex-col md:py-16 md:pl-0 md:pr-10 lg:pr-16'')] [
       JElem ''blockquote'' [(''className'', JStr ''mt-6 border-0 md:flex-grow md:flex md:flex-col'')] [
         JElem ''div'' [(''className'', JStr ''relative text-lg font-medium text-white md:flex-grow'')] [
           JElem ''svg'' [
               (''className'', JStr ''absolute w-16 h-16 transform -translate-x-3 -translate-y-2 text-fuchsia-300/20 -top-8 -left-8''),
               (''fill'', JStr ''currentColor''),
               (''viewBox'', JStr ''0 0 32 32''),
               (''aria-hidden'', JStr ''true'')] [
             JElem ''path'' [
                 (''d'', JStr ''M9.352 4C4.456 7.456 1 13.12 1 19.36c0 5.088 3.072 8.064 6.624 8.064 3.36 0 5.856-2.688 5.856-5.856 0-3.168-2.208-5.472-5.088-5.472-.576 0-1.344.096-1.536.192.48-3.264 3.552-7.104 6.624-9.024L9.352 4zm16.512 0c-4.8 3.456-8.256 9.12-8.256 15.36 0 5.088 3.072 8.064 6.624 8.064 3.264 0 5.856-2.688 5.856-5.856 0-3.168-2.304-5.472-5.184-5.472-.576 0-1.248.096-1.44.192.48-3.264 3.456-7.104 6.528-9.024L25.864 4z'')] []],
           JElem ''p'' [(''className'', JStr ''relative'')] [
             JStr ''Dkron is an essential piece of our infrastructure: you can trust that the cron jobs will execute. Also, Dkron help us to identify failed cron jobs really fast. The system and the API are very easy to use and well designed. Will definitely keep using it!'']],
         JElem ''footer'' [(''className'', JStr ''mt-8'')] [
           JElem ''div'' [(''className'', JStr ''flex items-start'')] [
             JElem ''div'' [(''className'', JStr ''inline-flex flex-shrink-0 border-2 border-white rounded-full'')] [
               JElem ''img'' [
                   (''className'', JStr ''w-12 h-12 rounded-full''),
                   (''src'', JStr ''https://www.gravatar.com/avatar/37803c500666eded79f8cd23b276b77c''),
                   (''alt'', JStr [])] []],
             JElem ''div'' [(''className'', JStr ''ml-4'')] [
               JElem ''div'' [(''className'', JStr ''text-base font-medium text-white'')] [
                 JStr (''Adri'' @ [CHR 0xC3, CHR 0xA0] @ '' Gal'' @ [CHR 0xC3, CHR 0xAD] @ ''n'')],
               JElem ''div'' [(''className'', JStr ''text-base font-medium text-pink-200'')] [
                 JStr ''Director of SRE, Jobandtalent'']]]]]]"

definition HomepageTestimonials :: "js" where
  "HomepageTestimonials =
     JElem ''section'' [(''className'', JStr ''bg-gradient-to-tr from-fuchsia-600 to-pink-600'')] [
       JElem ''div'' [(''className'', JStr ''py-16 bg-zinc-900/90'')] [
         JElem ''div'' [(''className'', JStr ''px-4 mx-auto max-w-7xl sm:px-6 lg:px-8'')] [
           JElem ''h2'' [(''className'', JStr ''text-4xl font-bold text-pink-600'')] [
             JStr ''What people are saying'']],
         JElem ''div'' [(''className'', JStr ''mx-auto max-w-7xl md:grid md:grid-cols-2 md:px-6 lg:px-8'')] [
           testimonial_blackstone,
           testimonial_jobandtalent]]]"

definition users :: "js" where
  "users =
     JArr [
       JObj [
         (''name'', JStr ''MallGroup''),
         (''url'', JStr ''https://mallgroup.com''),
         (''img'', JStr ''/img/mallgroup-logo.svg'')],
       JObj [
         (''name'', JStr ''American Express''),
         (''url'', JStr ''https://aexp.com''),
         (''img'', JStr ''/img/AXP_BlueBoxLogo_EXTRALARGEscale_RGB_DIGITAL_1600x1600.png'')],
       JObj [
         (''name'', JStr ''Flickr''),
         (''url'', JStr ''https://flickr.com''),
         (''img'', JStr ''/img/Flickr_logo.png'')],
       JObj [
         (''name'', JStr ''Socal Gas''),
         (''url'', JStr ''https://www.socalgas.com/''),
         (''img'', JStr ''/img/SoCal_Gas.png'')],
       JObj [
         (''name'', JStr ''Jobandtalent''),
         (''url'', JStr ''https://www.jobandtalent.com''),
         (''img'', JStr ''/img/jt-logo.png'')],
       JObj [
         (''name'', JStr ''Linkfluence''),
         (''url'', JStr ''https://linkfluence.com/''),
         (''img'', JStr ''/img/logo_linkfluence.png'')],
       JObj [
         (''name'', JStr ''Voiceworks''),
         (''url'', JStr ''https://www.voiceworks.com/en''),
         (''img'', JStr ''/img/voiceworks-logo.svg'')],
       JObj [
         (''name'', JStr ''enreach''),
         (''url'', JStr ''https://www.enreach.fi/''),
         (''img'', JStr ''/img/logo-enreach.svg'')],
       JObj [
         (''name'', JStr ''Blackstone Publishing''),
         (''url'', JStr ''https://www.blackstonepublishing.com/''),
         (''img'', JStr ''/img/Blackstone_publishing_Logo_v2.png'')],
       JObj [
         (''name'', JStr ''Allianz''),
         (''url'', JStr ''https://www.allianz.com/''),
         (''img'', JStr ''/img/Allianz.svg'')],
       JObj [
         (''name'', JStr ''Kata AI''),
         (''url'', JStr ''https://kata.ai/''),
         (''img'', JStr ''/img/kata_ai.png'')],
       JObj [
         (''name'', JStr ''delcampe''),
         (''url'', JStr ''https://www.delcampe.net/''),
         (''img'', JStr ''/img/logo-delcampe.svg'')]]"

definition HomepageUsers :: "js" where
  "HomepageUsers =
     JElem ''section'' [(''className'', JStr ''bg-slate-700/90'')] [
       JElem ''div'' [
           (''className'', JStr ''px-4 py-12 mx-auto border-t border-gray-200 max-w-7xl sm:px-6 lg:py-20 lg:px-8'')] [
         JElem ''h3'' [(''className'', JStr ''mb-12 text-sm font-bold tracking-wider text-center uppercase text-gray-50'')] [
           JStr ''Trusted by''],
         JElem ''div'' [(''className'', JStr ''grid grid-cols-2 gap-12 md:grid-cols-3 lg:grid-cols-4'')] [
           JArr (map (\<lambda>user.
             JElem ''div'' [
                 (''key'', js_get user ''name''),
                 (''className'', JStr ''flex justify-center col-span-1 lg:col-span-1'')] [
               JElem ''a'' [
                   (''href'', js_get user ''url''),
                   (''target'', JStr ''_blank''),
                   (''rel'', JStr ''noopener noreferrer'')] [
                 JElem ''img'' [
                     (''className'', JStr ''h-10 transition duration-200 filter grayscale hover:grayscale-0 brightness-200 hover:brightness-100''),
                     (''src'', js_get user ''img''),
                     (''alt'', js_get user ''name'')] []]])
             (js_elems users))]],
       JElem ''div'' [
           (''className'', JStr ''max-w-lg px-4 py-12 mx-auto border-t border-gray-200 sm:px-6 lg:py-20 lg:px-8'')] [
         JElem ''h3'' [(''className'', JStr ''mb-12 text-sm font-bold tracking-wider text-center uppercase text-gray-50'')] [
           JStr ''Partners''],
         JElem ''div'' [(''className'', JStr ''grid grid-cols-2 gap-12'')] [
           JElem ''div'' [(''className'', JStr ''flex justify-center col-span-1 lg:col-span-1'')] [
             JElem ''a'' [
                 (''href'', JStr ''https://www.noraina.cloud/''),
                 (''target'', JStr ''_blank''),
                 (''rel'', JStr ''noopener noreferrer'')] [
               JElem ''img'' [
                   (''src'', JStr ''//www.noraina.cloud/assets/static/logo.0f04e74.1968b830a90e93ddc4373b0d6426be8b.png''),
                   (''className'', JStr ''h-16 transition duration-200 filter brightness-100 hover:brightness-200''),
                   (''alt'', JStr ''Noraina Cloud'')] []]],
           JElem ''div'' [(''className'', JStr ''flex justify-center col-span-1 lg:col-span-1'')] [
             JElem ''a'' [
                 (''href'', JStr ''https://gemfury.com/f/partner''),
                 (''target'', JStr ''_blank''),
                 (''rel'', JStr ''noopener noreferrer'')] [
               JElem ''img'' [(''src'', JStr ''//badge.fury.io/fp/gemfury.svg''), (''alt'', JStr [])] []]]]]]"

section \<open>The page\<close>

definition Home :: "js \<Rightarrow> js" where
  "Home siteConfig =
     JElem ''Fragment'' [] [
       HomepageBanner,
       JElem ''Layout'' [
           (''title'', JStr (''Dkron - Cloud native job scheduling system'')),
           (''description'', JStr ''Cloud native job scheduling system'')] [
         HomepageHeader siteConfig,
         JElem ''main'' [] [
           HomepageDescPanel siteConfig,
           HomepageFeatures,
           HomepageUseCases,
           HomepagePricing,
           HomepageStats,
           HomepageTestimonials,
           HomepageUsers],
         JElem ''img'' [
             (''height'', JStr ''1''),
             (''width'', JStr ''1''),
             (''alt'', JStr []),
             (''src'', JStr ''https://px.ads.linkedin.com/collect/?pid=8378297&fmt=gif'')] []]]"

end
