(* ===== verification/ProPage.thy ===== *)
theory ProPage
  imports Jsx
begin

text \<open>
  The page of the commercial edition, \<open>src/website/src/pages/pro.js\<close>.
\<close>

section \<open>Data\<close>

definition pro_features :: "js" where
  "pro_features =
     JArr [
       JObj [
         (''title'', JStr ''Security''),
         (''img'', JElem ''ShieldCheckIcon'' [(''className'', JStr ''w-12 h-12'')] []),
         (''description'', JElem ''Fragment'' [] [
           JStr ''Pro has enhanced security using industry standard SSL encryption for communication between all components of the application, the embedded storage engine and nodes. You can also enable basic authentication to restrict access to the WebUI and the API.''])],
       JObj [
         (''title'', JStr ''Pro plugins''),
         (''img'', JElem ''HeartIcon'' [(''className'', JStr ''w-12 h-12'')] []),
         (''description'', JElem ''Fragment'' [] [
           JStr ''Do you need to store job output in Elasticsearch? Do you need to run docker based jobs? Dkron Pro adds some commercially supported plugins ready to cover your needs.''])],
       JObj [
         (''title'', JStr ''Support''),
         (''img'', JElem ''SupportIcon'' [(''className'', JStr ''w-12 h-12'')] []),
         (''description'', JElem ''Fragment'' [] [
           JStr ''Priority support from the author. Workload automation is a critical process in your business. Guarantee direct access to a Dkron expert. Your subscription gives you priority support for any unforeseen issues.''])]]"

definition details :: "js" where
  "details =
     JArr [
       JObj [
         (''name'', JStr ''Documentation''),
         (''description'', JElem ''Fragment'' [] [
           JElem ''p'' [] [
             JStr ''Detailed documentation about configuring and using each feature can be found in the Dkron docs site. Read the '',
             JElem ''a'' [(''href'', JStr ''/pro/commercial-faq/'')] [JStr ''Commercial FAQ''],
             JStr '' for further details.''],
           JElem ''p'' [] [
             JStr ''Sales of Dkron Pro also benefit the community by ensuring that Dkron itself will remain well supported for the foreseeable future.'']])],
       JObj [
         (''name'', JStr ''Support''),
         (''description'', JElem ''Fragment'' [] [
           JElem ''p'' [] [
             JStr ''When you buy Dkron Pro, a custom URL associated with your email address will be sent to you. You use this URL to install the package corresponding to your architecture. You configure and use Dkron Pro exactly like you would Dkron.''],
           JElem ''p'' [] [
             JElem ''strong'' [] [JStr ''Pro tip''],
             JStr '': use a mailing list for your email when purchasing to ensure you get critical email updates, even if employees leave the company.'']])],
       JObj [
         (''name'', JStr ''Installation''),
         (''description'', JElem ''Fragment'' [] [
           JElem ''p'' [] [
             JStr ''Dkron Pro will receive bug fixes and new functionality over time. All upgrades will be free to subscribers with a simple package upgrade. See the changelog for more detail.'']])],
       JObj [
         (''name'', JStr ''Upgrades''),
         (''description'', JElem ''Fragment'' [] [
           JElem ''p'' [] [
             JStr ''Dkron Pro will receive bug fixes and new functionality over time. All upgrades will be free to subscribers with a simple package upgrade. See the changelog for more detail.'']])],
       JObj [
         (''name'', JStr ''Licensing''),
         (''description'', JElem ''Fragment'' [] [
           JElem ''p'' [] [JStr ''Dkron is available under the terms of the GNU LGPLv3 license.''],
           JElem ''p'' [] [
             JStr ''In addition to its useful functionality, buying Dkron Pro grants your organization a Dkron commercial license instead of the GNU LGPL, avoiding any legal issues your lawyers might raise. Please see the '',
             JElem ''a'' [(''href'', JStr ''/pro/commercial-faq/'')] [JStr ''Commercial FAQ''],
             JStr '' for further detail on licensing including options for distributing Dkron Pro with your own products.'']])]]"

definition featuresList :: "js" where
  "featuresList =
     JArr [
       JObj [(''name'', JStr ''Multi-region support'')],
       JObj [(''name'', JStr ''Full SSL encryption'')],
       JObj [(''name'', JStr ''Elasticsearch processor'')],
       JObj [(''name'', JStr ''Docker executor'')],
       JObj [(''name'', JStr ''AWS ECS executor'')],
       JObj [(''name'', JStr ''Advanced email processor'')],
       JObj [(''name'', JStr ''WebUI and API authorization'')]]"

section \<open>The page\<close>

definition pro_pattern :: "js" where
  "pro_pattern =
     JElem ''svg'' [
         (''className'', JStr ''absolute mt-8 -top-16 opacity-10''),
         (''width'', JNum 400),
         (''height'', JNum 620),
         (''viewBox'', JStr ''0 0 1200 630''),
         (''xmlns'', JStr ''http://www.w3.org/2000/svg'')] [
       JElem ''defs'' [] [
         JElem ''pattern'' [
             (''id'', JStr ''pattern''),
             (''x'', JStr ''0''),
             (''y'', JStr ''0''),
             (''width'', JStr ''100''),
             (''height'', JStr ''100''),
             (''patternUnits'', JStr ''userSpaceOnUse''),
             (''patternTransform'', JStr ''translate(0, 0) rotate(0) skewX(0)'')] [
           JElem ''svg'' [(''width'', JStr ''46''), (''height'', JStr ''46''), (''viewBox'', JStr ''0 0 100 100'')] [
             JElem ''g'' [
                 (''className'', JStr ''text-pink-100''),
                 (''fill'', JStr ''currentColor''),
                 (''opacity'', JStr ''1'')] [
               JElem ''path'' [
                   (''d'', JStr ''M95.2171 74.9997V25.0003L50.1086 0L5 25.0003V74.9997L50.1086 100L95.2171 74.9997Z'')] []]]]],
       JElem ''rect'' [
           (''x'', JStr ''0''),
           (''y'', JStr ''0''),
           (''width'', JNum 400),
           (''height'', JNum 1200),
           (''fill'', JStr ''url(#pattern)'')] []]"

definition pro_pattern_rotated :: "js" where
  "pro_pattern_rotated =
     JElem ''svg'' [
         (''className'', JStr ''absolute mt-2 transform rotate-180 right-8 opacity-10''),
         (''width'', JNum 400),
         (''height'', JNum 320),
         (''viewBox'', JStr ''0 0 1200 630''),
         (''xmlns'', JStr ''http://www.w3.org/2000/svg'')] [
       JElem ''defs'' [] [
         JElem ''pattern'' [
             (''id'', JStr ''pattern''),
             (''x'', JStr ''0''),
             (''y'', JStr ''0''),
             (''width'', JStr ''100''),
             (''height'', JStr ''100''),
             (''patternUnits'', JStr ''userSpaceOnUse''),
             (''patternTransform'', JStr ''translate(0, 0) rotate(0) skewX(0)'')] [
           JElem ''svg'' [(''width'', JStr ''46''), (''height'', JStr ''46''), (''viewBox'', JStr ''0 0 100 100'')] [
             JElem ''g'' [
                 (''className'', JStr ''text-pink-100''),
                 (''fill'', JStr ''currentColor''),
                 (''opacity'', JStr ''1'')] [
               JElem ''path'' [
                   (''d'', JStr ''M95.2171 74.9997V25.0003L50.1086 0L5 25.0003V74.9997L50.1086 100L95.2171 74.9997Z'')] []]]]],
       JElem ''rect'' [
           (''x'', JStr ''0''),
           (''y'', JStr ''0''),
           (''width'', JNum 400),
           (''height'', JNum 1200),
           (''fill'', JStr ''url(#pattern)'')] []]"

definition pro_logo :: "js" where
  "pro_logo =
     JElem ''svg'' [
         (''class'', JStr ''w-96 h-auto''),
         (''viewBox'', JStr ''0 0 120 124''),
         (''fill'', JStr ''none''),
         (''xmlns'', JStr ''http://www.w3.org/2000/svg'')] [
       JElem ''path'' [
           (''d'', JStr ''M111.75 52.2198V74.4199C111.75 82.3199 107.54 89.6198 100.7 93.5698L81.4795 104.67C80.1895 97.7599 75.6896 91.9798 69.5796 88.9498C68.0796 88.1998 67.1197 86.6698 67.1197 84.9898V71.9099C67.1197 67.8399 63.8196 64.5399 59.7496 64.5399C55.6796 64.5399 52.3794 67.8399 52.3794 71.9099V84.9898C52.3794 86.6698 51.4195 88.1998 49.9095 88.9498C43.7995 91.9898 39.2996 97.7599 38.0096 104.67L18.7896 93.5698C11.9496 89.6198 7.73955 82.3199 7.73955 74.4199V52.2198C14.3695 54.5598 21.6196 53.5499 27.3096 49.7699C28.7096 48.8399 30.5095 48.7799 31.9695 49.6199L43.1495 56.0698C46.6095 58.0698 51.1095 57.0798 53.2295 53.6898C55.4595 50.1298 54.2695 45.4699 50.6695 43.3899L39.3396 36.8498C37.8796 36.0098 37.0395 34.4198 37.1395 32.7398C37.5595 25.9298 34.8095 19.1398 29.4695 14.5698L48.6895 3.46982C55.5295 -0.480176 63.9596 -0.480176 70.7996 3.46982L90.0196 14.5698C84.6796 19.1398 81.9297 25.9298 82.3497 32.7298C82.4497 34.4098 81.6095 36.0098 80.1495 36.8498L68.8196 43.3899C65.2896 45.4299 64.0897 49.9298 66.1197 53.4598C68.1597 56.9898 72.6595 58.1899 76.1895 56.1599L87.5196 49.6199C88.9796 48.7799 90.7795 48.8399 92.1795 49.7699C97.8695 53.5399 105.12 54.5598 111.75 52.2198ZM68.8895 97.1898C68.1695 96.6198 67.1097 97.1498 67.1097 98.0698V108.75C67.1097 112.82 63.8095 116.12 59.7395 116.12C55.6695 116.12 52.3697 112.82 52.3697 108.75V98.0798C52.3697 97.1498 51.2996 96.6398 50.5696 97.2098C46.9596 100.08 44.7296 104.6 45.0196 109.64C45.4496 116.97 51.3395 122.93 58.6595 123.45C67.2895 124.06 74.4695 117.24 74.4695 108.75C74.4795 104.06 72.2895 99.8898 68.8895 97.1898ZM20.4595 45.0698C21.3295 44.7298 21.4297 43.5398 20.6197 43.0798L11.3794 37.7398C7.78944 35.6698 6.59961 31.0298 8.79961 27.4798C10.9196 24.0498 15.5196 23.1099 19.0196 25.1299L29.8096 31.3598C29.7996 25.9998 26.8695 20.7899 21.6595 18.1699C15.0295 14.8399 6.75953 17.0899 2.71953 23.3099C-1.91047 30.4499 0.429507 39.9199 7.69951 44.1199C11.7395 46.4599 16.4295 46.6598 20.4595 45.0698ZM117.179 23.9898C113.109 16.9398 104.1 14.5298 97.0396 18.5998C92.9896 20.9398 90.4796 24.8998 89.8296 29.1898C89.6896 30.1098 90.6795 30.7799 91.4795 30.3099L100.72 24.9698C104.25 22.9298 108.75 24.1399 110.79 27.6699C112.83 31.1999 111.62 35.6998 108.09 37.7398L98.8497 43.0798C98.0497 43.5398 98.1396 44.7298 98.9996 45.0698C103.04 46.6598 107.73 46.4599 111.78 44.1299C118.84 40.0499 121.249 31.0398 117.179 23.9898Z''),
           (''fill'', JStr ''white'')] []]"

definition pro_header :: "js" where
  "pro_header =
     JElem ''header'' [(''className'', JStr ''bg-gradient-to-tr from-pink-600 to-fuchsia-700'')] [
       JElem ''div'' [(''className'', JStr ''container relative overflow-hidden'')] [
         JElem ''div'' [(''className'', JStr ''absolute inset-y-0 w-full h-full''), (''aria-hidden'', JStr ''true'')] [
           JElem ''div'' [(''className'', JStr ''relative h-full'')] [pro_pattern, pro_pattern_rotated]],
         JElem ''div'' [
             (''className'', JStr ''absolute right-0 flex items-center justify-center transform -translate-x-1/2 -translate-y-1/2 opacity-10 left-1/2 top-1/2'')] [
           pro_logo],
         JElem ''div'' [(''className'', JStr ''relative px-4 mx-auto my-32 max-w-7xl sm:mt-24 sm:px-6'')] [
           JElem ''div'' [(''className'', JStr ''text-center'')] [
             JElem ''h1'' [
                 (''className'', JStr ''text-4xl font-extrabold tracking-tight text-white sm:text-5xl md:text-6xl lg:text-5xl xl:text-6xl'')] [
               JElem ''span'' [(''className'', JStr ''block xl:inline'')] [JStr ''Dkron Pro'']],
             JElem ''p'' [
                 (''className'', JStr ''max-w-md mx-auto mt-3 text-lg text-gray-100 sm:text-xl md:mt-5 md:max-w-3xl'')] [
               JStr ''Improved security, features and reliability for your scheduled jobs''],
             JElem ''div'' [(''className'', JStr ''mt-10 sm:flex sm:justify-center'')] [
               JElem ''div'' [(''className'', JStr ''rounded-md shadow'')] [
                 JElem ''a'' [
                     (''href'', JStr ''https://buy.stripe.com/9AQ9BP1UV8jkgowaEF''),
                     (''target'', JStr ''_blank''),
                     (''className'', JStr ''block w-full py-3 mt-2 text-base font-medium text-center text-white border-2 border-transparent rounded-md gumroad-button bg-gradient-to-r from-fuchsia-600 to-pink-600 hover:bg-fuchsia-700 md:py-4 md:text-lg md:px-10 hover:no-underline hover:text-white/90'')] [
                   JStr ''Subscribe'']]],
             JElem ''p'' [
                 (''className'', JStr ''max-w-md mx-auto mt-3 text-lg text-gray-100 sm:text-xl md:mt-5 md:max-w-3xl'')] [
               JStr (''Licenses are not transferable to another company. We will transfer the license from a user-specific email to a group email address (e.g. john_smith@example.com -> tech@example.com) but only for the same domain. It is strongly recommended that you buy the license using a group email address so the license is not attached to any one employee'' @ [CHR 0xE2, CHR 0x80, CHR 0x99] @ ''s email address.'')]]]]]"

definition pro_key_features :: "js" where
  "pro_key_features =
     JElem ''section'' [(''className'', JStr ''py-16 bg-zinc-100'')] [
       JElem ''div'' [(''className'', JStr ''px-4 mx-auto max-w-7xl sm:px-6 lg:px-8'')] [
         JElem ''h2'' [(''className'', JStr ''text-4xl font-bold text-fuchsia-700'')] [JStr ''Key Features''],
         JElem ''dl'' [(''className'', JStr ''mt-16 space-y-10 lg:space-y-0 lg:grid lg:grid-cols-3 lg:gap-16'')] [
           JArr (map (\<lambda>feature.
             JElem ''div'' [(''key'', js_get feature ''title'')] [
               JElem ''dt'' [] [
                 JElem ''div'' [(''className'', JStr [])] [js_get feature ''img''],
                 JElem ''p'' [
                     (''className'', JStr ''mt-4 text-2xl font-bold text-transparent bg-clip-text bg-gradient-to-r from-pink-400 to-fuchsia-600'')] [
                   js_get feature ''title'']],
               JElem ''dd'' [(''className'', JStr ''mt-4 ml-0 text-base text-gray-500'')] [
                 js_get feature ''description'']])
             (js_elems pro_features))]]]"

definition pro_feature_list :: "js" where
  "pro_feature_list =
     JElem ''section'' [(''class'', JStr ''bg-gradient-to-tr from-fuchsia-600 to-pink-600'')] [
       JElem ''div'' [(''class'', JStr ''py-8 bg-zinc-900/90'')] [
         JElem ''div'' [
             (''className'', JStr ''px-4 py-16 mx-auto max-w-7xl sm:px-6 lg:py-24 lg:px-8 lg:grid lg:grid-cols-3 lg:gap-x-8'')] [
           JElem ''div'' [] [
             JElem ''h2'' [(''className'', JStr ''text-base font-semibold tracking-wide text-pink-200 uppercase'')] [
               JStr ''Everything you need''],
             JElem ''p'' [(''className'', JStr ''mt-2 text-3xl font-extrabold text-pink-600'')] [
               JStr ''Features'']],
           JElem ''div'' [(''className'', JStr ''mt-12 lg:mt-0 lg:col-span-2'')] [
             JElem ''dl'' [
                 (''className'', JStr ''space-y-10 sm:space-y-0 sm:grid sm:grid-cols-2 sm:grid-rows-4 sm:grid-flow-col sm:gap-x-6 sm:gap-y-6 lg:gap-x-8'')] [
               JArr (map (\<lambda>item.
                 JElem ''div'' [(''key'', js_get item ''name''), (''className'', JStr ''relative'')] [
                   JElem ''dt'' [] [
                     JElem ''CheckIcon'' [
                         (''className'', JStr ''absolute w-6 h-6 text-green-500''),
                         (''aria-hidden'', JStr ''true'')] [],
                     JElem ''p'' [(''className'', JStr ''mb-0 text-lg font-medium leading-6 text-gray-50 ml-9'')] [
                       js_get item ''name'']]])
                 (js_elems featuresList))]]]]]"

definition pro_details :: "js" where
  "pro_details =
     JElem ''section'' [(''className'', JStr ''bg-white'')] [
       JElem ''div'' [
           (''className'', JStr ''grid max-w-2xl grid-cols-1 px-4 py-16 mx-auto gap-y-16 gap-x-8 sm:px-6 lg:max-w-7xl lg:px-8 lg:grid-cols-2'')] [
         JElem ''div'' [] [
           JElem ''h2'' [(''className'', JStr ''text-3xl font-extrabold tracking-tight sm:text-4xl text-fuchsia-700'')] [
             JStr ''Product Details''],
           JElem ''dl'' [
               (''className'', JStr ''grid grid-cols-1 mt-16 gap-x-6 gap-y-10 sm:grid-cols-2 sm:gap-y-16 lg:gap-x-8'')] [
             JArr (map (\<lambda>detail.
               JElem ''div'' [(''key'', js_get detail ''name''), (''className'', JStr ''pt-4 border-t border-gray-200'')] [
                 JElem ''dt'' [
                     (''className'', JStr ''font-medium text-transparent bg-clip-text bg-gradient-to-r from-pink-400 to-fuchsia-600'')] [
                   js_get detail ''name''],
                 JElem ''dd'' [(''className'', JStr ''mt-3 ml-0 text-gray-500'')] [
                   js_get detail ''description'']])
               (js_elems details))]],
         JElem ''div'' [(''className'', JStr ''grid items-center justify-center gap-4 sm:gap-6'')] [
           JElem ''img'' [
               (''src'', JStr ''../img/dkron-black.png''),
               (''alt'', JStr []),
               (''className'', JStr ''rounded-lg'')] [],
           JElem ''img'' [
               (''src'', JStr ''../img/dkron-gradient.png''),
               (''alt'', JStr []),
               (''className'', JStr ''rounded-lg'')] [],
           JElem ''img'' [
               (''src'', JStr ''../img/dkron-gray.png''),
               (''alt'', JStr []),
               (''className'', JStr ''rounded-lg'')] []]]]"

definition Pro :: "js" where
  "Pro =
     JElem ''Layout'' [(''title'', JStr ''Dkron Pro'')] [
       JElem ''div'' [(''className'', JStr ''main-wrapper'')] [
         pro_header,
         pro_key_features,
         pro_feature_list,
         pro_details]]"

end
