(* ===== verification/SiteConfig.thy ===== *)
theory SiteConfig
  imports Homepage ProPage
begin

text \<open>
  The configuration of the web site (\<open>src/website/docusaurus.config.js\<close>, \<open>sidebars.js\<close>, \<open>tailwind.config.js\<close>,
  \<open>postcss.config.js\<close>, \<open>babel.config.js\<close>), the script \<open>static/js/linkedin.js\<close>, and the links of the site.

  \<open>resolve\<close> is \<open>require.resolve\<close>, \<open>year\<close> the year of the build, and the themes of the code blocks are those of
  \<open>prism-react-renderer\<close>.
\<close>

section \<open>Configuration\<close>

definition site_fields :: "js_props" where
  "site_fields =
     [
       (''title'', JStr ''Dkron''),
       (''tagline'', JStr ''Easy, Reliable Cron jobs''),
       (''url'', JStr ''https://dkron.io''),
       (''baseUrl'', JStr ''/''),
       (''onBrokenLinks'', JStr ''throw''),
       (''markdown'', JObj [(''mermaid'', JBool True), (''hooks'', JObj [(''onBrokenMarkdownLinks'', JStr ''warn'')])]),
       (''favicon'', JStr ''img/favicon.ico''),
       (''organizationName'', JStr ''distribworks''),
       (''projectName'', JStr ''dkron''),
       (''customFields'', JObj [
         (''description'', JStr ''A distributed Cron service with, API, no SPOF and an easy to use dashboard.''),
         (''description_extended'', JStr ''Dkron is a system service for workload automation that runs scheduled jobs, just like unix cron service but distributed in several machines in a cluster. This is the only job scheduler in the market with truly no SPOF. It is open source and available for free.'')])]"

definition redoc_preset :: "js" where
  "redoc_preset =
     JArr [
       JStr ''redocusaurus'',
       JObj [
         (''specs'', JArr [JObj [(''spec'', JStr ''static/openapi/openapi.yaml''), (''route'', JStr ''/api/'')]]),
         (''theme'', JObj [(''primaryColor'', JStr ''#1890ff'')])]]"

definition classic_preset :: "(string \<Rightarrow> string) \<Rightarrow> js" where
  "classic_preset resolve =
     JArr [
       JStr ''classic'',
       JObj [
         (''docs'', JObj [
           (''sidebarPath'', JStr (resolve ''./sidebars.js'')),
           (''editUrl'', JStr ''https://github.com/distribworks/dkron/tree/main/website/docs/''),
           (''lastVersion'', JStr ''current''),
           (''versions'', JObj [(''current'', JObj [(''label'', JStr ''v4''), (''path'', JStr [])])])]),
         (''blog'', JObj [
           (''showReadingTime'', JBool True),
           (''editUrl'', JStr ''https://github.com/distribworks/dkron/tree/main/website/blog/'')]),
         (''theme'', JObj [(''customCss'', JStr (resolve ''./src/css/custom.css''))])]]"

definition navbar :: "js" where
  "navbar =
     JObj [
       (''title'', JStr []),
       (''logo'', JObj [(''alt'', JStr ''Dkron Logo''), (''src'', JStr ''img/dkron-logo-black.png'')]),
       (''items'', JArr [
         JObj [
           (''type'', JStr ''doc''),
           (''docId'', JStr ''basics/getting-started''),
           (''position'', JStr ''left''),
           (''label'', JStr ''Docs'')],
         JObj [(''to'', JStr ''/api/''), (''label'', JStr ''API''), (''position'', JStr ''left'')],
         JObj [(''to'', JStr ''/blog''), (''label'', JStr ''Blog''), (''position'', JStr ''left'')],
         JObj [(''to'', JStr ''/license''), (''label'', JStr ''License''), (''position'', JStr ''left'')],
         JObj [
           (''href'', JStr ''https://github.com/distribworks/dkron''),
           (''label'', JStr ''GitHub''),
           (''position'', JStr ''right'')],
         JObj [(''type'', JStr ''docsVersionDropdown'')],
         JObj [
           (''to'', JStr ''/pro/''),
           (''label'', JStr ''PRO''),
           (''position'', JStr ''left''),
           (''className'', JStr ''navbar-link-go-pro'')]])]"

definition footer :: "nat \<Rightarrow> js" where
  "footer year =
     JObj [
       (''style'', JStr ''dark''),
       (''links'', JArr [
         JObj [
           (''title'', JStr ''Docs''),
           (''items'', JArr [JObj [(''label'', JStr ''Intro''), (''to'', JStr ''/docs/intro'')]])],
         JObj [
           (''title'', JStr ''Community''),
           (''items'', JArr [
             JObj [
               (''label'', JStr ''Stack Overflow''),
               (''href'', JStr ''https://stackoverflow.com/questions/tagged/dkron'')],
             JObj [(''label'', JStr ''Gitter''), (''href'', JStr ''https://gitter.im/distribworks/dkron'')],
             JObj [(''label'', JStr ''Twitter''), (''href'', JStr ''https://twitter.com/distribworks'')]])],
         JObj [
           (''title'', JStr ''More''),
           (''items'', JArr [
             JObj [(''label'', JStr ''Blog''), (''to'', JStr ''/blog'')],
             JObj [
               (''label'', JStr ''GitHub''),
               (''href'', JStr ''https://github.com/distribworks/dkron'')]])]]),
       (''copyright'', JStr ((''Copyright '' @ [CHR 0xC2, CHR 0xA9] @ '' '') @ show_nat year @ '' Distributed Works. Built with Docusaurus.''))]"

definition configurePostCss :: "js list \<Rightarrow> js list" where
  "configurePostCss plugins = plugins @ [JFun ''tailwindcss'', JFun ''autoprefixer'']"

definition site_config :: "(string \<Rightarrow> string) \<Rightarrow> nat \<Rightarrow> js \<Rightarrow> js \<Rightarrow> js" where
  "site_config resolve year lightCodeTheme darkCodeTheme =
     JObj
       (js_assign site_fields
          [
            (''plugins'', JArr [JFun ''myPlugin'']),
            (''themes'', JArr [JStr ''@docusaurus/theme-mermaid'']),
            (''presets'', JArr [redoc_preset, classic_preset resolve]),
            (''themeConfig'', JObj [
              (''colorMode'', JObj [(''defaultMode'', JStr ''light''), (''disableSwitch'', JBool True)]),
              (''navbar'', navbar),
              (''footer'', footer year),
              (''prism'', JObj [(''theme'', lightCodeTheme), (''darkTheme'', darkCodeTheme)]),
              (''algolia'', JObj [
                (''appId'', JStr ''M5K5E6F8F3''),
                (''apiKey'', JStr ''a982a80736a4c0775dc829d142d311b6''),
                (''indexName'', JStr ''Documentation site'')])]),
            (''scripts'', JArr [JObj [(''src'', JStr ''/js/linkedin.js''), (''defer'', JBool True)]])])"

definition sidebars :: "js" where
  "sidebars =
     JObj [(''tutorialSidebar'', JArr [JObj [(''type'', JStr ''autogenerated''), (''dirName'', JStr ''.'')]])]"

definition tailwind_config :: "js" where
  "tailwind_config =
     JObj [
       (''content'', JArr [JStr ''./src/**/*.{html,js}'']),
       (''corePlugins'', JObj [(''preflight'', JBool False)]),
       (''theme'', JObj [(''extend'', JObj [])]),
       (''plugins'', JArr [])]"

definition postcss_config :: "js" where
  "postcss_config =
     JObj [(''plugins'', JObj [(''tailwindcss'', JObj []), (''autoprefixer'', JObj [])])]"

definition babel_config :: "(string \<Rightarrow> string) \<Rightarrow> js" where
  "babel_config resolve =
     JObj [(''presets'', JArr [JStr (resolve ''@docusaurus/core/lib/babel/preset'')])]"

section \<open>The LinkedIn script\<close>

text \<open>
  The script registers the partner, installs a queueing \<open>lintrk\<close> unless the page has one, and inserts the
  tag of the analytics script before the first script.
\<close>

record li_window =
  partner_ids :: "string list option"
  lintrk_queue :: "(js \<times> js) list option"
  lintrk_loaded :: bool
  script_tags :: "string list"

definition linkedin :: "li_window \<Rightarrow> li_window" where
  "linkedin w =
     (let w = w\<lparr>partner_ids := Some ((case partner_ids w of None \<Rightarrow> [] | Some ids \<Rightarrow> ids) @ [''8378297''])\<rparr>;
          w = (if lintrk_loaded w \<or> lintrk_queue w \<noteq> None then w else w\<lparr>lintrk_queue := Some []\<rparr>)
      in w\<lparr>script_tags := ''https://snap.licdn.com/li.lms-analytics/insight.min.js'' # script_tags w\<rparr>)"

definition lintrk :: "js \<Rightarrow> js \<Rightarrow> li_window \<Rightarrow> li_window" where
  "lintrk a b w =
     (case lintrk_queue w of None \<Rightarrow> w | Some q \<Rightarrow> w\<lparr>lintrk_queue := Some (q @ [(a, b)])\<rparr>)"

section \<open>Lemmas\<close>

text \<open>Links that open a new window, and those of them that give the new page a handle on this one.\<close>

definition blank_links :: "js \<Rightarrow> element list" where
  "blank_links e = filter (\<lambda>a. elem_prop ''target'' a = JStr ''_blank'') (tagged ''a'' e)"

definition unprotected :: "element list \<Rightarrow> js list" where
  "unprotected es = prop_values ''href'' (filter (\<lambda>a. elem_prop ''rel'' a \<noteq> JStr ''noopener noreferrer'') es)"

definition hrefs :: "js \<Rightarrow> js list" where
  "hrefs e = prop_values ''href'' (tagged ''a'' e)"

lemma blank_links_simps [simp]:
  "blank_links (JElem t ps cs) =
     (if t = ''a'' \<and> js_field ps ''target'' = JStr ''_blank'' then [(t, ps, cs)] else []) @
     concat (map (\<lambda>p. blank_links (snd p)) ps) @ concat (map blank_links cs)"
  "blank_links (JArr xs) = concat (map blank_links xs)"
  "blank_links (JObj ps) = concat (map (\<lambda>p. blank_links (snd p)) ps)"
  "blank_links (JStr s) = []" "blank_links (JNum n) = []" "blank_links JUndef = []" "blank_links (JBool b) = []"
  by (simp_all add: blank_links_def [abs_def] filter_concat_map elem_prop_def)

lemma hrefs_simps [simp]:
  "hrefs (JElem t ps cs) =
     (if t = ''a'' then (case map_of ps ''href'' of None \<Rightarrow> [] | Some v \<Rightarrow> [v]) else []) @
     concat (map (\<lambda>p. hrefs (snd p)) ps) @ concat (map hrefs cs)"
  "hrefs (JArr xs) = concat (map hrefs xs)"
  "hrefs (JObj ps) = concat (map (\<lambda>p. hrefs (snd p)) ps)"
  "hrefs (JStr s) = []" "hrefs (JNum n) = []" "hrefs JUndef = []" "hrefs (JBool b) = []"
  by (simp_all add: hrefs_def [abs_def] comp_def)

lemmas banner_defs = HomepageBanner_def HomepageHeader_def header_pattern_def header_pattern_rotated_def
  HomepageDescPanel_def HomepageStats_def
lemmas content_defs = HomepageFeatures_def home_features_def HomepageUseCases_def useCases_def
  HomepageTestimonials_def testimonial_blackstone_def testimonial_jobandtalent_def
lemmas pro_page_defs = Pro_def pro_header_def pro_pattern_def pro_pattern_rotated_def pro_logo_def
  pro_key_features_def pro_features_def pro_feature_list_def featuresList_def pro_details_def details_def

lemma home_parts_blank:
  "blank_links HomepageBanner = []" "blank_links (HomepageHeader JUndef) = []"
  "blank_links (HomepageDescPanel JUndef) = []" "blank_links HomepageStats = []"
  "blank_links HomepageFeatures = []" "blank_links HomepageUseCases = []" "blank_links HomepageTestimonials = []"
  by (simp_all add: banner_defs content_defs)

lemma pricing_blank:
  "length (blank_links HomepagePricing) = 3"
  "unprotected (blank_links HomepagePricing) =
     map JStr [''https://gum.co/dkron-pro'', ''https://buy.stripe.com/9AQ9BP1UV8jkgowaEF'']"
  by (simp_all add: HomepagePricing_def small_defs large_defs pricing_data_defs unprotected_def elem_prop_def)

lemma users_blank: "length (blank_links HomepageUsers) = 14" "unprotected (blank_links HomepageUsers) = []"
  by (simp_all add: HomepageUsers_def users_def unprotected_def elem_prop_def)

lemma home_blank: "blank_links (Home JUndef) = blank_links HomepagePricing @ blank_links HomepageUsers"
  by (simp add: Home_def home_parts_blank)

lemma unprotected_append: "unprotected (xs @ ys) = unprotected xs @ unprotected ys"
  by (simp add: unprotected_def)

lemma pro_blank: "unprotected (blank_links Pro) = [JStr ''https://buy.stripe.com/9AQ9BP1UV8jkgowaEF'']"
  by (simp add: pro_page_defs unprotected_def elem_prop_def)

lemma pro_hrefs: "hrefs Pro = map JStr [''https://buy.stripe.com/9AQ9BP1UV8jkgowaEF'', ''/pro/commercial-faq/'', ''/pro/commercial-faq/'']"
  by (simp add: pro_page_defs)

lemma home_faq: "JStr ''docs/pro/commercial-faq'' \<in> set (hrefs (Home JUndef))"
proof -
  have "set (hrefs HomepagePricing) \<subseteq> set (hrefs (Home JUndef))" by (auto simp: Home_def)
  moreover have "JStr ''docs/pro/commercial-faq'' \<in> set (hrefs HomepagePricing)" by (simp add: HomepagePricing_def)
  ultimately show ?thesis by blast
qed

section \<open>Properties\<close>


end
